(* ===== verification/Prelude.thy ===== *)
theory Prelude
  imports Complex_Main "HOL-Library.AList" "HOL-Library.Char_ord"
    "HOL-Library.List_Lexorder" "HOL-Library.Product_Lexorder"
begin

text \<open>
  The vocabulary every component shares: the operations of a request handler as state
  transformers that return a value or an error, the composition of such operations the way Go
  code composes them (early return on an error, a database transaction that rolls back, an error
  inspected with \<open>errors.Is\<close>), lists of rows, and the rules that carry a relation between the
  state before and after through any such composition.
\<close>

named_theorems op_defs \<open>the definitions of the combinators\<close>
named_theorems query_simps \<open>lookups in a table of the store\<close>

section \<open>Operations\<close>

text \<open>
  A Go function that returns \<open>(T, error)\<close> and works on the database is an operation: from a
  state it gives an error or a value, and the state it leaves behind. A failed operation can still
  have changed the state (a row committed before a later step fails).
\<close>

type_synonym ('s, 'e, 'a) oper = "'s \<Rightarrow> ('e + 'a) \<times> 's"

definition ret :: "'a \<Rightarrow> ('s, 'e, 'a) oper" where
  "ret x = (\<lambda>s. (Inr x, s))"

definition throw :: "'e \<Rightarrow> ('s, 'e, 'a) oper" where
  "throw e = (\<lambda>s. (Inl e, s))"

text \<open>Sequencing: \<open>x, err := m(); if err != nil \{ return err \}; f(x)\<close>.\<close>

definition bnd :: "('s, 'e, 'a) oper \<Rightarrow> ('a \<Rightarrow> ('s, 'e, 'b) oper) \<Rightarrow> ('s, 'e, 'b) oper" where
  "bnd m f = (\<lambda>s. case m s of (Inl e, s') \<Rightarrow> (Inl e, s') | (Inr x, s') \<Rightarrow> f x s')"

text \<open>A read of the database, a pure computation that can fail, and a guard.\<close>

definition query :: "('s \<Rightarrow> 'e + 'a) \<Rightarrow> ('s, 'e, 'a) oper" where
  "query q = (\<lambda>s. (q s, s))"

definition lift :: "'e + 'a \<Rightarrow> ('s, 'e, 'a) oper" where
  "lift r = (\<lambda>s. (r, s))"

definition modify :: "('s \<Rightarrow> 's) \<Rightarrow> ('s, 'e, unit) oper" where
  "modify f = (\<lambda>s. (Inr (), f s))"

definition ensure :: "bool \<Rightarrow> 'e \<Rightarrow> ('s, 'e, unit) oper" where
  "ensure b e = (\<lambda>s. (if b then Inr () else Inl e, s))"

text \<open>\<open>db.Transaction(...)\<close>: an error undoes every write of the body.\<close>

definition transaction :: "('s, 'e, 'a) oper \<Rightarrow> ('s, 'e, 'a) oper" where
  "transaction m = (\<lambda>s. case m s of (Inl e, s') \<Rightarrow> (Inl e, s) | (Inr x, s') \<Rightarrow> (Inr x, s'))"

text \<open>
  \<open>x, err := m(); if err == nil \{ f(x) \} else if errors.Is(err, e) \{ n() \} else \{ return err \}\<close>.
\<close>

definition attempt ::
  "('s, 'e, 'a) oper \<Rightarrow> ('a \<Rightarrow> ('s, 'e, 'b) oper) \<Rightarrow> 'e \<Rightarrow> ('s, 'e, 'b) oper \<Rightarrow> ('s, 'e, 'b) oper"
  where "attempt m f e n = (\<lambda>s. case m s of
      (Inl e', s') \<Rightarrow> if e' = e then n s' else (Inl e', s')
    | (Inr x, s') \<Rightarrow> f x s')"

text \<open>An error replaced by another before it is returned.\<close>

definition map_error :: "('e \<Rightarrow> 'e) \<Rightarrow> ('s, 'e, 'a) oper \<Rightarrow> ('s, 'e, 'a) oper" where
  "map_error g m = (\<lambda>s. case m s of (Inl e, s') \<Rightarrow> (Inl (g e), s') | (Inr x, s') \<Rightarrow> (Inr x, s'))"

fun for_each :: "('x \<Rightarrow> ('s, 'e, unit) oper) \<Rightarrow> 'x list \<Rightarrow> ('s, 'e, unit) oper" where
  "for_each f [] = ret ()"
| "for_each f (x # xs) = bnd (f x) (\<lambda>_. for_each f xs)"

fun map_each :: "('x \<Rightarrow> ('s, 'e, 'y) oper) \<Rightarrow> 'x list \<Rightarrow> ('s, 'e, 'y list) oper" where
  "map_each f [] = ret []"
| "map_each f (x # xs) = bnd (f x) (\<lambda>y. bnd (map_each f xs) (\<lambda>ys. ret (y # ys)))"

text \<open>A loop that updates local variables.\<close>

fun fold_each :: "('x \<Rightarrow> 'a \<Rightarrow> ('s, 'e, 'a) oper) \<Rightarrow> 'x list \<Rightarrow> 'a \<Rightarrow> ('s, 'e, 'a) oper" where
  "fold_each f [] a = ret a"
| "fold_each f (x # xs) a = bnd (f x a) (\<lambda>a'. fold_each f xs a')"

text \<open>The same sequencing for computations that read the state but are not operations.\<close>

definition tri :: "'e + 'a \<Rightarrow> ('a \<Rightarrow> 'e + 'b) \<Rightarrow> 'e + 'b" where
  "tri r f = (case r of Inl e \<Rightarrow> Inl e | Inr x \<Rightarrow> f x)"

declare ret_def [op_defs] throw_def [op_defs] bnd_def [op_defs] query_def [op_defs]
  lift_def [op_defs] modify_def [op_defs] ensure_def [op_defs] transaction_def [op_defs]
  attempt_def [op_defs] tri_def [op_defs]

text \<open>For evaluation a composition is unfolded to the case analyses it stands for.\<close>

declare ret_def [code_unfold] throw_def [code_unfold] bnd_def [code_unfold] query_def [code_unfold]
  lift_def [code_unfold] modify_def [code_unfold] ensure_def [code_unfold]
  transaction_def [code_unfold] attempt_def [code_unfold] map_error_def [code_unfold] tri_def [code_unfold]

lemma tri_simps [simp]: "tri (Inl e) f = Inl e" "tri (Inr x) f = f x"
  by (simp_all add: tri_def)

lemma tri_Inr: "tri r f = Inr y \<longleftrightarrow> (\<exists>x. r = Inr x \<and> f x = Inr y)"
  by (cases r) simp_all

lemma ret_run [simp]: "ret x s = (Inr x, s)"
  and throw_run [simp]: "throw e s = (Inl e, s)"
  and query_run [simp]: "query q s = (q s, s)"
  and lift_run [simp]: "lift r s = (r, s)"
  and modify_run [simp]: "modify f s = (Inr (), f s)"
  and ensure_run [simp]: "ensure b e s = (if b then Inr () else Inl e, s)"
  by (simp_all add: op_defs)

text \<open>A successful run of a composition, taken apart.\<close>

lemma bnd_ok: "bnd m f s = (Inr y, t) \<longleftrightarrow> (\<exists>x u. m s = (Inr x, u) \<and> f x u = (Inr y, t))"
  by (auto simp: bnd_def split: prod.splits sum.splits)

lemma transaction_ok: "transaction m s = (Inr y, t) \<longleftrightarrow> m s = (Inr y, t)"
  by (auto simp: transaction_def split: prod.splits sum.splits)

lemma transaction_err: "transaction m s = (Inl e, t) \<Longrightarrow> t = s"
  by (auto simp: transaction_def split: prod.splits sum.splits)

text \<open>A failed run, taken apart.\<close>

lemma bnd_err: "bnd m f s = (Inl e, t) \<longleftrightarrow> m s = (Inl e, t) \<or> (\<exists>x u. m s = (Inr x, u) \<and> f x u = (Inl e, t))"
  by (auto simp: bnd_def split: prod.splits sum.splits)

lemma bnd_query: "bnd (query q) f s = (case q s of Inl e \<Rightarrow> (Inl e, s) | Inr x \<Rightarrow> f x s)"
  and bnd_lift: "bnd (lift r) f s = (case r of Inl e \<Rightarrow> (Inl e, s) | Inr x \<Rightarrow> f x s)"
  and bnd_ret [simp]: "bnd (ret x) f s = f x s"
  and bnd_throw [simp]: "bnd (throw e) f s = (Inl e, s)"
  and bnd_modify [simp]: "bnd (modify g) k s = k () (g s)"
  and bnd_ensure [simp]: "bnd (ensure b e) k s = (if b then k () s else (Inl e, s))"
  by (simp_all add: bnd_def)

lemma attempt_ok: "attempt m f e n s = (Inr y, t) \<longleftrightarrow>
    (\<exists>x u. m s = (Inr x, u) \<and> f x u = (Inr y, t)) \<or> (\<exists>u. m s = (Inl e, u) \<and> n u = (Inr y, t))"
  by (auto simp: attempt_def split: prod.splits sum.splits)

lemma attempt_query: "attempt (query q) f e n s =
    (case q s of Inl e' \<Rightarrow> if e' = e then n s else (Inl e', s) | Inr x \<Rightarrow> f x s)"
  by (auto simp: attempt_def split: sum.splits)

lemma map_error_ok: "map_error g m s = (Inr y, t) \<longleftrightarrow> m s = (Inr y, t)"
  by (auto simp: map_error_def split: prod.splits sum.splits)

text \<open>\<open>run_ok\<close> takes a successful run apart; \<open>run_simps\<close> evaluates the reads at its head.\<close>

lemmas run_ok = bnd_ok transaction_ok attempt_ok map_error_ok
lemmas run_simps = bnd_query bnd_lift attempt_query

section \<open>Relations kept by operations\<close>

text \<open>
  \<open>keeps R m\<close>: whatever \<open>m\<close> returns, the states before and after are related. \<open>keeps_ok R m\<close>:
  they are whenever \<open>m\<close> succeeds, which is what the body of a transaction has to show. For a
  reflexive and transitive \<open>R\<close> both are carried through every combinator, so a relation is shown
  for the writes of a component once and then holds of all its handlers.
\<close>

definition keeps :: "('s \<Rightarrow> 's \<Rightarrow> bool) \<Rightarrow> ('s, 'e, 'a) oper \<Rightarrow> bool" where
  "keeps R m \<longleftrightarrow> (\<forall>s. R s (snd (m s)))"

definition keeps_ok :: "('s \<Rightarrow> 's \<Rightarrow> bool) \<Rightarrow> ('s, 'e, 'a) oper \<Rightarrow> bool" where
  "keeps_ok R m \<longleftrightarrow> (\<forall>s x t. m s = (Inr x, t) \<longrightarrow> R s t)"

text \<open>\<open>keeps_err R m\<close>: the states are related whenever \<open>m\<close> fails.\<close>

definition keeps_err :: "('s \<Rightarrow> 's \<Rightarrow> bool) \<Rightarrow> ('s, 'e, 'a) oper \<Rightarrow> bool" where
  "keeps_err R m \<longleftrightarrow> (\<forall>s e t. m s = (Inl e, t) \<longrightarrow> R s t)"

lemma keeps_errD: "keeps_err R m \<Longrightarrow> m s = (Inl e, t) \<Longrightarrow> R s t"
  by (simp add: keeps_err_def)

text \<open>The values an operation can return, from any state.\<close>

definition results :: "('s, 'e, 'a) oper \<Rightarrow> 'a set" where
  "results m = {x. \<exists>s t. m s = (Inr x, t)}"

lemma results_simps [simp]:
  "results (ret x) = {x}" "results (throw e) = {}"
  "results (query q) = {x. \<exists>s. q s = Inr x}" "results (lift r) = {x. r = Inr x}"
  by (auto simp: results_def)

lemma results_bnd: "y \<in> results (bnd m f) \<Longrightarrow> \<exists>x \<in> results m. y \<in> results (f x)"
  unfolding results_def bnd_ok by blast

lemma results_transaction [simp]: "results (transaction m) = results m"
  by (simp add: results_def transaction_ok)

lemma keepsD: "keeps R m \<Longrightarrow> m s = (r, t) \<Longrightarrow> R s t"
  unfolding keeps_def by (metis snd_conv)

lemma keeps_okD: "keeps_ok R m \<Longrightarrow> m s = (Inr x, t) \<Longrightarrow> R s t"
  by (simp add: keeps_ok_def)

lemma keeps_keeps_err: "keeps R m \<Longrightarrow> keeps_err R m"
  by (auto simp: keeps_err_def dest: keepsD)

lemma keeps_keeps_ok: "keeps R m \<Longrightarrow> keeps_ok R m"
  by (auto simp: keeps_ok_def dest: keepsD)

locale state_frame =
  fixes R :: "'s \<Rightarrow> 's \<Rightarrow> bool"
  assumes R_refl: "R s s"
    and R_trans: "R s t \<Longrightarrow> R t u \<Longrightarrow> R s u"
begin

lemma keeps_pure:
  "keeps R (ret x)" "keeps R (throw e)" "keeps R (query q)" "keeps R (lift r)"
  "keeps R (ensure b e)"
  by (simp_all add: keeps_def R_refl)

lemma keeps_bnd:
  assumes m: "keeps R m" and f: "\<And>x. x \<in> results m \<Longrightarrow> keeps R (f x)"
  shows "keeps R (bnd m f)"
  unfolding keeps_def
proof
  fix s
  obtain r t where run: "m s = (r, t)" by (cases "m s")
  have st: "R s t" using m run by (rule keepsD)
  show "R s (snd (bnd m f s))"
  proof (cases r)
    case (Inl e)
    then show ?thesis using run st by (simp add: bnd_def)
  next
    case (Inr x)
    have "x \<in> results m" using run Inr by (auto simp: results_def)
    then have "R t (snd (f x t))" using f by (simp add: keeps_def)
    then show ?thesis using run Inr R_trans [OF st] by (simp add: bnd_def)
  qed
qed

lemma keeps_transaction: "keeps_ok R m \<Longrightarrow> keeps R (transaction m)"
  by (auto simp: keeps_def keeps_ok_def transaction_def R_refl split: prod.splits sum.splits)

lemma keeps_attempt:
  assumes m: "keeps R m" and f: "\<And>x. x \<in> results m \<Longrightarrow> keeps R (f x)" and n: "keeps R n"
  shows "keeps R (attempt m f e n)"
  unfolding keeps_def
proof
  fix s
  obtain r t where run: "m s = (r, t)" by (cases "m s")
  have st: "R s t" using m run by (rule keepsD)
  show "R s (snd (attempt m f e n s))"
  proof (cases r)
    case (Inl e')
    have "R t (snd (n t))" using n by (simp add: keeps_def)
    then show ?thesis using run Inl st R_trans [OF st] by (simp add: attempt_def)
  next
    case (Inr x)
    have "x \<in> results m" using run Inr by (auto simp: results_def)
    then have "R t (snd (f x t))" using f by (simp add: keeps_def)
    then show ?thesis using run Inr R_trans [OF st] by (simp add: attempt_def)
  qed
qed

lemma keeps_map_error: "keeps R m \<Longrightarrow> keeps R (map_error g m)"
  by (auto simp: keeps_def map_error_def split: prod.splits sum.splits) (metis snd_conv)+

lemma keeps_for_each: "(\<And>x. x \<in> set xs \<Longrightarrow> keeps R (f x)) \<Longrightarrow> keeps R (for_each f xs)"
  by (induction xs) (simp_all add: keeps_pure keeps_bnd)

lemma keeps_map_each: "(\<And>x. x \<in> set xs \<Longrightarrow> keeps R (f x)) \<Longrightarrow> keeps R (map_each f xs)"
  by (induction xs) (simp_all add: keeps_pure keeps_bnd)

lemma keeps_fold_each: "(\<And>x a. x \<in> set xs \<Longrightarrow> keeps R (f x a)) \<Longrightarrow> keeps R (fold_each f xs a)"
  by (induction xs arbitrary: a) (simp_all add: keeps_pure keeps_bnd)

lemma keeps_option:
  "keeps R m \<Longrightarrow> (\<And>x. v = Some x \<Longrightarrow> keeps R (f x)) \<Longrightarrow> keeps R (case v of None \<Rightarrow> m | Some x \<Rightarrow> f x)"
  by (cases v) simp_all

lemma keeps_if: "(b \<Longrightarrow> keeps R m) \<Longrightarrow> (\<not> b \<Longrightarrow> keeps R n) \<Longrightarrow> keeps R (if b then m else n)"
  by simp

lemmas keeps_intros = keeps_pure keeps_bnd keeps_attempt keeps_map_error keeps_for_each keeps_map_each keeps_fold_each
  keeps_if keeps_option

lemma keeps_ok_pure:
  "keeps_ok R (ret x)" "keeps_ok R (throw e)" "keeps_ok R (query q)" "keeps_ok R (lift r)"
  "keeps_ok R (ensure b e)"
  by (simp_all add: keeps_ok_def R_refl)

lemma keeps_ok_bnd:
  "keeps_ok R m \<Longrightarrow> (\<And>x. x \<in> results m \<Longrightarrow> keeps_ok R (f x)) \<Longrightarrow> keeps_ok R (bnd m f)"
  unfolding keeps_ok_def bnd_ok results_def by (blast intro: R_trans)

lemma keeps_ok_for_each:
  "(\<And>x. x \<in> set xs \<Longrightarrow> keeps_ok R (f x)) \<Longrightarrow> keeps_ok R (for_each f xs)"
  by (induction xs) (simp_all add: keeps_ok_pure keeps_ok_bnd)

lemma keeps_ok_map_each:
  "(\<And>x. x \<in> set xs \<Longrightarrow> keeps_ok R (f x)) \<Longrightarrow> keeps_ok R (map_each f xs)"
  by (induction xs) (simp_all add: keeps_ok_pure keeps_ok_bnd)

lemma keeps_ok_option:
  "keeps_ok R m \<Longrightarrow> (\<And>x. v = Some x \<Longrightarrow> keeps_ok R (f x)) \<Longrightarrow>
   keeps_ok R (case v of None \<Rightarrow> m | Some x \<Rightarrow> f x)"
  by (cases v) simp_all

lemma keeps_ok_transaction: "keeps_ok R m \<Longrightarrow> keeps_ok R (transaction m)"
  by (simp add: keeps_ok_def transaction_ok)

lemma keeps_ok_if:
  "(b \<Longrightarrow> keeps_ok R m) \<Longrightarrow> (\<not> b \<Longrightarrow> keeps_ok R n) \<Longrightarrow> keeps_ok R (if b then m else n)"
  by simp

lemma keeps_err_transaction: "keeps_err R (transaction m)"
  by (auto simp: keeps_err_def R_refl dest: transaction_err)

lemma keeps_err_bnd:
  "keeps R m \<Longrightarrow> (\<And>x. x \<in> results m \<Longrightarrow> keeps_err R (f x)) \<Longrightarrow> keeps_err R (bnd m f)"
  unfolding keeps_err_def bnd_err results_def by (blast dest: keepsD intro: R_trans)

lemma keeps_err_if: "(b \<Longrightarrow> keeps_err R m) \<Longrightarrow> (\<not> b \<Longrightarrow> keeps_err R n) \<Longrightarrow> keeps_err R (if b then m else n)"
  by simp

text \<open>A committed transaction that a read follows: the read must not fail.\<close>

lemma keeps_err_commit:
  "keeps_err R m \<Longrightarrow> (\<And>s x t e v. m s = (Inr x, t) \<Longrightarrow> f x t \<noteq> (Inl e, v)) \<Longrightarrow> keeps_err R (bnd m f)"
  unfolding keeps_err_def bnd_err by blast

lemmas keeps_ok_intros =
  keeps_ok_pure keeps_ok_bnd keeps_ok_for_each keeps_ok_map_each keeps_ok_transaction keeps_ok_if keeps_ok_option

end

section \<open>Tables\<close>

lemma map_fixed: "map f xs = xs \<Longrightarrow> x \<in> set xs \<Longrightarrow> f x = x"
  by (induction xs) auto

lemma distinct_key: "distinct (map f xs) \<Longrightarrow> x \<in> set xs \<Longrightarrow> y \<in> set xs \<Longrightarrow> f x = f y \<Longrightarrow> x = y"
  by (simp add: distinct_map inj_on_def)


text \<open>
  A table is the list of its rows, in the order of insertion. \<open>UPDATE ... WHERE\<close> rewrites the
  rows that match. GORM's \<open>First\<close> orders by the primary key and takes the first row, which the
  store compares bytewise (the lexicographic order of \<^theory_text>\<open>List_Lexorder\<close>).
\<close>

definition update_where :: "('r \<Rightarrow> bool) \<Rightarrow> ('r \<Rightarrow> 'r) \<Rightarrow> 'r list \<Rightarrow> 'r list" where
  "update_where P f rows = map (\<lambda>r. if P r then f r else r) rows"

definition first_by :: "('r \<Rightarrow> 'k::linorder) \<Rightarrow> ('r \<Rightarrow> bool) \<Rightarrow> 'r list \<Rightarrow> 'r option" where
  "first_by key P rows = (case filter P rows of [] \<Rightarrow> None | r # rs \<Rightarrow> Some (arg_min_list key (r # rs)))"

definition count_where :: "('r \<Rightarrow> bool) \<Rightarrow> 'r list \<Rightarrow> nat" where
  "count_where P rows = length (filter P rows)"

definition found :: "'e \<Rightarrow> 'r option \<Rightarrow> 'e + 'r" where
  "found e r = (case r of None \<Rightarrow> Inl e | Some x \<Rightarrow> Inr x)"

lemma found_simps [simp]: "found e None = Inl e" "found e (Some x) = Inr x"
  by (simp_all add: found_def)

lemma found_Inr: "found e r = Inr x \<longleftrightarrow> r = Some x"
  by (cases r) simp_all

lemma first_by_Some: "first_by key P rows = Some r \<Longrightarrow> r \<in> set rows \<and> P r"
proof -
  assume a: "first_by key P rows = Some r"
  then obtain x xs where f: "filter P rows = x # xs" and r: "r = arg_min_list key (x # xs)"
    by (auto simp: first_by_def split: list.splits)
  have "r \<in> set (filter P rows)"
    unfolding f r by (rule arg_min_list_in) simp
  then show ?thesis by simp
qed

lemma first_by_None: "first_by key P rows = None \<longleftrightarrow> (\<forall>r \<in> set rows. \<not> P r)"
  by (simp add: first_by_def filter_empty_conv [symmetric] split: list.splits)

lemma first_by_single: "filter P rows = [r] \<Longrightarrow> first_by key P rows = Some r"
  by (simp add: first_by_def)

lemma first_by_unique:
  "r \<in> set rows \<Longrightarrow> P r \<Longrightarrow> (\<And>x. x \<in> set rows \<Longrightarrow> P x \<Longrightarrow> x = r) \<Longrightarrow> first_by key P rows = Some r"
  using first_by_None [of key P rows] first_by_Some [of key P rows]
  by (cases "first_by key P rows") blast+

lemma first_by_append_None:
  "(\<forall>r \<in> set rows. \<not> P r) \<Longrightarrow> first_by key P (rows @ xs) = first_by key P xs"
  by (simp add: first_by_def)

lemma update_where_simps [simp]:
  "update_where P f [] = []"
  "update_where P f (r # rs) = (if P r then f r else r) # update_where P f rs"
  by (simp_all add: update_where_def)

lemma length_update_where [simp]: "length (update_where P f rows) = length rows"
  by (simp add: update_where_def)

lemma map_update_where: "(\<And>r. g (f r) = g r) \<Longrightarrow> map g (update_where P f rows) = map g rows"
  by (simp add: update_where_def)

lemma filter_update_where_disjoint:
  "(\<And>r. P r \<Longrightarrow> \<not> Q r \<and> \<not> Q (f r)) \<Longrightarrow> filter Q (update_where P f rows) = filter Q rows"
  by (induction rows) auto

lemma set_update_where:
  "x \<in> set (update_where P f rows) \<Longrightarrow> x \<in> set rows \<or> (\<exists>r \<in> set rows. P r \<and> x = f r)"
  by (auto simp: update_where_def split: if_splits)

text \<open>
  A unique key among the rows that a predicate selects survives an update of one row whose new key no
  other selected row has.
\<close>

lemma unique_key_update:
  assumes ids: "distinct (map key rows)" and old: "distinct (map k (filter A rows))"
    and one: "\<And>r r'. r \<in> set rows \<Longrightarrow> r' \<in> set rows \<Longrightarrow> P r \<Longrightarrow> P r' \<Longrightarrow> r = r'"
    and new: "\<And>r. r \<in> set rows \<Longrightarrow> P r \<Longrightarrow> key (f r) = key r \<and>
      (A (f r) \<longrightarrow> (\<forall>x \<in> set rows. key x \<noteq> key r \<longrightarrow> A x \<longrightarrow> k x \<noteq> k (f r)))"
  shows "distinct (map key (update_where P f rows))" and "distinct (map k (filter A (update_where P f rows)))"
proof -
  let ?g = "\<lambda>r. if P r then f r else r"
  have "map key (update_where P f rows) = map key rows" using new by (simp add: update_where_def)
  then show dis: "distinct (map key (update_where P f rows))" using ids by simp
  have "inj_on k (set (filter A (update_where P f rows)))"
  proof (rule inj_onI)
    fix a b assume "a \<in> set (filter A (update_where P f rows))" "b \<in> set (filter A (update_where P f rows))" "k a = k b"
    then obtain x y where xy: "x \<in> set rows" "y \<in> set rows" and ab: "a = ?g x" "b = ?g y" "A a" "A b"
      by (auto simp: update_where_def)
    have inj: "x = y" if "A x" "A y" "k x = k y"
      using old xy that by (intro inj_onD [of k "set (filter A rows)" x y]) (simp_all add: distinct_map)
    have key: "x = y" if "key x = key y" using distinct_key [OF ids xy that] .
    show "a = b"
    proof (cases "P x"; cases "P y")
      assume "P x" "P y"
      then show ?thesis using one [OF xy] ab by simp
    next
      assume "P x" "\<not> P y"
      then show ?thesis using new [OF xy(1)] key xy ab \<open>k a = k b\<close> by (cases "key y = key x") auto
    next
      assume "\<not> P x" "P y"
      then show ?thesis using new [OF xy(2)] key xy ab \<open>k a = k b\<close> by (cases "key x = key y") auto
    next
      assume "\<not> P x" "\<not> P y"
      then show ?thesis using inj ab \<open>k a = k b\<close> by simp
    qed
  qed
  then show "distinct (map k (filter A (update_where P f rows)))"
    using dis by (simp add: distinct_map)
qed

text \<open>
  Rows in place: a table whose rows change one by one, and grows at its end. What a row may become is
  a relation; it carries over to the table.
\<close>

definition rows_follow :: "('r \<Rightarrow> 'r \<Rightarrow> bool) \<Rightarrow> 'r list \<Rightarrow> 'r list \<Rightarrow> bool" where
  "rows_follow R rs rs' \<longleftrightarrow> list_all2 R rs (take (length rs) rs')"

lemma rows_follow_length: "rows_follow R rs rs' \<Longrightarrow> length rs \<le> length rs'"
  by (auto simp: rows_follow_def dest!: list_all2_lengthD)

lemma rows_follow_row: "rows_follow R rs rs' \<Longrightarrow> r \<in> set rs \<Longrightarrow> \<exists>r' \<in> set rs'. R r r'"
  unfolding rows_follow_def by (metis in_set_conv_nth in_set_takeD list_all2_conv_all_nth)

lemma rows_follow_map:
  "rows_follow R rs rs' \<Longrightarrow> (\<And>r r'. R r r' \<Longrightarrow> g r' = g r) \<Longrightarrow> \<exists>xs. map g rs' = map g rs @ xs"
  unfolding rows_follow_def
  by (rule exI [of _ "map g (drop (length rs) rs')"], subst append_take_drop_id [of "length rs" rs', symmetric],
      subst map_append, rule arg_cong2 [of _ _ _ _ "(@)"])
    (auto simp: list_all2_conv_all_nth intro!: nth_equalityI)

locale row_frame =
  fixes R :: "'r \<Rightarrow> 'r \<Rightarrow> bool"
  assumes row_refl: "R r r"
    and row_trans: "R a b \<Longrightarrow> R b c \<Longrightarrow> R a c"
begin

lemma follow_refl: "rows_follow R rs rs"
  by (simp add: rows_follow_def list_all2_refl row_refl)

lemma follow_append: "rows_follow R rs (rs @ xs)"
  by (simp add: rows_follow_def list_all2_refl row_refl)

lemma follow_trans:
  assumes ab: "rows_follow R as bs" and bc: "rows_follow R bs cs"
  shows "rows_follow R as cs"
proof -
  have len: "length as \<le> length bs" using ab by (rule rows_follow_length)
  have "list_all2 R (take (length as) bs) (take (length as) (take (length bs) cs))"
    using bc unfolding rows_follow_def by (rule list_all2_takeI)
  then have "list_all2 R (take (length as) bs) (take (length as) cs)"
    using len by (simp add: min.absorb1)
  with ab show ?thesis
    unfolding rows_follow_def using row_trans by (blast intro: list_all2_trans [of R R R])
qed

lemma follow_map: "(\<And>r. r \<in> set rs \<Longrightarrow> R r (f r)) \<Longrightarrow> rows_follow R rs (map f rs)"
  by (simp add: rows_follow_def list_all2_map2 list_all2_same)

lemma follow_update:
  "(\<And>r. r \<in> set rs \<Longrightarrow> P r \<Longrightarrow> R r (f r)) \<Longrightarrow> rows_follow R rs (update_where P f rs)"
  unfolding update_where_def by (intro follow_map) (auto simp: row_refl)

end

lemma count_where_update:
  "(\<And>r. Q (f r) = Q r) \<Longrightarrow> count_where Q (update_where P f rows) = count_where Q rows"
  by (induction rows) (auto simp: count_where_def)

lemma count_where_append [simp]: "count_where P (xs @ ys) = count_where P xs + count_where P ys"
  by (simp add: count_where_def)

lemma count_where_Nil [simp]: "count_where P [] = 0"
  and count_where_Cons [simp]: "count_where P (x # xs) = (if P x then 1 else 0) + count_where P xs"
  by (simp_all add: count_where_def)

lemma count_where_0: "count_where P xs = 0 \<longleftrightarrow> (\<forall>x \<in> set xs. \<not> P x)"
  by (auto simp: count_where_def filter_empty_conv)

end
