(* ===== verification/GoStrings.thy ===== *)
theory GoStrings
  imports Prelude
begin

text \<open>
  The functions of Go's \<open>strings\<close> package that the backend uses on request fields, codes and
  identifiers, and the \<open>TRIM\<close>/\<open>LOWER\<close> of its SQL. Strings are byte strings. Case mapping and
  the white space that \<open>strings.TrimSpace\<close> removes are those of the ASCII range: a code point
  above 127 is left as it is.
\<close>

definition is_space :: "char \<Rightarrow> bool" where
  "is_space c \<longleftrightarrow> c = CHR '' '' \<or> c = CHR 0x09 \<or> c = CHR 0x0A \<or> c = CHR 0x0B \<or> c = CHR 0x0C \<or> c = CHR 0x0D"

definition TrimSpace :: "string \<Rightarrow> string" where
  "TrimSpace s = rev (dropWhile is_space (rev (dropWhile is_space s)))"

definition upper_char :: "char \<Rightarrow> char" where
  "upper_char c = (let n = (of_char c :: nat) in if 97 \<le> n \<and> n \<le> 122 then char_of (n - 32) else c)"

definition lower_char :: "char \<Rightarrow> char" where
  "lower_char c = (let n = (of_char c :: nat) in if 65 \<le> n \<and> n \<le> 90 then char_of (n + 32) else c)"

definition ToUpper :: "string \<Rightarrow> string" where
  "ToUpper s = map upper_char s"

definition ToLower :: "string \<Rightarrow> string" where
  "ToLower s = map lower_char s"

definition EqualFold :: "string \<Rightarrow> string \<Rightarrow> bool" where
  "EqualFold a b \<longleftrightarrow> ToLower a = ToLower b"

fun HasPrefix :: "string \<Rightarrow> string \<Rightarrow> bool" where
  "HasPrefix s [] = True"
| "HasPrefix [] (p # ps) = False"
| "HasPrefix (c # s) (p # ps) = (c = p \<and> HasPrefix s ps)"

fun Contains :: "string \<Rightarrow> string \<Rightarrow> bool" where
  "Contains [] p = (p = [])"
| "Contains (c # s) p = (HasPrefix (c # s) p \<or> Contains s p)"

text \<open>SQLite's \<open>TRIM(x)\<close> removes the space character only.\<close>

definition SqlTrim :: "string \<Rightarrow> string" where
  "SqlTrim s = rev (dropWhile (\<lambda>c. c = CHR '' '') (rev (dropWhile (\<lambda>c. c = CHR '' '') s)))"

lemma dropWhile_fix: "(xs = [] \<or> \<not> P (hd xs)) \<Longrightarrow> dropWhile P xs = xs"
  by (cases xs) auto

lemma dropWhile_hd: "dropWhile P xs = [] \<or> \<not> P (hd (dropWhile P xs))"
  by (induction xs) auto

lemma dropWhile_append_ends:
  assumes "xs = [] \<or> \<not> P (hd xs)"
  shows "rev (dropWhile P (rev xs)) = [] \<or> \<not> P (hd (rev (dropWhile P (rev xs))))"
proof (cases xs)
  case (Cons x ys)
  with assms have x: "\<not> P x" by simp
  have "dropWhile P (rev ys @ [x]) = dropWhile P (rev ys) @ [x]"
    by (induction "rev ys") (use x in \<open>auto simp: dropWhile_append\<close>)
  with Cons x show ?thesis by simp
qed simp

text \<open>Trimming is idempotent: a trimmed value can be trimmed again by the next layer.\<close>

lemma TrimSpace_idem [simp]: "TrimSpace (TrimSpace s) = TrimSpace s"
proof -
  let ?d = "dropWhile is_space s"
  have 1: "?d = [] \<or> \<not> is_space (hd ?d)" by (rule dropWhile_hd)
  have 2: "TrimSpace s = [] \<or> \<not> is_space (hd (TrimSpace s))"
    unfolding TrimSpace_def using 1 by (rule dropWhile_append_ends)
  have 3: "rev (TrimSpace s) = [] \<or> \<not> is_space (hd (rev (TrimSpace s)))"
    unfolding TrimSpace_def by (simp only: rev_rev_ident) (rule dropWhile_hd)
  show ?thesis
    using dropWhile_fix [of "TrimSpace s" is_space] 2 dropWhile_fix [of "rev (TrimSpace s)" is_space] 3
    by (subst TrimSpace_def) (simp only: rev_rev_ident)
qed

lemma upper_char_idem [simp]: "upper_char (upper_char c) = upper_char c"
  by (auto simp: upper_char_def Let_def)

lemma ToUpper_idem [simp]: "ToUpper (ToUpper s) = ToUpper s"
  by (simp add: ToUpper_def)

lemma EqualFold_refl [simp]: "EqualFold s s"
  by (simp add: EqualFold_def)

lemma EqualFold_sym: "EqualFold a b \<longleftrightarrow> EqualFold b a"
  by (auto simp: EqualFold_def)

section \<open>Evaluation\<close>

text \<open>The bits of an ASCII letter, which evaluate faster than its code.\<close>

definition letter_bits :: "bool \<Rightarrow> bool \<Rightarrow> bool \<Rightarrow> bool \<Rightarrow> bool \<Rightarrow> bool" where
  "letter_bits b0 b1 b2 b3 b4 \<longleftrightarrow> (b0 \<or> b1 \<or> b2 \<or> b3 \<or> b4) \<and>
     \<not> (b3 \<and> b4 \<and> (b2 \<or> (b0 \<and> b1)))"

lemma upper_char_code [code]: "upper_char (Char b0 b1 b2 b3 b4 b5 b6 b7) =
   (if letter_bits b0 b1 b2 b3 b4 \<and> b5 \<and> b6 \<and> \<not> b7 then Char b0 b1 b2 b3 b4 False b6 b7 else Char b0 b1 b2 b3 b4 b5 b6 b7)"
  unfolding upper_char_def letter_bits_def Let_def
  by (cases b0; cases b1; cases b2; cases b3; cases b4; cases b5; cases b6; cases b7; simp add: char_of_def bit_0)

lemma lower_char_code [code]: "lower_char (Char b0 b1 b2 b3 b4 b5 b6 b7) =
   (if letter_bits b0 b1 b2 b3 b4 \<and> \<not> b5 \<and> b6 \<and> \<not> b7 then Char b0 b1 b2 b3 b4 True b6 b7 else Char b0 b1 b2 b3 b4 b5 b6 b7)"
  unfolding lower_char_def letter_bits_def Let_def
  by (cases b0; cases b1; cases b2; cases b3; cases b4; cases b5; cases b6; cases b7; simp add: char_of_def bit_0)

end
