(* ===== verification/Float64.thy ===== *)
theory Float64
  imports GoStrings "HOL-Library.Log_Nat"
begin

text \<open>
  Amounts of money and gold are Go \<open>float64\<close> values. A finite binary64 number is a rational,
  and an arithmetic operation is the exact result rounded to nearest, ties to even, to 53
  significant bits with the least exponent \<open>-1074\<close> (so gradual underflow is included). Overflow
  to infinity and NaN are not modelled: amounts come from JSON numbers, which are finite, and the
  theorems speak of amounts whose results stay below \<open>2 ^ 1024\<close>. Negation, absolute value, comparison and
  \<open>math.Round\<close> are exact in binary64 and are the operations of the rationals.
\<close>

type_synonym float64 = rat

definition pow2 :: "int \<Rightarrow> rat" where
  "pow2 e = (if 0 \<le> e then 2 ^ nat e else 1 / 2 ^ nat (- e))"

definition ilog2 :: "rat \<Rightarrow> int" where
  "ilog2 x = (let nd = quotient_of x; k = bitlen (fst nd) - bitlen (snd nd)
              in if pow2 k \<le> x then k else k - 1)"

definition round_even :: "rat \<Rightarrow> int" where
  "round_even y = (let f = \<lfloor>y\<rfloor>; r = y - of_int f
     in if r < 1 / 2 then f else if 1 / 2 < r then f + 1 else if even f then f else f + 1)"

definition ulp :: "rat \<Rightarrow> rat" where
  "ulp x = pow2 (max (ilog2 \<bar>x\<bar> - 52) (- 1074))"

definition rnd :: "rat \<Rightarrow> float64" where
  "rnd x = (if x = 0 then 0 else of_int (round_even (x / ulp x)) * ulp x)"

definition fadd :: "float64 \<Rightarrow> float64 \<Rightarrow> float64" where "fadd x y = rnd (x + y)"
definition fsub :: "float64 \<Rightarrow> float64 \<Rightarrow> float64" where "fsub x y = rnd (x - y)"
definition fmul :: "float64 \<Rightarrow> float64 \<Rightarrow> float64" where "fmul x y = rnd (x * y)"
definition fdiv :: "float64 \<Rightarrow> float64 \<Rightarrow> float64" where "fdiv x y = rnd (x / y)"

text \<open>\<open>math.Round\<close>: half away from zero.\<close>

definition goRound :: "float64 \<Rightarrow> float64" where
  "goRound x = (if x < 0 then - of_int \<lfloor>- x + 1 / 2\<rfloor> else of_int \<lfloor>x + 1 / 2\<rfloor>)"

section \<open>Powers of two and the exponent of a number\<close>

lemma pow2_pos [simp]: "0 < pow2 e"
  by (simp add: pow2_def)

lemma pow2_nonneg [simp]: "0 \<le> pow2 e" and pow2_nonzero [simp]: "pow2 e \<noteq> 0"
  using pow2_pos [of e] by (simp_all add: less_le)

lemma pow2_eq_powi: "pow2 e = 2 powi e"
  by (simp add: pow2_def power_int_def field_simps power_inverse)

lemma pow2_add: "pow2 (a + b) = pow2 a * pow2 b"
  by (simp add: pow2_eq_powi power_int_add)

lemma pow2_0 [simp]: "pow2 0 = 1"
  by (simp add: pow2_def)

lemma pow2_nat: "0 \<le> e \<Longrightarrow> pow2 e = of_int (2 ^ nat e)"
  by (simp add: pow2_def)

lemma pow2_mono: "a \<le> b \<Longrightarrow> pow2 a \<le> pow2 b"
  by (simp add: pow2_eq_powi power_int_increasing)

lemma pow2_less_iff: "pow2 a < pow2 b \<longleftrightarrow> a < b"
  using pow2_mono [of b a] pow2_mono [of a b]
  by (metis pow2_eq_powi leD not_le power_int_strict_increasing one_less_numeral_iff
      semiring_norm(76))

lemma ilog2_bounds:
  assumes "0 < x"
  shows "pow2 (ilog2 x) \<le> x \<and> x < pow2 (ilog2 x + 1)"
proof -
  obtain n d where nd: "quotient_of x = (n, d)" by (cases "quotient_of x")
  have d: "0 < d" using quotient_of_denom_pos [OF nd] .
  have x: "x = of_int n / of_int d" using quotient_of_div [OF nd] .
  have n: "0 < n" using assms d x by (simp add: zero_less_divide_iff)
  let ?a = "bitlen n" and ?b = "bitlen d"
  have a: "2 ^ nat (?a - 1) \<le> n" "n < 2 ^ nat ?a" and a0: "0 < ?a"
    using bitlen_bounds [OF n] bitlen_eq_zero_iff [of n] bitlen_nonneg [of n] n by simp_all
  have b: "2 ^ nat (?b - 1) \<le> d" "d < 2 ^ nat ?b" and b0: "0 < ?b"
    using bitlen_bounds [OF d] bitlen_eq_zero_iff [of d] bitlen_nonneg [of d] d by simp_all
  have an: "pow2 (?a - 1) \<le> of_int n" "of_int n < pow2 ?a"
    using a a0 by (simp_all only: pow2_nat of_int_le_iff of_int_less_iff)
  have bn: "pow2 (?b - 1) \<le> of_int d" "of_int d < pow2 ?b"
    using b b0 by (simp_all only: pow2_nat of_int_le_iff of_int_less_iff)
  have up: "x < pow2 (?a - ?b + 1)"
  proof -
    have "of_int n < pow2 (?a - ?b + 1) * pow2 (?b - 1)"
      using an(2) by (simp add: pow2_add [symmetric])
    also have "\<dots> \<le> pow2 (?a - ?b + 1) * of_int d"
      using bn(1) by (intro mult_left_mono) simp_all
    finally show ?thesis using d by (simp add: x divide_less_eq)
  qed
  have lo: "pow2 (?a - ?b - 1) \<le> x"
  proof -
    have "pow2 (?a - ?b - 1) * of_int d \<le> pow2 (?a - ?b - 1) * pow2 ?b"
      using bn(2) by (intro mult_left_mono) simp_all
    also have "\<dots> \<le> of_int n"
      using an(1) by (simp add: pow2_add [symmetric])
    finally show ?thesis using d by (simp add: x le_divide_eq)
  qed
  show ?thesis
    using up lo by (auto simp: ilog2_def nd Let_def)
qed

lemma ilog2_unique: "0 < x \<Longrightarrow> pow2 k \<le> x \<Longrightarrow> x < pow2 (k + 1) \<Longrightarrow> ilog2 x = k"
  using ilog2_bounds [of x] pow2_less_iff [of k "ilog2 x + 1"] pow2_less_iff [of "ilog2 x" "k + 1"]
  by (meson le_less_trans less_add_one linorder_neqE not_less zless_imp_add1_zle order.trans le_less)

lemma ilog2_mono: "0 < x \<Longrightarrow> x \<le> y \<Longrightarrow> ilog2 x \<le> ilog2 y"
  using ilog2_bounds [of x] ilog2_bounds [of y] pow2_less_iff [of "ilog2 x" "ilog2 y + 1"]
  by fastforce

lemma ulp_pos [simp]: "0 < ulp x" and ulp_nonneg [simp]: "0 \<le> ulp x" and ulp_nonzero [simp]: "ulp x \<noteq> 0"
  by (simp_all add: ulp_def)

lemma ulp_minus [simp]: "ulp (- x) = ulp x"
  by (simp add: ulp_def)

section \<open>Rounding\<close>

lemma round_even_of_int [simp]: "round_even (of_int k) = k"
  by (simp add: round_even_def Let_def)

lemma round_even_error: "\<bar>of_int (round_even y) - y\<bar> \<le> 1 / 2"
  using floor_correct [of y] by (auto simp: round_even_def Let_def abs_le_iff)

lemma round_even_minus: "round_even (- y) = - round_even y"
proof (cases "y \<in> \<int>")
  case True
  then obtain k where "y = of_int k" by (auto elim: Ints_cases)
  then show ?thesis using round_even_of_int [of "- k"] by simp
next
  case False
  then have c: "\<lceil>y\<rceil> = \<lfloor>y\<rfloor> + 1"
    by (metis Ints_of_int ceiling_altdef)
  have f: "\<lfloor>- y\<rfloor> = - \<lfloor>y\<rfloor> - 1"
    using c by (simp add: ceiling_def)
  show ?thesis
    by (auto simp: round_even_def Let_def f algebra_simps)
qed

lemma round_even_le:
  assumes "y \<le> of_int k"
  shows "round_even y \<le> k"
proof -
  have "rat_of_int (round_even y) < of_int (k + 1)"
    using assms abs_le_D1 [OF round_even_error [of y]] by simp
  then show ?thesis by (simp only: of_int_less_iff)
qed

lemma round_even_ge: "of_int k \<le> y \<Longrightarrow> k \<le> round_even y"
  using round_even_le [of "- y" "- k"] by (simp add: round_even_minus)

lemma round_even_mono: "x \<le> y \<Longrightarrow> round_even x \<le> round_even y"
proof (cases "\<lfloor>x\<rfloor> = \<lfloor>y\<rfloor>")
  case True
  then show "x \<le> y \<Longrightarrow> round_even x \<le> round_even y"
    by (auto simp: round_even_def Let_def)
next
  case False
  assume le: "x \<le> y"
  with False have "\<lfloor>x\<rfloor> + 1 \<le> \<lfloor>y\<rfloor>"
    using floor_mono [OF le] by linarith
  moreover have "round_even x \<le> \<lfloor>x\<rfloor> + 1" "\<lfloor>y\<rfloor> \<le> round_even y"
    by (auto simp: round_even_def Let_def)
  ultimately show "round_even x \<le> round_even y" by linarith
qed

lemma rnd_0 [simp]: "rnd 0 = 0"
  by (simp add: rnd_def)

lemma rnd_eq: "rnd x = of_int (round_even (x / ulp x)) * ulp x"
  using round_even_of_int [of 0] by (auto simp: rnd_def)

lemma rnd_minus: "rnd (- x) = - rnd x"
  by (simp add: rnd_eq round_even_minus)

lemma rnd_nonneg: "0 \<le> x \<Longrightarrow> 0 \<le> rnd x"
  using round_even_ge [of 0 "x / ulp x"] by (simp add: rnd_eq)

lemma rnd_nonpos: "x \<le> 0 \<Longrightarrow> rnd x \<le> 0"
  using rnd_nonneg [of "- x"] by (simp add: rnd_minus)

lemma rnd_error: "\<bar>rnd x - x\<bar> \<le> ulp x / 2"
proof -
  have "rnd x - x = (of_int (round_even (x / ulp x)) - x / ulp x) * ulp x"
    by (simp add: rnd_eq algebra_simps)
  then have "\<bar>rnd x - x\<bar> = \<bar>of_int (round_even (x / ulp x)) - x / ulp x\<bar> * ulp x"
    by (simp add: abs_mult)
  also have "\<dots> \<le> 1 / 2 * ulp x"
    by (intro mult_right_mono round_even_error) simp
  finally show ?thesis by simp
qed

lemma rnd_rel_error:
  assumes "pow2 (- 1022) \<le> \<bar>x\<bar>"
  shows "\<bar>rnd x - x\<bar> \<le> pow2 (- 53) * \<bar>x\<bar>"
proof -
  have x: "0 < \<bar>x\<bar>" using assms pow2_pos [of "- 1022"] by linarith
  have "ilog2 (pow2 (- 1022)) = - 1022"
    by (rule ilog2_unique) (simp_all add: pow2_less_iff)
  then have "- 1022 \<le> ilog2 \<bar>x\<bar>"
    using ilog2_mono [OF _ assms] by simp
  then have "max (ilog2 \<bar>x\<bar> - 52) (- 1074) = ilog2 \<bar>x\<bar> - 52" by linarith
  then have u: "ulp x = pow2 (ilog2 \<bar>x\<bar> - 52)" by (simp add: ulp_def)
  have "\<bar>rnd x - x\<bar> \<le> ulp x * pow2 (- 1)"
    using rnd_error [of x] by (simp add: pow2_def)
  also have "\<dots> = pow2 (- 53) * pow2 (ilog2 \<bar>x\<bar>)"
    by (simp add: u pow2_add [symmetric])
  also have "\<dots> \<le> pow2 (- 53) * \<bar>x\<bar>"
    using ilog2_bounds [OF x] by (intro mult_left_mono) simp_all
  finally show ?thesis .
qed

text \<open>The numbers binary64 can hold are left alone; integers up to \<open>2 ^ 53\<close> are among them.\<close>

definition representable :: "rat \<Rightarrow> bool" where
  "representable x \<longleftrightarrow> (\<exists>m e. x = of_int m * pow2 e \<and> \<bar>m\<bar> < 2 ^ 53 \<and> - 1074 \<le> e)"

lemma rnd_representable:
  assumes "representable x"
  shows "rnd x = x"
proof (cases "x = 0")
  case False
  obtain m e where x: "x = of_int m * pow2 e" and m: "\<bar>m\<bar> < 2 ^ 53" and e: "- 1074 \<le> e"
    using assms by (auto simp: representable_def)
  define u where "u = max (ilog2 \<bar>x\<bar> - 52) (- 1074)"
  have ulp: "ulp x = pow2 u" by (simp add: ulp_def u_def)
  have px: "0 < \<bar>x\<bar>" using False by simp
  have "\<bar>x\<bar> < pow2 (53 + e)"
  proof -
    have "\<bar>x\<bar> = of_int \<bar>m\<bar> * pow2 e" by (simp add: x abs_mult)
    also have "\<dots> < of_int (2 ^ 53) * pow2 e"
      using m by (intro mult_strict_right_mono) (simp_all only: of_int_less_iff pow2_pos)
    finally show ?thesis by (simp add: pow2_add pow2_nat)
  qed
  then have "pow2 (ilog2 \<bar>x\<bar>) < pow2 (53 + e)"
    using ilog2_bounds [OF px] by linarith
  then have le: "u \<le> e"
    using e by (simp add: pow2_less_iff u_def)
  have "pow2 e = of_int (2 ^ nat (e - u)) * pow2 u"
    using pow2_add [of "e - u" u] pow2_nat [of "e - u"] le by simp
  then have "x / ulp x = of_int (m * 2 ^ nat (e - u))"
    unfolding ulp by (subst x) simp
  then have "rnd x = (x / ulp x) * ulp x"
    by (simp only: rnd_eq round_even_of_int)
  then show ?thesis by simp
qed simp

lemma rnd_of_int: "\<bar>k\<bar> < 2 ^ 53 \<Longrightarrow> rnd (of_int k) = of_int k"
  unfolding representable_def
  by (rule rnd_representable [unfolded representable_def], rule exI [of _ k], rule exI [of _ 0]) simp

lemma rnd_mono_pos:
  assumes "0 < x" and "x \<le> y"
  shows "rnd x \<le> rnd y"
proof (cases "ulp x = ulp y")
  case True
  have "x / ulp y \<le> y / ulp y" using assms by (simp add: divide_right_mono)
  then have "round_even (x / ulp y) \<le> round_even (y / ulp y)" by (rule round_even_mono)
  then show ?thesis unfolding rnd_eq True by (simp add: mult_right_mono)
next
  case False
  have y: "0 < y" using assms by simp
  have ab: "\<bar>x\<bar> = x" "\<bar>y\<bar> = y" using assms y by simp_all
  have il: "ilog2 x \<le> ilog2 y" using assms by (rule ilog2_mono)
  have "ilog2 x \<noteq> ilog2 y" using False by (auto simp: ulp_def ab)
  then have lt: "ilog2 x < ilog2 y" using il by simp
  have big: "- 1074 < ilog2 y - 52"
    using False il by (auto simp: ulp_def ab max_def split: if_splits)
  let ?k = "ilog2 y"
  define u where "u = max (ilog2 x - 52) (- 1074)"
  have ux: "ulp x = pow2 u" by (simp add: ulp_def ab u_def)
  have uy: "ulp y = pow2 (?k - 52)" using big by (simp add: ulp_def ab max_def)
  have uk: "u \<le> ?k" using lt big by (simp add: u_def)
  have kx: "pow2 ?k = of_int (2 ^ nat (?k - u)) * ulp x"
    using pow2_add [of "?k - u" u] pow2_nat [of "?k - u"] uk by (simp add: ux)
  have ky: "pow2 ?k = of_int (2 ^ 52) * ulp y"
    using pow2_add [of 52 "?k - 52"] pow2_nat [of 52] by (simp add: uy)
  have "x \<le> pow2 ?k"
    using ilog2_bounds [OF assms(1)] pow2_mono [of "ilog2 x + 1" ?k] lt by simp
  then have "x / ulp x \<le> of_int (2 ^ nat (?k - u))"
    by (simp add: divide_le_eq kx)
  then have "round_even (x / ulp x) \<le> 2 ^ nat (?k - u)" by (rule round_even_le)
  then have "rnd x \<le> of_int (2 ^ nat (?k - u)) * ulp x"
    unfolding rnd_eq by (intro mult_right_mono) (simp_all only: of_int_le_iff ulp_nonneg)
  moreover have "of_int (2 ^ 52) \<le> y / ulp y"
    using ilog2_bounds [OF y] by (simp add: le_divide_eq ky)
  then have "2 ^ 52 \<le> round_even (y / ulp y)" by (rule round_even_ge)
  then have "of_int (2 ^ 52) * ulp y \<le> rnd y"
    unfolding rnd_eq by (intro mult_right_mono) (simp_all only: of_int_le_iff ulp_nonneg)
  ultimately show ?thesis using kx ky by simp
qed

lemma rnd_mono: "x \<le> y \<Longrightarrow> rnd x \<le> rnd y"
  using rnd_mono_pos [of x y] rnd_mono_pos [of "- y" "- x"] rnd_nonneg [of y] rnd_nonpos [of x]
  by (cases "0 < x"; cases "y < 0") (auto simp: rnd_minus not_less intro: order_trans)

lemma fmul_nonneg: "0 \<le> x \<Longrightarrow> 0 \<le> y \<Longrightarrow> 0 \<le> fmul x y"
  and fdiv_nonneg: "0 \<le> x \<Longrightarrow> 0 \<le> y \<Longrightarrow> 0 \<le> fdiv x y"
  by (simp_all add: fmul_def fdiv_def rnd_nonneg)

lemma goRound_of_int [simp]: "goRound (of_int k) = of_int k"
proof -
  have "\<lfloor>rat_of_int j + 1 / 2\<rfloor> = j" for j :: int
    by (rule floor_unique) simp_all
  then show ?thesis
    using \<open>\<lfloor>rat_of_int (- k) + 1 / 2\<rfloor> = - k\<close> by (simp add: goRound_def)
qed

lemma goRound_minus: "goRound (- x) = - goRound x"
proof (cases x "0 :: rat" rule: linorder_cases)
  case equal
  have "\<lfloor>1 / 2 :: rat\<rfloor> = 0" by (rule floor_unique) simp_all
  then show ?thesis by (simp add: goRound_def equal)
qed (simp_all add: goRound_def)

lemma goRound_error: "\<bar>goRound x - x\<bar> \<le> 1 / 2"
  using of_int_floor_le [of "x + 1 / 2"] of_int_floor_le [of "- x + 1 / 2"]
    floor_less_iff [of "x + 1 / 2" "\<lfloor>x + 1 / 2\<rfloor> + 1"] floor_less_iff [of "- x + 1 / 2" "\<lfloor>- x + 1 / 2\<rfloor> + 1"]
  by (cases "x < 0") (simp_all only: goRound_def abs_le_iff if_True if_False, linarith+)

end
