(* ===== verification/Dates.thy ===== *)
theory Dates
  imports Float64
begin

text \<open>
  Go's \<open>time.Time\<close> in UTC, as the number of nanoseconds since its zero value, midnight of
  January 1 of the year 1; and the layout \<open>2006-01-02\<close> in which the API reads and prints dates.
  A date column holds the midnight of its day.
\<close>

type_synonym time = int

definition day_ns :: int where "day_ns = 86400 * 1000000000"

definition leap :: "int \<Rightarrow> bool" where
  "leap y \<longleftrightarrow> y mod 4 = 0 \<and> (y mod 100 \<noteq> 0 \<or> y mod 400 = 0)"

definition days_in_month :: "int \<Rightarrow> int \<Rightarrow> int" where
  "days_in_month y m = (if m = 2 then (if leap y then 29 else 28)
     else if m = 4 \<or> m = 6 \<or> m = 9 \<or> m = 11 then 30 else 31)"

definition days_before_year :: "int \<Rightarrow> int" where
  "days_before_year y = 365 * (y - 1) + (y - 1) div 4 - (y - 1) div 100 + (y - 1) div 400"

function days_from_month :: "int \<Rightarrow> int \<Rightarrow> int \<Rightarrow> int" where
  "days_from_month y m k = (if m < k then days_in_month y m + days_from_month y (m + 1) k else 0)"
  by pat_completeness auto
termination by (relation "measure (\<lambda>(y, m, k). nat (k - m))") auto

declare days_from_month.simps [simp del]

definition days_of_civil :: "int \<Rightarrow> int \<Rightarrow> int \<Rightarrow> int" where
  "days_of_civil y m d = days_before_year y + days_from_month y 1 m + (d - 1)"

function month_of :: "int \<Rightarrow> int \<Rightarrow> int \<Rightarrow> int \<times> int" where
  "month_of y m r = (if 12 \<le> m \<or> r < days_in_month y m then (m, r + 1)
     else month_of y (m + 1) (r - days_in_month y m))"
  by pat_completeness auto
termination by (relation "measure (\<lambda>(y, m, r). nat (12 - m))") auto

declare month_of.simps [simp del]

definition year_of :: "int \<Rightarrow> int" where
  "year_of n = (let y = 400 * n div 146097 + 1 in if days_before_year (y + 1) \<le> n then y + 1 else y)"

definition civil_of_days :: "int \<Rightarrow> int \<times> int \<times> int" where
  "civil_of_days n = (let y = year_of n in (y, month_of y 1 (n - days_before_year y)))"

definition is_digit :: "char \<Rightarrow> bool" where
  "is_digit c \<longleftrightarrow> (let n = (of_char c :: nat) in 48 \<le> n \<and> n \<le> 57)"

definition digit_val :: "char \<Rightarrow> int" where
  "digit_val c = int (of_char c) - 48"

definition digit_char :: "int \<Rightarrow> char" where
  "digit_char k = char_of (nat (48 + k mod 10))"

text \<open>For evaluation, a digit is told from its bits.\<close>

lemma is_digit_code [code]: "is_digit (Char b0 b1 b2 b3 b4 b5 b6 b7) \<longleftrightarrow>
    \<not> b7 \<and> \<not> b6 \<and> b5 \<and> b4 \<and> \<not> (b3 \<and> (b2 \<or> b1))"
  unfolding is_digit_def Let_def
  by (cases b0; cases b1; cases b2; cases b3; cases b4; cases b5; cases b6; cases b7; simp)

lemma digit_val_code [code]: "digit_val (Char b0 b1 b2 b3 b4 b5 b6 b7) =
   (if is_digit (Char b0 b1 b2 b3 b4 b5 b6 b7) then (if b3 then (if b0 then 9 else 8)
      else if b2 then (if b1 then (if b0 then 7 else 6) else (if b0 then 5 else 4))
      else (if b1 then (if b0 then 3 else 2) else (if b0 then 1 else 0)))
    else int (of_char (Char b0 b1 b2 b3 b4 b5 b6 b7)) - 48)"
  unfolding is_digit_def digit_val_def Let_def
  by (cases b0; cases b1; cases b2; cases b3; cases b4; cases b5; cases b6; cases b7; simp)

text \<open>\<open>time.Parse("2006-01-02", strings.TrimSpace(value))\<close>: ten bytes, a day of that month.\<close>

definition parseDate :: "string \<Rightarrow> time option" where
  "parseDate value = (let t = TrimSpace value in
     if length t = 10 \<and> t ! 4 = CHR ''-'' \<and> t ! 7 = CHR ''-'' \<and>
        list_all is_digit [t ! 0, t ! 1, t ! 2, t ! 3, t ! 5, t ! 6, t ! 8, t ! 9]
     then let y = 1000 * digit_val (t ! 0) + 100 * digit_val (t ! 1) + 10 * digit_val (t ! 2) + digit_val (t ! 3);
              m = 10 * digit_val (t ! 5) + digit_val (t ! 6);
              d = 10 * digit_val (t ! 8) + digit_val (t ! 9)
          in if 1 \<le> m \<and> m \<le> 12 \<and> 1 \<le> d \<and> d \<le> days_in_month y m
             then Some (days_of_civil y m d * day_ns) else None
     else None)"

text \<open>The date of a validated request, where the Go code drops the error.\<close>

definition dateOf :: "string \<Rightarrow> time" where
  "dateOf v = (case parseDate v of None \<Rightarrow> 0 | Some t \<Rightarrow> t)"

definition civil_of_time :: "time \<Rightarrow> int \<times> int \<times> int" where
  "civil_of_time t = civil_of_days (t div day_ns)"

text \<open>\<open>value.Format("2006-01-02")\<close> for the years 0 to 9999, and \<open>formatDate\<close>.\<close>

definition format_civil :: "int \<times> int \<times> int \<Rightarrow> string" where
  "format_civil = (\<lambda>(y, m, d).
     [digit_char (y div 1000), digit_char (y div 100), digit_char (y div 10), digit_char y, CHR ''-'',
      digit_char (m div 10), digit_char m, CHR ''-'', digit_char (d div 10), digit_char d])"

definition formatDate :: "time \<Rightarrow> string" where
  "formatDate t = (if t = 0 then [] else format_civil (civil_of_time t))"

text \<open>
  \<open>time.RFC3339\<close> and \<open>time.RFC3339Nano\<close> of an instant in UTC; the latter drops the trailing zeros
  of the fraction, and the fraction when it is zero.
\<close>

definition two_digits :: "int \<Rightarrow> string" where
  "two_digits k = [digit_char (k div 10), digit_char k]"

definition formatClock :: "time \<Rightarrow> string" where
  "formatClock t = (let s = (t mod day_ns) div 1000000000 in
     two_digits (s div 3600) @ '':'' @ two_digits (s div 60 mod 60) @ '':'' @ two_digits (s mod 60))"

definition formatFraction :: "time \<Rightarrow> string" where
  "formatFraction t = (let n = t mod 1000000000;
       ds = map (\<lambda>i. digit_char (n div 10 ^ (8 - i))) [0..<9]
     in if n = 0 then [] else ''.'' @ rev (dropWhile (\<lambda>c. c = CHR ''0'') (rev ds)))"

definition formatRFC3339 :: "time \<Rightarrow> string" where
  "formatRFC3339 t = format_civil (civil_of_time t) @ ''T'' @ formatClock t @ ''Z''"

definition formatRFC3339Nano :: "time \<Rightarrow> string" where
  "formatRFC3339Nano t =
     format_civil (civil_of_time t) @ ''T'' @ formatClock t @ formatFraction t @ ''Z''"

definition formatOptionalTime :: "time option \<Rightarrow> string" where
  "formatOptionalTime v = (case v of None \<Rightarrow> [] | Some t \<Rightarrow> if t = 0 then [] else formatRFC3339 t)"

definition dateOnlyUTC :: "time \<Rightarrow> time" where
  "dateOnlyUTC t = (t div day_ns) * day_ns"

section \<open>Days and civil dates\<close>

lemma div_step:
  assumes "0 < (k::int)"
  shows "y div k = (y - 1) div k + (if y mod k = 0 then 1 else 0)"
proof -
  define q r where "q = (y - 1) div k" and "r = (y - 1) mod k"
  have y: "y = (r + 1) + q * k" and r: "0 \<le> r" "r < k"
    using assms div_mult_mod_eq [of "y - 1" k] by (simp_all add: q_def r_def algebra_simps)
  have "y div k = (r + 1) div k + q" and m: "y mod k = (r + 1) mod k"
    using assms by (simp_all add: y)
  moreover have "(r + 1) div k = (if (r + 1) mod k = 0 then 1 else 0)"
    using r by (cases "r + 1 = k") (auto simp: div_pos_pos_trivial mod_pos_pos_trivial)
  ultimately show ?thesis unfolding m q_def by linarith
qed

lemma linear_year_step:
  assumes "p = a + i" and "q = b + j" and "r = c + k"
  shows "365 * y + p - q + r = 365 * (y - 1) + a - b + c + 365 + i - j + (k :: int)"
  using assms by simp

lemma leap_year_length: "days_before_year (y + 1) = days_before_year y + (if leap y then 366 else 365)"
proof -
  have m: "y mod 100 = 0 \<Longrightarrow> y mod 4 = 0" "y mod 400 = 0 \<Longrightarrow> y mod 100 = 0"
    using mod_mod_cancel [of 4 100 y] mod_mod_cancel [of 100 400 y] by simp_all
  have "days_before_year (y + 1) = 365 * y + y div 4 - y div 100 + y div 400"
    by (simp add: days_before_year_def)
  also have "\<dots> = days_before_year y + 365 + (if y mod 4 = 0 then 1 else 0)
      - (if y mod 100 = 0 then 1 else 0) + (if y mod 400 = 0 then 1 else 0)"
    unfolding days_before_year_def by (rule linear_year_step; rule div_step) simp_all
  also have "\<dots> = days_before_year y + (if leap y then 366 else 365)"
    using m unfolding leap_def
    by (cases "y mod 4 = 0"; cases "y mod 100 = 0"; cases "y mod 400 = 0") (simp_all only:, simp_all)
  finally show ?thesis .
qed

lemma days_before_year_mono: "y \<le> z \<Longrightarrow> days_before_year y \<le> days_before_year z"
proof (induction "nat (z - y)" arbitrary: z)
  case (Suc n)
  then have "days_before_year y \<le> days_before_year (z - 1)" by simp
  moreover have "days_before_year (z - 1) \<le> days_before_year z"
    using leap_year_length [of "z - 1"] by simp
  ultimately show ?case by simp
qed simp

lemma div_scaled: "0 < (k::int) \<Longrightarrow> k * (a div k) \<le> a \<and> a < k * (a div k) + k"
  using mult_div_mod_eq [of k a] pos_mod_bound [of k a] pos_mod_sign [of k a] by linarith

lemma days_before_year_bounds:
  "400 * days_before_year y < 146097 * (y - 1) + 400"
  "146097 * (y - 1) - 800 < 400 * days_before_year y"
  using div_scaled [of 4 "y - 1"] div_scaled [of 100 "y - 1"] div_scaled [of 400 "y - 1"]
  by (simp_all add: days_before_year_def)

text \<open>The year of a day is the one whose days it is among.\<close>

lemma year_of_spec:
  assumes "days_before_year y \<le> n" and "n < days_before_year (y + 1)"
  shows "year_of n = y"
proof -
  define e where "e = 400 * n div 146097 + 1"
  have e: "146097 * (e - 1) \<le> 400 * n" "400 * n < 146097 * e"
    using div_scaled [of 146097 "400 * n"] by (simp_all add: e_def)
  have lo: "days_before_year e \<le> n" and hi: "n < days_before_year (e + 1 + 1)"
    using e days_before_year_bounds(1) [of e] days_before_year_bounds(2) [of "e + 1 + 1"]
    by (simp_all add: algebra_simps)
  have uniq: "z = y" if "days_before_year z \<le> n" "n < days_before_year (z + 1)" for z
    using that assms days_before_year_mono [of "z + 1" y] days_before_year_mono [of "y + 1" z]
    by linarith
  show ?thesis
    unfolding year_of_def Let_def e_def [symmetric]
    using lo hi uniq [of e] uniq [of "e + 1"] by (cases "days_before_year (e + 1) \<le> n") auto
qed

lemma days_in_month_pos [simp]: "0 < days_in_month y m"
  by (simp add: days_in_month_def)

lemma days_from_month_nonneg [simp]: "0 \<le> days_from_month y m k"
proof (induction y m k rule: days_from_month.induct)
  case (1 y m k)
  then show ?case
    using days_in_month_pos [of y m] by (subst days_from_month.simps) (simp add: add_nonneg_nonneg less_imp_le)
qed

lemma month_of_spec:
  assumes "m \<le> k" and "k \<le> 12" and "0 \<le> d" and "d < days_in_month y k"
  shows "month_of y m (days_from_month y m k + d) = (k, d + 1)"
  using assms(1)
proof (induction "nat (k - m)" arbitrary: m)
  case 0
  then have "m = k" by simp
  then show ?case
    using assms by (simp add: month_of.simps [of y k d] days_from_month.simps [of y k k])
next
  case (Suc n)
  then have lt: "m < k" and n: "n = nat (k - (m + 1))" "m + 1 \<le> k" by simp_all
  have "month_of y m (days_from_month y m k + d)
      = month_of y (m + 1) (days_from_month y (m + 1) k + d)"
  proof -
    have "\<not> (12 \<le> m \<or> days_from_month y m k + d < days_in_month y m)"
      using lt assms days_from_month.simps [of y m k] by (simp add: not_less add_nonneg_nonneg)
    then show ?thesis
      using lt by (simp add: month_of.simps [of y m] days_from_month.simps [of y m k])
  qed
  with Suc(1) [OF n] show ?case by simp
qed

lemma days_from_month_step:
  "m < k \<Longrightarrow> days_from_month y m k = days_in_month y m + days_from_month y (m + 1) k"
  by (subst days_from_month.simps) simp

lemma days_from_month_13: "days_from_month y 1 13 = (if leap y then 366 else 365)"
  by (simp add: days_from_month_step days_in_month_def days_from_month.simps [of y 13 13])

lemma days_from_month_split:
  "m \<le> k \<Longrightarrow> k \<le> j \<Longrightarrow> days_from_month y m j = days_from_month y m k + days_from_month y k j"
proof (induction "nat (k - m)" arbitrary: m)
  case 0
  then have "m = k" by simp
  then show ?case by (simp add: days_from_month.simps [of y k k])
next
  case (Suc n)
  then show ?case by (simp add: days_from_month_step [of m])
qed

lemma civil_of_days_of_civil:
  assumes "1 \<le> m" "m \<le> 12" "1 \<le> d" "d \<le> days_in_month y m"
  shows "civil_of_days (days_of_civil y m d) = (y, m, d)"
proof -
  let ?n = "days_of_civil y m d"
  have "days_from_month y 1 m + days_in_month y m \<le> days_from_month y 1 13"
    using assms days_from_month_split [of 1 m 13 y] days_from_month_step [of m 13 y]
      days_from_month_nonneg [of y "m + 1" 13] by simp
  then have "days_before_year y \<le> ?n" and "?n < days_before_year (y + 1)"
    using assms days_from_month_nonneg [of y 1 m] leap_year_length [of y]
    by (auto simp: days_of_civil_def days_from_month_13)
  then have y: "year_of ?n = y" by (rule year_of_spec)
  have "month_of y 1 (days_from_month y 1 m + (d - 1)) = (m, d)"
    using month_of_spec [of 1 m "d - 1" y] assms by simp
  then show ?thesis
    using y unfolding civil_of_days_def Let_def by (simp add: days_of_civil_def)
qed

section \<open>Parsing and printing dates\<close>

lemma digit_val_bounds: "is_digit c \<Longrightarrow> 0 \<le> digit_val c \<and> digit_val c \<le> 9"
  by (simp add: is_digit_def digit_val_def Let_def)

lemma digit_char_val: "is_digit c \<Longrightarrow> k mod 10 = digit_val c \<Longrightarrow> digit_char k = c"
  by (simp add: is_digit_def digit_char_def digit_val_def Let_def)

lemma digits_of_number:
  assumes "0 \<le> a" "a \<le> 9" "0 \<le> b" "b \<le> 9" "0 \<le> c" "c \<le> 9" "0 \<le> (d::int)" "d \<le> 9"
  shows "(1000 * a + 100 * b + 10 * c + d) div 1000 mod 10 = a"
    "(1000 * a + 100 * b + 10 * c + d) div 100 mod 10 = b"
    "(1000 * a + 100 * b + 10 * c + d) div 10 mod 10 = c"
    "(1000 * a + 100 * b + 10 * c + d) mod 10 = d"
proof -
  have *: "(k * q + r) div k = q" "(k * q + r) mod k = r" if "0 \<le> r" "r < k" for k q r :: int
    using that by simp_all
  have "(1000 * a + 100 * b + 10 * c + d) div 1000 = a"
    using *(1) [of "100 * b + 10 * c + d" 1000 a] assms by (simp add: add.assoc)
  then show "(1000 * a + 100 * b + 10 * c + d) div 1000 mod 10 = a" using assms by simp
  have "(1000 * a + 100 * b + 10 * c + d) div 100 = 10 * a + b"
    using *(1) [of "10 * c + d" 100 "10 * a + b"] assms by (simp add: algebra_simps)
  then show "(1000 * a + 100 * b + 10 * c + d) div 100 mod 10 = b" using *(2) [of b 10 a] assms by simp
  have "(1000 * a + 100 * b + 10 * c + d) div 10 = 10 * (10 * a + b) + c"
    using *(1) [of d 10 "10 * (10 * a + b) + c"] assms by (simp add: algebra_simps)
  then show "(1000 * a + 100 * b + 10 * c + d) div 10 mod 10 = c"
    using *(2) [of c 10 "10 * a + b"] assms by simp
  show "(1000 * a + 100 * b + 10 * c + d) mod 10 = d"
    using *(2) [of d 10 "10 * (10 * a + b) + c"] assms by (simp add: algebra_simps)
qed

text \<open>
  A date the API accepts is printed back as it was sent, white space apart. The one exception is
  January 1 of the year 1, Go's zero time, which \<open>formatDate\<close> prints as the empty string.
\<close>

lemma formatDate_parseDate:
  assumes p: "parseDate s = Some t" and nz: "t \<noteq> 0"
  shows "formatDate t = TrimSpace s"
proof -
  let ?u = "TrimSpace s"
  have len: "length ?u = 10" and dash: "?u ! 4 = CHR ''-''" "?u ! 7 = CHR ''-''"
    and dig: "is_digit (?u ! 0)" "is_digit (?u ! 1)" "is_digit (?u ! 2)" "is_digit (?u ! 3)"
      "is_digit (?u ! 5)" "is_digit (?u ! 6)" "is_digit (?u ! 8)" "is_digit (?u ! 9)"
    using p by (auto simp: parseDate_def Let_def split: if_splits)
  define y m d where "y = 1000 * digit_val (?u ! 0) + 100 * digit_val (?u ! 1) + 10 * digit_val (?u ! 2) + digit_val (?u ! 3)"
    and "m = 10 * digit_val (?u ! 5) + digit_val (?u ! 6)" and "d = 10 * digit_val (?u ! 8) + digit_val (?u ! 9)"
  have r: "1 \<le> m" "m \<le> 12" "1 \<le> d" "d \<le> days_in_month y m" and t: "t = days_of_civil y m d * day_ns"
    using p len dash dig unfolding parseDate_def Let_def y_def m_def d_def by (auto split: if_splits)
  have "civil_of_time t = (y, m, d)"
    using civil_of_days_of_civil [OF r] by (simp add: civil_of_time_def t day_ns_def)
  moreover have "format_civil (y, m, d) = map (\<lambda>i. ?u ! i) [0, 1, 2, 3, 4, 5, 6, 7, 8, 9]"
  proof -
    note b = dig [THEN digit_val_bounds]
    note dy = digits_of_number [OF b(1)[THEN conjunct1] b(1)[THEN conjunct2] b(2)[THEN conjunct1] b(2)[THEN conjunct2]
        b(3)[THEN conjunct1] b(3)[THEN conjunct2] b(4)[THEN conjunct1] b(4)[THEN conjunct2], folded y_def]
    have dm: "m div 10 mod 10 = digit_val (?u ! 5)" "m mod 10 = digit_val (?u ! 6)"
      and dd: "d div 10 mod 10 = digit_val (?u ! 8)" "d mod 10 = digit_val (?u ! 9)"
      using b by (simp_all add: m_def d_def)
    show ?thesis
      unfolding format_civil_def prod.case
      by (simp only: digit_char_val [OF dig(1) dy(1)] digit_char_val [OF dig(2) dy(2)]
          digit_char_val [OF dig(3) dy(3)] digit_char_val [OF dig(4) dy(4)]
          digit_char_val [OF dig(5) dm(1)] digit_char_val [OF dig(6) dm(2)]
          digit_char_val [OF dig(7) dd(1)] digit_char_val [OF dig(8) dd(2)] dash list.map)
  qed
  moreover have "map (\<lambda>i. ?u ! i) [0, 1, 2, 3, 4, 5, 6, 7, 8, 9] = ?u"
    using len by (intro nth_equalityI) (auto simp: less_Suc_eq numeral_eq_Suc nth_Cons')
  ultimately show ?thesis using nz by (simp add: formatDate_def)
qed

lemma dateOnlyUTC_idem [simp]: "dateOnlyUTC (dateOnlyUTC t) = dateOnlyUTC t"
  by (simp add: dateOnlyUTC_def day_ns_def)

lemma parseDate_midnight: "parseDate s = Some t \<Longrightarrow> dateOnlyUTC t = t"
  by (auto simp: parseDate_def dateOnlyUTC_def day_ns_def Let_def split: if_splits)

end
