(* ===== verification/Schema.thy ===== *)
theory Schema
  imports Dates
begin

text \<open>
  The tables of \<open>backend/internal/db/models.go\<close>, one record per struct with the struct's columns
  in its order (the embedded \<open>BaseModel\<close> first). Associations are not stored: a query that
  preloads one looks it up. Field names carry a two-letter prefix of their struct. A \<open>zero\<close> row is
  Go's zero value, from which a composite literal sets the fields it names. The store is the list
  of rows of every table; beside it are the errors the services return and what a request brings
  from outside: its tenant, the clock, the identifiers \<open>ids.New\<close> hands out, the database's
  \<open>SUM\<close> aggregate, whose rounding is the engine's, and the shortest decimal text of a number, which
  the JSON encoder writes, and the order in which a Go map of these keys is ranged over.
\<close>

section \<open>Rows\<close>

record Tenant =
  tn_ID :: string
  tn_CreatedAt :: time
  tn_UpdatedAt :: time
  tn_Code :: string
  tn_Name :: string
  tn_Description :: string
  tn_Active :: bool

record TenantSetting =
  ts_ID :: string
  ts_CreatedAt :: time
  ts_UpdatedAt :: time
  ts_TenantID :: string
  ts_Key :: string
  ts_Value :: string
  ts_Description :: string
  ts_UpdatedBy :: string

record CollaboratorJourney =
  cj_ID :: string
  cj_CreatedAt :: time
  cj_UpdatedAt :: time
  cj_TenantID :: string
  cj_MembershipID :: "string option"
  cj_PersonID :: string
  cj_JourneyStartDate :: time
  cj_DefaultEndDate :: time
  cj_ExtensionDays :: int
  cj_ProjectedEndDate :: time
  cj_PaymentMethodID :: string
  cj_PaymentValue :: float64
  cj_FixedMonthlyBRLAmount :: "float64 option"
  cj_DailyBRLAmount :: "float64 option"
  cj_GoldCommissionPercent :: "float64 option"
  cj_TimeOffGoldSplitPercent :: "float64 option"
  cj_SickDayOffReplacementGoldGrams :: "float64 option"
  cj_PlanningAvailability :: string
  cj_SectorID :: string
  cj_LocationID :: string
  cj_TaskID :: string
  cj_StatusID :: string
  cj_Notes :: string
  cj_ClosedAt :: "time option"

record ReferenceData =
  rd_ID :: string
  rd_CreatedAt :: time
  rd_UpdatedAt :: time
  rd_TenantID :: string
  rd_Type :: string
  rd_Code :: string
  rd_Label :: string
  rd_Description :: string
  rd_Active :: bool
  rd_SortOrder :: int
  rd_MetadataJSON :: string

record GlobalPerson =
  gp_ID :: string
  gp_CreatedAt :: time
  gp_UpdatedAt :: time
  gp_FirstName :: string
  gp_LastName :: string
  gp_Nickname :: string
  gp_CPF :: string
  gp_RG :: string
  gp_Cellular :: string
  gp_Email :: string
  gp_Street1 :: string
  gp_Street2 :: string
  gp_State :: string
  gp_City :: string
  gp_CEP :: string
  gp_Country :: string
  gp_BankName :: string
  gp_BankNumber :: string
  gp_CheckingAccount :: string
  gp_PIXKey :: "string option"
  gp_EmergencyName :: string
  gp_EmergencyCellular :: string
  gp_EmergencyEmail :: string
  gp_ProfileCompletionStatus :: string
  gp_CanCreateCollaborator :: bool
  gp_OperationalActive :: bool

record PersonTenantMembership =
  pm_ID :: string
  pm_CreatedAt :: time
  pm_UpdatedAt :: time
  pm_TenantID :: string
  pm_PersonID :: string
  pm_StatusID :: string
  pm_Notes :: string
  pm_LegacyPersonID :: "string option"

record Person =
  pe_ID :: string
  pe_CreatedAt :: time
  pe_UpdatedAt :: time
  pe_TenantID :: string
  pe_FirstName :: string
  pe_LastName :: string
  pe_Nickname :: string
  pe_CPF :: string
  pe_RG :: string
  pe_Cellular :: string
  pe_Email :: string
  pe_Street1 :: string
  pe_Street2 :: string
  pe_State :: string
  pe_City :: string
  pe_CEP :: string
  pe_Country :: string
  pe_BankName :: string
  pe_BankNumber :: string
  pe_CheckingAccount :: string
  pe_PIXKey :: "string option"
  pe_EmergencyName :: string
  pe_EmergencyCellular :: string
  pe_EmergencyEmail :: string
  pe_ProfileCompletionStatus :: string
  pe_CanCreateCollaborator :: bool
  pe_StatusID :: string
  pe_Notes :: string

record ExpensePriceListItem =
  pl_ID :: string
  pl_CreatedAt :: time
  pl_UpdatedAt :: time
  pl_TenantID :: string
  pl_ItemType :: string
  pl_Code :: string
  pl_Description :: string
  pl_UnitPriceBRL :: float64
  pl_Active :: bool
  pl_SortOrder :: int
  pl_SupersededPriceListItemID :: "string option"

record GoldPrice =
  gr_ID :: string
  gr_CreatedAt :: time
  gr_UpdatedAt :: time
  gr_TenantID :: string
  gr_PriceDate :: string
  gr_BRLPerGram :: float64
  gr_RecordedBy :: string
  gr_Notes :: string
  gr_Active :: bool

record Expense =
  ex_ID :: string
  ex_CreatedAt :: time
  ex_UpdatedAt :: time
  ex_TenantID :: string
  ex_PersonID :: string
  ex_CollaboratorID :: string
  ex_ExpenseCategoryID :: string
  ex_ValueUnitID :: string
  ex_Amount :: float64
  ex_ExpenseDate :: time
  ex_Description :: string
  ex_Active :: bool
  ex_CancelledAt :: "time option"
  ex_CancelledBy :: string
  ex_CancellationReason :: string
  ex_RecreatedFromExpenseID :: "string option"
  ex_PriceListItemID :: "string option"
  ex_PriceListItemCode :: string
  ex_ItemType :: string
  ex_ItemDescription :: string
  ex_Quantity :: "float64 option"
  ex_UnitPriceBRL :: "float64 option"
  ex_CurrencyCode :: string
  ex_GoldPriceID :: "string option"
  ex_GoldBRLPerGram :: "float64 option"
  ex_GoldPriceDate :: string
  ex_UnitPriceAmount :: "float64 option"
  ex_TotalAmount :: "float64 option"
  ex_CalculationMethod :: string
  ex_CalculationDetailsJSON :: string

record JourneySettlement =
  js_ID :: string
  js_CreatedAt :: time
  js_UpdatedAt :: time
  js_TenantID :: string
  js_CollaboratorID :: string
  js_SettlementType :: string
  js_RequestID :: string
  js_Status :: string
  js_EffectiveDate :: time
  js_BRLAmount :: float64
  js_GoldGramAmount :: float64
  js_Notes :: string
  js_ReasonCode :: string
  js_ReasonText :: string
  js_AuthorizedBy :: string
  js_AuthorizedAt :: "time option"
  js_SecondApprovedBy :: string
  js_SecondApprovedAt :: "time option"
  js_SecondApprovalNotes :: string

record LedgerReceipt =
  lr_ID :: string
  lr_CreatedAt :: time
  lr_UpdatedAt :: time
  lr_TenantID :: string
  lr_PersonID :: string
  lr_CollaboratorID :: string
  lr_LedgerEntryID :: string
  lr_ReceiptNumber :: "string option"
  lr_ReceiptType :: string
  lr_ReceiptPurpose :: string
  lr_PaymentDirection :: string
  lr_AcceptingParty :: string
  lr_Status :: string
  lr_IssuedAt :: "time option"
  lr_IssuedBy :: string
  lr_PrintedAt :: "time option"
  lr_SignedAt :: "time option"
  lr_ReturnedAt :: "time option"
  lr_ReceivedBy :: string
  lr_SignedDocumentRef :: string
  lr_AcceptedAt :: "time option"
  lr_AcceptedBy :: string
  lr_AcceptanceMethod :: string
  lr_CancelledAt :: "time option"
  lr_CancelledBy :: string
  lr_CancellationReason :: string
  lr_Notes :: string

record WorkPeriod =
  wp_ID :: string
  wp_CreatedAt :: time
  wp_UpdatedAt :: time
  wp_TenantID :: string
  wp_WorkDate :: time
  wp_PeriodCode :: string
  wp_Name :: string
  wp_StartsAt :: time
  wp_EndsAt :: time
  wp_Status :: string
  wp_InformedAt :: "time option"
  wp_AccrualOpenedAt :: "time option"
  wp_ClosedAt :: "time option"

record WorkPeriodAssignment =
  wa_ID :: string
  wa_CreatedAt :: time
  wa_UpdatedAt :: time
  wa_TenantID :: string
  wa_WorkPeriodID :: string
  wa_CollaboratorID :: string
  wa_PlannedStatus :: string
  wa_PlanningAvailability :: string
  wa_ActualStatus :: "string option"
  wa_ReplacementForAssignmentID :: "string option"
  wa_SectorID :: string
  wa_LocationID :: string
  wa_TaskID :: string
  wa_Active :: bool

record GoldProductionEntry =
  ge_ID :: string
  ge_CreatedAt :: time
  ge_UpdatedAt :: time
  ge_TenantID :: string
  ge_WorkPeriodID :: string
  ge_LocationID :: string
  ge_ProductionDate :: time
  ge_GoldGramsProduced :: float64
  ge_Active :: bool
  ge_Notes :: string

record AccrualRun =
  ar_ID :: string
  ar_CreatedAt :: time
  ar_UpdatedAt :: time
  ar_TenantID :: string
  ar_WorkPeriodID :: string
  ar_Status :: string
  ar_AccrualDate :: time
  ar_Notes :: string

record AccrualItem =
  ai_ID :: string
  ai_CreatedAt :: time
  ai_UpdatedAt :: time
  ai_TenantID :: string
  ai_PersonID :: string
  ai_AccrualRunID :: string
  ai_WorkPeriodID :: string
  ai_WorkPeriodAssignmentID :: "string option"
  ai_CollaboratorID :: string
  ai_CalculationType :: string
  ai_Direction :: string
  ai_BRLAmount :: "float64 option"
  ai_GoldGramAmount :: "float64 option"
  ai_Status :: string
  ai_PendingReason :: string
  ai_Description :: string

record LedgerEntry =
  le_ID :: string
  le_CreatedAt :: time
  le_UpdatedAt :: time
  le_TenantID :: string
  le_PersonID :: string
  le_CollaboratorID :: string
  le_ValueUnitID :: string
  le_EntryType :: string
  le_Direction :: string
  le_Amount :: float64
  le_EffectiveDate :: time
  le_SourceType :: string
  le_SourceID :: string
  le_Description :: string
  le_Active :: bool
  le_CorrectionType :: string
  le_RelatedEntryID :: "string option"
  le_CorrectionReason :: string
  le_CorrectionReasonCode :: string
  le_CorrectionReasonText :: string
  le_AuthorizedBy :: string
  le_AuthorizedAt :: "time option"
  le_SecondApprovedBy :: string
  le_SecondApprovedAt :: "time option"
  le_SecondApprovalNotes :: string

section \<open>Zero values\<close>

definition zeroTenantSetting :: TenantSetting where
  "zeroTenantSetting = \<lparr>
     ts_ID = [], ts_CreatedAt = 0, ts_UpdatedAt = 0, ts_TenantID = [], ts_Key = [], ts_Value =
     [], ts_Description = [], ts_UpdatedBy = []\<rparr>"

definition zeroReferenceData :: ReferenceData where
  "zeroReferenceData = \<lparr>
     rd_ID = [], rd_CreatedAt = 0, rd_UpdatedAt = 0, rd_TenantID = [], rd_Type = [], rd_Code =
     [], rd_Label = [], rd_Description = [], rd_Active = False, rd_SortOrder = 0,
     rd_MetadataJSON = []\<rparr>"

definition zeroGlobalPerson :: GlobalPerson where
  "zeroGlobalPerson = \<lparr>
     gp_ID = [], gp_CreatedAt = 0, gp_UpdatedAt = 0, gp_FirstName = [], gp_LastName = [],
     gp_Nickname = [], gp_CPF = [], gp_RG = [], gp_Cellular = [], gp_Email = [], gp_Street1 =
     [], gp_Street2 = [], gp_State = [], gp_City = [], gp_CEP = [], gp_Country = [], gp_BankName
     = [], gp_BankNumber = [], gp_CheckingAccount = [], gp_PIXKey = None, gp_EmergencyName = [],
     gp_EmergencyCellular = [], gp_EmergencyEmail = [], gp_ProfileCompletionStatus = [],
     gp_CanCreateCollaborator = False, gp_OperationalActive = False\<rparr>"

definition zeroPersonTenantMembership :: PersonTenantMembership where
  "zeroPersonTenantMembership = \<lparr>
     pm_ID = [], pm_CreatedAt = 0, pm_UpdatedAt = 0, pm_TenantID = [], pm_PersonID = [],
     pm_StatusID = [], pm_Notes = [], pm_LegacyPersonID = None\<rparr>"

definition zeroPerson :: Person where
  "zeroPerson = \<lparr>
     pe_ID = [], pe_CreatedAt = 0, pe_UpdatedAt = 0, pe_TenantID = [], pe_FirstName = [],
     pe_LastName = [], pe_Nickname = [], pe_CPF = [], pe_RG = [], pe_Cellular = [], pe_Email =
     [], pe_Street1 = [], pe_Street2 = [], pe_State = [], pe_City = [], pe_CEP = [], pe_Country
     = [], pe_BankName = [], pe_BankNumber = [], pe_CheckingAccount = [], pe_PIXKey = None,
     pe_EmergencyName = [], pe_EmergencyCellular = [], pe_EmergencyEmail = [],
     pe_ProfileCompletionStatus = [], pe_CanCreateCollaborator = False, pe_StatusID = [],
     pe_Notes = []\<rparr>"

definition zeroCollaboratorJourney :: CollaboratorJourney where
  "zeroCollaboratorJourney = \<lparr>
     cj_ID = [], cj_CreatedAt = 0, cj_UpdatedAt = 0, cj_TenantID = [], cj_MembershipID = None,
     cj_PersonID = [], cj_JourneyStartDate = 0, cj_DefaultEndDate = 0, cj_ExtensionDays = 0,
     cj_ProjectedEndDate = 0, cj_PaymentMethodID = [], cj_PaymentValue = 0,
     cj_FixedMonthlyBRLAmount = None, cj_DailyBRLAmount = None, cj_GoldCommissionPercent = None,
     cj_TimeOffGoldSplitPercent = None, cj_SickDayOffReplacementGoldGrams = None,
     cj_PlanningAvailability = [], cj_SectorID = [], cj_LocationID = [], cj_TaskID = [],
     cj_StatusID = [], cj_Notes = [], cj_ClosedAt = None\<rparr>"

definition zeroExpense :: Expense where
  "zeroExpense = \<lparr>
     ex_ID = [], ex_CreatedAt = 0, ex_UpdatedAt = 0, ex_TenantID = [], ex_PersonID = [],
     ex_CollaboratorID = [], ex_ExpenseCategoryID = [], ex_ValueUnitID = [], ex_Amount = 0,
     ex_ExpenseDate = 0, ex_Description = [], ex_Active = False, ex_CancelledAt = None,
     ex_CancelledBy = [], ex_CancellationReason = [], ex_RecreatedFromExpenseID = None,
     ex_PriceListItemID = None, ex_PriceListItemCode = [], ex_ItemType = [], ex_ItemDescription
     = [], ex_Quantity = None, ex_UnitPriceBRL = None, ex_CurrencyCode = [], ex_GoldPriceID =
     None, ex_GoldBRLPerGram = None, ex_GoldPriceDate = [], ex_UnitPriceAmount = None,
     ex_TotalAmount = None, ex_CalculationMethod = [], ex_CalculationDetailsJSON = []\<rparr>"

definition zeroJourneySettlement :: JourneySettlement where
  "zeroJourneySettlement = \<lparr>
     js_ID = [], js_CreatedAt = 0, js_UpdatedAt = 0, js_TenantID = [], js_CollaboratorID = [],
     js_SettlementType = [], js_RequestID = [], js_Status = [], js_EffectiveDate = 0,
     js_BRLAmount = 0, js_GoldGramAmount = 0, js_Notes = [], js_ReasonCode = [], js_ReasonText =
     [], js_AuthorizedBy = [], js_AuthorizedAt = None, js_SecondApprovedBy = [],
     js_SecondApprovedAt = None, js_SecondApprovalNotes = []\<rparr>"

definition zeroLedgerReceipt :: LedgerReceipt where
  "zeroLedgerReceipt = \<lparr>
     lr_ID = [], lr_CreatedAt = 0, lr_UpdatedAt = 0, lr_TenantID = [], lr_PersonID = [],
     lr_CollaboratorID = [], lr_LedgerEntryID = [], lr_ReceiptNumber = None, lr_ReceiptType =
     [], lr_ReceiptPurpose = [], lr_PaymentDirection = [], lr_AcceptingParty = [], lr_Status =
     [], lr_IssuedAt = None, lr_IssuedBy = [], lr_PrintedAt = None, lr_SignedAt = None,
     lr_ReturnedAt = None, lr_ReceivedBy = [], lr_SignedDocumentRef = [], lr_AcceptedAt = None,
     lr_AcceptedBy = [], lr_AcceptanceMethod = [], lr_CancelledAt = None, lr_CancelledBy = [],
     lr_CancellationReason = [], lr_Notes = []\<rparr>"

definition zeroWorkPeriod :: WorkPeriod where
  "zeroWorkPeriod = \<lparr>
     wp_ID = [], wp_CreatedAt = 0, wp_UpdatedAt = 0, wp_TenantID = [], wp_WorkDate = 0,
     wp_PeriodCode = [], wp_Name = [], wp_StartsAt = 0, wp_EndsAt = 0, wp_Status = [],
     wp_InformedAt = None, wp_AccrualOpenedAt = None, wp_ClosedAt = None\<rparr>"

definition zeroAccrualRun :: AccrualRun where
  "zeroAccrualRun = \<lparr>
     ar_ID = [], ar_CreatedAt = 0, ar_UpdatedAt = 0, ar_TenantID = [], ar_WorkPeriodID = [],
     ar_Status = [], ar_AccrualDate = 0, ar_Notes = []\<rparr>"

definition zeroAccrualItem :: AccrualItem where
  "zeroAccrualItem = \<lparr>
     ai_ID = [], ai_CreatedAt = 0, ai_UpdatedAt = 0, ai_TenantID = [], ai_PersonID = [],
     ai_AccrualRunID = [], ai_WorkPeriodID = [], ai_WorkPeriodAssignmentID = None,
     ai_CollaboratorID = [], ai_CalculationType = [], ai_Direction = [], ai_BRLAmount = None,
     ai_GoldGramAmount = None, ai_Status = [], ai_PendingReason = [], ai_Description = []\<rparr>"

definition zeroLedgerEntry :: LedgerEntry where
  "zeroLedgerEntry = \<lparr>
     le_ID = [], le_CreatedAt = 0, le_UpdatedAt = 0, le_TenantID = [], le_PersonID = [],
     le_CollaboratorID = [], le_ValueUnitID = [], le_EntryType = [], le_Direction = [],
     le_Amount = 0, le_EffectiveDate = 0, le_SourceType = [], le_SourceID = [], le_Description =
     [], le_Active = False, le_CorrectionType = [], le_RelatedEntryID = None,
     le_CorrectionReason = [], le_CorrectionReasonCode = [], le_CorrectionReasonText = [],
     le_AuthorizedBy = [], le_AuthorizedAt = None, le_SecondApprovedBy = [], le_SecondApprovedAt
     = None, le_SecondApprovalNotes = []\<rparr>"

section \<open>Errors\<close>

text \<open>
  The sentinel errors of the packages, \<open>gorm.ErrRecordNotFound\<close>, a \<open>ValidationError\<close> with its
  map of fields, and an error of the database (a violated constraint or a trigger's abort) with
  the text SQLite reports.
\<close>

datatype app_error =
    ErrRecordNotFound
  | ValidationError "(string \<times> string) list"
  | DBError string
  | ErrFinancialOwnerMissing
  | ErrAssignmentMembershipMissing
  | ErrLedgerCorrectionDisabled
  | ErrLedgerCorrectionForbidden
  | ErrLedgerEntryAlreadyReversed
  | ErrLedgerEntryNotCorrectable
  | ErrLedgerSettlementDisabled
  | ErrLedgerSettlementForbidden
  | ErrNoPositiveGoldBalance
  | ErrPayoutExceedsAvailableBalance
  | ErrNoTenantOwedBalance
  | ErrNoCollaboratorOwedBalance
  | ErrJourneyAlreadyClosed
  | ErrJourneyCloseBlocked
  | ErrDebitReceiptObligationMissing
  | ErrFinalSettlementReceiptObligationMissing
  | ErrReceiptCancelled
  | ErrReceiptAlreadyReturned
  | ErrReceiptAcceptancePartyMismatch
  | ErrReceiptAlreadyAccepted
  | ErrReceiptNotInAppAcceptable
  | ErrReceiptRequiresInAppAcceptance
  | ErrExpenseReceiptObligationMissing
  | ErrExpenseReceiptCancellationIncomplete
  | ErrTenantReactivationRequired
  | ErrApplicationSecuritySuspended

section \<open>The store and the environment of a request\<close>

record store =
  Tenants :: "Tenant list"
  TenantSettings :: "TenantSetting list"
  References :: "ReferenceData list"
  GlobalPeople :: "GlobalPerson list"
  Memberships :: "PersonTenantMembership list"
  People :: "Person list"
  Journeys :: "CollaboratorJourney list"
  PriceListItems :: "ExpensePriceListItem list"
  GoldPrices :: "GoldPrice list"
  Expenses :: "Expense list"
  Settlements :: "JourneySettlement list"
  Receipts :: "LedgerReceipt list"
  WorkPeriods :: "WorkPeriod list"
  Assignments :: "WorkPeriodAssignment list"
  GoldProduction :: "GoldProductionEntry list"
  AccrualRuns :: "AccrualRun list"
  AccrualItems :: "AccrualItem list"
  Ledger :: "LedgerEntry list"
  IdsUsed :: nat

type_synonym 'a app = "(store, app_error, 'a) oper"

record env =
  ctxTenant :: "string option"
  Now :: time
  NewID :: "nat \<Rightarrow> string"
  SumAgg :: "float64 list \<Rightarrow> float64"
  FormatFloat :: "float64 \<Rightarrow> string"
  MapOrder :: "string list \<Rightarrow> string list"

text \<open>\<open>tenantctx.TenantID\<close>: the tenant of the request's context, or the default tenant.\<close>

definition TenantID :: "env \<Rightarrow> string" where
  "TenantID E = (case ctxTenant E of
      Some v \<Rightarrow> if TrimSpace v \<noteq> [] then TrimSpace v else ''default''
    | None \<Rightarrow> ''default'')"

text \<open>\<open>ids.New()\<close>: each call takes the next identifier of the generator.\<close>

definition newID :: "env \<Rightarrow> string app" where
  "newID E = (\<lambda>s. (Inr (NewID E (IdsUsed s)), s\<lparr>IdsUsed := Suc (IdsUsed s)\<rparr>))"

lemma newID_run [simp]: "newID E s = (Inr (NewID E (IdsUsed s)), s\<lparr>IdsUsed := Suc (IdsUsed s)\<rparr>)"
  by (simp add: newID_def)

text \<open>
  The clean-up of the fields of a \<open>ValidationError\<close>: \<open>fields[k] = v\<close> on a Go map, kept as an
  association list, and a check that adds a field.
\<close>

definition check :: "bool \<Rightarrow> string \<Rightarrow> string \<Rightarrow> (string \<times> string) list \<Rightarrow> (string \<times> string) list" where
  "check bad k v fs = (if bad then AList.update k v fs else fs)"

definition validated :: "(string \<times> string) list \<Rightarrow> app_error + unit" where
  "validated fs = (if fs = [] then Inr () else Inl (ValidationError fs))"

lemma AList_update_nonempty [simp]: "AList.update k v fs \<noteq> []"
  by (cases fs) auto

lemma check_Nil [simp]: "check bad k v fs = [] \<longleftrightarrow> \<not> bad \<and> fs = []"
  by (simp add: check_def)

lemma check_False [simp]: "check False k v fs = fs"
  by (simp add: check_def)

lemma validated_ok [simp]: "validated fs = Inr u \<longleftrightarrow> fs = []"
  by (simp add: validated_def)

end
