(* ===== verification/LedgerStore.thy ===== *)
theory LedgerStore
  imports Schema
begin

text \<open>
  The writes of the ledger, its receipts, the settlements and the closing of a journey, as the
  database performs them: the defaults GORM fills in, the triggers and constraints of the schema
  (\<open>backend/internal/db/ledger_receipt_status_guards.go\<close>,
  \<open>ledger_receipt_acceptance_guards.go\<close>, \<open>journey_zero_balance_closure_guard.go\<close> and the migrations
  000057 to 000061) and the \<open>AfterCreate\<close> hook of a ledger entry
  (\<open>backend/internal/db/ledger_receipt_hook.go\<close>) that creates its receipt.

  The relations at the end are kept by every one of these writes: the ledger only grows, rows of
  other tenants stay, and an entry that owes a receipt has exactly one.
\<close>

section \<open>Constraints\<close>

text \<open>
  A trigger's \<open>SELECT RAISE(ABORT, msg) WHERE cond\<close> and a violated constraint: the statement fails
  with the message of the first condition that holds.
\<close>

definition abort_if :: "(bool \<times> string) list \<Rightarrow> app_error + unit" where
  "abort_if gs = (case List.find fst gs of None \<Rightarrow> Inr () | Some g \<Rightarrow> Inl (DBError (snd g)))"

definition tenant_exists :: "store \<Rightarrow> string \<Rightarrow> bool" where
  "tenant_exists s T \<longleftrightarrow> SqlTrim T \<noteq> [] \<and> list_ex (\<lambda>t. tn_ID t = T) (Tenants s)"

definition journey_in :: "store \<Rightarrow> string \<Rightarrow> string \<Rightarrow> bool" where
  "journey_in s T c \<longleftrightarrow> list_ex (\<lambda>j. cj_ID j = c \<and> cj_TenantID j = T) (Journeys s)"

definition entry_in :: "store \<Rightarrow> string \<Rightarrow> string \<Rightarrow> bool" where
  "entry_in s T e \<longleftrightarrow> list_ex (\<lambda>l. le_ID l = e \<and> le_TenantID l = T) (Ledger s)"

definition value_unit_in :: "store \<Rightarrow> string \<Rightarrow> string \<Rightarrow> bool" where
  "value_unit_in s T u \<longleftrightarrow>
     list_ex (\<lambda>r. rd_ID r = u \<and> rd_TenantID r = T \<and> rd_Type r = ''value_unit'') (References s)"

definition owns_journey :: "store \<Rightarrow> string \<Rightarrow> string \<Rightarrow> string \<Rightarrow> bool" where
  "owns_journey s T c p \<longleftrightarrow>
     list_ex (\<lambda>j. cj_ID j = c \<and> cj_TenantID j = T \<and>
       list_ex (\<lambda>m. cj_MembershipID j = Some (pm_ID m) \<and> pm_TenantID m = cj_TenantID j \<and>
                    pm_PersonID m = p) (Memberships s)) (Journeys s)"

section \<open>Receipts\<close>

text \<open>
  The conditions on a row of \<open>ledger_receipts\<close> that both the insert and the update triggers check,
  then those of each statement alone.
\<close>

definition receipt_status_guards :: "LedgerReceipt \<Rightarrow> (bool \<times> string) list" where
  "receipt_status_guards r = [
     (lr_Status r = ''ISSUED'' \<and> (lr_IssuedAt r = None \<or> SqlTrim (lr_IssuedBy r) = []),
        ''ledger receipt ISSUED status requires issued_at and issued_by''),
     (lr_Status r = ''PRINTED'' \<and>
        (lr_IssuedAt r = None \<or> SqlTrim (lr_IssuedBy r) = [] \<or> lr_PrintedAt r = None),
        ''ledger receipt PRINTED status requires issued_at, issued_by, and printed_at''),
     (lr_Status r = ''SIGNED'' \<and> lr_SignedAt r = None,
        ''ledger receipt SIGNED status requires signed_at''),
     (lr_Status r = ''RETURNED'' \<and>
        (lr_SignedAt r = None \<or> lr_ReturnedAt r = None \<or> SqlTrim (lr_ReceivedBy r) = [] \<or>
         SqlTrim (lr_SignedDocumentRef r) = []),
        ''ledger receipt RETURNED status requires signed_at, returned_at, received_by, and signed_document_ref''),
     (lr_Status r = ''CANCELLED'' \<and>
        (lr_CancelledAt r = None \<or> SqlTrim (lr_CancelledBy r) = [] \<or>
         SqlTrim (lr_CancellationReason r) = []),
        ''ledger receipt CANCELLED status requires cancelled_at, cancelled_by, and cancellation_reason'')]"

definition receipt_acceptance_guards :: "LedgerReceipt \<Rightarrow> (bool \<times> string) list" where
  "receipt_acceptance_guards r = [
     (lr_AcceptedAt r \<noteq> None \<and>
        (SqlTrim (lr_AcceptedBy r) = [] \<or> SqlTrim (lr_AcceptanceMethod r) = [] \<or>
         lr_Status r \<noteq> ''RETURNED''),
        ''ledger_receipt_acceptance_incomplete''),
     (\<not> ((lr_ReceiptPurpose r = ''LEDGER_DEBIT'' \<and>
           lr_PaymentDirection r = ''ACCOUNT_DEBIT'' \<and> lr_AcceptingParty r = ''COLLABORATOR'') \<or>
          (lr_ReceiptPurpose r = ''FINAL_SETTLEMENT_TENANT_PAYMENT'' \<and>
           lr_PaymentDirection r = ''TENANT_TO_COLLABORATOR'' \<and>
           lr_AcceptingParty r = ''COLLABORATOR'') \<or>
          (lr_ReceiptPurpose r = ''FINAL_SETTLEMENT_COLLABORATOR_PAYMENT'' \<and>
           lr_PaymentDirection r = ''COLLABORATOR_TO_TENANT'' \<and> lr_AcceptingParty r = ''TENANT'')),
        ''ledger_receipt_direction_invalid'')]"

definition receipt_checks :: "LedgerReceipt \<Rightarrow> (bool \<times> string) list" where
  "receipt_checks r = [
     (lr_ReceiptType r \<noteq> ''LEDGER_DEBIT'', ''CHECK constraint failed: receipt_type''),
     (lr_Status r \<notin> set [''PENDING_ISSUE'', ''ISSUED'', ''PRINTED'', ''SIGNED'', ''RETURNED'', ''CANCELLED''],
        ''CHECK constraint failed: status'')]"

definition receipt_insert_guards :: "store \<Rightarrow> LedgerReceipt \<Rightarrow> (bool \<times> string) list" where
  "receipt_insert_guards s r =
     [(\<not> tenant_exists s (lr_TenantID r), ''tenant_integrity_violation''),
      (\<not> journey_in s (lr_TenantID r) (lr_CollaboratorID r) \<or>
         \<not> entry_in s (lr_TenantID r) (lr_LedgerEntryID r), ''cross_tenant_reference''),
      (SqlTrim (lr_PersonID r) = [], ''ledger_receipt_person_required''),
      (\<not> list_ex (\<lambda>l. le_ID l = lr_LedgerEntryID r \<and> le_TenantID l = lr_TenantID r \<and>
              le_PersonID l = lr_PersonID r \<and> le_CollaboratorID l = lr_CollaboratorID r) (Ledger s),
        ''ledger_receipt_financial_owner_mismatch'')]
     @ receipt_status_guards r @ receipt_acceptance_guards r @ receipt_checks r"

definition receipt_update_guards ::
  "store \<Rightarrow> LedgerReceipt \<Rightarrow> LedgerReceipt \<Rightarrow> (bool \<times> string) list"
  where
  "receipt_update_guards s old new =
     [(lr_Status old = ''RETURNED'' \<and> lr_Status new \<noteq> ''RETURNED'',
        ''ledger receipt RETURNED status is terminal''),
      (lr_Status old = ''CANCELLED'' \<and> lr_Status new \<noteq> ''CANCELLED'',
        ''ledger receipt CANCELLED status is terminal''),
      (lr_AcceptedAt old \<noteq> None \<and>
         (lr_AcceptedAt new \<noteq> lr_AcceptedAt old \<or> lr_AcceptedBy new \<noteq> lr_AcceptedBy old \<or>
          lr_AcceptanceMethod new \<noteq> lr_AcceptanceMethod old \<or> lr_Status new \<noteq> lr_Status old),
        ''ledger_receipt_acceptance_immutable''),
      (lr_ReceiptPurpose new \<noteq> lr_ReceiptPurpose old \<or>
         lr_PaymentDirection new \<noteq> lr_PaymentDirection old \<or>
         lr_AcceptingParty new \<noteq> lr_AcceptingParty old,
        ''ledger_receipt_direction_immutable''),
      (lr_TenantID new \<noteq> lr_TenantID old \<or> lr_PersonID new \<noteq> lr_PersonID old \<or>
         lr_CollaboratorID new \<noteq> lr_CollaboratorID old \<or>
         lr_LedgerEntryID new \<noteq> lr_LedgerEntryID old,
        ''ledger_receipt_financial_identity_immutable''),
      (\<not> journey_in s (lr_TenantID new) (lr_CollaboratorID new) \<or>
         \<not> entry_in s (lr_TenantID new) (lr_LedgerEntryID new), ''cross_tenant_reference'')]
     @ receipt_status_guards new @ receipt_acceptance_guards new @ receipt_checks new"

text \<open>The defaults of the columns, which GORM writes for a field that has its zero value.\<close>

definition or_default :: "string \<Rightarrow> string \<Rightarrow> string" where
  "or_default x d = (if x = [] then d else x)"

definition or_time :: "time \<Rightarrow> time \<Rightarrow> time" where
  "or_time x d = (if x = 0 then d else x)"

definition with_receipt_defaults :: "env \<Rightarrow> LedgerReceipt \<Rightarrow> LedgerReceipt" where
  "with_receipt_defaults E r = r\<lparr>
     lr_CreatedAt := or_time (lr_CreatedAt r) (Now E),
     lr_UpdatedAt := or_time (lr_UpdatedAt r) (Now E),
     lr_TenantID := or_default (lr_TenantID r) ''default'',
     lr_ReceiptType := or_default (lr_ReceiptType r) ''LEDGER_DEBIT'',
     lr_ReceiptPurpose := or_default (lr_ReceiptPurpose r) ''LEDGER_DEBIT'',
     lr_PaymentDirection := or_default (lr_PaymentDirection r) ''ACCOUNT_DEBIT'',
     lr_AcceptingParty := or_default (lr_AcceptingParty r) ''COLLABORATOR'',
     lr_Status := or_default (lr_Status r) ''PENDING_ISSUE''\<rparr>"

text \<open>
  \<open>tx.Create(&receipt)\<close>. With \<open>ON CONFLICT (ledger_entry_id) DO NOTHING\<close> an existing receipt of the
  entry makes it a statement without effect; the other unique keys still fail.
\<close>

definition receipt_keys_taken :: "store \<Rightarrow> LedgerReceipt \<Rightarrow> (bool \<times> string) list" where
  "receipt_keys_taken s r =
     [(list_ex (\<lambda>x. lr_ID x = lr_ID r) (Receipts s),
        ''UNIQUE constraint failed: ledger_receipts.id''),
      (lr_ReceiptNumber r \<noteq> None \<and>
         list_ex (\<lambda>x. lr_TenantID x = lr_TenantID r \<and> lr_ReceiptNumber x = lr_ReceiptNumber r)
           (Receipts s),
        ''UNIQUE constraint failed: ledger_receipts.tenant_id, ledger_receipts.receipt_number'')]"

definition has_receipt :: "store \<Rightarrow> string \<Rightarrow> bool" where
  "has_receipt s e \<longleftrightarrow> list_ex (\<lambda>x. lr_LedgerEntryID x = e) (Receipts s)"

definition put_receipt :: "LedgerReceipt \<Rightarrow> unit app" where
  "put_receipt r = modify (\<lambda>s. s\<lparr>Receipts := Receipts s @ [r]\<rparr>)"

definition createReceipt :: "env \<Rightarrow> LedgerReceipt \<Rightarrow> LedgerReceipt app" where
  "createReceipt E r0 = (let r = with_receipt_defaults E r0 in
     bnd (query (\<lambda>s. abort_if (receipt_insert_guards s r @ receipt_keys_taken s r @
       [(has_receipt s (lr_LedgerEntryID r),
          ''UNIQUE constraint failed: ledger_receipts.ledger_entry_id'')])))
     (\<lambda>_. bnd (put_receipt r) (\<lambda>_. ret r)))"

definition createReceiptDoNothing :: "env \<Rightarrow> LedgerReceipt \<Rightarrow> unit app" where
  "createReceiptDoNothing E r0 = (let r = with_receipt_defaults E r0 in
     bnd (query (\<lambda>s. abort_if (receipt_insert_guards s r)))
     (\<lambda>_. bnd (query (\<lambda>s. Inr (has_receipt s (lr_LedgerEntryID r))))
     (\<lambda>taken. if taken then ret ()
       else bnd (query (\<lambda>s. abort_if (receipt_keys_taken s r))) (\<lambda>_. put_receipt r))))"

text \<open>
  \<open>UPDATE ledger_receipts SET ... WHERE ...\<close>: the triggers look at every row the statement touches,
  and one that aborts undoes the statement.
\<close>

definition updateReceipts ::
  "(LedgerReceipt \<Rightarrow> bool) \<Rightarrow> (LedgerReceipt \<Rightarrow> LedgerReceipt) \<Rightarrow> unit app"
  where
  "updateReceipts P f = bnd
     (query (\<lambda>s. abort_if (concat (map (\<lambda>r. receipt_update_guards s r (f r)) (filter P (Receipts s))))))
     (\<lambda>_. modify (\<lambda>s. s\<lparr>Receipts := update_where P f (Receipts s)\<rparr>))"

section \<open>Ledger entries\<close>

definition finalSettlement :: "LedgerEntry \<Rightarrow> bool" where
  "finalSettlement e \<longleftrightarrow> EqualFold (TrimSpace (le_EntryType e)) ''FINAL_SETTLEMENT'' \<and>
     EqualFold (TrimSpace (le_SourceType e)) ''JOURNEY_SETTLEMENT''"

definition hook_direction :: "LedgerEntry \<Rightarrow> string" where
  "hook_direction e = ToUpper (TrimSpace (le_Direction e))"

definition needs_receipt :: "LedgerEntry \<Rightarrow> bool" where
  "needs_receipt e \<longleftrightarrow> \<not> (hook_direction e \<noteq> ''DEBIT'' \<and>
     \<not> (finalSettlement e \<and> hook_direction e = ''CREDIT''))"

definition receiptNumber :: "string \<Rightarrow> string" where
  "receiptNumber i = ''RCP-'' @ ToUpper (filter (\<lambda>c. c \<noteq> CHR ''-'') i)"

definition receipt_of :: "env \<Rightarrow> LedgerEntry \<Rightarrow> string \<Rightarrow> LedgerReceipt" where
  "receipt_of E e i = (let now = or_time (le_CreatedAt e) (Now E);
       (purpose, direction, party) =
         (if finalSettlement e then
            (if hook_direction e = ''DEBIT''
             then (''FINAL_SETTLEMENT_TENANT_PAYMENT'', ''TENANT_TO_COLLABORATOR'', ''COLLABORATOR'')
             else (''FINAL_SETTLEMENT_COLLABORATOR_PAYMENT'', ''COLLABORATOR_TO_TENANT'', ''TENANT''))
          else (''LEDGER_DEBIT'', ''ACCOUNT_DEBIT'', ''COLLABORATOR''))
     in zeroLedgerReceipt\<lparr>
       lr_ID := i, lr_CreatedAt := now, lr_UpdatedAt := now, lr_TenantID := le_TenantID e,
       lr_PersonID := le_PersonID e, lr_CollaboratorID := le_CollaboratorID e,
       lr_LedgerEntryID := le_ID e, lr_ReceiptNumber := Some (receiptNumber i),
       lr_ReceiptType := ''LEDGER_DEBIT'', lr_ReceiptPurpose := purpose,
       lr_PaymentDirection := direction, lr_AcceptingParty := party,
       lr_Status := ''PENDING_ISSUE''\<rparr>)"

definition AfterCreate :: "env \<Rightarrow> LedgerEntry \<Rightarrow> unit app" where
  "AfterCreate E e = (if needs_receipt e
     then bnd (newID E) (\<lambda>i. createReceiptDoNothing E (receipt_of E e i))
     else ret ())"

definition with_entry_defaults :: "env \<Rightarrow> LedgerEntry \<Rightarrow> LedgerEntry" where
  "with_entry_defaults E e = e\<lparr>
     le_CreatedAt := or_time (le_CreatedAt e) (Now E),
     le_UpdatedAt := or_time (le_UpdatedAt e) (Now E),
     le_TenantID := or_default (le_TenantID e) ''default'',
     le_Active := True,
     le_CorrectionType := or_default (le_CorrectionType e) ''ORIGINAL''\<rparr>"

definition ledger_insert_guards :: "store \<Rightarrow> LedgerEntry \<Rightarrow> (bool \<times> string) list" where
  "ledger_insert_guards s e = [
     (\<not> tenant_exists s (le_TenantID e), ''tenant_integrity_violation''),
     (\<not> journey_in s (le_TenantID e) (le_CollaboratorID e) \<or>
        \<not> value_unit_in s (le_TenantID e) (le_ValueUnitID e) \<or>
        (case le_RelatedEntryID e of None \<Rightarrow> False | Some r \<Rightarrow> \<not> entry_in s (le_TenantID e) r),
        ''cross_tenant_reference''),
     (SqlTrim (le_PersonID e) = [], ''ledger_entry_person_required''),
     (\<not> owns_journey s (le_TenantID e) (le_CollaboratorID e) (le_PersonID e),
        ''ledger_entry_person_tenant_journey_mismatch''),
     (le_Direction e \<notin> set [''CREDIT'', ''DEBIT''], ''CHECK constraint failed: direction''),
     (le_EntryType e \<notin> set [''EARNING_CREDIT'', ''EXPENSE_DEDUCTION'', ''GOLD_TO_BRL_CONVERSION'',
          ''PIX_REMITTANCE'', ''REPLACEMENT_TRANSFER'', ''PAYOUT'', ''FINAL_SETTLEMENT''], ''CHECK constraint failed: entry_type''),
     (\<not> 0 < le_Amount e, ''CHECK constraint failed: amount'')]"

definition ledger_keys_taken :: "store \<Rightarrow> LedgerEntry \<Rightarrow> (bool \<times> string) list" where
  "ledger_keys_taken s e = [
     (list_ex (\<lambda>l. le_ID l = le_ID e) (Ledger s), ''UNIQUE constraint failed: ledger_entries.id''),
     (list_ex (\<lambda>l. le_TenantID l = le_TenantID e \<and> le_SourceType l = le_SourceType e \<and>
          le_SourceID l = le_SourceID e \<and> le_ValueUnitID l = le_ValueUnitID e \<and>
          le_Direction l = le_Direction e) (Ledger s),
        ''UNIQUE constraint failed: ledger_entries.tenant_id, ledger_entries.source_type, ledger_entries.source_id, ledger_entries.value_unit_id, ledger_entries.direction''),
     (le_CorrectionType e = ''REVERSAL'' \<and> le_RelatedEntryID e \<noteq> None \<and>
        list_ex (\<lambda>l. le_TenantID l = le_TenantID e \<and> le_CorrectionType l = ''REVERSAL'' \<and>
          le_RelatedEntryID l = le_RelatedEntryID e) (Ledger s),
        ''UNIQUE constraint failed: ledger_entries.tenant_id, ledger_entries.related_entry_id'')]"

definition put_entry :: "LedgerEntry \<Rightarrow> unit app" where
  "put_entry e = modify (\<lambda>s. s\<lparr>Ledger := Ledger s @ [e]\<rparr>)"

text \<open>
  \<open>tx.Create(entry)\<close> with its hook, inside the caller's transaction; and the insert of a slice of
  entries with \<open>ON CONFLICT DO NOTHING\<close>, which skips the rows that violate a unique key and runs
  the hook of every element afterwards, the skipped ones included.
\<close>

definition createLedgerEntry :: "env \<Rightarrow> LedgerEntry \<Rightarrow> LedgerEntry app" where
  "createLedgerEntry E e0 = (let e = with_entry_defaults E e0 in
     bnd (query (\<lambda>s. abort_if (ledger_insert_guards s e @ ledger_keys_taken s e)))
     (\<lambda>_. bnd (put_entry e) (\<lambda>_. bnd (AfterCreate E e) (\<lambda>_. ret e))))"

definition insertEntryDoNothing :: "LedgerEntry \<Rightarrow> unit app" where
  "insertEntryDoNothing e =
     bnd (query (\<lambda>s. abort_if (ledger_insert_guards s e)))
     (\<lambda>_. bnd (query (\<lambda>s. Inr (list_ex fst (ledger_keys_taken s e))))
     (\<lambda>taken. if taken then ret () else put_entry e))"

definition createLedgerEntriesDoNothing :: "env \<Rightarrow> LedgerEntry list \<Rightarrow> unit app" where
  "createLedgerEntriesDoNothing E es0 = (let es = map (with_entry_defaults E) es0 in
     bnd (for_each insertEntryDoNothing es) (\<lambda>_. for_each (AfterCreate E) es))"

section \<open>Settlements\<close>

definition with_settlement_defaults :: "env \<Rightarrow> JourneySettlement \<Rightarrow> JourneySettlement" where
  "with_settlement_defaults E x = x\<lparr>
     js_CreatedAt := or_time (js_CreatedAt x) (Now E),
     js_UpdatedAt := or_time (js_UpdatedAt x) (Now E),
     js_TenantID := or_default (js_TenantID x) ''default'',
     js_Status := or_default (js_Status x) ''POSTED''\<rparr>"

definition settlement_insert_guards :: "store \<Rightarrow> JourneySettlement \<Rightarrow> (bool \<times> string) list" where
  "settlement_insert_guards s x = [
     (\<not> tenant_exists s (js_TenantID x), ''tenant_integrity_violation''),
     (\<not> journey_in s (js_TenantID x) (js_CollaboratorID x), ''cross_tenant_reference''),
     (js_SettlementType x \<notin> set [''ZERO_GOLD'', ''PAYOUT'', ''CLOSE_JOURNEY'', ''FINAL_TENANT_PAYMENT'',
          ''FINAL_COLLABORATOR_PAYMENT''],
        ''CHECK constraint failed: settlement_type''),
     (js_Status x \<notin> set [''POSTED'', ''VOIDED''], ''CHECK constraint failed: status''),
     (js_BRLAmount x < 0, ''CHECK constraint failed: brl_amount''),
     (js_GoldGramAmount x < 0, ''CHECK constraint failed: gold_gram_amount''),
     (list_ex (\<lambda>y. js_ID y = js_ID x) (Settlements s),
        ''UNIQUE constraint failed: journey_settlements.id''),
     (list_ex (\<lambda>y. js_TenantID y = js_TenantID x \<and> js_CollaboratorID y = js_CollaboratorID x \<and>
          js_RequestID y = js_RequestID x) (Settlements s),
        ''UNIQUE constraint failed: journey_settlements.tenant_id, journey_settlements.collaborator_id, journey_settlements.request_id'')]"

definition createSettlement :: "env \<Rightarrow> JourneySettlement \<Rightarrow> JourneySettlement app" where
  "createSettlement E x0 = (let x = with_settlement_defaults E x0 in
     bnd (query (\<lambda>s. abort_if (settlement_insert_guards s x)))
     (\<lambda>_. bnd (modify (\<lambda>s. s\<lparr>Settlements := Settlements s @ [x]\<rparr>)) (\<lambda>_. ret x)))"

section \<open>Balances and the closing of a journey\<close>

text \<open>
  \<open>CASE WHEN direction = 'CREDIT' THEN amount ELSE -amount END\<close>, and its sum over the active
  entries of a journey in one value unit. The closing guard compares every such sum with the
  tolerance \<open>0.000000001\<close>.
\<close>

definition signed :: "LedgerEntry \<Rightarrow> float64" where
  "signed e = (if le_Direction e = ''CREDIT'' then le_Amount e else - le_Amount e)"

definition balanceZeroTolerance :: float64 where
  "balanceZeroTolerance = rnd (1 / 1000000000)"

definition journey_entries :: "store \<Rightarrow> string \<Rightarrow> string \<Rightarrow> LedgerEntry list" where
  "journey_entries s T c =
     filter (\<lambda>e. le_TenantID e = T \<and> le_CollaboratorID e = c \<and> le_Active e) (Ledger s)"

definition unit_entries :: "string \<Rightarrow> LedgerEntry list \<Rightarrow> LedgerEntry list" where
  "unit_entries u es = filter (\<lambda>e. le_ValueUnitID e = u) es"

definition unit_balance :: "env \<Rightarrow> string \<Rightarrow> LedgerEntry list \<Rightarrow> float64" where
  "unit_balance E u es = SumAgg E (map signed (unit_entries u es))"

definition nonzero_balance :: "env \<Rightarrow> LedgerEntry list \<Rightarrow> bool" where
  "nonzero_balance E es \<longleftrightarrow>
     list_ex (\<lambda>u. balanceZeroTolerance < \<bar>unit_balance E u es\<bar>) (remdups (map le_ValueUnitID es))"

definition reference_in :: "store \<Rightarrow> string \<Rightarrow> string \<Rightarrow> string \<Rightarrow> bool" where
  "reference_in s T ty i \<longleftrightarrow>
     list_ex (\<lambda>r. rd_ID r = i \<and> rd_TenantID r = T \<and> rd_Type r = ty) (References s)"

definition finished_status :: "store \<Rightarrow> string \<Rightarrow> string \<Rightarrow> bool" where
  "finished_status s T i \<longleftrightarrow>
     list_ex (\<lambda>r. rd_ID r = i \<and> rd_TenantID r = T \<and> rd_Type r = ''collaborator_status'' \<and>
       rd_Code r = ''FINISHED'') (References s)"

definition journeyZeroBalanceClosureGuard ::
  "env \<Rightarrow> store \<Rightarrow> CollaboratorJourney \<Rightarrow> CollaboratorJourney \<Rightarrow> bool"
  where
  "journeyZeroBalanceClosureGuard E s old new \<longleftrightarrow>
     ((cj_ClosedAt new \<noteq> None \<and> cj_ClosedAt old = None) \<or>
      (cj_StatusID new \<noteq> cj_StatusID old \<and> finished_status s (cj_TenantID new) (cj_StatusID new))) \<and>
     nonzero_balance E (journey_entries s (cj_TenantID new) (cj_ID new))"

definition journey_update_guards ::
  "env \<Rightarrow> store \<Rightarrow> CollaboratorJourney \<Rightarrow> CollaboratorJourney \<Rightarrow> (bool \<times> string) list"
  where
  "journey_update_guards E s old new = [
     (journeyZeroBalanceClosureGuard E s old new, ''collaborator_journey_non_zero_balance''),
     (cj_TenantID new \<noteq> cj_TenantID old, ''tenant_id_immutable''),
     (\<not> list_ex (\<lambda>p. pe_ID p = cj_PersonID new \<and> pe_TenantID p = cj_TenantID new) (People s) \<or>
        \<not> reference_in s (cj_TenantID new) ''method'' (cj_PaymentMethodID new) \<or>
        \<not> reference_in s (cj_TenantID new) ''sector'' (cj_SectorID new) \<or>
        \<not> reference_in s (cj_TenantID new) ''location'' (cj_LocationID new) \<or>
        \<not> reference_in s (cj_TenantID new) ''task'' (cj_TaskID new) \<or>
        \<not> reference_in s (cj_TenantID new) ''collaborator_status'' (cj_StatusID new),
        ''cross_tenant_reference''),
     (cj_ClosedAt new = None \<and> cj_ClosedAt old \<noteq> None \<and> cj_MembershipID new \<noteq> None \<and>
        list_ex (\<lambda>c. cj_ID c \<noteq> cj_ID new \<and> cj_MembershipID c = cj_MembershipID new \<and>
          cj_TenantID c = cj_TenantID new \<and> cj_ClosedAt c = None) (Journeys s),
        ''collaborator_membership_open_journey_exists''),
     (case_option [] id (cj_MembershipID new) \<noteq> case_option [] id (cj_MembershipID old) \<or>
        cj_PersonID new \<noteq> cj_PersonID old, ''collaborator_membership_identity_immutable'')]"

text \<open>\<open>UPDATE collaborator_journeys\<close>, which returns the number of rows affected.\<close>

definition updateJourneys ::
  "env \<Rightarrow> (CollaboratorJourney \<Rightarrow> bool) \<Rightarrow> (CollaboratorJourney \<Rightarrow> CollaboratorJourney) \<Rightarrow> nat app"
  where
  "updateJourneys E P f = bnd
     (query (\<lambda>s. abort_if
        (concat (map (\<lambda>j. journey_update_guards E s j (f j)) (filter P (Journeys s))))))
     (\<lambda>_. bnd (query (\<lambda>s. Inr (count_where P (Journeys s))))
     (\<lambda>n. bnd (modify (\<lambda>s. s\<lparr>Journeys := update_where P f (Journeys s)\<rparr>)) (\<lambda>_. ret n)))"

end
