(* ===== verification/LedgerFrame.thy ===== *)
theory LedgerFrame
  imports LedgerStore
begin

text \<open>
  What every write of the accounting components keeps: rows of other tenants are untouched, the
  ledger and the settlements are append-only, receipts keep their identity and leave a terminal
  status or an acceptance alone, the books stay consistent, and a new entry that owes a receipt
  has one. The relation \<open>accounting\<close> says so of the states before and after, and is shown here for
  each write of \<open>LedgerStore\<close>; the handlers inherit it through the combinators.
\<close>

section \<open>The relation\<close>

definition other_tenants_kept :: "string \<Rightarrow> store \<Rightarrow> store \<Rightarrow> bool" where
  "other_tenants_kept T s t \<longleftrightarrow>
     Tenants t = Tenants s \<and> References t = References s \<and> GlobalPeople t = GlobalPeople s \<and>
     Memberships t = Memberships s \<and> People t = People s \<and> PriceListItems t = PriceListItems s \<and>
     GoldPrices t = GoldPrices s \<and> TenantSettings t = TenantSettings s \<and>
     filter (\<lambda>x. cj_TenantID x \<noteq> T) (Journeys t) = filter (\<lambda>x. cj_TenantID x \<noteq> T) (Journeys s) \<and>
     filter (\<lambda>x. ex_TenantID x \<noteq> T) (Expenses t) = filter (\<lambda>x. ex_TenantID x \<noteq> T) (Expenses s) \<and>
     filter (\<lambda>x. js_TenantID x \<noteq> T) (Settlements t) = filter (\<lambda>x. js_TenantID x \<noteq> T) (Settlements s) \<and>
     filter (\<lambda>x. lr_TenantID x \<noteq> T) (Receipts t) = filter (\<lambda>x. lr_TenantID x \<noteq> T) (Receipts s) \<and>
     filter (\<lambda>x. wp_TenantID x \<noteq> T) (WorkPeriods t) = filter (\<lambda>x. wp_TenantID x \<noteq> T) (WorkPeriods s) \<and>
     filter (\<lambda>x. wa_TenantID x \<noteq> T) (Assignments t) = filter (\<lambda>x. wa_TenantID x \<noteq> T) (Assignments s) \<and>
     filter (\<lambda>x. ge_TenantID x \<noteq> T) (GoldProduction t) = filter (\<lambda>x. ge_TenantID x \<noteq> T) (GoldProduction s) \<and>
     filter (\<lambda>x. ar_TenantID x \<noteq> T) (AccrualRuns t) = filter (\<lambda>x. ar_TenantID x \<noteq> T) (AccrualRuns s) \<and>
     filter (\<lambda>x. ai_TenantID x \<noteq> T) (AccrualItems t) = filter (\<lambda>x. ai_TenantID x \<noteq> T) (AccrualItems s) \<and>
     filter (\<lambda>x. le_TenantID x \<noteq> T) (Ledger t) = filter (\<lambda>x. le_TenantID x \<noteq> T) (Ledger s)"

text \<open>What an update may not do to a receipt.\<close>

definition receipt_evolves :: "LedgerReceipt \<Rightarrow> LedgerReceipt \<Rightarrow> bool" where
  "receipt_evolves r r' \<longleftrightarrow>
     lr_ID r' = lr_ID r \<and> lr_TenantID r' = lr_TenantID r \<and> lr_PersonID r' = lr_PersonID r \<and>
     lr_CollaboratorID r' = lr_CollaboratorID r \<and> lr_LedgerEntryID r' = lr_LedgerEntryID r \<and>
     lr_ReceiptPurpose r' = lr_ReceiptPurpose r \<and> lr_PaymentDirection r' = lr_PaymentDirection r \<and>
     lr_AcceptingParty r' = lr_AcceptingParty r \<and>
     (lr_Status r = ''RETURNED'' \<longrightarrow> lr_Status r' = ''RETURNED'') \<and>
     (lr_Status r = ''CANCELLED'' \<longrightarrow> lr_Status r' = ''CANCELLED'') \<and>
     (lr_AcceptedAt r \<noteq> None \<longrightarrow> lr_AcceptedAt r' = lr_AcceptedAt r \<and>
        lr_AcceptedBy r' = lr_AcceptedBy r \<and> lr_AcceptanceMethod r' = lr_AcceptanceMethod r \<and>
        lr_Status r' = lr_Status r)"

definition receipts_evolve :: "LedgerReceipt list \<Rightarrow> LedgerReceipt list \<Rightarrow> bool" where
  "receipts_evolve = rows_follow receipt_evolves"

text \<open>
  The life of a work period: it is planned, its plan is informed, and accruals are posted, in part or
  in full. An update of a work period moves it along these steps and leaves its identity and its times alone.
\<close>

inductive period_step :: "string \<Rightarrow> string \<Rightarrow> bool" where
  inform: "period_step ''PLANNING'' ''INFORMED''"
| post_partly: "period_step st ''PARTIALLY_POSTED''"
| post_fully: "period_step st ''FULLY_POSTED''"

definition period_follows :: "WorkPeriod \<Rightarrow> WorkPeriod \<Rightarrow> bool" where
  "period_follows p p' \<longleftrightarrow>
     wp_ID p' = wp_ID p \<and> wp_TenantID p' = wp_TenantID p \<and> wp_WorkDate p' = wp_WorkDate p \<and>
     wp_PeriodCode p' = wp_PeriodCode p \<and> wp_StartsAt p' = wp_StartsAt p \<and> wp_EndsAt p' = wp_EndsAt p \<and>
     period_step\<^sup>*\<^sup>* (wp_Status p) (wp_Status p')"

text \<open>Old periods follow the steps and new ones have followed them from planning.\<close>

definition periods_follow :: "WorkPeriod list \<Rightarrow> WorkPeriod list \<Rightarrow> bool" where
  "periods_follow ps ps' \<longleftrightarrow> rows_follow period_follows ps ps' \<and>
     list_all (\<lambda>p. period_step\<^sup>*\<^sup>* ''PLANNING'' (wp_Status p)) (drop (length ps) ps')"

text \<open>A journey keeps its owner, and a closed one its closing date and status.\<close>

definition journey_follows :: "CollaboratorJourney \<Rightarrow> CollaboratorJourney \<Rightarrow> bool" where
  "journey_follows j j' \<longleftrightarrow>
     cj_ID j' = cj_ID j \<and> cj_TenantID j' = cj_TenantID j \<and> cj_PersonID j' = cj_PersonID j \<and>
     cj_MembershipID j' = cj_MembershipID j \<and>
     (cj_ClosedAt j \<noteq> None \<longrightarrow> cj_ClosedAt j' = cj_ClosedAt j \<and> cj_StatusID j' = cj_StatusID j)"

text \<open>
  The books are consistent: identifiers are unique, amounts positive, a direction is one of the
  two, one source posts at most once per value unit and direction, an entry is reversed at most once, and a receipt belongs to exactly one entry, of the same
  tenant, person and journey; every entry's value unit is one of its tenant's, which codes identify,
  the entry a correction is linked to is in the ledger, and journeys have their own identifiers.
\<close>

definition receipt_matches :: "LedgerReceipt \<Rightarrow> LedgerEntry \<Rightarrow> bool" where
  "receipt_matches r e \<longleftrightarrow> le_ID e = lr_LedgerEntryID r \<and> le_TenantID e = lr_TenantID r \<and>
     le_PersonID e = lr_PersonID r \<and> le_CollaboratorID e = lr_CollaboratorID r"

definition is_reversal :: "LedgerEntry \<Rightarrow> bool" where
  "is_reversal e \<longleftrightarrow> le_CorrectionType e = ''REVERSAL'' \<and> le_RelatedEntryID e \<noteq> None"

definition entry_ok :: "LedgerEntry \<Rightarrow> bool" where
  "entry_ok e \<longleftrightarrow> 0 < le_Amount e \<and> (le_Direction e = ''CREDIT'' \<or> le_Direction e = ''DEBIT'')"

text \<open>The entry a correction is linked to is in the ledger of its tenant.\<close>

definition link_ok :: "store \<Rightarrow> LedgerEntry \<Rightarrow> bool" where
  "link_ok s e \<longleftrightarrow> (case le_RelatedEntryID e of None \<Rightarrow> True | Some r \<Rightarrow> entry_in s (le_TenantID e) r)"

lemma link_ok_cong: "Ledger s = Ledger t \<Longrightarrow> link_ok s = link_ok t"
  by (intro ext) (simp add: link_ok_def entry_in_def split: option.split)

lemma link_ok_writes [simp]:
  "link_ok (s\<lparr>Receipts := x\<rparr>) = link_ok s" "link_ok (s\<lparr>IdsUsed := n\<rparr>) = link_ok s"
  "link_ok (s\<lparr>Settlements := z\<rparr>) = link_ok s"
  by (rule link_ok_cong, simp)+

lemma link_ok_append: "link_ok s e \<Longrightarrow> link_ok (s\<lparr>Ledger := Ledger s @ es\<rparr>) e"
  by (auto simp: link_ok_def entry_in_def split: option.splits)

definition source_key :: "LedgerEntry \<Rightarrow> string \<times> string \<times> string \<times> string \<times> string" where
  "source_key e = (le_TenantID e, le_SourceType e, le_SourceID e, le_ValueUnitID e, le_Direction e)"

definition books_ok :: "store \<Rightarrow> bool" where
  "books_ok s \<longleftrightarrow>
     distinct (map le_ID (Ledger s)) \<and> list_all entry_ok (Ledger s) \<and>
     distinct (map source_key (Ledger s)) \<and>
     distinct (map (\<lambda>e. (le_TenantID e, le_RelatedEntryID e)) (filter is_reversal (Ledger s))) \<and>
     distinct (map lr_ID (Receipts s)) \<and> distinct (map lr_LedgerEntryID (Receipts s)) \<and>
     list_all (\<lambda>r. list_ex (receipt_matches r) (Ledger s)) (Receipts s) \<and>
     list_all (\<lambda>e. value_unit_in s (le_TenantID e) (le_ValueUnitID e)) (Ledger s) \<and>
     list_all (link_ok s) (Ledger s) \<and>
     distinct (map rd_ID (References s)) \<and> distinct (map cj_ID (Journeys s)) \<and>
     distinct (map (\<lambda>r. (rd_TenantID r, rd_Type r, rd_Code r)) (References s))"

lemma value_unit_in_cong: "References s = References t \<Longrightarrow> value_unit_in s = value_unit_in t"
  by (intro ext) (simp add: value_unit_in_def)

lemma value_unit_in_writes [simp]:
  "value_unit_in (s\<lparr>Receipts := x\<rparr>) = value_unit_in s" "value_unit_in (s\<lparr>Ledger := y\<rparr>) = value_unit_in s"
  "value_unit_in (s\<lparr>IdsUsed := n\<rparr>) = value_unit_in s" "value_unit_in (s\<lparr>Settlements := z\<rparr>) = value_unit_in s"
  by (simp_all add: value_unit_in_def [abs_def])

text \<open>
  The plan is consistent: identifiers are unique, a tenant has one work period per date and code, a
  period starts before it ends, a collaborator has one active assignment in a period, and a location one
  active entry of produced gold per period and date, which is positive.
\<close>

definition period_key :: "WorkPeriod \<Rightarrow> string \<times> time \<times> string" where
  "period_key p = (wp_TenantID p, wp_WorkDate p, wp_PeriodCode p)"

definition assignment_key :: "WorkPeriodAssignment \<Rightarrow> string \<times> string \<times> string" where
  "assignment_key a = (wa_TenantID a, wa_WorkPeriodID a, wa_CollaboratorID a)"

definition gold_key :: "GoldProductionEntry \<Rightarrow> string \<times> string \<times> string \<times> time" where
  "gold_key g = (ge_TenantID g, ge_WorkPeriodID g, ge_LocationID g, ge_ProductionDate g)"

text \<open>The gold of a period is dated by its work date.\<close>

definition gold_dated :: "store \<Rightarrow> GoldProductionEntry \<Rightarrow> bool" where
  "gold_dated s g \<longleftrightarrow> list_ex (\<lambda>p. wp_ID p = ge_WorkPeriodID g \<and> wp_TenantID p = ge_TenantID g \<and>
     ge_ProductionDate g = dateOnlyUTC (wp_WorkDate p)) (WorkPeriods s)"

definition planning_ok :: "store \<Rightarrow> bool" where
  "planning_ok s \<longleftrightarrow>
     distinct (map wp_ID (WorkPeriods s)) \<and> distinct (map period_key (WorkPeriods s)) \<and>
     list_all (\<lambda>p. wp_StartsAt p < wp_EndsAt p) (WorkPeriods s) \<and>
     distinct (map wa_ID (Assignments s)) \<and>
     distinct (map assignment_key (filter wa_Active (Assignments s))) \<and>
     list_all (\<lambda>a. wa_ReplacementForAssignmentID a \<noteq> Some (wa_ID a)) (Assignments s) \<and>
     distinct (map ge_ID (GoldProduction s)) \<and>
     distinct (map gold_key (filter ge_Active (GoldProduction s))) \<and>
     list_all (\<lambda>g. 0 < ge_GoldGramsProduced g) (GoldProduction s) \<and>
     list_all (gold_dated s) (GoldProduction s)"

text \<open>
  How the store evolves: the ledger and the settlements grow at their end, receipts, work periods and
  journeys change as they may, and consistent books and plans stay consistent.
\<close>

definition evolves :: "store \<Rightarrow> store \<Rightarrow> bool" where
  "evolves s t \<longleftrightarrow> (\<exists>es. Ledger t = Ledger s @ es) \<and>
     (\<exists>xs. Settlements t = Settlements s @ xs) \<and> receipts_evolve (Receipts s) (Receipts t) \<and>
     rows_follow journey_follows (Journeys s) (Journeys t) \<and> (books_ok s \<longrightarrow> books_ok t) \<and>
     (planning_ok s \<longrightarrow> planning_ok t \<and> periods_follow (WorkPeriods s) (WorkPeriods t))"

lemma planning_ok_cong:
  "WorkPeriods t = WorkPeriods s \<Longrightarrow> Assignments t = Assignments s \<Longrightarrow> GoldProduction t = GoldProduction s \<Longrightarrow>
   planning_ok t = planning_ok s"
  by (simp add: planning_ok_def gold_dated_def [abs_def])

lemma planning_ok_writes [simp]:
  "planning_ok (Receipts_update f1 s) = planning_ok s" "planning_ok (Ledger_update f2 s) = planning_ok s"
  "planning_ok (IdsUsed_update f3 s) = planning_ok s" "planning_ok (Settlements_update f4 s) = planning_ok s"
  "planning_ok (Journeys_update f5 s) = planning_ok s" "planning_ok (Expenses_update f6 s) = planning_ok s"
  "planning_ok (AccrualRuns_update f7 s) = planning_ok s" "planning_ok (AccrualItems_update f8 s) = planning_ok s"
  "planning_ok (TenantSettings_update f9 s) = planning_ok s"
  by (rule planning_ok_cong; simp)+

definition grows :: "string \<Rightarrow> store \<Rightarrow> store \<Rightarrow> bool" where
  "grows T s t \<longleftrightarrow> other_tenants_kept T s t \<and> evolves s t"

lemmas grows_defs = grows_def evolves_def

definition receipted :: "store \<Rightarrow> store \<Rightarrow> bool" where
  "receipted s t \<longleftrightarrow>
     (\<forall>e \<in> set (drop (length (Ledger s)) (Ledger t)). needs_receipt e \<longrightarrow> has_receipt t (le_ID e))"

definition accounting :: "string \<Rightarrow> store \<Rightarrow> store \<Rightarrow> bool" where
  "accounting T s t \<longleftrightarrow> grows T s t \<and> receipted s t"

section \<open>It composes\<close>

lemma receipt_evolves_refl: "receipt_evolves r r"
  by (simp add: receipt_evolves_def)

lemma receipt_evolves_trans: "receipt_evolves a b \<Longrightarrow> receipt_evolves b c \<Longrightarrow> receipt_evolves a c"
  unfolding receipt_evolves_def by (elim conjE, intro conjI impI) simp_all

interpretation receipt_rows: row_frame receipt_evolves
  by unfold_locales (rule receipt_evolves_refl, erule (1) receipt_evolves_trans)

lemmas receipts_evolve_refl = receipt_rows.follow_refl [folded receipts_evolve_def]
  and receipts_evolve_trans = receipt_rows.follow_trans [folded receipts_evolve_def]
  and receipts_evolve_append [simp] = receipt_rows.follow_append [folded receipts_evolve_def]
  and receipts_evolve_map = receipt_rows.follow_map [folded receipts_evolve_def]

lemma receipts_evolve_keys:
  assumes "receipts_evolve rs rs'"
  obtains zs where "map lr_LedgerEntryID rs' = map lr_LedgerEntryID rs @ zs"
  using rows_follow_map [OF assms [unfolded receipts_evolve_def], of lr_LedgerEntryID]
  by (auto simp: receipt_evolves_def)

interpretation period_rows: row_frame period_follows
  by unfold_locales (auto simp: period_follows_def intro: rtranclp_trans)

interpretation journey_rows: row_frame journey_follows
  by unfold_locales (auto simp: journey_follows_def)

lemmas rows_follow_same [simp] = period_rows.follow_refl journey_rows.follow_refl

lemma periods_follow_refl [simp]: "periods_follow ps ps"
  by (simp add: periods_follow_def)

lemma periods_follow_update:
  "(\<And>p. p \<in> set ps \<Longrightarrow> P p \<Longrightarrow> period_follows p (f p)) \<Longrightarrow> periods_follow ps (update_where P f ps)"
  by (simp add: periods_follow_def period_rows.follow_update length_update_where)

lemma periods_follow_append: "wp_Status p = ''PLANNING'' \<Longrightarrow> periods_follow ps (ps @ [p])"
  by (simp add: periods_follow_def period_rows.follow_append)

lemma periods_follow_trans:
  assumes ab: "periods_follow as bs" and bc: "periods_follow bs cs"
  shows "periods_follow as cs"
proof -
  have len: "length as \<le> length bs" "length bs \<le> length cs"
    using ab bc rows_follow_length by (auto simp: periods_follow_def)
  have "period_step\<^sup>*\<^sup>* ''PLANNING'' (wp_Status (cs ! i))" if i: "length as \<le> i" "i < length cs" for i
  proof (cases "i < length bs")
    case True
    then have "bs ! i \<in> set (drop (length as) bs)" using i by (force simp: in_set_conv_nth intro!: exI [of _ "i - length as"])
    then have "period_step\<^sup>*\<^sup>* ''PLANNING'' (wp_Status (bs ! i))" using ab by (simp add: periods_follow_def list_all_iff)
    moreover have "period_follows (bs ! i) (cs ! i)"
      using bc True by (auto simp: periods_follow_def rows_follow_def list_all2_conv_all_nth)
    ultimately show ?thesis by (auto simp: period_follows_def intro: rtranclp_trans)
  next
    case False
    then have "cs ! i \<in> set (drop (length bs) cs)" using i by (force simp: in_set_conv_nth intro!: exI [of _ "i - length bs"])
    then show ?thesis using bc by (simp add: periods_follow_def list_all_iff)
  qed
  then have "list_all (\<lambda>p. period_step\<^sup>*\<^sup>* ''PLANNING'' (wp_Status p)) (drop (length as) cs)"
    by (auto simp: list_all_length)
  then show ?thesis
    using ab bc period_rows.follow_trans by (auto simp: periods_follow_def)
qed

lemma has_receipt_keys: "has_receipt s e \<longleftrightarrow> e \<in> set (map lr_LedgerEntryID (Receipts s))"
  by (auto simp: has_receipt_def list_ex_iff)

lemma has_receipt_evolve:
  "receipts_evolve (Receipts s) (Receipts t) \<Longrightarrow> has_receipt s e \<Longrightarrow> has_receipt t e"
  by (elim receipts_evolve_keys) (simp only: has_receipt_keys set_append, blast)

lemma other_tenants_kept_refl: "other_tenants_kept T s s"
  by (simp add: other_tenants_kept_def)

lemma other_tenants_kept_trans:
  "other_tenants_kept T s t \<Longrightarrow> other_tenants_kept T t u \<Longrightarrow> other_tenants_kept T s u"
  by (simp add: other_tenants_kept_def)

lemma grows_refl: "grows T s s"
  by (simp add: grows_defs other_tenants_kept_refl receipts_evolve_refl)

lemma evolves_refl: "evolves s s"
  by (simp add: evolves_def receipts_evolve_refl)

lemma evolves_trans: "evolves s t \<Longrightarrow> evolves t u \<Longrightarrow> evolves s u"
  unfolding evolves_def
  by (metis append.assoc receipts_evolve_trans periods_follow_trans journey_rows.follow_trans)

lemma grows_trans: "grows T s t \<Longrightarrow> grows T t u \<Longrightarrow> grows T s u"
  unfolding grows_def by (blast intro: other_tenants_kept_trans evolves_trans)

lemma evolves_receipt: "evolves s t \<Longrightarrow> has_receipt s e \<Longrightarrow> has_receipt t e"
  by (auto simp: evolves_def intro: has_receipt_evolve)

lemma grows_receipt: "grows T s t \<Longrightarrow> has_receipt s e \<Longrightarrow> has_receipt t e"
  by (auto simp: grows_def intro: evolves_receipt)

interpretation growing: state_frame "grows T" for T
  by unfold_locales (rule grows_refl, erule (1) grows_trans)

lemma receipted_trans:
  assumes st: "evolves s t" "receipted s t" and tu: "evolves t u" "receipted t u"
  shows "receipted s u"
  unfolding receipted_def
proof (intro ballI impI)
  fix e assume e: "e \<in> set (drop (length (Ledger s)) (Ledger u))" and owes: "needs_receipt e"
  obtain es where es: "Ledger t = Ledger s @ es" using st by (auto simp: evolves_def)
  obtain fs where fs: "Ledger u = Ledger t @ fs" using tu by (auto simp: evolves_def)
  from e have "e \<in> set es \<or> e \<in> set fs" by (simp add: es fs)
  then show "has_receipt u (le_ID e)"
  proof
    assume "e \<in> set es"
    then have "has_receipt t (le_ID e)" using st owes by (simp add: receipted_def es)
    then show ?thesis by (rule evolves_receipt [OF tu(1)])
  next
    assume "e \<in> set fs"
    then show ?thesis using tu owes by (simp add: receipted_def fs)
  qed
qed

lemma accounting_trans: "accounting T s t \<Longrightarrow> accounting T t u \<Longrightarrow> accounting T s u"
  unfolding accounting_def grows_def
  by (blast intro: other_tenants_kept_trans evolves_trans receipted_trans)

interpretation acc: state_frame "accounting T" for T
  by unfold_locales (simp add: accounting_def grows_refl receipted_def, erule (1) accounting_trans)

section \<open>Guards and defaults\<close>

lemma abort_if_ok: "abort_if gs = Inr u \<longleftrightarrow> (\<forall>g \<in> set gs. \<not> fst g)"
  by (induction gs) (auto simp: abort_if_def)

lemma abort_if_append_ok: "abort_if (gs @ hs) = Inr u \<longleftrightarrow> abort_if gs = Inr u \<and> abort_if hs = Inr u"
  by (auto simp: abort_if_ok)

lemma or_default_id [simp]: "x \<noteq> [] \<Longrightarrow> or_default x d = x"
  by (simp add: or_default_def)

lemma TenantID_nonempty [simp]: "TenantID E \<noteq> []"
  by (simp add: TenantID_def split: option.split)

lemma receipt_defaults_simps [simp]:
  "lr_ID (with_receipt_defaults E r) = lr_ID r"
  "lr_TenantID (with_receipt_defaults E r) = or_default (lr_TenantID r) ''default''"
  "lr_PersonID (with_receipt_defaults E r) = lr_PersonID r"
  "lr_CollaboratorID (with_receipt_defaults E r) = lr_CollaboratorID r"
  "lr_LedgerEntryID (with_receipt_defaults E r) = lr_LedgerEntryID r"
  by (simp_all add: with_receipt_defaults_def)

lemma entry_defaults_simps [simp]:
  "le_ID (with_entry_defaults E e) = le_ID e"
  "le_TenantID (with_entry_defaults E e) = or_default (le_TenantID e) ''default''"
  "le_PersonID (with_entry_defaults E e) = le_PersonID e"
  "le_CollaboratorID (with_entry_defaults E e) = le_CollaboratorID e"
  "le_ValueUnitID (with_entry_defaults E e) = le_ValueUnitID e"
  "le_EntryType (with_entry_defaults E e) = le_EntryType e"
  "le_Direction (with_entry_defaults E e) = le_Direction e"
  "le_Amount (with_entry_defaults E e) = le_Amount e"
  "le_SourceType (with_entry_defaults E e) = le_SourceType e"
  "le_SourceID (with_entry_defaults E e) = le_SourceID e"
  "le_RelatedEntryID (with_entry_defaults E e) = le_RelatedEntryID e"
  "le_Active (with_entry_defaults E e) = True"
  by (simp_all add: with_entry_defaults_def)

lemma needs_receipt_defaults [simp]: "needs_receipt (with_entry_defaults E e) = needs_receipt e"
  by (simp add: needs_receipt_def hook_direction_def finalSettlement_def)

lemma receipt_of_simps [simp]:
  "lr_ID (receipt_of E e i) = i"
  "lr_TenantID (receipt_of E e i) = le_TenantID e"
  "lr_PersonID (receipt_of E e i) = le_PersonID e"
  "lr_CollaboratorID (receipt_of E e i) = le_CollaboratorID e"
  "lr_LedgerEntryID (receipt_of E e i) = le_ID e"
  by (simp_all add: receipt_of_def Let_def split: prod.splits)

lemma newID_grows: "grows T s (s\<lparr>IdsUsed := n\<rparr>)"
  by (simp add: grows_defs other_tenants_kept_def receipts_evolve_refl books_ok_def)

lemma keeps_newID: "keeps (grows T) (newID E)"
  by (simp add: keeps_def newID_grows)

section \<open>Receipts are written within the relation\<close>

lemma grows_put_receipt:
  assumes guards: "abort_if (receipt_insert_guards s r) = Inr ()"
    and keys: "abort_if (receipt_keys_taken s r) = Inr ()"
    and free: "\<not> has_receipt s (lr_LedgerEntryID r)" and T: "lr_TenantID r = T"
  shows "grows T s (s\<lparr>Receipts := Receipts s @ [r]\<rparr>)"
proof -
  have "list_ex (receipt_matches r) (Ledger s)"
    using guards
    by (auto simp: abort_if_ok receipt_insert_guards_def receipt_matches_def list_ex_iff)
  moreover have "lr_ID r \<notin> set (map lr_ID (Receipts s))"
    using keys by (auto simp: abort_if_ok receipt_keys_taken_def list_ex_iff)
  ultimately have "books_ok s \<longrightarrow> books_ok (s\<lparr>Receipts := Receipts s @ [r]\<rparr>)"
    using free by (auto simp: books_ok_def has_receipt_keys)
  then show ?thesis by (simp add: grows_defs other_tenants_kept_def T)
qed

lemma keeps_createReceiptDoNothing:
  assumes "or_default (lr_TenantID r) ''default'' = T"
  shows "keeps (grows T) (createReceiptDoNothing E r)"
  unfolding keeps_def createReceiptDoNothing_def Let_def put_receipt_def run_simps
  using assms grows_refl
  by (auto split: sum.split intro!: grows_put_receipt)

lemma createReceiptDoNothing_ok:
  "createReceiptDoNothing E r s = (Inr u, t) \<Longrightarrow> Ledger t = Ledger s \<and> has_receipt t (lr_LedgerEntryID r)"
  by (auto simp: run_simps createReceiptDoNothing_def Let_def put_receipt_def has_receipt_def
      split: sum.splits if_splits)

lemma keeps_AfterCreate:
  assumes "le_TenantID e = T" and "T \<noteq> []"
  shows "keeps (grows T) (AfterCreate E e)"
  unfolding AfterCreate_def using assms
  by (intro growing.keeps_intros keeps_newID keeps_createReceiptDoNothing) simp_all

lemma AfterCreate_ok:
  "AfterCreate E e s = (Inr u, t) \<Longrightarrow>
   Ledger t = Ledger s \<and> (needs_receipt e \<longrightarrow> has_receipt t (le_ID e))"
  by (auto simp: AfterCreate_def bnd_ok dest: createReceiptDoNothing_ok split: if_splits)

lemma keeps_createReceipt:
  assumes "or_default (lr_TenantID r) ''default'' = T"
  shows "keeps (accounting T) (createReceipt E r)"
proof -
  have "grows T s (snd (createReceipt E r s)) \<and> Ledger (snd (createReceipt E r s)) = Ledger s" for s
    using assms grows_refl
    by (auto simp: run_simps createReceipt_def Let_def put_receipt_def abort_if_append_ok split: sum.split
        intro!: grows_put_receipt) (auto simp: abort_if_ok)
  then show ?thesis by (simp add: keeps_def accounting_def receipted_def)
qed

text \<open>An update that the triggers let through changes no other tenant's receipts and evolves its own.\<close>

lemma receipt_update_evolves:
  assumes "abort_if (receipt_update_guards s r r') = Inr ()" and "lr_ID r' = lr_ID r"
  shows "receipt_evolves r r'"
  using assms unfolding abort_if_ok receipt_update_guards_def receipt_evolves_def by auto

lemma receipt_evolves_matches: "receipt_evolves r r' \<Longrightarrow> receipt_matches r' e = receipt_matches r e"
  by (simp add: receipt_evolves_def receipt_matches_def)

lemma grows_update_receipts:
  assumes ev: "\<And>r. r \<in> set (Receipts s) \<Longrightarrow> P r \<Longrightarrow> receipt_evolves r (f r) \<and> lr_TenantID r = T"
  shows "grows T s (s\<lparr>Receipts := update_where P f (Receipts s)\<rparr>)"
proof -
  let ?g = "\<lambda>r. if P r then f r else r"
  have ev': "receipt_evolves r (?g r)" if "r \<in> set (Receipts s)" for r
    using ev [OF that] by (simp add: receipt_evolves_refl)
  have keys: "map lr_LedgerEntryID (map ?g (Receipts s)) = map lr_LedgerEntryID (Receipts s)"
    and ids: "map lr_ID (map ?g (Receipts s)) = map lr_ID (Receipts s)"
    using ev' by (simp_all add: receipt_evolves_def)
  have "receipt_matches (?g r) = receipt_matches r" if "r \<in> set (Receipts s)" for r
    using receipt_evolves_matches [OF ev' [OF that]] by blast
  then have "list_all (\<lambda>r. list_ex (receipt_matches r) (Ledger s)) (map ?g (Receipts s)) =
      list_all (\<lambda>r. list_ex (receipt_matches r) (Ledger s)) (Receipts s)"
    unfolding list.pred_map comp_def by (intro list.pred_cong refl) simp
  then have books: "books_ok s \<longrightarrow> books_ok (s\<lparr>Receipts := map ?g (Receipts s)\<rparr>)"
    using keys ids by (simp add: books_ok_def del: map_map)
  have "filter (\<lambda>x. lr_TenantID x \<noteq> T) (map ?g rs) = filter (\<lambda>x. lr_TenantID x \<noteq> T) rs"
    if "set rs \<subseteq> set (Receipts s)" for rs
    using that by (induction rs) (use ev in \<open>auto simp: receipt_evolves_def\<close>)
  then have "other_tenants_kept T s (s\<lparr>Receipts := map ?g (Receipts s)\<rparr>)"
    by (simp add: other_tenants_kept_def)
  then show ?thesis
    using books receipts_evolve_map [of "Receipts s" ?g] ev' by (simp add: grows_defs update_where_def)
qed

lemma keeps_updateReceipts:
  assumes T: "\<And>r. P r \<Longrightarrow> lr_TenantID r = T" and key: "\<And>r. lr_ID (f r) = lr_ID r"
  shows "keeps (accounting T) (updateReceipts P f)"
proof -
  have "grows T s (snd (updateReceipts P f s)) \<and> Ledger (snd (updateReceipts P f s)) = Ledger s" for s
  proof (cases "abort_if (concat (map (\<lambda>r. receipt_update_guards s r (f r)) (filter P (Receipts s))))")
    case Inl
    then show ?thesis by (simp add: run_simps updateReceipts_def grows_refl)
  next
    case (Inr u)
    then have "receipt_evolves r (f r)" if "r \<in> set (Receipts s)" "P r" for r
      using that key by (intro receipt_update_evolves) (auto simp: abort_if_ok)
    then show ?thesis using Inr T by (simp add: run_simps updateReceipts_def grows_update_receipts)
  qed
  then show ?thesis by (simp add: keeps_def accounting_def receipted_def)
qed

section \<open>Ledger entries are written within the relation\<close>

lemma grows_put_entry:
  assumes guards: "abort_if (ledger_insert_guards s e) = Inr ()"
    and keys: "\<not> list_ex fst (ledger_keys_taken s e)" and T: "le_TenantID e = T"
  shows "grows T s (s\<lparr>Ledger := Ledger s @ [e]\<rparr>)"
proof -
  have "entry_ok e"
    using guards by (auto simp: abort_if_ok ledger_insert_guards_def entry_ok_def)
  moreover have "value_unit_in s (le_TenantID e) (le_ValueUnitID e)"
    using guards by (auto simp: abort_if_ok ledger_insert_guards_def)
  moreover have "le_ID e \<notin> set (map le_ID (Ledger s))"
    using keys by (auto simp: ledger_keys_taken_def list_ex_iff)
  moreover have "source_key e \<notin> set (map source_key (Ledger s))"
    using keys by (auto simp: ledger_keys_taken_def list_ex_iff source_key_def)
  moreover have "is_reversal e \<Longrightarrow> (le_TenantID e, le_RelatedEntryID e) \<notin>
      set (map (\<lambda>e. (le_TenantID e, le_RelatedEntryID e)) (filter is_reversal (Ledger s)))"
    using keys by (auto simp: ledger_keys_taken_def list_ex_iff is_reversal_def)
  moreover have "link_ok (s\<lparr>Ledger := Ledger s @ [e]\<rparr>) e"
    using guards by (intro link_ok_append) (auto simp: abort_if_ok ledger_insert_guards_def link_ok_def split: option.splits)
  ultimately have "books_ok s \<longrightarrow> books_ok (s\<lparr>Ledger := Ledger s @ [e]\<rparr>)"
    by (auto simp: books_ok_def list_all_iff link_ok_append)
  then show ?thesis by (simp add: grows_defs other_tenants_kept_def receipts_evolve_refl T)
qed

lemma abort_if_list_ex: "abort_if gs = Inr u \<longleftrightarrow> \<not> list_ex fst gs"
  by (auto simp: abort_if_ok list_ex_iff)

lemma keeps_put_entry:
  assumes "le_TenantID e = T"
  shows "keeps (grows T) (insertEntryDoNothing e)"
  using assms grows_refl
  by (auto simp: run_simps keeps_def insertEntryDoNothing_def put_entry_def split: sum.split
      intro!: grows_put_entry)

lemma insertEntryDoNothing_ok:
  "insertEntryDoNothing e s = (Inr u, t) \<Longrightarrow>
   Ledger t = Ledger s @ (if list_ex fst (ledger_keys_taken s e) then [] else [e])"
  by (auto simp: run_simps insertEntryDoNothing_def put_entry_def split: sum.splits if_splits)

lemma insert_all_ok:
  "for_each insertEntryDoNothing es s = (Inr u, t) \<Longrightarrow>
   \<exists>xs. Ledger t = Ledger s @ xs \<and> set xs \<subseteq> set es"
proof (induction es arbitrary: s)
  case (Cons e es)
  from Cons.prems obtain s' where s': "insertEntryDoNothing e s = (Inr (), s')"
    and t: "for_each insertEntryDoNothing es s' = (Inr u, t)" by (auto simp: bnd_ok)
  from Cons.IH [OF t] insertEntryDoNothing_ok [OF s'] show ?case by (auto split: if_splits)
qed simp

lemma hooks_ok:
  assumes "for_each (AfterCreate E) es s = (Inr u, t)" and "set es \<subseteq> {e. le_TenantID e = T}"
    and "T \<noteq> []"
  shows "Ledger t = Ledger s \<and> grows T s t \<and> (\<forall>e \<in> set es. needs_receipt e \<longrightarrow> has_receipt t (le_ID e))"
  using assms
proof (induction es arbitrary: s)
  case (Cons e es)
  from Cons.prems obtain s' where s': "AfterCreate E e s = (Inr (), s')"
    and t: "for_each (AfterCreate E) es s' = (Inr u, t)" by (auto simp: bnd_ok)
  have g: "grows T s s'"
    using Cons.prems keepsD [OF keeps_AfterCreate s'] by simp
  have rest: "Ledger t = Ledger s' \<and> grows T s' t \<and> (\<forall>e \<in> set es. needs_receipt e \<longrightarrow> has_receipt t (le_ID e))"
    using Cons.prems Cons.IH [OF t] by simp
  show ?case
    using AfterCreate_ok [OF s'] g rest grows_trans [OF g] grows_receipt [of T s' t] by auto
qed (simp add: grows_refl)

lemma keeps_ok_createLedgerEntriesDoNothing:
  assumes es: "\<And>e. e \<in> set es \<Longrightarrow> or_default (le_TenantID e) ''default'' = T" and "T \<noteq> []"
  shows "keeps_ok (accounting T) (createLedgerEntriesDoNothing E es)"
  unfolding keeps_ok_def
proof (intro allI impI)
  fix s u t
  let ?es = "map (with_entry_defaults E) es"
  assume "createLedgerEntriesDoNothing E es s = (Inr u, t)"
  then obtain m where m: "for_each insertEntryDoNothing ?es s = (Inr (), m)"
    and t: "for_each (AfterCreate E) ?es m = (Inr u, t)"
    by (auto simp: createLedgerEntriesDoNothing_def Let_def bnd_ok)
  have T: "set ?es \<subseteq> {e. le_TenantID e = T}" using es by auto
  have "keeps (grows T) (for_each insertEntryDoNothing ?es)"
    using T by (intro growing.keeps_for_each keeps_put_entry) auto
  then have sm: "grows T s m" using m by (rule keepsD)
  obtain xs where xs: "Ledger m = Ledger s @ xs" "set xs \<subseteq> set ?es" using insert_all_ok [OF m] by blast
  show "accounting T s t"
    using hooks_ok [OF t T \<open>T \<noteq> []\<close>] grows_trans [OF sm] xs by (auto simp: accounting_def receipted_def)
qed

lemma createLedgerEntry_ok:
  assumes "createLedgerEntry E e s = (Inr x, t)"
  shows "x = with_entry_defaults E e"
    and "abort_if (ledger_insert_guards s x) = Inr ()" and "\<not> list_ex fst (ledger_keys_taken s x)"
    and "AfterCreate E x (s\<lparr>Ledger := Ledger s @ [x]\<rparr>) = (Inr (), t)"
    and "Ledger t = Ledger s @ [x]"
  using assms AfterCreate_ok [of E x "s\<lparr>Ledger := Ledger s @ [x]\<rparr>" "()" t]
  by (auto simp: run_simps createLedgerEntry_def Let_def put_entry_def bnd_ok abort_if_append_ok abort_if_list_ex
      split: sum.splits)

lemma keeps_ok_createLedgerEntry:
  assumes T: "or_default (le_TenantID e) ''default'' = T" "T \<noteq> []"
  shows "keeps_ok (accounting T) (createLedgerEntry E e)"
  unfolding keeps_ok_def
proof (intro allI impI)
  fix s x t
  assume run: "createLedgerEntry E e s = (Inr x, t)"
  note ok = createLedgerEntry_ok [OF run]
  have x: "le_TenantID x = T" using ok(1) T by simp
  have "grows T s t"
    using grows_trans [OF grows_put_entry [OF ok(2,3) x]] keepsD [OF keeps_AfterCreate [OF x T(2)] ok(4)]
    by blast
  then show "accounting T s t"
    using AfterCreate_ok [OF ok(4)] ok(5) by (simp add: accounting_def receipted_def)
qed

lemma createLedgerEntry_results: "results (createLedgerEntry E e) \<subseteq> {with_entry_defaults E e}"
  by (auto simp: results_def dest: createLedgerEntry_ok(1))

section \<open>The other tables\<close>

text \<open>
  A write that leaves the ledger, the receipts and the settlements alone and changes rows of its
  tenant only.
\<close>

lemma accounting_aside:
  assumes "other_tenants_kept T s t" and "Ledger t = Ledger s" and "Receipts t = Receipts s"
    and "Settlements t = Settlements s" and "map cj_ID (Journeys t) = map cj_ID (Journeys s)"
    and "planning_ok s \<Longrightarrow> planning_ok t \<and> periods_follow (WorkPeriods s) (WorkPeriods t)"
    and "rows_follow journey_follows (Journeys s) (Journeys t)"
  shows "accounting T s t"
  using assms value_unit_in_cong [of t s] link_ok_cong [of t s]
  by (simp add: accounting_def grows_defs receipted_def receipts_evolve_refl books_ok_def
      other_tenants_kept_def)

lemma keeps_createSettlement:
  assumes "or_default (js_TenantID x) ''default'' = T"
  shows "keeps (accounting T) (createSettlement E x)"
proof -
  have "accounting T s (snd (createSettlement E x s))" for s
    using assms acc.R_refl
    by (auto simp: run_simps createSettlement_def Let_def accounting_def grows_defs receipted_def
        other_tenants_kept_def receipts_evolve_refl books_ok_def with_settlement_defaults_def
        split: sum.split)
  then show ?thesis by (simp add: keeps_def)
qed

lemma createSettlement_ok:
  "createSettlement E x s = (Inr y, t) \<Longrightarrow>
   y = with_settlement_defaults E x \<and> abort_if (settlement_insert_guards s y) = Inr () \<and>
   t = s\<lparr>Settlements := Settlements s @ [y]\<rparr>"
  by (auto simp: run_simps createSettlement_def Let_def split: sum.splits)

lemma filter_update_where_tenant:
  "(\<And>r. P r \<Longrightarrow> key r = T \<and> key (f r) = T) \<Longrightarrow>
   filter (\<lambda>r. key r \<noteq> T) (update_where P f rows) = filter (\<lambda>r. key r \<noteq> T) rows"
  by (rule filter_update_where_disjoint) simp

lemma keeps_updateJourneys:
  assumes "\<And>j. P j \<Longrightarrow> cj_TenantID j = T \<and> journey_follows j (f j)" and "\<And>j. cj_TenantID (f j) = cj_TenantID j"
    and "\<And>j. cj_ID (f j) = cj_ID j"
  shows "keeps (accounting T) (updateJourneys E P f)"
  using assms acc.R_refl
  by (auto simp: run_simps keeps_def updateJourneys_def other_tenants_kept_def filter_update_where_tenant
      map_update_where split: sum.split intro!: accounting_aside journey_rows.follow_update)

lemma keeps_newID_acc: "keeps (accounting T) (newID E)"
  by (simp add: keeps_def accounting_def newID_grows receipted_def)

section \<open>What the creation of entries touches\<close>

text \<open>The creation of ledger entries touches the ledger and the receipts only.\<close>

definition books_only :: "store \<Rightarrow> store \<Rightarrow> bool" where
  "books_only s t \<longleftrightarrow> (\<exists>l r n. t = s\<lparr>Ledger := l, Receipts := r, IdsUsed := n\<rparr>)"

interpretation books: state_frame books_only
proof
  show "books_only s s" for s
    by (auto simp: books_only_def intro!: exI [of _ "Ledger s"] exI [of _ "Receipts s"] exI [of _ "IdsUsed s"])
  show "books_only s u" if st: "books_only s t" and tu: "books_only t u" for s t u
  proof -
    obtain l r n where t: "t = s\<lparr>Ledger := l, Receipts := r, IdsUsed := n\<rparr>"
      using st unfolding books_only_def by blast
    obtain l' r' n' where u: "u = t\<lparr>Ledger := l', Receipts := r', IdsUsed := n'\<rparr>"
      using tu unfolding books_only_def by blast
    show ?thesis
      unfolding books_only_def t u by (intro exI [of _ l'] exI [of _ r'] exI [of _ n']) simp
  qed
qed

lemma books_only_simps:
  assumes "books_only s t"
  shows "Settlements t = Settlements s" "References t = References s" "Journeys t = Journeys s"
    "People t = People s" "AccrualItems t = AccrualItems s" "TenantSettings t = TenantSettings s"
    "AccrualRuns t = AccrualRuns s" "WorkPeriods t = WorkPeriods s" "Expenses t = Expenses s"
  using assms by (auto simp: books_only_def)

lemma books_only_ids: "books_only s (s\<lparr>IdsUsed := n\<rparr>)"
  unfolding books_only_def by (intro exI [of _ "Ledger s"] exI [of _ "Receipts s"] exI [of _ n]) simp

lemma books_only_write: "books_only s (s\<lparr>Receipts := r\<rparr>)" "books_only s (s\<lparr>Ledger := l\<rparr>)"
  unfolding books_only_def
  by (intro exI [of _ "Ledger s"] exI [of _ r] exI [of _ "IdsUsed s"], simp)
    (intro exI [of _ l] exI [of _ "Receipts s"] exI [of _ "IdsUsed s"], simp)

lemma keeps_books_AfterCreate: "keeps books_only (AfterCreate E x)"
  unfolding AfterCreate_def createReceiptDoNothing_def Let_def put_receipt_def
  by (intro books.keeps_intros) (simp_all add: keeps_def books_only_ids books_only_write)

lemma keeps_books_createLedgerEntry: "keeps books_only (createLedgerEntry E e)"
  unfolding createLedgerEntry_def Let_def put_entry_def
  by (intro books.keeps_intros keeps_books_AfterCreate) (simp_all add: keeps_def books_only_write)

lemma keeps_books_createLedgerEntriesDoNothing: "keeps books_only (createLedgerEntriesDoNothing E es)"
  unfolding createLedgerEntriesDoNothing_def insertEntryDoNothing_def Let_def put_entry_def
  by (intro books.keeps_intros keeps_books_AfterCreate) (simp_all add: keeps_def books_only_write)

end
