(* ===== verification/Demo.thy ===== *)
theory Demo
  imports LedgerFrame
begin

text \<open>
  A small tenant on which the properties are applied: one person with a membership and an open
  journey, the value units and statuses, an earning in BRL and one in gold. The database's \<open>SUM\<close>
  is instantiated by addition from the left, each step rounded.
\<close>

definition demo_env :: env where
  "demo_env = \<lparr>ctxTenant = Some ''t1'', Now = 63840000000 * 1000000000,
     NewID = (\<lambda>n. ''n'' @ replicate n (CHR ''1'')), SumAgg = foldl fadd 0,
     FormatFloat = (\<lambda>x. if x = 0 then ''0'' else ''1''), MapOrder = id\<rparr>"

definition demo_ref :: "string \<Rightarrow> string \<Rightarrow> string \<Rightarrow> ReferenceData" where
  "demo_ref i ty code = zeroReferenceData\<lparr>rd_ID := i, rd_TenantID := ''t1'', rd_Type := ty,
     rd_Code := code, rd_Label := code, rd_Active := True\<rparr>"

definition demo_journey :: CollaboratorJourney where
  "demo_journey = zeroCollaboratorJourney\<lparr>cj_ID := ''j1'', cj_TenantID := ''t1'',
     cj_MembershipID := Some ''m1'', cj_PersonID := ''p1'', cj_PaymentMethodID := ''pay'',
     cj_PaymentValue := 10, cj_SectorID := ''sec'', cj_LocationID := ''loc'', cj_TaskID := ''task'',
     cj_StatusID := ''active''\<rparr>"

definition demo_entry :: "string \<Rightarrow> string \<Rightarrow> string \<Rightarrow> float64 \<Rightarrow> LedgerEntry" where
  "demo_entry i u dir amount = zeroLedgerEntry\<lparr>le_ID := i, le_CreatedAt := 1, le_UpdatedAt := 1,
     le_TenantID := ''t1'', le_PersonID := ''g1'', le_CollaboratorID := ''j1'', le_ValueUnitID := u,
     le_EntryType := ''EARNING_CREDIT'', le_Direction := dir, le_Amount := amount,
     le_EffectiveDate := day_ns, le_SourceType := ''ACCRUAL_ITEM'', le_SourceID := i,
     le_Active := True, le_CorrectionType := ''ORIGINAL''\<rparr>"

definition demo_store :: store where
  "demo_store = \<lparr>
     Tenants = [\<lparr>tn_ID = ''t1'', tn_CreatedAt = 1, tn_UpdatedAt = 1, tn_Code = ''T1'',
        tn_Name = ''T1'', tn_Description = [], tn_Active = True\<rparr>],
     TenantSettings = [],
     References = [demo_ref ''brl'' ''value_unit'' ''BRL'', demo_ref ''gold'' ''value_unit'' ''GOLD_GRAM'',
        demo_ref ''active'' ''collaborator_status'' ''ACTIVE'',
        demo_ref ''finished'' ''collaborator_status'' ''FINISHED'',
        demo_ref ''pay'' ''method'' ''GOLD_COMMISSION'', demo_ref ''sec'' ''sector'' ''S'',
        demo_ref ''loc'' ''location'' ''L'', demo_ref ''task'' ''task'' ''T'',
        demo_ref ''cat'' ''expense_category'' ''CANTEEN''],
     GlobalPeople = [zeroGlobalPerson\<lparr>gp_ID := ''g1'', gp_FirstName := ''Ana'', gp_LastName := ''Lima''\<rparr>],
     Memberships = [zeroPersonTenantMembership\<lparr>pm_ID := ''m1'', pm_TenantID := ''t1'', pm_PersonID := ''g1''\<rparr>],
     People = [zeroPerson\<lparr>pe_ID := ''p1'', pe_TenantID := ''t1'', pe_FirstName := ''Ana''\<rparr>],
     Journeys = [demo_journey], PriceListItems = [], GoldPrices = [], Expenses = [],
     Settlements = [], Receipts = [], WorkPeriods = [], Assignments = [], GoldProduction = [],
     AccrualRuns = [], AccrualItems = [],
     Ledger = [demo_entry ''e1'' ''brl'' ''CREDIT'' 100, demo_entry ''e2'' ''gold'' ''CREDIT'' (5 / 2)],
     IdsUsed = 0\<rparr>"

definition demo_no_ledger :: store where
  "demo_no_ledger = demo_store\<lparr>Ledger := []\<rparr>"

text \<open>A run that did not fail has a value.\<close>

lemma succeeded: "\<not> isl (fst r) \<Longrightarrow> \<exists>x t. r = (Inr x, t)"
  by (cases r; cases "fst r") auto

lemma failed: "isl (fst r) \<Longrightarrow> \<exists>e t. r = (Inl e, t)"
  by (cases r; cases "fst r") auto

lemma demo_books: "books_ok demo_store"
  by code_simp

end
