(* ===== verification/AccountRequests.thy ===== *)
theory AccountRequests
  imports Demo
begin

text \<open>
  The requests of the current-account service and their validation
  (\<open>backend/internal/currentaccounts/dto.go\<close>, \<open>validation.go\<close>), the authorization keys of
  corrections and settlements, and the policy that asks for a second approver
  (\<open>second_approval.go\<close>).
\<close>

section \<open>Requests\<close>

record SecondApprovalRequest =
  sa_ApprovedBy :: string
  sa_Notes :: string

record CorrectionReasonRequest =
  cr_ReasonCode :: string
  cr_ReasonText :: string
  cr_Reason :: string
  cr_SecondApproval :: "SecondApprovalRequest option"

record ReverseLedgerEntryRequest =
  rv_Reason :: CorrectionReasonRequest
  rv_EffectiveDate :: string

record ReplaceLedgerEntryRequest =
  rp_Reason :: CorrectionReasonRequest
  rp_ValueUnitID :: string
  rp_EntryType :: string
  rp_Direction :: string
  rp_Amount :: float64
  rp_EffectiveDate :: string
  rp_Description :: string

record ZeroGoldRequest =
  zg_Reason :: CorrectionReasonRequest
  zg_RequestID :: string
  zg_EffectiveDate :: string
  zg_Notes :: string

record PartialPayoutRequest =
  pp_Reason :: CorrectionReasonRequest
  pp_RequestID :: string
  pp_EffectiveDate :: string
  pp_BRLAmount :: float64
  pp_GoldGramAmount :: float64
  pp_Notes :: string

record FinalSettlementRequest =
  fs_Reason :: CorrectionReasonRequest
  fs_RequestID :: string
  fs_EffectiveDate :: string
  fs_Notes :: string

record CloseJourneyRequest =
  cl_Reason :: CorrectionReasonRequest
  cl_RequestID :: string
  cl_EffectiveDate :: string
  cl_Confirm :: bool
  cl_Notes :: string

record AcceptReceiptRequest =
  aq_Confirm :: bool
  aq_Notes :: string

record ReturnReceiptRequest =
  rr_SignedDocumentRef :: string
  rr_Notes :: string

record ReceiptBackfillRequest =
  bf_Reason :: CorrectionReasonRequest

section \<open>Validation\<close>

definition normalizedCorrectionReason :: "CorrectionReasonRequest \<Rightarrow> string \<times> string" where
  "normalizedCorrectionReason req = (let
       code = ToUpper (TrimSpace (cr_ReasonCode req));
       text = TrimSpace (cr_ReasonText req);
       text = (if text = [] then TrimSpace (cr_Reason req) else text);
       code = (if code = [] \<and> text \<noteq> [] then ''MANUAL_CORRECTION'' else code)
     in (code, text))"

type_synonym validation_fields = "(string \<times> string) list"

definition validateCorrectionReason ::
  "CorrectionReasonRequest \<Rightarrow> validation_fields \<Rightarrow> validation_fields" where
  "validateCorrectionReason req fs = (let (code, text) = normalizedCorrectionReason req in
     check (text = []) ''reasonText'' ''Required'' (check (code = []) ''reasonCode'' ''Required'' fs))"

definition normalizedSecondApproval :: "CorrectionReasonRequest \<Rightarrow> string \<times> string" where
  "normalizedSecondApproval req = (case cr_SecondApproval req of
       None \<Rightarrow> ([], [])
     | Some a \<Rightarrow> (TrimSpace (sa_ApprovedBy a), TrimSpace (sa_Notes a)))"

definition validateOptionalSecondApproval ::
  "CorrectionReasonRequest \<Rightarrow> string \<Rightarrow> validation_fields \<Rightarrow> validation_fields"
  where
  "validateOptionalSecondApproval req authorizedBy fs =
    (let approvedBy = fst (normalizedSecondApproval req) in
     if cr_SecondApproval req = None then fs
     else if approvedBy = [] then AList.update ''secondApproval.approvedBy'' ''Required'' fs
     else check (EqualFold approvedBy (TrimSpace authorizedBy)) ''secondApproval.approvedBy''
       ''Second approver must be different from the authorizing actor'' fs)"

definition validateRequiredSecondApproval ::
  "CorrectionReasonRequest \<Rightarrow> string \<Rightarrow> validation_fields \<Rightarrow> validation_fields"
  where
  "validateRequiredSecondApproval req authorizedBy fs =
    (if cr_SecondApproval req = None
     then AList.update ''secondApproval.approvedBy''
       ''Required when second-person approval is configured for sensitive operations'' fs
     else validateOptionalSecondApproval req authorizedBy fs)"

definition required :: "string \<Rightarrow> string \<Rightarrow> validation_fields \<Rightarrow> validation_fields" where
  "required key value = check (TrimSpace value = []) key ''Required''"

definition validateEffectiveDate :: "string \<Rightarrow> validation_fields \<Rightarrow> validation_fields" where
  "validateEffectiveDate value =
     check (parseDate value = None) ''effectiveDate'' ''Effective date must be YYYY-MM-DD''"

definition ValidateReverseLedgerEntryRequest ::
  "ReverseLedgerEntryRequest \<Rightarrow> string \<Rightarrow> app_error + unit" where
  "ValidateReverseLedgerEntryRequest req authorizedBy = validated
     (validateEffectiveDate (rv_EffectiveDate req)
     (validateOptionalSecondApproval (rv_Reason req) authorizedBy
     (validateCorrectionReason (rv_Reason req)
     (required ''authorizedBy'' authorizedBy []))))"

definition ValidateReplaceLedgerEntryRequest ::
  "ReplaceLedgerEntryRequest \<Rightarrow> string \<Rightarrow> app_error + unit" where
  "ValidateReplaceLedgerEntryRequest req authorizedBy =
    (let direction = ToUpper (TrimSpace (rp_Direction req)) in validated
     (validateEffectiveDate (rp_EffectiveDate req)
     (check (rp_Amount req \<le> 0) ''amount'' ''Amount must be greater than zero''
     (check (direction \<noteq> ''CREDIT'' \<and> direction \<noteq> ''DEBIT'') ''direction''
        ''Direction must be CREDIT or DEBIT''
     (required ''entryType'' (rp_EntryType req)
     (required ''valueUnitId'' (rp_ValueUnitID req)
     (validateOptionalSecondApproval (rp_Reason req) authorizedBy
     (validateCorrectionReason (rp_Reason req)
     (required ''authorizedBy'' authorizedBy [])))))))))"

definition validateSettlementFields ::
  "CorrectionReasonRequest \<Rightarrow> string \<Rightarrow> string \<Rightarrow> string \<Rightarrow> validation_fields" where
  "validateSettlementFields reason requestID effectiveDate authorizedBy =
     validateEffectiveDate effectiveDate
     (validateOptionalSecondApproval reason authorizedBy
     (validateCorrectionReason reason
     (required ''requestId'' requestID
     (required ''authorizedBy'' authorizedBy []))))"

definition ValidateZeroGoldRequest :: "ZeroGoldRequest \<Rightarrow> string \<Rightarrow> app_error + unit" where
  "ValidateZeroGoldRequest req authorizedBy = validated
     (validateSettlementFields (zg_Reason req) (zg_RequestID req) (zg_EffectiveDate req) authorizedBy)"

text \<open>The loop \<open>for range places \{ scale *= 10 \}\<close>.\<close>

fun mulTens :: "nat \<Rightarrow> float64 \<Rightarrow> float64" where
  "mulTens 0 scale = scale"
| "mulTens (Suc n) scale = mulTens n (fmul scale 10)"

definition hasAtMostDecimalPlaces :: "float64 \<Rightarrow> nat \<Rightarrow> bool" where
  "hasAtMostDecimalPlaces value places = (let
       scale = mulTens places 1;
       scaled = fmul value scale
     in \<bar>fsub scaled (goRound scaled)\<bar> < rnd (1 / 10000000))"

definition ValidatePartialPayoutRequest :: "PartialPayoutRequest \<Rightarrow> string \<Rightarrow> app_error + unit" where
  "ValidatePartialPayoutRequest req authorizedBy = validated
     (check (pp_BRLAmount req \<le> 0 \<and> pp_GoldGramAmount req \<le> 0) ''amount''
        ''At least one payout amount must be greater than zero''
     ((if pp_GoldGramAmount req < 0
       then AList.update ''goldGramAmount'' ''Gold amount cannot be negative''
       else check (\<not> hasAtMostDecimalPlaces (pp_GoldGramAmount req) 8) ''goldGramAmount''
         ''Gold amount supports at most 8 decimal places'')
     ((if pp_BRLAmount req < 0
       then AList.update ''brlAmount'' ''BRL amount cannot be negative''
       else check (\<not> hasAtMostDecimalPlaces (pp_BRLAmount req) 2) ''brlAmount''
         ''BRL amount supports at most 2 decimal places'')
     (validateSettlementFields (pp_Reason req) (pp_RequestID req) (pp_EffectiveDate req) authorizedBy))))"

definition ValidateCloseJourneyRequest :: "CloseJourneyRequest \<Rightarrow> string \<Rightarrow> app_error + unit" where
  "ValidateCloseJourneyRequest req authorizedBy = validated
     (check (\<not> cl_Confirm req) ''confirm'' ''Confirmation is required''
     (validateSettlementFields (cl_Reason req) (cl_RequestID req) (cl_EffectiveDate req) authorizedBy))"

definition ValidateReceiptBackfillRequest ::
  "ReceiptBackfillRequest \<Rightarrow> string \<Rightarrow> app_error + unit" where
  "ValidateReceiptBackfillRequest req authorizedBy = validated
     (validateOptionalSecondApproval (bf_Reason req) authorizedBy
     (validateCorrectionReason (bf_Reason req)
     (required ''authorizedBy'' authorizedBy [])))"

definition ValidateFinalSettlementRequest ::
  "FinalSettlementRequest \<Rightarrow> string \<Rightarrow> app_error + unit" where
  "ValidateFinalSettlementRequest req authorizedBy = validated
     (validateSettlementFields (fs_Reason req) (fs_RequestID req) (fs_EffectiveDate req) authorizedBy)"

definition ValidateAcceptReceiptRequest :: "AcceptReceiptRequest \<Rightarrow> app_error + unit" where
  "ValidateAcceptReceiptRequest req =
     (if aq_Confirm req then Inr ()
      else Inl (ValidationError [(''confirm'', ''Confirmation is required'')]))"

section \<open>Authorization keys\<close>

text \<open>
  \<open>NewService\<close> trims the two configured keys. The two functions compare them with the key the
  request carries.
\<close>

definition AuthorizeCorrection :: "string \<Rightarrow> string \<Rightarrow> app_error + unit" where
  "AuthorizeCorrection ledgerCorrectionKey providedKey = (let
       expected = TrimSpace ledgerCorrectionKey; provided = TrimSpace providedKey
     in if expected = [] then Inl ErrLedgerCorrectionDisabled
        else if length expected \<noteq> length provided \<or> expected \<noteq> provided
        then Inl ErrLedgerCorrectionForbidden else Inr ())"

definition AuthorizeSettlement :: "string \<Rightarrow> string \<Rightarrow> app_error + unit" where
  "AuthorizeSettlement ledgerSettlementKey providedKey = (let
       expected = TrimSpace ledgerSettlementKey; provided = TrimSpace providedKey
     in if expected = [] then Inl ErrLedgerSettlementDisabled
        else if length expected \<noteq> length provided \<or> expected \<noteq> provided
        then Inl ErrLedgerSettlementForbidden else Inr ())"

section \<open>Second-person approval\<close>

definition SecondPersonApprovalPolicyKey :: string where
  "SecondPersonApprovalPolicyKey =
     ''current_accounts.require_second_person_approval_for_sensitive_operations''"

definition optionalApprovalTime :: "string \<Rightarrow> time \<Rightarrow> time option" where
  "optionalApprovalTime approvedBy now = (if TrimSpace approvedBy = [] then None else Some now)"

definition parseBoolSetting :: "string \<Rightarrow> bool" where
  "parseBoolSetting v \<longleftrightarrow>
     TrimSpace v \<in> set [''1'', ''t'', ''T'', ''true'', ''TRUE'', ''True'']"

definition formatBoolSetting :: "bool \<Rightarrow> string" where
  "formatBoolSetting v = (if v then ''true'' else ''false'')"

definition normalizedTenantID :: "env \<Rightarrow> string \<Rightarrow> string" where
  "normalizedTenantID E T = (let T = TrimSpace T in if T = [] then TenantID E else T)"

definition GetTenantSettingRow :: "env \<Rightarrow> string \<Rightarrow> string \<Rightarrow> store \<Rightarrow> app_error + TenantSetting" where
  "GetTenantSettingRow E T key s = found ErrRecordNotFound
     (first_by ts_ID (\<lambda>r. ts_TenantID r = normalizedTenantID E T \<and> ts_Key r = TrimSpace key)
       (TenantSettings s))"

text \<open>\<open>INSERT\<close> into \<open>tenant_settings\<close> (unique on tenant and key) and \<open>Save\<close>, which updates by key.\<close>

definition UpsertTenantSetting ::
  "env \<Rightarrow> string \<Rightarrow> string \<Rightarrow> string \<Rightarrow> string \<Rightarrow> string \<Rightarrow> TenantSetting app"
  where
  "UpsertTenantSetting E T0 key0 value0 description0 updatedBy0 = (let
       T = normalizedTenantID E T0; now = Now E; key = TrimSpace key0; value = TrimSpace value0;
       description = TrimSpace description0; updatedBy = TrimSpace updatedBy0 in
     transaction (attempt
       (query (\<lambda>s. found ErrRecordNotFound
          (first_by ts_ID (\<lambda>r. ts_TenantID r = T \<and> ts_Key r = key) (TenantSettings s))))
       (\<lambda>row. let row = row\<lparr>ts_Value := value, ts_Description := description,
            ts_UpdatedBy := updatedBy, ts_UpdatedAt := now\<rparr> in
          bnd (modify (\<lambda>s. s\<lparr>TenantSettings :=
                 update_where (\<lambda>r. ts_ID r = ts_ID row \<and> ts_TenantID r = T) (\<lambda>_. row) (TenantSettings s)\<rparr>))
            (\<lambda>_. ret row))
       ErrRecordNotFound
       (bnd (newID E) (\<lambda>i.
          let row = \<lparr>ts_ID = ''tenant-setting-'' @ i, ts_CreatedAt = now, ts_UpdatedAt = now,
            ts_TenantID = T, ts_Key = key, ts_Value = value, ts_Description = description,
            ts_UpdatedBy = updatedBy\<rparr> in
          bnd (query (\<lambda>s. abort_if [
                 (\<not> tenant_exists s T, ''tenant_integrity_violation''),
                 (list_ex (\<lambda>r. ts_ID r = ts_ID row) (TenantSettings s),
                    ''UNIQUE constraint failed: tenant_settings.id''),
                 (list_ex (\<lambda>r. ts_TenantID r = T \<and> ts_Key r = key) (TenantSettings s),
                    ''UNIQUE constraint failed: tenant_settings.tenant_id, tenant_settings.key'')]))
            (\<lambda>_. bnd (modify (\<lambda>s. s\<lparr>TenantSettings := TenantSettings s @ [row]\<rparr>))
            (\<lambda>_. ret row))))))"

record SecondPersonApprovalPolicyDTO =
  sp_TenantID :: string
  sp_Required :: bool
  sp_UpdatedBy :: string
  sp_UpdatedAt :: string

definition mapSecondPersonApprovalPolicy :: "TenantSetting \<Rightarrow> SecondPersonApprovalPolicyDTO" where
  "mapSecondPersonApprovalPolicy row = \<lparr>
     sp_TenantID = ts_TenantID row, sp_Required = parseBoolSetting (ts_Value row),
     sp_UpdatedBy = ts_UpdatedBy row,
     sp_UpdatedAt = (if ts_UpdatedAt row = 0 then [] else formatRFC3339 (ts_UpdatedAt row))\<rparr>"

definition GetSecondPersonApprovalPolicy :: "env \<Rightarrow> string \<Rightarrow> SecondPersonApprovalPolicyDTO app" where
  "GetSecondPersonApprovalPolicy E T0 = (let T = normalizedTenantID E T0 in
     attempt (query (GetTenantSettingRow E T SecondPersonApprovalPolicyKey))
       (\<lambda>row. ret (mapSecondPersonApprovalPolicy row)) ErrRecordNotFound
       (ret \<lparr>sp_TenantID = T, sp_Required = False, sp_UpdatedBy = [], sp_UpdatedAt = []\<rparr>))"

definition UpdateSecondPersonApprovalPolicy ::
  "env \<Rightarrow> string \<Rightarrow> string \<Rightarrow> bool \<Rightarrow> SecondPersonApprovalPolicyDTO app"
  where
  "UpdateSecondPersonApprovalPolicy E T0 updatedBy req_Required = (let T = normalizedTenantID E T0 in
     bnd (UpsertTenantSetting E T SecondPersonApprovalPolicyKey (formatBoolSetting req_Required)
            ''Require second-person approval for sensitive current-account operations'' updatedBy)
       (\<lambda>row. ret (mapSecondPersonApprovalPolicy row)))"

definition sensitiveOperationsRequireSecondApproval ::
  "env \<Rightarrow> string \<Rightarrow> store \<Rightarrow> app_error + bool" where
  "sensitiveOperationsRequireSecondApproval E T s =
     (case GetTenantSettingRow E T SecondPersonApprovalPolicyKey s of
        Inl e \<Rightarrow> if e = ErrRecordNotFound then Inr False else Inl e
      | Inr row \<Rightarrow> Inr (parseBoolSetting (ts_Value row)))"

definition requireSecondApprovalWhenConfigured ::
  "env \<Rightarrow> CorrectionReasonRequest \<Rightarrow> string \<Rightarrow> store \<Rightarrow> app_error + unit"
  where
  "requireSecondApprovalWhenConfigured E req authorizedBy s =
     tri (sensitiveOperationsRequireSecondApproval E (TenantID E) s)
       (\<lambda>needed. if \<not> needed then Inr ()
          else validated (validateRequiredSecondApproval req authorizedBy []))"

section \<open>What they guarantee\<close>

text \<open>A second approver that passes differs from the actor; the policy makes one mandatory.\<close>

definition approved_by_another :: "CorrectionReasonRequest \<Rightarrow> string \<Rightarrow> bool" where
  "approved_by_another req authorizedBy \<longleftrightarrow>
     (\<exists>a. cr_SecondApproval req = Some a \<and> TrimSpace (sa_ApprovedBy a) \<noteq> [] \<and>
        \<not> EqualFold (TrimSpace (sa_ApprovedBy a)) (TrimSpace authorizedBy))"

lemma validateOptionalSecondApproval_Nil:
  "validateOptionalSecondApproval req by fs = [] \<longleftrightarrow>
   fs = [] \<and> (cr_SecondApproval req = None \<or> approved_by_another req by)"
  by (auto simp: validateOptionalSecondApproval_def approved_by_another_def
      normalizedSecondApproval_def Let_def)

lemma validateRequiredSecondApproval_Nil:
  "validateRequiredSecondApproval req by fs = [] \<longleftrightarrow> fs = [] \<and> approved_by_another req by"
  by (auto simp: validateRequiredSecondApproval_def validateOptionalSecondApproval_Nil
      approved_by_another_def)

lemma required_Nil [simp]: "required k v fs = [] \<longleftrightarrow> TrimSpace v \<noteq> [] \<and> fs = []"
  by (simp add: required_def)

lemma validateEffectiveDate_Nil [simp]:
  "validateEffectiveDate v fs = [] \<longleftrightarrow> (\<exists>t. parseDate v = Some t) \<and> fs = []"
  by (auto simp: validateEffectiveDate_def)

lemma validateSettlementFields_Nil:
  "validateSettlementFields reason requestID effectiveDate authorizedBy = [] \<longleftrightarrow>
   TrimSpace authorizedBy \<noteq> [] \<and> TrimSpace requestID \<noteq> [] \<and> validateCorrectionReason reason [] = [] \<and>
   (cr_SecondApproval reason = None \<or> approved_by_another reason authorizedBy) \<and>
   (\<exists>t. parseDate effectiveDate = Some t)"
  by (auto simp: validateSettlementFields_def validateOptionalSecondApproval_Nil
      validateCorrectionReason_def split: prod.splits)

lemma required_second_approval:
  assumes "requireSecondApprovalWhenConfigured E req by s = Inr ()"
    and "sensitiveOperationsRequireSecondApproval E (TenantID E) s = Inr True"
  shows "approved_by_another req by"
  using assms by (simp add: requireSecondApprovalWhenConfigured_def validateRequiredSecondApproval_Nil)

text \<open>A reason for the demonstration requests.\<close>

definition demo_reason :: CorrectionReasonRequest where
  "demo_reason = \<lparr>cr_ReasonCode = ''fix'', cr_ReasonText = ''typo'', cr_Reason = [],
     cr_SecondApproval = Some \<lparr>sa_ApprovedBy = ''chief'', sa_Notes = []\<rparr>\<rparr>"

end
