(* ===== verification/AccountQueries.thy ===== *)
theory AccountQueries
  imports AccountRequests
begin

text \<open>
  The reads of the current-account repository (\<open>repository_gorm.go\<close>), the balances of a journey and
  of a person, the settlement preview and the lists of a current account (\<open>service_impl.go\<close>,
  \<open>receipt_outstanding.go\<close>). Every read filters on the tenant of the request. \<open>First\<close> orders by the
  primary key; the rows that compare equal under an \<open>ORDER BY\<close> keep the order of insertion, which
  SQLite leaves open.
\<close>

section \<open>Rows with their preloaded associations\<close>

text \<open>\<open>Preload\<close> looks the association up by its primary key; one that is missing stays Go's zero value.\<close>

definition preload :: "('r \<Rightarrow> string) \<Rightarrow> 'r \<Rightarrow> string \<Rightarrow> 'r list \<Rightarrow> 'r" where
  "preload key zero i rows = (case List.find (\<lambda>r. key r = i) rows of None \<Rightarrow> zero | Some r \<Rightarrow> r)"

record CollaboratorView =
  cv_Journey :: CollaboratorJourney
  cv_Person :: Person
  cv_Membership :: PersonTenantMembership
  cv_MembershipPerson :: GlobalPerson
  cv_Status :: ReferenceData
  cv_PaymentMethod :: ReferenceData
  cv_Location :: ReferenceData

definition journey_membership :: "store \<Rightarrow> CollaboratorJourney \<Rightarrow> PersonTenantMembership" where
  "journey_membership s j = (case cj_MembershipID j of
       None \<Rightarrow> zeroPersonTenantMembership
     | Some m \<Rightarrow> preload pm_ID zeroPersonTenantMembership m (Memberships s))"

definition collaborator_view :: "store \<Rightarrow> CollaboratorJourney \<Rightarrow> CollaboratorView" where
  "collaborator_view s j = \<lparr>
     cv_Journey = j,
     cv_Person = preload pe_ID zeroPerson (cj_PersonID j) (People s),
     cv_Membership = journey_membership s j,
     cv_MembershipPerson =
       preload gp_ID zeroGlobalPerson (pm_PersonID (journey_membership s j)) (GlobalPeople s),
     cv_Status = preload rd_ID zeroReferenceData (cj_StatusID j) (References s),
     cv_PaymentMethod = preload rd_ID zeroReferenceData (cj_PaymentMethodID j) (References s),
     cv_Location = preload rd_ID zeroReferenceData (cj_LocationID j) (References s)\<rparr>"

definition FindCollaboratorByID :: "env \<Rightarrow> string \<Rightarrow> store \<Rightarrow> app_error + CollaboratorView" where
  "FindCollaboratorByID E c s = tri (found ErrRecordNotFound
       (first_by cj_ID (\<lambda>j. cj_ID j = c \<and> cj_TenantID j = TenantID E) (Journeys s)))
     (\<lambda>j. Inr (collaborator_view s j))"

definition collaboratorLabel :: "Person \<Rightarrow> string" where
  "collaboratorLabel p = (if TrimSpace (pe_Nickname p) \<noteq> [] then TrimSpace (pe_Nickname p)
     else TrimSpace (pe_FirstName p @ '' '' @ pe_LastName p))"

definition globalPersonLabel :: "GlobalPerson \<Rightarrow> string" where
  "globalPersonLabel p = (if TrimSpace (gp_Nickname p) \<noteq> [] then TrimSpace (gp_Nickname p)
     else TrimSpace (gp_FirstName p @ '' '' @ gp_LastName p))"

definition financialOwnerPersonID :: "CollaboratorView \<Rightarrow> app_error + string" where
  "financialOwnerPersonID v = (let p = TrimSpace (pm_PersonID (cv_Membership v)) in
     if p = [] then Inl ErrFinancialOwnerMissing else Inr p)"

section \<open>Lookups\<close>

definition FindEntryByID :: "env \<Rightarrow> string \<Rightarrow> store \<Rightarrow> app_error + LedgerEntry" where
  "FindEntryByID E i s = found ErrRecordNotFound
     (first_by le_ID (\<lambda>e. le_ID e = i \<and> le_TenantID e = TenantID E) (Ledger s))"

definition FindValueUnitByID :: "env \<Rightarrow> string \<Rightarrow> store \<Rightarrow> app_error + ReferenceData" where
  "FindValueUnitByID E i s = found ErrRecordNotFound
     (first_by rd_ID (\<lambda>r. rd_ID r = i \<and> rd_TenantID r = TenantID E \<and> rd_Type r = ''value_unit'' \<and>
        rd_Active r) (References s))"

definition FindReferenceByCode :: "env \<Rightarrow> string \<Rightarrow> string \<Rightarrow> store \<Rightarrow> app_error + ReferenceData" where
  "FindReferenceByCode E ty code s = found ErrRecordNotFound
     (first_by rd_ID (\<lambda>r. rd_TenantID r = TenantID E \<and> rd_Type r = ty \<and> rd_Code r = code \<and>
        rd_Active r) (References s))"

definition FindValueUnitByCode :: "env \<Rightarrow> string \<Rightarrow> store \<Rightarrow> app_error + ReferenceData" where
  "FindValueUnitByCode E code = FindReferenceByCode E ''value_unit'' code"

definition FindCollaboratorStatusByCode :: "env \<Rightarrow> string \<Rightarrow> store \<Rightarrow> app_error + ReferenceData" where
  "FindCollaboratorStatusByCode E code = FindReferenceByCode E ''collaborator_status'' code"

definition HasReversal :: "env \<Rightarrow> string \<Rightarrow> store \<Rightarrow> bool" where
  "HasReversal E i s \<longleftrightarrow> 0 < count_where (\<lambda>e. le_TenantID e = TenantID E \<and>
     le_CorrectionType e = ''REVERSAL'' \<and> le_RelatedEntryID e = Some i) (Ledger s)"

definition FindSettlementByRequestID ::
  "env \<Rightarrow> string \<Rightarrow> string \<Rightarrow> store \<Rightarrow> app_error + JourneySettlement" where
  "FindSettlementByRequestID E c q s = found ErrRecordNotFound
     (first_by js_ID (\<lambda>x. js_TenantID x = TenantID E \<and> js_CollaboratorID x = c \<and>
        js_RequestID x = q) (Settlements s))"

definition FindLedgerEntryBySource ::
  "env \<Rightarrow> string \<Rightarrow> string \<Rightarrow> store \<Rightarrow> app_error + LedgerEntry" where
  "FindLedgerEntryBySource E ty i s = found ErrRecordNotFound
     (first_by le_ID (\<lambda>e. le_TenantID e = TenantID E \<and> le_SourceType e = ty \<and> le_SourceID e = i)
        (Ledger s))"

definition FindLedgerEntriesBySource ::
  "env \<Rightarrow> string \<Rightarrow> string \<Rightarrow> store \<Rightarrow> LedgerEntry list" where
  "FindLedgerEntriesBySource E ty i s = sort_key (\<lambda>e. (le_CreatedAt e, le_ID e))
     (filter (\<lambda>e. le_TenantID e = TenantID E \<and> le_SourceType e = ty \<and> le_SourceID e = i) (Ledger s))"

definition FindReceiptByLedgerEntryID :: "env \<Rightarrow> string \<Rightarrow> store \<Rightarrow> app_error + LedgerReceipt" where
  "FindReceiptByLedgerEntryID E i s = found ErrRecordNotFound
     (first_by lr_ID (\<lambda>r. lr_LedgerEntryID r = i \<and> lr_TenantID r = TenantID E) (Receipts s))"

definition FindReceiptByID :: "env \<Rightarrow> string \<Rightarrow> store \<Rightarrow> app_error + LedgerReceipt" where
  "FindReceiptByID E i s = found ErrRecordNotFound
     (first_by lr_ID (\<lambda>r. lr_ID r = i \<and> lr_TenantID r = TenantID E) (Receipts s))"

definition FindCollaboratorTenantID :: "string \<Rightarrow> store \<Rightarrow> app_error + string" where
  "FindCollaboratorTenantID c s = tri (found ErrRecordNotFound
     (first_by cj_ID (\<lambda>j. cj_ID j = c) (Journeys s))) (\<lambda>j. Inr (cj_TenantID j))"

definition FindLedgerEntryTenantID :: "string \<Rightarrow> store \<Rightarrow> app_error + string" where
  "FindLedgerEntryTenantID i s = tri (found ErrRecordNotFound
     (first_by le_ID (\<lambda>e. le_ID e = i) (Ledger s))) (\<lambda>e. Inr (le_TenantID e))"

section \<open>Balances\<close>

record BalanceRow =
  br_PersonID :: string
  br_PersonLabel :: string
  br_CollaboratorID :: string
  br_CollaboratorLabel :: string
  br_ValueUnitID :: string
  br_ValueUnitCode :: string
  br_ValueUnitLabel :: string
  br_Balance :: float64

text \<open>
  \<open>COALESCE(NULLIF(TRIM(nickname), ''), TRIM(first_name || ' ' || last_name))\<close>, and the grouped
  sum over the entries of one journey or person: an inner join drops an entry whose person or value
  unit is missing, \<open>HAVING\<close> drops the groups that are zero up to the tolerance.
\<close>

definition sql_label :: "string \<Rightarrow> string \<Rightarrow> string \<Rightarrow> string" where
  "sql_label nickname firstName lastName =
     (if SqlTrim nickname \<noteq> [] then SqlTrim nickname else SqlTrim (firstName @ '' '' @ lastName))"

definition unit_of :: "store \<Rightarrow> string \<Rightarrow> string \<Rightarrow> ReferenceData option" where
  "unit_of s T u = List.find (\<lambda>r. rd_ID r = u \<and> rd_TenantID r = T) (References s)"

definition grouped_balances ::
  "env \<Rightarrow> store \<Rightarrow> (ReferenceData \<Rightarrow> float64 \<Rightarrow> BalanceRow) \<Rightarrow> LedgerEntry list \<Rightarrow> BalanceRow list"
  where
  "grouped_balances E s row es = (let
       joined = filter (\<lambda>e. unit_of s (TenantID E) (le_ValueUnitID e) \<noteq> None) es;
       units = List.map_filter (unit_of s (TenantID E)) (remdups (map le_ValueUnitID joined));
       kept = filter (\<lambda>r. balanceZeroTolerance < \<bar>unit_balance E (rd_ID r) joined\<bar>) units
     in map (\<lambda>r. row r (unit_balance E (rd_ID r) joined))
          (sort_key (\<lambda>r. (rd_SortOrder r, rd_Label r)) kept))"

definition ListBalances :: "env \<Rightarrow> string \<Rightarrow> store \<Rightarrow> BalanceRow list" where
  "ListBalances E c s = (let T = TenantID E in
     case List.find (\<lambda>j. cj_ID j = c \<and> cj_TenantID j = T) (Journeys s) of
       None \<Rightarrow> []
     | Some j \<Rightarrow> (case List.find (\<lambda>p. pe_ID p = cj_PersonID j \<and> pe_TenantID p = T) (People s) of
         None \<Rightarrow> []
       | Some p \<Rightarrow> grouped_balances E s (\<lambda>r b. \<lparr>
           br_PersonID = [], br_PersonLabel = [], br_CollaboratorID = c,
           br_CollaboratorLabel = sql_label (pe_Nickname p) (pe_FirstName p) (pe_LastName p),
           br_ValueUnitID = rd_ID r, br_ValueUnitCode = rd_Code r, br_ValueUnitLabel = rd_Label r,
           br_Balance = b\<rparr>) (journey_entries s T c)))"

definition person_entries :: "store \<Rightarrow> string \<Rightarrow> string \<Rightarrow> LedgerEntry list" where
  "person_entries s T p = filter (\<lambda>e. le_TenantID e = T \<and> le_PersonID e = p \<and> le_Active e) (Ledger s)"

definition ListPersonBalances :: "env \<Rightarrow> string \<Rightarrow> store \<Rightarrow> BalanceRow list" where
  "ListPersonBalances E p0 s = (let p = TrimSpace p0 in
     case List.find (\<lambda>g. gp_ID g = p) (GlobalPeople s) of
       None \<Rightarrow> []
     | Some g \<Rightarrow> grouped_balances E s (\<lambda>r b. \<lparr>
         br_PersonID = p, br_PersonLabel = sql_label (gp_Nickname g) (gp_FirstName g) (gp_LastName g),
         br_CollaboratorID = [], br_CollaboratorLabel = [],
         br_ValueUnitID = rd_ID r, br_ValueUnitCode = rd_Code r, br_ValueUnitLabel = rd_Label r,
         br_Balance = b\<rparr>) (person_entries s (TenantID E) p))"

definition normalizedZero :: "float64 \<Rightarrow> float64" where
  "normalizedZero v = (if \<bar>v\<bar> \<le> balanceZeroTolerance then 0 else v)"

text \<open>
  \<open>service.ListBalances\<close>: the balances of the person who owns the journey, labelled with the journey.
\<close>

definition ToBalanceDTO :: "BalanceRow \<Rightarrow> BalanceRow" where
  "ToBalanceDTO r = r\<lparr>br_PersonLabel := TrimSpace (br_PersonLabel r),
     br_CollaboratorLabel := TrimSpace (br_CollaboratorLabel r)\<rparr>"

definition serviceListBalances :: "env \<Rightarrow> string \<Rightarrow> store \<Rightarrow> app_error + BalanceRow list" where
  "serviceListBalances E c s =
     tri (FindCollaboratorByID E (TrimSpace c) s) (\<lambda>v.
     tri (financialOwnerPersonID v) (\<lambda>p.
     Inr (map (\<lambda>r. ToBalanceDTO (r\<lparr>br_CollaboratorID := cj_ID (cv_Journey v),
            br_CollaboratorLabel := globalPersonLabel (cv_MembershipPerson v)\<rparr>))
          (ListPersonBalances E p s))))"

section \<open>The settlement preview\<close>

definition outstandingStatuses :: "string list" where
  "outstandingStatuses = [''PENDING_ISSUE'', ''ISSUED'', ''PRINTED'', ''SIGNED'']"

definition receiptOutstanding :: "string \<Rightarrow> bool" where
  "receiptOutstanding status \<longleftrightarrow> ToUpper (TrimSpace status) \<in> set outstandingStatuses"

definition CountPendingAccrualItems :: "env \<Rightarrow> string \<Rightarrow> store \<Rightarrow> nat" where
  "CountPendingAccrualItems E c s = count_where (\<lambda>i. ai_TenantID i = TenantID E \<and>
     ai_CollaboratorID i = c \<and> ai_Status i = ''PENDING'') (AccrualItems s)"

definition CountOutstandingReceiptsForCollaborator :: "env \<Rightarrow> string \<Rightarrow> store \<Rightarrow> nat" where
  "CountOutstandingReceiptsForCollaborator E c s = count_where (\<lambda>r. lr_TenantID r = TenantID E \<and>
     lr_CollaboratorID r = TrimSpace c \<and> lr_Status r \<in> set outstandingStatuses) (Receipts s)"

datatype SettlementBlocker =
    JourneyAlreadyClosed
  | NonZeroBalance
  | PendingAccruals
  | OutstandingReceipts

record SettlementPreviewDTO =
  sv_CollaboratorID :: string
  sv_CollaboratorLabel :: string
  sv_JourneyStatusCode :: string
  sv_BRLBalance :: float64
  sv_GoldGramBalance :: float64
  sv_PendingAccrualItems :: nat
  sv_OutstandingReceipts :: nat
  sv_CanClose :: bool
  sv_BlockingReasons :: "SettlementBlocker list"

text \<open>The last row of a code wins, as in the loop over the balances.\<close>

definition balance_of_code :: "string \<Rightarrow> BalanceRow list \<Rightarrow> float64" where
  "balance_of_code code rows = foldl (\<lambda>b r. if br_ValueUnitCode r = code then br_Balance r else b) 0 rows"

definition blocking_reasons :: "CollaboratorView \<Rightarrow> BalanceRow list \<Rightarrow> nat \<Rightarrow> nat \<Rightarrow> SettlementBlocker list"
  where
  "blocking_reasons v balances pending outstanding =
     (if EqualFold (rd_Code (cv_Status v)) ''FINISHED'' \<or> cj_ClosedAt (cv_Journey v) \<noteq> None
      then [JourneyAlreadyClosed] else []) @
     (if 0 < length balances then [NonZeroBalance] else []) @
     (if 0 < pending then [PendingAccruals] else []) @
     (if 0 < outstanding then [OutstandingReceipts] else [])"

definition SettlementPreview :: "env \<Rightarrow> string \<Rightarrow> store \<Rightarrow> app_error + SettlementPreviewDTO" where
  "SettlementPreview E c0 s = (let c = TrimSpace c0 in
     tri (FindCollaboratorByID E c s) (\<lambda>v. let
         balances = ListBalances E c s;
         pending = CountPendingAccrualItems E c s;
         outstanding = CountOutstandingReceiptsForCollaborator E c s;
         reasons = blocking_reasons v balances pending outstanding
       in Inr \<lparr>
         sv_CollaboratorID = cj_ID (cv_Journey v),
         sv_CollaboratorLabel = collaboratorLabel (cv_Person v),
         sv_JourneyStatusCode = rd_Code (cv_Status v),
         sv_BRLBalance = normalizedZero (balance_of_code ''BRL'' balances),
         sv_GoldGramBalance = normalizedZero (balance_of_code ''GOLD_GRAM'' balances),
         sv_PendingAccrualItems = pending, sv_OutstandingReceipts = outstanding,
         sv_CanClose = (reasons = []), sv_BlockingReasons = reasons\<rparr>))"

end
