(* ===== verification/AccountLists.thy ===== *)
theory AccountLists
  imports AccountQueries
begin

text \<open>
  The paginated lists of a current account: the ledger entries of the person who owns a journey
  and the outstanding receipts of the tenant (\<open>service_impl.go\<close>, \<open>receipt_outstanding.go\<close>,
  \<open>repository_gorm.go\<close> of \<open>backend/internal/currentaccounts\<close>), with the normalization of their
  filters. A comparison of a stored date with a bare \<open>YYYY-MM-DD\<close> by \<open>>=\<close> or \<open><\<close> decides as the
  comparison of the instants does, because the stored text begins with its day.
\<close>

section \<open>Pages\<close>

definition defaultPageSize :: int where "defaultPageSize = 50"
definition maxPageSize :: int where "maxPageSize = 200"

definition normalizedPage :: "int \<Rightarrow> int" where
  "normalizedPage page = (if page \<le> 0 then 1 else page)"

definition normalizedPageSize :: "int \<Rightarrow> int" where
  "normalizedPageSize n = (let n = (if n \<le> 0 then defaultPageSize else n) in
     if maxPageSize < n then maxPageSize else n)"

text \<open>\<open>LIMIT pageSize OFFSET (page - 1) * pageSize\<close>.\<close>

definition page_of :: "int \<Rightarrow> int \<Rightarrow> 'r list \<Rightarrow> 'r list" where
  "page_of page pageSize rows = take (nat pageSize) (drop (nat ((page - 1) * pageSize)) rows)"

record 'r list_result =
  li_Items :: "'r list"
  li_Total :: nat
  li_Page :: int
  li_PageSize :: int

section \<open>Ledger entries of a person\<close>

record LedgerEntryListFilter =
  lf_ValueUnitID :: string
  lf_EntryType :: string
  lf_Direction :: string
  lf_SourceType :: string
  lf_OutstandingReceipts :: bool
  lf_DateFrom :: string
  lf_DateTo :: string
  lf_IncludeInactive :: bool
  lf_Page :: int
  lf_PageSize :: int

record normalizedLedgerEntryListFilter =
  nl_ValueUnitID :: string
  nl_EntryType :: string
  nl_Direction :: string
  nl_SourceType :: string
  nl_OutstandingReceipts :: bool
  nl_DateFrom :: "time option"
  nl_DateTo :: "time option"
  nl_IncludeInactive :: bool
  nl_Page :: int
  nl_PageSize :: int

definition invalid_date :: "string \<Rightarrow> bool" where
  "invalid_date v \<longleftrightarrow> TrimSpace v \<noteq> [] \<and> parseDate v = None"

definition ValidateLedgerEntryListFilter :: "LedgerEntryListFilter \<Rightarrow> app_error + unit" where
  "ValidateLedgerEntryListFilter f = (let direction = ToUpper (TrimSpace (lf_Direction f)) in validated
     (check (lf_PageSize f < 0) ''pageSize'' ''Page size must be greater than zero''
     (check (lf_Page f < 0) ''page'' ''Page must be greater than zero''
     (check (direction \<noteq> [] \<and> direction \<noteq> ''CREDIT'' \<and> direction \<noteq> ''DEBIT'') ''direction''
        ''Direction must be CREDIT or DEBIT''
     (check (invalid_date (lf_DateTo f)) ''dateTo'' ''Date to must be YYYY-MM-DD''
     (check (invalid_date (lf_DateFrom f)) ''dateFrom'' ''Date from must be YYYY-MM-DD'' []))))))"

definition optional_date :: "string \<Rightarrow> string \<Rightarrow> string \<Rightarrow> app_error + time option" where
  "optional_date key msg v = (if TrimSpace v = [] then Inr None
     else case parseDate v of None \<Rightarrow> Inl (ValidationError [(key, msg)]) | Some t \<Rightarrow> Inr (Some t))"

definition normalizeListFilter ::
  "LedgerEntryListFilter \<Rightarrow> app_error + normalizedLedgerEntryListFilter" where
  "normalizeListFilter f =
     tri (ValidateLedgerEntryListFilter f) (\<lambda>_.
     tri (optional_date ''dateFrom'' ''Date from must be YYYY-MM-DD'' (lf_DateFrom f)) (\<lambda>dateFrom.
     tri (optional_date ''dateTo'' ''Date to must be YYYY-MM-DD'' (lf_DateTo f)) (\<lambda>dateTo.
     Inr \<lparr>nl_ValueUnitID = TrimSpace (lf_ValueUnitID f), nl_EntryType = TrimSpace (lf_EntryType f),
       nl_Direction = ToUpper (TrimSpace (lf_Direction f)), nl_SourceType = TrimSpace (lf_SourceType f),
       nl_OutstandingReceipts = lf_OutstandingReceipts f, nl_DateFrom = dateFrom, nl_DateTo = dateTo,
       nl_IncludeInactive = lf_IncludeInactive f, nl_Page = normalizedPage (lf_Page f),
       nl_PageSize = normalizedPageSize (lf_PageSize f)\<rparr>)))"

definition matches_unless_empty :: "string \<Rightarrow> string \<Rightarrow> bool" where
  "matches_unless_empty f v \<longleftrightarrow> f = [] \<or> v = f"

definition has_outstanding_receipt :: "store \<Rightarrow> LedgerEntry \<Rightarrow> bool" where
  "has_outstanding_receipt s e \<longleftrightarrow> list_ex (\<lambda>r. lr_LedgerEntryID r = le_ID e \<and>
     lr_TenantID r = le_TenantID e \<and> lr_Status r \<in> set outstandingStatuses) (Receipts s)"

definition entry_filter :: "store \<Rightarrow> normalizedLedgerEntryListFilter \<Rightarrow> LedgerEntry \<Rightarrow> bool" where
  "entry_filter s f e \<longleftrightarrow>
     (nl_IncludeInactive f \<or> le_Active e) \<and>
     matches_unless_empty (nl_ValueUnitID f) (le_ValueUnitID e) \<and>
     matches_unless_empty (nl_EntryType f) (le_EntryType e) \<and>
     matches_unless_empty (nl_Direction f) (le_Direction e) \<and>
     matches_unless_empty (nl_SourceType f) (le_SourceType e) \<and>
     (nl_OutstandingReceipts f \<longrightarrow> has_outstanding_receipt s e) \<and>
     (case nl_DateFrom f of None \<Rightarrow> True | Some d \<Rightarrow> d \<le> le_EffectiveDate e) \<and>
     (case nl_DateTo f of None \<Rightarrow> True | Some d \<Rightarrow> le_EffectiveDate e < d + day_ns)"

definition newest_first :: "LedgerEntry list \<Rightarrow> LedgerEntry list" where
  "newest_first = sort_key (\<lambda>e. (- le_EffectiveDate e, - le_CreatedAt e))"

definition ListEntriesWhere ::
  "(LedgerEntry \<Rightarrow> bool) \<Rightarrow> normalizedLedgerEntryListFilter \<Rightarrow> store \<Rightarrow> LedgerEntry list \<times> nat"
  where
  "ListEntriesWhere P f s = (let rows = filter (\<lambda>e. P e \<and> entry_filter s f e) (Ledger s)
     in (page_of (nl_Page f) (nl_PageSize f) (newest_first rows), length rows))"

definition ListEntries ::
  "env \<Rightarrow> string \<Rightarrow> normalizedLedgerEntryListFilter \<Rightarrow> store \<Rightarrow> LedgerEntry list \<times> nat" where
  "ListEntries E c = ListEntriesWhere (\<lambda>e. le_TenantID e = TenantID E \<and> le_CollaboratorID e = c)"

definition ListPersonEntries ::
  "env \<Rightarrow> string \<Rightarrow> normalizedLedgerEntryListFilter \<Rightarrow> store \<Rightarrow> LedgerEntry list \<times> nat" where
  "ListPersonEntries E p =
     ListEntriesWhere (\<lambda>e. le_TenantID e = TenantID E \<and> le_PersonID e = TrimSpace p)"

definition serviceListEntries ::
  "env \<Rightarrow> string \<Rightarrow> LedgerEntryListFilter \<Rightarrow> store \<Rightarrow> app_error + LedgerEntry list_result"
  where
  "serviceListEntries E c f s =
     tri (FindCollaboratorByID E (TrimSpace c) s) (\<lambda>v.
     tri (financialOwnerPersonID v) (\<lambda>p.
     tri (normalizeListFilter f) (\<lambda>nf. let (rows, total) = ListPersonEntries E p nf s in
     Inr \<lparr>li_Items = rows, li_Total = total, li_Page = nl_Page nf, li_PageSize = nl_PageSize nf\<rparr>)))"

record CurrentAccountDetail =
  cd_PersonID :: string
  cd_PersonLabel :: string
  cd_CollaboratorID :: string
  cd_CollaboratorLabel :: string
  cd_Balances :: "BalanceRow list"
  cd_LedgerEntries :: "LedgerEntry list_result"

definition GetDetail ::
  "env \<Rightarrow> string \<Rightarrow> LedgerEntryListFilter \<Rightarrow> store \<Rightarrow> app_error + CurrentAccountDetail"
  where
  "GetDetail E c f s =
     tri (FindCollaboratorByID E (TrimSpace c) s) (\<lambda>v.
     tri (normalizeListFilter f) (\<lambda>nf.
     tri (financialOwnerPersonID v) (\<lambda>p. let
         (rows, total) = ListPersonEntries E p nf s;
         label = globalPersonLabel (cv_MembershipPerson v)
       in Inr \<lparr>cd_PersonID = p, cd_PersonLabel = label, cd_CollaboratorID = cj_ID (cv_Journey v),
         cd_CollaboratorLabel = label,
         cd_Balances = map (\<lambda>r. ToBalanceDTO (r\<lparr>br_CollaboratorID := cj_ID (cv_Journey v),
            br_CollaboratorLabel := label\<rparr>)) (ListPersonBalances E p s),
         cd_LedgerEntries = \<lparr>li_Items = rows, li_Total = total, li_Page = nl_Page nf,
            li_PageSize = nl_PageSize nf\<rparr>\<rparr>)))"

section \<open>Outstanding receipts\<close>

record ReceiptListFilter =
  rf_Status :: string
  rf_Collaborator :: string
  rf_SourceType :: string
  rf_Page :: int
  rf_PageSize :: int
  rf_ExactCollaboratorID :: string

record normalizedReceiptListFilter =
  nr_Status :: string
  nr_CollaboratorSearch :: string
  nr_ExactCollaboratorID :: string
  nr_SourceType :: string
  nr_Page :: int
  nr_PageSize :: int

definition allowedOutstandingReceiptSourceTypes :: "string list" where
  "allowedOutstandingReceiptSourceTypes = [''EXPENSE'', ''EXPENSE_REPLACEMENT'',
     ''JOURNEY_SETTLEMENT'', ''LEDGER_CORRECTION'', ''ACCRUAL_ITEM'']"

definition normalizeReceiptListFilter ::
  "ReceiptListFilter \<Rightarrow> app_error + normalizedReceiptListFilter" where
  "normalizeReceiptListFilter f = (let
       status = ToUpper (TrimSpace (rf_Status f)); sourceType = ToUpper (TrimSpace (rf_SourceType f)) in
     if status \<noteq> [] \<and> status \<notin> set outstandingStatuses
     then Inl (ValidationError [(''status'',
       ''Status must be one of PENDING_ISSUE, ISSUED, PRINTED, or SIGNED'')])
     else if sourceType \<noteq> [] \<and> sourceType \<notin> set allowedOutstandingReceiptSourceTypes
     then Inl (ValidationError [(''sourceType'',
       ''Source type must be one of EXPENSE, EXPENSE_REPLACEMENT, JOURNEY_SETTLEMENT, LEDGER_CORRECTION, or ACCRUAL_ITEM'')])
     else Inr \<lparr>nr_Status = status, nr_CollaboratorSearch = TrimSpace (rf_Collaborator f),
       nr_ExactCollaboratorID = TrimSpace (rf_ExactCollaboratorID f), nr_SourceType = sourceType,
       nr_Page = normalizedPage (rf_Page f), nr_PageSize = normalizedPageSize (rf_PageSize f)\<rparr>)"

text \<open>SQLite's \<open>LIKE\<close>: \<open>%\<close> and \<open>_\<close> are wildcards, ASCII letters compare without case.\<close>

fun sql_like :: "string \<Rightarrow> string \<Rightarrow> bool" where
  "sql_like [] t = (t = [])"
| "sql_like (p # ps) [] = (p = CHR ''%'' \<and> sql_like ps [])"
| "sql_like (p # ps) (c # cs) =
     (if p = CHR ''%'' then sql_like ps (c # cs) \<or> sql_like (p # ps) cs
      else (p = CHR ''_'' \<or> lower_char p = lower_char c) \<and> sql_like ps cs)"

definition receipt_search :: "store \<Rightarrow> string \<Rightarrow> LedgerReceipt \<Rightarrow> bool" where
  "receipt_search s search r \<longleftrightarrow> (let needle = ''%'' @ ToLower search @ ''%'' in
     list_ex (\<lambda>j. cj_ID j = lr_CollaboratorID r \<and> cj_TenantID j = lr_TenantID r \<and>
       list_ex (\<lambda>p. pe_ID p = cj_PersonID j \<and> pe_TenantID p = lr_TenantID r \<and>
         (lr_CollaboratorID r = search \<or> sql_like needle (ToLower (cj_ID j)) \<or>
          sql_like needle (ToLower (pe_Nickname p)) \<or>
          sql_like needle (ToLower (pe_FirstName p @ '' '' @ pe_LastName p)) \<or>
          sql_like needle (ToLower (pe_CPF p)))) (People s)) (Journeys s))"

definition workbench_filter :: "store \<Rightarrow> normalizedReceiptListFilter \<Rightarrow> LedgerReceipt \<Rightarrow> bool" where
  "workbench_filter s f r \<longleftrightarrow>
     matches_unless_empty (nr_ExactCollaboratorID f) (lr_CollaboratorID r) \<and>
     (nr_SourceType f \<noteq> [] \<longrightarrow> list_ex (\<lambda>e. le_ID e = lr_LedgerEntryID r \<and>
        le_TenantID e = lr_TenantID r \<and> le_SourceType e = nr_SourceType f) (Ledger s)) \<and>
     (TrimSpace (nr_CollaboratorSearch f) \<noteq> [] \<longrightarrow>
        receipt_search s (TrimSpace (nr_CollaboratorSearch f)) r)"

definition status_rank :: "string \<Rightarrow> nat" where
  "status_rank st = (if st = ''PENDING_ISSUE'' then 1 else if st = ''ISSUED'' then 2
     else if st = ''PRINTED'' then 3 else if st = ''SIGNED'' then 4 else 9)"

definition repoListOutstandingReceipts ::
  "env \<Rightarrow> normalizedReceiptListFilter \<Rightarrow> store \<Rightarrow> LedgerReceipt list \<times> nat"
  where
  "repoListOutstandingReceipts E f s = (let
       rows = filter (\<lambda>r. lr_TenantID r = TenantID E \<and> workbench_filter s f r \<and>
         (if nr_Status f \<noteq> [] then lr_Status r = nr_Status f
          else lr_Status r \<in> set outstandingStatuses)) (Receipts s)
     in (page_of (nr_Page f) (nr_PageSize f)
           (sort_key (\<lambda>r. (status_rank (lr_Status r), lr_CreatedAt r, lr_ID r)) rows), length rows))"

definition CountOutstandingReceiptsByStatus ::
  "env \<Rightarrow> normalizedReceiptListFilter \<Rightarrow> string \<Rightarrow> store \<Rightarrow> nat"
  where
  "CountOutstandingReceiptsByStatus E f status s = count_where (\<lambda>r. lr_TenantID r = TenantID E \<and>
     lr_Status r \<in> set outstandingStatuses \<and> workbench_filter s f r \<and> lr_Status r = status) (Receipts s)"

record ReceiptStatusSummary =
  su_PendingIssue :: nat
  su_Issued :: nat
  su_Printed :: nat
  su_Signed :: nat
  su_Total :: nat

definition ListOutstandingReceipts ::
  "env \<Rightarrow> ReceiptListFilter \<Rightarrow> store \<Rightarrow> app_error + LedgerReceipt list_result \<times> ReceiptStatusSummary"
  where
  "ListOutstandingReceipts E f s = tri (normalizeReceiptListFilter f) (\<lambda>nf. let
       (rows, total) = repoListOutstandingReceipts E nf s;
       count = (\<lambda>st. CountOutstandingReceiptsByStatus E nf st s);
       a = count ''PENDING_ISSUE''; b = count ''ISSUED''; c = count ''PRINTED''; d = count ''SIGNED''
     in Inr (\<lparr>li_Items = rows, li_Total = total, li_Page = nr_Page nf, li_PageSize = nr_PageSize nf\<rparr>,
        \<lparr>su_PendingIssue = a, su_Issued = b, su_Printed = c, su_Signed = d, su_Total = a + b + c + d\<rparr>))"

section \<open>What the lists return\<close>

lemma normalizedPage_pos [simp]: "1 \<le> normalizedPage p"
  by (simp add: normalizedPage_def)

lemma normalizedPageSize_bounds [simp]: "1 \<le> normalizedPageSize n" "normalizedPageSize n \<le> 200"
  by (simp_all add: normalizedPageSize_def defaultPageSize_def maxPageSize_def Let_def)

lemma length_page_of: "length (page_of p n rows) \<le> nat n"
  by (simp add: page_of_def)

lemma set_page_of: "set (page_of p n rows) \<subseteq> set rows"
  by (auto simp: page_of_def dest: in_set_takeD in_set_dropD)

lemma pages_partition:
  assumes "0 \<le> n"
  shows "concat (map (\<lambda>k. page_of (int k) n rows) [1..<Suc m]) = take (m * nat n) rows"
proof (induction m)
  case (Suc m)
  have "(int (Suc m) - 1) * n = int (m * nat n)" using assms by simp
  then have "page_of (int (Suc m)) n rows = take (nat n) (drop (m * nat n) rows)"
    unfolding page_of_def by (simp only: nat_int)
  with Suc show ?case by (simp add: take_add [symmetric] add.commute)
qed simp

lemma normalizeListFilter_page:
  "normalizeListFilter f = Inr nf \<Longrightarrow> 1 \<le> nl_Page nf \<and> 1 \<le> nl_PageSize nf \<and> nl_PageSize nf \<le> 200"
  by (auto simp: normalizeListFilter_def tri_Inr)

lemma ListEntriesWhere_rows:
  assumes "ListEntriesWhere P f s = (rows, n)"
  shows "set rows \<subseteq> {e \<in> set (Ledger s). P e \<and> entry_filter s f e}" and "length rows \<le> nat (nl_PageSize f)"
    and "n = count_where (\<lambda>e. P e \<and> entry_filter s f e) (Ledger s)"
  using assms length_page_of
  by (auto simp: ListEntriesWhere_def Let_def newest_first_def count_where_def
      dest!: set_page_of [THEN subsetD])

lemma count_by_status:
  "count_where (\<lambda>r. Q r \<and> st r \<in> set [a, b, c, d]) rows =
   count_where (\<lambda>r. Q r \<and> st r = a) rows + count_where (\<lambda>r. Q r \<and> st r = b) rows +
   count_where (\<lambda>r. Q r \<and> st r = c) rows + count_where (\<lambda>r. Q r \<and> st r = d) rows"
  if "distinct [a, b, c, d]"
  using that by (induction rows) auto

end
