(* ===== verification/Corrections.thy ===== *)
theory Corrections
  imports AccountLists
begin

text \<open>
  Reversal and replacement of a ledger entry (\<open>backend/internal/currentaccounts/corrections.go\<close> and
  \<open>CreateCorrectionEntries\<close> of \<open>repository_gorm.go\<close>), with the check that every debit and every
  final-settlement entry just written has its receipt. A result is the rows the response is
  rendered from.
\<close>

section \<open>Receipt obligations\<close>

definition receipt_count :: "store \<Rightarrow> LedgerEntry \<Rightarrow> nat" where
  "receipt_count s e = count_where (\<lambda>r. lr_TenantID r = le_TenantID e \<and> lr_LedgerEntryID r = le_ID e)
     (Receipts s)"

definition ensureDebitLedgerReceiptObligations :: "LedgerEntry list \<Rightarrow> store \<Rightarrow> app_error + unit" where
  "ensureDebitLedgerReceiptObligations es s =
     (if list_all (\<lambda>e. EqualFold (TrimSpace (le_Direction e)) ''DEBIT'' \<longrightarrow> receipt_count s e = 1) es
      then Inr () else Inl ErrDebitReceiptObligationMissing)"

definition ensureFinalSettlementReceiptObligations ::
  "LedgerEntry list \<Rightarrow> store \<Rightarrow> app_error + unit" where
  "ensureFinalSettlementReceiptObligations es s =
     (if list_all (\<lambda>e. EqualFold (TrimSpace (le_EntryType e)) ''FINAL_SETTLEMENT'' \<and>
           EqualFold (TrimSpace (le_SourceType e)) ''JOURNEY_SETTLEMENT'' \<longrightarrow> receipt_count s e = 1) es
      then Inr () else Inl ErrFinalSettlementReceiptObligationMissing)"

definition createEntries :: "env \<Rightarrow> LedgerEntry list \<Rightarrow> LedgerEntry list app" where
  "createEntries E es =
     bnd (map_each (createLedgerEntry E) es)
     (\<lambda>rows. bnd (query (ensureDebitLedgerReceiptObligations rows))
     (\<lambda>_. bnd (query (ensureFinalSettlementReceiptObligations rows)) (\<lambda>_. ret rows)))"

definition CreateCorrectionEntries :: "env \<Rightarrow> LedgerEntry list \<Rightarrow> LedgerEntry list app" where
  "CreateCorrectionEntries E es = transaction (createEntries E es)"

section \<open>Corrections\<close>

definition oppositeDirection :: "string \<Rightarrow> string" where
  "oppositeDirection d = (if EqualFold d ''CREDIT'' then ''DEBIT'' else ''CREDIT'')"

definition requireCorrectableEntry :: "env \<Rightarrow> string \<Rightarrow> store \<Rightarrow> app_error + LedgerEntry" where
  "requireCorrectableEntry E i s = tri (FindEntryByID E i s) (\<lambda>e.
     if EqualFold (le_CorrectionType e) ''REVERSAL'' then Inl ErrLedgerEntryNotCorrectable
     else if HasReversal E (le_ID e) s then Inl ErrLedgerEntryAlreadyReversed
     else Inr e)"

definition correctionRow ::
  "env \<Rightarrow> LedgerEntry \<Rightarrow> string \<Rightarrow> string \<Rightarrow> string \<Rightarrow> float64 \<Rightarrow> time \<Rightarrow> string \<Rightarrow> string \<Rightarrow>
   string \<times> string \<Rightarrow> string \<Rightarrow> string \<times> string \<Rightarrow> string \<Rightarrow> string \<Rightarrow> LedgerEntry"
  where
  "correctionRow E original direction valueUnitID entryType amount effectiveDate description
     correctionType reason authorizedBy second i j = \<lparr>
       le_ID = ''ledger-correction-'' @ i, le_CreatedAt = Now E, le_UpdatedAt = Now E,
       le_TenantID = le_TenantID original, le_PersonID = le_PersonID original,
       le_CollaboratorID = le_CollaboratorID original, le_ValueUnitID = valueUnitID,
       le_EntryType = entryType, le_Direction = direction, le_Amount = amount,
       le_EffectiveDate = effectiveDate, le_SourceType = ''LEDGER_CORRECTION'', le_SourceID = j,
       le_Description = description, le_Active = True, le_CorrectionType = correctionType,
       le_RelatedEntryID = Some (le_ID original), le_CorrectionReason = snd reason,
       le_CorrectionReasonCode = fst reason, le_CorrectionReasonText = snd reason,
       le_AuthorizedBy = authorizedBy, le_AuthorizedAt = Some (Now E),
       le_SecondApprovedBy = fst second,
       le_SecondApprovedAt = optionalApprovalTime (fst second) (Now E),
       le_SecondApprovalNotes = snd second\<rparr>"

definition newCorrectionEntry ::
  "env \<Rightarrow> LedgerEntry \<Rightarrow> string \<Rightarrow> string \<Rightarrow> string \<Rightarrow> float64 \<Rightarrow> time \<Rightarrow> string \<Rightarrow> string \<Rightarrow>
   string \<times> string \<Rightarrow> string \<Rightarrow> string \<times> string \<Rightarrow> LedgerEntry app"
  where
  "newCorrectionEntry E original direction valueUnitID entryType amount effectiveDate description
     correctionType reason authorizedBy second =
     bnd (newID E) (\<lambda>i. bnd (newID E) (\<lambda>j. ret (correctionRow E original direction valueUnitID
       entryType amount effectiveDate description correctionType reason authorizedBy second i j)))"

lemma correctionRow_simps [simp]:
  fixes E e d u ty a dt ds ct reason auth second i j
  defines "x \<equiv> correctionRow E e d u ty a dt ds ct reason auth second i j"
  shows "le_CreatedAt x = Now E" "le_UpdatedAt x = Now E" "le_TenantID x = le_TenantID e"
    "le_PersonID x = le_PersonID e" "le_CollaboratorID x = le_CollaboratorID e"
    "le_ValueUnitID x = u" "le_EntryType x = ty" "le_Direction x = d" "le_Amount x = a"
    "le_EffectiveDate x = dt" "le_SourceType x = ''LEDGER_CORRECTION''" "le_Active x"
    "le_CorrectionType x = ct" "le_RelatedEntryID x = Some (le_ID e)"
  by (simp_all add: x_def correctionRow_def)

definition newReversal ::
  "env \<Rightarrow> LedgerEntry \<Rightarrow> string \<Rightarrow> CorrectionReasonRequest \<Rightarrow> string \<Rightarrow> LedgerEntry app" where
  "newReversal E original effectiveDate reason authorizedBy =
     newCorrectionEntry E original (oppositeDirection (le_Direction original))
       (le_ValueUnitID original) (le_EntryType original) (le_Amount original) (dateOf effectiveDate)
       (le_Description original) ''REVERSAL'' (normalizedCorrectionReason reason)
       (TrimSpace authorizedBy) (normalizedSecondApproval reason)"

definition ReverseEntry ::
  "env \<Rightarrow> string \<Rightarrow> string \<Rightarrow> ReverseLedgerEntryRequest \<Rightarrow> (LedgerEntry \<times> LedgerEntry) app"
  where
  "ReverseEntry E entryID authorizedBy req =
     bnd (lift (ValidateReverseLedgerEntryRequest req authorizedBy))
     (\<lambda>_. bnd (query (requireSecondApprovalWhenConfigured E (rv_Reason req) authorizedBy))
     (\<lambda>_. bnd (query (requireCorrectableEntry E (TrimSpace entryID)))
     (\<lambda>original. bnd (newReversal E original (rv_EffectiveDate req) (rv_Reason req) authorizedBy)
     (\<lambda>reversal. bnd (CreateCorrectionEntries E [reversal])
     (\<lambda>_. bnd (query (FindEntryByID E (le_ID reversal)))
     (\<lambda>reloaded. ret (original, reloaded)))))))"

definition ReplaceEntry ::
  "env \<Rightarrow> string \<Rightarrow> string \<Rightarrow> ReplaceLedgerEntryRequest \<Rightarrow>
   (LedgerEntry \<times> LedgerEntry \<times> LedgerEntry) app"
  where
  "ReplaceEntry E entryID authorizedBy req =
     bnd (lift (ValidateReplaceLedgerEntryRequest req authorizedBy))
     (\<lambda>_. bnd (query (requireSecondApprovalWhenConfigured E (rp_Reason req) authorizedBy))
     (\<lambda>_. bnd (query (requireCorrectableEntry E (TrimSpace entryID)))
     (\<lambda>original. bnd (query (FindValueUnitByID E (TrimSpace (rp_ValueUnitID req))))
     (\<lambda>_. bnd (newReversal E original (rp_EffectiveDate req) (rp_Reason req) authorizedBy)
     (\<lambda>reversal. bnd (newCorrectionEntry E original (ToUpper (TrimSpace (rp_Direction req)))
          (TrimSpace (rp_ValueUnitID req)) (TrimSpace (rp_EntryType req)) (rp_Amount req)
          (dateOf (rp_EffectiveDate req)) (TrimSpace (rp_Description req)) ''REPLACEMENT''
          (normalizedCorrectionReason (rp_Reason req)) (TrimSpace authorizedBy)
          (normalizedSecondApproval (rp_Reason req)))
     (\<lambda>replacement. bnd (CreateCorrectionEntries E [reversal, replacement])
     (\<lambda>_. bnd (query (FindEntryByID E (le_ID reversal)))
     (\<lambda>reloadedReversal. bnd (query (FindEntryByID E (le_ID replacement)))
     (\<lambda>reloadedReplacement. ret (original, reloadedReversal, reloadedReplacement))))))))))"

section \<open>Kept relations\<close>

lemma FindEntryByID_ok:
  "FindEntryByID E i s = Inr e \<Longrightarrow> e \<in> set (Ledger s) \<and> le_ID e = i \<and> le_TenantID e = TenantID E"
  by (auto simp: FindEntryByID_def found_Inr dest: first_by_Some)

lemma requireCorrectableEntry_ok:
  "requireCorrectableEntry E i s = Inr e \<longleftrightarrow> FindEntryByID E i s = Inr e \<and>
     \<not> EqualFold (le_CorrectionType e) ''REVERSAL'' \<and> \<not> HasReversal E (le_ID e) s"
  by (auto simp: requireCorrectableEntry_def tri_Inr)

lemma newCorrectionEntry_results:
  "x \<in> results (newCorrectionEntry E e d u ty a dt ds ct reason auth second) \<Longrightarrow>
   le_TenantID x = le_TenantID e"
  by (auto simp: newCorrectionEntry_def dest!: results_bnd)

lemma keeps_newCorrectionEntry:
  "keeps (accounting T) (newCorrectionEntry E e d u ty a dt ds ct reason auth second)"
  unfolding newCorrectionEntry_def by (intro acc.keeps_intros keeps_newID_acc)

lemma keeps_newReversal: "keeps (accounting T) (newReversal E e d r a)"
  unfolding newReversal_def by (rule keeps_newCorrectionEntry)

lemma newReversal_results: "x \<in> results (newReversal E e d r a) \<Longrightarrow> le_TenantID x = le_TenantID e"
  unfolding newReversal_def by (rule newCorrectionEntry_results)

lemma keeps_ok_createEntries:
  assumes "\<And>e. e \<in> set es \<Longrightarrow> le_TenantID e = T" and "T \<noteq> []"
  shows "keeps_ok (accounting T) (createEntries E es)"
  unfolding createEntries_def using assms
  by (intro acc.keeps_ok_intros keeps_ok_createLedgerEntry) auto

lemma keeps_CreateCorrectionEntries:
  assumes "\<And>e. e \<in> set es \<Longrightarrow> le_TenantID e = T" and "T \<noteq> []"
  shows "keeps (accounting T) (CreateCorrectionEntries E es)"
  unfolding CreateCorrectionEntries_def using assms
  by (intro acc.keeps_transaction keeps_ok_createEntries)

lemma keeps_ReverseEntry: "keeps (accounting (TenantID E)) (ReverseEntry E i by req)"
  unfolding ReverseEntry_def
  by (intro acc.keeps_intros keeps_newReversal keeps_CreateCorrectionEntries)
    (auto simp: requireCorrectableEntry_ok dest!: newReversal_results FindEntryByID_ok)

lemma keeps_ReplaceEntry: "keeps (accounting (TenantID E)) (ReplaceEntry E i by req)"
  unfolding ReplaceEntry_def
  by (intro acc.keeps_intros keeps_newReversal keeps_newCorrectionEntry keeps_CreateCorrectionEntries)
    (auto simp: requireCorrectableEntry_ok
      dest!: newReversal_results newCorrectionEntry_results FindEntryByID_ok)

section \<open>What a batch of entries does\<close>

lemma with_entry_defaults_id:
  assumes "le_CreatedAt e = Now E" "le_UpdatedAt e = Now E" "le_TenantID e \<noteq> []" "le_Active e"
    and "le_CorrectionType e \<noteq> []"
  shows "with_entry_defaults E e = e"
  using assms by (simp add: with_entry_defaults_def or_time_def)

lemma map_createLedgerEntry_ok:
  assumes "map_each (createLedgerEntry E) es s = (Inr rows, t)"
  shows "rows = map (with_entry_defaults E) es \<and> Ledger t = Ledger s @ rows"
  using assms
proof (induction es arbitrary: s rows)
  case (Cons e es)
  then obtain x s' xs where "createLedgerEntry E e s = (Inr x, s')"
    and "map_each (createLedgerEntry E) es s' = (Inr xs, t)" and "rows = x # xs"
    by (auto simp: bnd_ok)
  with Cons.IH [of s' xs] createLedgerEntry_ok(1,5) [of E e s x s'] show ?case by simp
qed simp

lemma createEntries_ok:
  assumes "createEntries E es s = (Inr rows, t)"
  shows "rows = map (with_entry_defaults E) es" and "Ledger t = Ledger s @ rows"
    and "\<And>e. e \<in> set rows \<Longrightarrow> le_Direction e = ''DEBIT'' \<Longrightarrow> receipt_count t e = 1"
    and "\<And>e. e \<in> set rows \<Longrightarrow> finalSettlement e \<Longrightarrow> receipt_count t e = 1"
proof -
  have debit: "EqualFold (TrimSpace ''DEBIT'') ''DEBIT''" by code_simp
  from assms obtain u where u: "map_each (createLedgerEntry E) es s = (Inr rows, u)"
    and tu: "t = u" "ensureDebitLedgerReceiptObligations rows u = Inr ()"
      "ensureFinalSettlementReceiptObligations rows u = Inr ()"
    by (auto simp: createEntries_def run_ok)
  show "rows = map (with_entry_defaults E) es" "Ledger t = Ledger s @ rows"
    using map_createLedgerEntry_ok [OF u] tu by simp_all
  show "receipt_count t e = 1" if "e \<in> set rows" "le_Direction e = ''DEBIT''" for e
    using tu that debit
    by (auto simp: ensureDebitLedgerReceiptObligations_def list_all_iff split: if_splits)
  show "receipt_count t e = 1" if "e \<in> set rows" "finalSettlement e" for e
    using tu that
    by (auto simp: ensureFinalSettlementReceiptObligations_def finalSettlement_def list_all_iff
        split: if_splits)
qed

lemma createEntries_fresh:
  assumes "createEntries E es s = (Inr rows, t)" and "e \<in> set rows"
  shows "le_ID e \<notin> set (map le_ID (Ledger s))"
proof -
  have "\<lbrakk>map_each (createLedgerEntry E) es s = (Inr rows, u); e \<in> set rows\<rbrakk> \<Longrightarrow>
      le_ID e \<notin> set (map le_ID (Ledger s))" for u
  proof (induction es arbitrary: s rows)
    case (Cons x es)
    then obtain y s' ys where y: "createLedgerEntry E x s = (Inr y, s')"
      and ys: "map_each (createLedgerEntry E) es s' = (Inr ys, u)" and rows: "rows = y # ys"
      by (auto simp: bnd_ok)
    show ?case
    proof (cases "e = y")
      case True
      then show ?thesis
        using createLedgerEntry_ok(3) [OF y] by (auto simp: ledger_keys_taken_def list_ex_iff)
    next
      case False
      then show ?thesis using Cons.IH [OF ys] Cons.prems(2) rows createLedgerEntry_ok(5) [OF y] by auto
    qed
  qed simp
  with assms show ?thesis by (auto simp: createEntries_def run_ok)
qed

section \<open>Reversals\<close>

lemma signed_opposite:
  assumes "entry_ok e" and "le_Direction e' = oppositeDirection (le_Direction e)"
    and "le_Amount e' = le_Amount e"
  shows "signed e' = - signed e" and "le_Direction e' \<noteq> le_Direction e"
proof -
  have opp: "oppositeDirection ''CREDIT'' = ''DEBIT''" "oppositeDirection ''DEBIT'' = ''CREDIT''"
    by code_simp+
  have "le_Direction e = ''CREDIT'' \<or> le_Direction e = ''DEBIT''" using assms(1) by (simp add: entry_ok_def)
  then show "signed e' = - signed e" "le_Direction e' \<noteq> le_Direction e"
    using assms(2,3) opp by (elim disjE; simp add: signed_def)+
qed

lemma newReversal_ok:
  assumes "newReversal E e d reason by s = (Inr r, t)" and "le_TenantID e \<noteq> []"
  shows "t = s\<lparr>IdsUsed := IdsUsed s + 2\<rparr>" and "with_entry_defaults E r = r"
    and "le_TenantID r = le_TenantID e" and "le_PersonID r = le_PersonID e"
    and "le_CollaboratorID r = le_CollaboratorID e" and "le_ValueUnitID r = le_ValueUnitID e"
    and "le_Direction r = oppositeDirection (le_Direction e)" and "le_Amount r = le_Amount e"
    and "le_CorrectionType r = ''REVERSAL''" and "le_RelatedEntryID r = Some (le_ID e)" and "le_Active r"
    and "le_SourceType r = ''LEDGER_CORRECTION''" and "le_EntryType r = le_EntryType e"
proof -
  have "r = correctionRow E e (oppositeDirection (le_Direction e)) (le_ValueUnitID e) (le_EntryType e)
      (le_Amount e) (dateOf d) (le_Description e) ''REVERSAL'' (normalizedCorrectionReason reason)
      (TrimSpace by) (normalizedSecondApproval reason) (NewID E (IdsUsed s)) (NewID E (Suc (IdsUsed s)))"
    and t: "t = s\<lparr>IdsUsed := IdsUsed s + 2\<rparr>"
    using assms(1) by (simp_all add: newReversal_def newCorrectionEntry_def bnd_def)
  from this(1) show "with_entry_defaults E r = r" "le_TenantID r = le_TenantID e"
    "le_PersonID r = le_PersonID e" "le_CollaboratorID r = le_CollaboratorID e"
    "le_ValueUnitID r = le_ValueUnitID e" "le_Direction r = oppositeDirection (le_Direction e)"
    "le_Amount r = le_Amount e" "le_CorrectionType r = ''REVERSAL''"
    "le_RelatedEntryID r = Some (le_ID e)" "le_Active r" "le_SourceType r = ''LEDGER_CORRECTION''"
    "le_EntryType r = le_EntryType e"
    using assms(2) by (simp_all add: with_entry_defaults_id)
  show "t = s\<lparr>IdsUsed := IdsUsed s + 2\<rparr>" by (rule t)
qed

lemma FindEntryByID_new:
  assumes "Ledger t = Ledger s @ rows" and "e \<in> set rows" and "distinct (map le_ID (Ledger t))"
    and "le_TenantID e = TenantID E"
  shows "FindEntryByID E (le_ID e) t = Inr e"
proof -
  have "e \<in> set (Ledger t)" using assms by simp
  then have "first_by le_ID (\<lambda>x. le_ID x = le_ID e \<and> le_TenantID x = TenantID E) (Ledger t) = Some e"
    using assms by (intro first_by_unique) (auto dest: distinct_key)
  then show ?thesis by (simp add: FindEntryByID_def)
qed

lemma FindEntryByID_old:
  assumes "Ledger t = Ledger s @ rows" and "distinct (map le_ID (Ledger t))"
    and "FindEntryByID E i s = Inr e"
  shows "FindEntryByID E i t = Inr e"
proof -
  note e = FindEntryByID_ok [OF assms(3)]
  have "e \<in> set (Ledger t)" using e assms(1) by simp
  then have "first_by le_ID (\<lambda>x. le_ID x = i \<and> le_TenantID x = TenantID E) (Ledger t) = Some e"
    using assms(2) e by (intro first_by_unique) (auto dest: distinct_key)
  then show ?thesis by (simp add: FindEntryByID_def)
qed

text \<open>The whole effect of a successful reversal.\<close>

lemma ReverseEntry_ok:
  assumes run: "ReverseEntry E i by req s = (Inr (e, r), t)" and books: "books_ok s"
  shows "FindEntryByID E (TrimSpace i) s = Inr e" and "Ledger t = Ledger s @ [r]"
    and "\<not> HasReversal E (le_ID e) s" and "\<not> EqualFold (le_CorrectionType e) ''REVERSAL''"
    and "newReversal E e (rv_EffectiveDate req) (rv_Reason req) by s =
      (Inr r, s\<lparr>IdsUsed := IdsUsed s + 2\<rparr>)"
    and "books_ok t" and "le_Direction r = ''DEBIT'' \<Longrightarrow> receipt_count t r = 1"
proof -
  from run obtain n u rows where e: "requireCorrectableEntry E (TrimSpace i) s = Inr e"
    and n: "newReversal E e (rv_EffectiveDate req) (rv_Reason req) by s = (Inr n, u)"
    and c: "createEntries E [n] u = (Inr rows, t)" and r: "FindEntryByID E (le_ID n) t = Inr r"
    by (auto simp: ReverseEntry_def CreateCorrectionEntries_def run_ok)
  note e' = e [unfolded requireCorrectableEntry_ok]
  note ten = FindEntryByID_ok [OF e' [THEN conjunct1]]
  have "le_TenantID e \<noteq> []" using ten by simp
  note n' = newReversal_ok [OF n this]
  have rows: "rows = [n]" using createEntries_ok(1) [OF c] n'(2) by simp
  have L: "Ledger t = Ledger s @ [n]" using createEntries_ok(2) [OF c] rows n'(1) by simp
  have "accounting (TenantID E) s t" using keeps_ReverseEntry run by (rule keepsD)
  then show "books_ok t" using books by (simp add: accounting_def grows_defs)
  then have "r = n"
    using FindEntryByID_new [OF L, of n E] r n'(3) ten by (simp add: books_ok_def)
  then show "Ledger t = Ledger s @ [r]" "FindEntryByID E (TrimSpace i) s = Inr e"
    "\<not> HasReversal E (le_ID e) s" "\<not> EqualFold (le_CorrectionType e) ''REVERSAL''"
    "newReversal E e (rv_EffectiveDate req) (rv_Reason req) by s = (Inr r, s\<lparr>IdsUsed := IdsUsed s + 2\<rparr>)"
    using L e' n n'(1) by simp_all
  show "receipt_count t r = 1" if "le_Direction r = ''DEBIT''"
    using createEntries_ok(3) [OF c, of n] rows \<open>r = n\<close> that by simp
qed

section \<open>Properties\<close>

definition demo_reverse :: ReverseLedgerEntryRequest where
  "demo_reverse = \<lparr>rv_Reason = demo_reason, rv_EffectiveDate = ''2024-01-02''\<rparr>"

lemma demo_reverse_runs: "\<not> isl (fst (ReverseEntry demo_env ''e1'' ''boss'' demo_reverse demo_store))"
  by code_simp

text \<open>
  C9. A successful reversal appends exactly one entry to the ledger: it is linked to the entry it
  reverses, belongs to the same person, journey and value unit, carries the opposite sign, so that
  the two add up to zero, and has exactly one receipt when it is a debit.
\<close>

theorem reverse_nets_to_zero:
  assumes "ReverseEntry E i by req s = (Inr (original, reversal), t)" and "books_ok s"
  shows "Ledger t = Ledger s @ [reversal] \<and> original \<in> set (Ledger s) \<and>
    le_RelatedEntryID reversal = Some (le_ID original) \<and> le_CorrectionType reversal = ''REVERSAL'' \<and>
    le_TenantID reversal = le_TenantID original \<and> le_PersonID reversal = le_PersonID original \<and>
    le_CollaboratorID reversal = le_CollaboratorID original \<and>
    le_ValueUnitID reversal = le_ValueUnitID original \<and> le_Active reversal \<and>
    signed reversal + signed original = 0 \<and>
    (le_Direction reversal = ''DEBIT'' \<longrightarrow> receipt_count t reversal = 1)"
proof -
  note ok = ReverseEntry_ok [OF assms]
  note found = FindEntryByID_ok [OF ok(1)]
  have ten: "le_TenantID original \<noteq> []" using found by simp
  have "entry_ok original" using found assms(2) by (auto simp: books_ok_def list_all_iff)
  then show ?thesis
    using ok(2,7) found newReversal_ok [OF ok(5) ten] signed_opposite(1) [of original reversal] by simp
qed

theorem reverse_nets_to_zero_witness:
  "\<exists>e r t. ReverseEntry demo_env ''e1'' ''boss'' demo_reverse demo_store = (Inr (e, r), t) \<and>
     Ledger t = Ledger demo_store @ [r] \<and> signed r + signed e = 0"
  using succeeded [OF demo_reverse_runs] reverse_nets_to_zero [OF _ demo_books] by fast

text \<open>
  C10. An entry is reversed at most once: after a reversal every further reversal of that entry by a
  valid and approved request fails with \<open>ErrLedgerEntryAlreadyReversed\<close> and changes nothing.
\<close>

theorem reversed_at_most_once:
  assumes "ReverseEntry E i by req s = (Inr r, t)" and "books_ok s" and "TenantID E' = TenantID E"
    and "ValidateReverseLedgerEntryRequest req' by' = Inr ()"
    and "requireSecondApprovalWhenConfigured E' (rv_Reason req') by' t = Inr ()"
  shows "ReverseEntry E' i by' req' t = (Inl ErrLedgerEntryAlreadyReversed, t)"
proof -
  obtain e x where r: "r = (e, x)" by (cases r)
  note ok = ReverseEntry_ok [OF assms(1) [unfolded r] assms(2)]
  note found = FindEntryByID_ok [OF ok(1)]
  have ten: "le_TenantID e \<noteq> []" using found by simp
  note x = newReversal_ok [OF ok(5) ten]
  have "FindEntryByID E' (TrimSpace i) t = Inr e"
    using FindEntryByID_old [OF ok(2) _ ok(1)] ok(6) assms(3) by (simp add: books_ok_def FindEntryByID_def)
  moreover have "HasReversal E' (le_ID e) t"
    using found x(3,9,10) assms(3) by (simp add: HasReversal_def ok(2))
  ultimately have "requireCorrectableEntry E' (TrimSpace i) t = Inl ErrLedgerEntryAlreadyReversed"
    using ok(4) by (simp add: requireCorrectableEntry_def)
  then show ?thesis using assms(4,5) by (simp add: ReverseEntry_def run_simps)
qed

theorem reversed_at_most_once_witness:
  "ReverseEntry demo_env ''e1'' ''boss'' demo_reverse
     (snd (ReverseEntry demo_env ''e1'' ''boss'' demo_reverse demo_store)) =
   (Inl ErrLedgerEntryAlreadyReversed, snd (ReverseEntry demo_env ''e1'' ''boss'' demo_reverse demo_store))"
proof -
  obtain r t where run: "ReverseEntry demo_env ''e1'' ''boss'' demo_reverse demo_store = (Inr r, t)"
    using succeeded [OF demo_reverse_runs] by blast
  have valid: "ValidateReverseLedgerEntryRequest demo_reverse ''boss'' = Inr ()" by code_simp
  have "requireSecondApprovalWhenConfigured demo_env (rv_Reason demo_reverse) ''boss''
      (snd (ReverseEntry demo_env ''e1'' ''boss'' demo_reverse demo_store)) = Inr ()" by code_simp
  then show ?thesis using reversed_at_most_once [OF run demo_books refl valid] run by simp
qed

end
