(* ===== verification/AccountReceipts.thy ===== *)
theory AccountReceipts
  imports Corrections
begin

text \<open>
  The life of a receipt: printing, the return of the signed copy, the acceptance of a
  final-settlement receipt in the application, and the backfill of receipts for old debits
  (\<open>receipt_print.go\<close>, \<open>receipt_acceptance.go\<close>, \<open>receipt_backfill.go\<close> and the \<open>MarkReceipt*\<close>
  methods of \<open>repository_gorm.go\<close> in \<open>backend/internal/currentaccounts\<close>).
\<close>

section \<open>Marking a receipt\<close>

definition the_receipt :: "env \<Rightarrow> string \<Rightarrow> LedgerReceipt \<Rightarrow> bool" where
  "the_receipt E i r \<longleftrightarrow> lr_ID r = i \<and> lr_TenantID r = TenantID E"

definition printed_row :: "LedgerReceipt \<Rightarrow> string \<Rightarrow> time \<Rightarrow> LedgerReceipt \<Rightarrow> LedgerReceipt" where
  "printed_row row printedBy printedAt r = r\<lparr>
     lr_PrintedAt := Some printedAt, lr_UpdatedAt := printedAt,
     lr_IssuedAt := (if lr_IssuedAt row = None then Some printedAt else lr_IssuedAt r),
     lr_IssuedBy := (if lr_IssuedAt row = None then printedBy else lr_IssuedBy r),
     lr_Status := (if lr_Status row \<in> set [''PENDING_ISSUE'', ''ISSUED'', ''PRINTED''] then ''PRINTED''
       else lr_Status r)\<rparr>"

definition MarkReceiptPrinted :: "env \<Rightarrow> string \<Rightarrow> string \<Rightarrow> time \<Rightarrow> LedgerReceipt app" where
  "MarkReceiptPrinted E i printedBy printedAt =
     bnd (transaction (bnd (query (FindReceiptByID E i))
       (\<lambda>row. bnd (ensure (lr_Status row \<noteq> ''CANCELLED'') ErrReceiptCancelled)
       (\<lambda>_. updateReceipts (the_receipt E i) (printed_row row printedBy printedAt)))))
     (\<lambda>_. query (FindReceiptByID E i))"

definition returned_row ::
  "LedgerReceipt \<Rightarrow> string \<Rightarrow> string \<Rightarrow> string \<Rightarrow> time \<Rightarrow> LedgerReceipt \<Rightarrow> LedgerReceipt" where
  "returned_row row receivedBy signedDocumentRef notes returnedAt r = r\<lparr>
     lr_SignedAt := Some returnedAt, lr_ReturnedAt := Some returnedAt, lr_ReceivedBy := receivedBy,
     lr_SignedDocumentRef := signedDocumentRef, lr_Notes := notes, lr_Status := ''RETURNED'',
     lr_UpdatedAt := returnedAt,
     lr_IssuedAt := (if lr_IssuedAt row = None then Some returnedAt else lr_IssuedAt r),
     lr_IssuedBy := (if lr_IssuedAt row = None then receivedBy else lr_IssuedBy r),
     lr_PrintedAt := (if lr_PrintedAt row = None then Some returnedAt else lr_PrintedAt r)\<rparr>"

definition MarkReceiptReturned ::
  "env \<Rightarrow> string \<Rightarrow> string \<Rightarrow> string \<Rightarrow> string \<Rightarrow> time \<Rightarrow> LedgerReceipt app" where
  "MarkReceiptReturned E i receivedBy signedDocumentRef notes returnedAt =
     bnd (transaction (bnd (query (FindReceiptByID E i))
       (\<lambda>row. bnd (ensure (lr_Status row \<noteq> ''CANCELLED'') ErrReceiptCancelled)
       (\<lambda>_. bnd (ensure (lr_Status row \<noteq> ''RETURNED'') ErrReceiptAlreadyReturned)
       (\<lambda>_. updateReceipts (the_receipt E i) (returned_row row (TrimSpace receivedBy)
              (TrimSpace signedDocumentRef) (TrimSpace notes) returnedAt))))))
     (\<lambda>_. query (FindReceiptByID E i))"

definition accepted_row :: "string \<Rightarrow> string \<Rightarrow> string \<Rightarrow> time \<Rightarrow> LedgerReceipt \<Rightarrow> LedgerReceipt" where
  "accepted_row acceptedBy signedDocumentRef notes acceptedAt r = r\<lparr>
     lr_SignedAt := Some acceptedAt, lr_ReturnedAt := Some acceptedAt, lr_ReceivedBy := acceptedBy,
     lr_SignedDocumentRef := signedDocumentRef, lr_AcceptedAt := Some acceptedAt,
     lr_AcceptedBy := acceptedBy, lr_AcceptanceMethod := ''IN_APP'', lr_Notes := notes,
     lr_Status := ''RETURNED'', lr_UpdatedAt := acceptedAt\<rparr>"

definition MarkReceiptAccepted ::
  "env \<Rightarrow> string \<Rightarrow> string \<Rightarrow> string \<Rightarrow> string \<Rightarrow> time \<Rightarrow> LedgerReceipt app" where
  "MarkReceiptAccepted E i acceptedBy signedDocumentRef notes acceptedAt =
     bnd (transaction (bnd (query (FindReceiptByID E i))
       (\<lambda>row. bnd (ensure (lr_Status row \<noteq> ''CANCELLED'') ErrReceiptCancelled)
       (\<lambda>_. bnd (ensure (lr_AcceptedAt row = None) ErrReceiptAlreadyAccepted)
       (\<lambda>_. bnd (ensure (lr_Status row \<noteq> ''RETURNED'') ErrReceiptAlreadyReturned)
       (\<lambda>_. updateReceipts (the_receipt E i) (accepted_row (TrimSpace acceptedBy)
              (TrimSpace signedDocumentRef) (TrimSpace notes) acceptedAt)))))))
     (\<lambda>_. query (FindReceiptByID E i))"

section \<open>The service\<close>

definition finalSettlementPurposes :: "string list" where
  "finalSettlementPurposes =
     [''FINAL_SETTLEMENT_TENANT_PAYMENT'', ''FINAL_SETTLEMENT_COLLABORATOR_PAYMENT'']"

definition GetPrintableReceipt :: "env \<Rightarrow> string \<Rightarrow> LedgerReceipt app" where
  "GetPrintableReceipt E ledgerEntryID =
     query (FindReceiptByLedgerEntryID E (TrimSpace ledgerEntryID))"

definition PrintReceipt :: "env \<Rightarrow> string \<Rightarrow> string \<Rightarrow> LedgerReceipt app" where
  "PrintReceipt E ledgerEntryID printedBy0 = (let printedBy = TrimSpace printedBy0 in
     bnd (ensure (printedBy \<noteq> []) (ValidationError [(''authorizedBy'', ''Authorized by is required'')]))
     (\<lambda>_. bnd (query (FindReceiptByLedgerEntryID E (TrimSpace ledgerEntryID)))
     (\<lambda>receipt. MarkReceiptPrinted E (lr_ID receipt) printedBy (Now E))))"

definition ReturnReceipt ::
  "env \<Rightarrow> string \<Rightarrow> string \<Rightarrow> ReturnReceiptRequest \<Rightarrow> LedgerReceipt app" where
  "ReturnReceipt E ledgerEntryID receivedBy0 req = (let receivedBy = TrimSpace receivedBy0 in
     bnd (ensure (receivedBy \<noteq> []) (ValidationError [(''authorizedBy'', ''Authorized by is required'')]))
     (\<lambda>_. bnd (ensure (TrimSpace (rr_SignedDocumentRef req) \<noteq> []) (ValidationError [(''signedDocumentRef'',
            ''signed document reference is required to return a receipt'')]))
     (\<lambda>_. bnd (query (FindReceiptByLedgerEntryID E (TrimSpace ledgerEntryID)))
     (\<lambda>receipt. bnd (ensure (ToUpper (TrimSpace (lr_ReceiptPurpose receipt)) \<notin> set finalSettlementPurposes)
            ErrReceiptRequiresInAppAcceptance)
     (\<lambda>_. MarkReceiptReturned E (lr_ID receipt) receivedBy (rr_SignedDocumentRef req) (rr_Notes req)
            (Now E))))))"

definition AcceptReceipt ::
  "env \<Rightarrow> string \<Rightarrow> string \<Rightarrow> string \<Rightarrow> AcceptReceiptRequest \<Rightarrow> LedgerReceipt app" where
  "AcceptReceipt E ledgerEntryID acceptedBy0 expectedParty req = (let acceptedBy = TrimSpace acceptedBy0 in
     bnd (lift (ValidateAcceptReceiptRequest req))
     (\<lambda>_. bnd (ensure (acceptedBy \<noteq> []) (ValidationError [(''authorizedBy'', ''Required'')]))
     (\<lambda>_. bnd (query (FindReceiptByLedgerEntryID E (TrimSpace ledgerEntryID)))
     (\<lambda>receipt. bnd (ensure (\<not> (lr_AcceptedAt receipt \<noteq> None \<or>
            EqualFold (lr_AcceptanceMethod receipt) ''IN_APP'')) ErrReceiptAlreadyAccepted)
     (\<lambda>_. bnd (ensure (lr_Status receipt \<noteq> ''CANCELLED'') ErrReceiptCancelled)
     (\<lambda>_. bnd (ensure (lr_Status receipt \<noteq> ''RETURNED'') ErrReceiptAlreadyReturned)
     (\<lambda>_. bnd (ensure (ToUpper (TrimSpace (lr_ReceiptPurpose receipt)) \<in> set finalSettlementPurposes)
            ErrReceiptNotInAppAcceptable)
     (\<lambda>_. bnd (ensure (\<not> (ToUpper (TrimSpace (lr_AcceptingParty receipt)) = [] \<or>
            ToUpper (TrimSpace (lr_AcceptingParty receipt)) \<noteq> ToUpper (TrimSpace expectedParty)))
            ErrReceiptAcceptancePartyMismatch)
     (\<lambda>_. MarkReceiptAccepted E (lr_ID receipt) acceptedBy
            (''IN_APP:'' @ acceptedBy @ '':'' @ formatRFC3339Nano (Now E))
            (TrimSpace (aq_Notes req)) (Now E))))))))))"

section \<open>Backfill\<close>

definition tenant_debit :: "env \<Rightarrow> LedgerEntry \<Rightarrow> bool" where
  "tenant_debit E e \<longleftrightarrow> le_TenantID e = TenantID E \<and> le_Direction e = ''DEBIT''"

definition CountDebitLedgerEntries :: "env \<Rightarrow> store \<Rightarrow> nat" where
  "CountDebitLedgerEntries E s = count_where (tenant_debit E) (Ledger s)"

definition CountDebitLedgerEntriesWithReceipts :: "env \<Rightarrow> store \<Rightarrow> nat" where
  "CountDebitLedgerEntriesWithReceipts E s =
     sum_list (map (receipt_count s) (filter (tenant_debit E) (Ledger s)))"

definition ListDebitLedgerEntriesMissingReceipts :: "env \<Rightarrow> store \<Rightarrow> LedgerEntry list" where
  "ListDebitLedgerEntriesMissingReceipts E s = sort_key (\<lambda>e. (le_CreatedAt e, le_ID e))
     (filter (\<lambda>e. tenant_debit E e \<and> receipt_count s e = 0) (Ledger s))"

definition CreateLedgerReceipts :: "env \<Rightarrow> LedgerReceipt list \<Rightarrow> unit app" where
  "CreateLedgerReceipts E rs = transaction (bnd (map_each (createReceipt E) rs) (\<lambda>_. ret ()))"

definition backfill_receipt :: "env \<Rightarrow> LedgerEntry \<Rightarrow> LedgerReceipt app" where
  "backfill_receipt E e = bnd (newID E) (\<lambda>i. ret (zeroLedgerReceipt\<lparr>
     lr_ID := i, lr_CreatedAt := Now E, lr_UpdatedAt := Now E, lr_TenantID := le_TenantID e,
     lr_PersonID := le_PersonID e, lr_CollaboratorID := le_CollaboratorID e,
     lr_LedgerEntryID := le_ID e, lr_ReceiptNumber := Some (receiptNumber i),
     lr_ReceiptType := ''LEDGER_DEBIT'', lr_Status := ''PENDING_ISSUE''\<rparr>))"

record ReceiptBackfillResult =
  rb_EligibleDebitEntries :: nat
  rb_ExistingReceipts :: nat
  rb_MissingReceipts :: nat
  rb_CreatedReceipts :: nat
  rb_DryRun :: bool
  rb_RequestedBy :: string

definition BackfillDebitLedgerReceipts ::
  "env \<Rightarrow> string \<Rightarrow> bool \<Rightarrow> ReceiptBackfillRequest \<Rightarrow> ReceiptBackfillResult app"
  where
  "BackfillDebitLedgerReceipts E authorizedBy0 dryRun req = (let authorizedBy = TrimSpace authorizedBy0 in
     bnd (lift (ValidateReceiptBackfillRequest req authorizedBy))
     (\<lambda>_. bnd (query (requireSecondApprovalWhenConfigured E (bf_Reason req) authorizedBy))
     (\<lambda>_. bnd (query (\<lambda>s. Inr (CountDebitLedgerEntries E s, CountDebitLedgerEntriesWithReceipts E s,
            ListDebitLedgerEntriesMissingReceipts E s)))
     (\<lambda>(eligible, existing, missing). let result = \<lparr>
          rb_EligibleDebitEntries = eligible, rb_ExistingReceipts = existing,
          rb_MissingReceipts = length missing, rb_CreatedReceipts = 0, rb_DryRun = dryRun,
          rb_RequestedBy = authorizedBy\<rparr> in
        if dryRun \<or> missing = [] then ret result
        else bnd (map_each (backfill_receipt E) missing)
          (\<lambda>receipts. bnd (CreateLedgerReceipts E receipts)
          (\<lambda>_. ret (result\<lparr>rb_CreatedReceipts := length receipts\<rparr>)))))))"

section \<open>Kept relations\<close>

lemma keeps_mark:
  assumes "\<And>r. lr_ID (f r) = lr_ID r"
  shows "keeps (accounting (TenantID E)) (updateReceipts (the_receipt E i) f)"
  by (intro keeps_updateReceipts assms) (simp add: the_receipt_def)

lemma row_keys [simp]:
  "lr_ID (printed_row row a b r) = lr_ID r"
  "lr_ID (returned_row row c d e f r) = lr_ID r"
  "lr_ID (accepted_row g h k l r) = lr_ID r"
  by (simp_all add: printed_row_def returned_row_def accepted_row_def)

lemma keeps_Mark:
  "keeps (accounting (TenantID E)) (MarkReceiptPrinted E i by t)"
  "keeps (accounting (TenantID E)) (MarkReceiptReturned E i by ref notes t)"
  "keeps (accounting (TenantID E)) (MarkReceiptAccepted E i by ref notes t)"
  unfolding MarkReceiptPrinted_def MarkReceiptReturned_def MarkReceiptAccepted_def
  by (intro acc.keeps_intros acc.keeps_transaction acc.keeps_ok_intros keeps_keeps_ok keeps_mark row_keys)+

lemma keeps_PrintReceipt: "keeps (accounting (TenantID E)) (PrintReceipt E e by)"
  and keeps_ReturnReceipt: "keeps (accounting (TenantID E)) (ReturnReceipt E e by rreq)"
  and keeps_AcceptReceipt: "keeps (accounting (TenantID E)) (AcceptReceipt E e by party areq)"
  unfolding PrintReceipt_def ReturnReceipt_def AcceptReceipt_def Let_def
  by (intro acc.keeps_intros keeps_Mark)+

lemma backfill_receipt_results:
  "r \<in> results (backfill_receipt E e) \<Longrightarrow> lr_TenantID r = le_TenantID e"
  by (auto simp: backfill_receipt_def dest!: results_bnd)

lemma results_map_each:
  "ys \<in> results (map_each f xs) \<Longrightarrow> y \<in> set ys \<Longrightarrow> \<exists>x \<in> set xs. y \<in> results (f x)"
  by (induction xs arbitrary: ys) (fastforce dest!: results_bnd)+

lemma keeps_CreateLedgerReceipts:
  assumes "\<And>r. r \<in> set rs \<Longrightarrow> lr_TenantID r = T" and "T \<noteq> []"
  shows "keeps (accounting T) (CreateLedgerReceipts E rs)"
  unfolding CreateLedgerReceipts_def using assms
  by (intro acc.keeps_transaction acc.keeps_ok_intros keeps_keeps_ok keeps_createReceipt) auto

lemma keeps_Backfill: "keeps (accounting (TenantID E)) (BackfillDebitLedgerReceipts E by dry req)"
  unfolding BackfillDebitLedgerReceipts_def Let_def split_beta
  by (intro acc.keeps_intros keeps_CreateLedgerReceipts)
    (auto simp: backfill_receipt_def ListDebitLedgerEntriesMissingReceipts_def tenant_debit_def
      intro!: acc.keeps_intros keeps_newID_acc dest!: results_map_each results_bnd)

section \<open>What a successful call did\<close>

lemma updateReceipts_ok:
  assumes "updateReceipts P f s = (Inr u, t)"
  shows "t = s\<lparr>Receipts := update_where P f (Receipts s)\<rparr>"
    and "\<And>r. r \<in> set (Receipts s) \<Longrightarrow> P r \<Longrightarrow> abort_if (receipt_update_guards s r (f r)) = Inr ()"
  using assms by (auto simp: updateReceipts_def run_ok abort_if_ok)

lemma FindReceiptByLedgerEntryID_ok:
  "FindReceiptByLedgerEntryID E i s = Inr r \<Longrightarrow>
   r \<in> set (Receipts s) \<and> lr_LedgerEntryID r = i \<and> lr_TenantID r = TenantID E"
  by (auto simp: FindReceiptByLedgerEntryID_def found_Inr dest: first_by_Some)

lemma FindReceiptByID_unique:
  assumes "r \<in> set (Receipts s)" and "lr_TenantID r = TenantID E" and "distinct (map lr_ID (Receipts s))"
  shows "FindReceiptByID E (lr_ID r) s = Inr r"
proof -
  have "first_by lr_ID (\<lambda>x. lr_ID x = lr_ID r \<and> lr_TenantID x = TenantID E) (Receipts s) = Some r"
    using assms by (intro first_by_unique) (auto dest: distinct_key)
  then show ?thesis by (simp add: FindReceiptByID_def)
qed

lemma FindReceiptByLedgerEntryID_unique:
  assumes "r \<in> set (Receipts s)" and "lr_TenantID r = TenantID E"
    and "distinct (map lr_LedgerEntryID (Receipts s))"
  shows "FindReceiptByLedgerEntryID E (lr_LedgerEntryID r) s = Inr r"
proof -
  have "first_by lr_ID (\<lambda>x. lr_LedgerEntryID x = lr_LedgerEntryID r \<and> lr_TenantID x = TenantID E)
      (Receipts s) = Some r"
    using assms by (intro first_by_unique) (auto dest: distinct_key)
  then show ?thesis by (simp add: FindReceiptByLedgerEntryID_def)
qed

lemma update_by_key:
  assumes "distinct (map key rows)" and "r \<in> set rows" and "\<And>x. x \<in> set rows \<Longrightarrow> P x \<longleftrightarrow> key x = key r"
  shows "update_where P f rows = map (\<lambda>x. if x = r then f r else x) rows"
  unfolding update_where_def using assms by (auto dest: distinct_key)

lemma marked:
  assumes upd: "updateReceipts (the_receipt E i) f s = (Inr u, t)" and row: "FindReceiptByID E i s = Inr row"
    and found: "FindReceiptByID E i t = Inr r" and ids: "distinct (map lr_ID (Receipts s))"
    and f: "\<And>x. lr_ID (f x) = lr_ID x"
  shows "row \<in> set (Receipts s)" and "r = f row"
    and "t = s\<lparr>Receipts := map (\<lambda>x. if x = row then r else x) (Receipts s)\<rparr>"
    and "abort_if (receipt_update_guards s row (f row)) = Inr ()"
proof -
  have row': "row \<in> set (Receipts s)" "lr_ID row = i" "lr_TenantID row = TenantID E"
    using row by (auto simp: FindReceiptByID_def found_Inr dest: first_by_Some)
  note ok = updateReceipts_ok [OF upd]
  show guards: "abort_if (receipt_update_guards s row (f row)) = Inr ()"
    using ok(2) row' by (simp add: the_receipt_def)
  have "the_receipt E i x \<longleftrightarrow> lr_ID x = lr_ID row" if "x \<in> set (Receipts s)" for x
    using that row' ids by (auto simp: the_receipt_def dest: distinct_key)
  then have t: "t = s\<lparr>Receipts := map (\<lambda>x. if x = row then f row else x) (Receipts s)\<rparr>"
    using ok(1) update_by_key [OF ids row'(1)] by simp
  have "map lr_ID (Receipts t) = map lr_ID (Receipts s)" using f by (simp add: t)
  then have ids': "distinct (map lr_ID (Receipts t))" using ids by presburger
  have "receipt_evolves row (f row)" using guards f by (rule receipt_update_evolves)
  then have "lr_TenantID (f row) = TenantID E" using row' by (simp add: receipt_evolves_def)
  moreover have "f row \<in> set (Receipts t)" using row'(1) by (force simp: t)
  ultimately have "FindReceiptByID E (lr_ID (f row)) t = Inr (f row)"
    using ids' by (intro FindReceiptByID_unique)
  then show "r = f row" using found f row'(2) by simp
  with t show "t = s\<lparr>Receipts := map (\<lambda>x. if x = row then r else x) (Receipts s)\<rparr>" by simp
  show "row \<in> set (Receipts s)" by (rule row')
qed

lemma AcceptReceipt_ok:
  assumes run: "AcceptReceipt E e by party req s = (Inr r, t)" and books: "books_ok s"
  obtains row where "FindReceiptByLedgerEntryID E (TrimSpace e) s = Inr row"
    and "lr_AcceptedAt row = None" and "lr_Status row \<noteq> ''CANCELLED''" and "lr_Status row \<noteq> ''RETURNED''"
    and "ToUpper (TrimSpace (lr_ReceiptPurpose row)) \<in> set finalSettlementPurposes"
    and "ToUpper (TrimSpace (lr_AcceptingParty row)) = ToUpper (TrimSpace party)"
    and "TrimSpace by \<noteq> []"
    and "r = accepted_row (TrimSpace by)
      (TrimSpace (''IN_APP:'' @ TrimSpace by @ '':'' @ formatRFC3339Nano (Now E)))
      (TrimSpace (aq_Notes req)) (Now E) row"
    and "t = s\<lparr>Receipts := map (\<lambda>x. if x = row then r else x) (Receipts s)\<rparr>"
    and "receipt_evolves row r"
proof -
  let ?ref = "''IN_APP:'' @ TrimSpace by @ '':'' @ formatRFC3339Nano (Now E)"
  from run obtain row where row: "FindReceiptByLedgerEntryID E (TrimSpace e) s = Inr row"
    and guards: "lr_AcceptedAt row = None" "lr_Status row \<noteq> ''CANCELLED''" "lr_Status row \<noteq> ''RETURNED''"
      "ToUpper (TrimSpace (lr_ReceiptPurpose row)) \<in> set finalSettlementPurposes"
      "ToUpper (TrimSpace (lr_AcceptingParty row)) = ToUpper (TrimSpace party)" "TrimSpace by \<noteq> []"
    and mark: "MarkReceiptAccepted E (lr_ID row) (TrimSpace by) ?ref (TrimSpace (aq_Notes req)) (Now E) s =
      (Inr r, t)"
    by (auto simp: AcceptReceipt_def Let_def run_ok split: if_splits)
  note row' = FindReceiptByLedgerEntryID_ok [OF row]
  have ids: "distinct (map lr_ID (Receipts s))" using books by (simp add: books_ok_def)
  have byid: "FindReceiptByID E (lr_ID row) s = Inr row"
    using row' ids by (intro FindReceiptByID_unique) auto
  from mark obtain u where upd: "updateReceipts (the_receipt E (lr_ID row)) (accepted_row (TrimSpace by)
        (TrimSpace ?ref) (TrimSpace (aq_Notes req)) (Now E)) s = (Inr (), t)"
    and r: "FindReceiptByID E (lr_ID row) t = Inr r"
    by (auto simp: MarkReceiptAccepted_def run_ok byid split: if_splits)
  note m = marked [OF upd byid r ids row_keys(3)]
  show thesis
    using that [OF row guards m(2) m(3)] receipt_update_evolves [OF m(4) row_keys(3)] m(2) by simp
qed

section \<open>What a backfill did\<close>

lemma createReceipt_ok:
  "createReceipt E r s = (Inr x, t) \<Longrightarrow>
   x = with_receipt_defaults E r \<and> t = s\<lparr>Receipts := Receipts s @ [x]\<rparr>"
  by (auto simp: createReceipt_def Let_def put_receipt_def run_ok)

lemma createReceipts_ok:
  assumes "map_each (createReceipt E) rs s = (Inr xs, t)"
  shows "t = s\<lparr>Receipts := Receipts s @ map (with_receipt_defaults E) rs\<rparr>"
  using assms
proof (induction rs arbitrary: s xs)
  case (Cons r rs)
  then obtain x s' ys where "createReceipt E r s = (Inr x, s')"
    and "map_each (createReceipt E) rs s' = (Inr ys, t)"
    by (auto simp: bnd_ok)
  with Cons.IH [of s' ys] createReceipt_ok [of E r s x s'] show ?case by simp
qed simp

lemma backfill_receipts_ok:
  assumes "map_each (backfill_receipt E) es s = (Inr rs, t)"
  shows "(\<exists>n. t = s\<lparr>IdsUsed := n\<rparr>) \<and>
    map (\<lambda>r. (lr_TenantID r, lr_LedgerEntryID r)) rs = map (\<lambda>e. (le_TenantID e, le_ID e)) es"
  using assms
proof (induction es arbitrary: s rs)
  case Nil
  then show ?case by (auto intro: exI [of _ "IdsUsed s"])
next
  case (Cons e es)
  then obtain r s' rs' where r: "backfill_receipt E e s = (Inr r, s')"
    and rs': "map_each (backfill_receipt E) es s' = (Inr rs', t)" and "rs = r # rs'"
    by (auto simp: bnd_ok)
  moreover have "(\<exists>n. s' = s\<lparr>IdsUsed := n\<rparr>) \<and> lr_TenantID r = le_TenantID e \<and> lr_LedgerEntryID r = le_ID e"
    using r by (auto simp: backfill_receipt_def bnd_ok)
  ultimately show ?case using Cons.IH [OF rs'] by auto
qed

lemma receipt_count_le:
  assumes "books_ok s"
  shows "receipt_count s e \<le> 1"
proof -
  have "count_where (\<lambda>r. lr_TenantID r = T \<and> lr_LedgerEntryID r = i) rs \<le> 1"
    if "distinct (map lr_LedgerEntryID rs)" for rs T i
    using that
  proof (induction rs)
    case (Cons a rs)
    show ?case
    proof (cases "lr_LedgerEntryID a = i")
      case True
      then have "count_where (\<lambda>r. lr_TenantID r = T \<and> lr_LedgerEntryID r = i) rs = 0"
        unfolding count_where_0 using Cons.prems by (auto simp: image_iff)
      then show ?thesis by simp
    qed (use Cons in simp)
  qed simp
  from this [of "Receipts s"] show ?thesis using assms by (simp add: receipt_count_def books_ok_def)
qed

lemma receipt_count_pos:
  "0 < receipt_count s e \<longleftrightarrow>
   (\<exists>r \<in> set (Receipts s). lr_TenantID r = le_TenantID e \<and> lr_LedgerEntryID r = le_ID e)"
  using count_where_0 [of "\<lambda>r. lr_TenantID r = le_TenantID e \<and> lr_LedgerEntryID r = le_ID e" "Receipts s"]
  by (auto simp: receipt_count_def)

lemma Backfill_ok:
  assumes "BackfillDebitLedgerReceipts E by False req s = (Inr res, t)"
  defines "missing \<equiv> ListDebitLedgerEntriesMissingReceipts E s"
  obtains n rs where "t = s\<lparr>Receipts := Receipts s @ rs, IdsUsed := n\<rparr>"
    and "map (\<lambda>r. (lr_TenantID r, lr_LedgerEntryID r)) rs = map (\<lambda>e. (le_TenantID e, le_ID e)) missing"
    and "rb_MissingReceipts res = length missing" and "rb_CreatedReceipts res = length missing"
proof (cases "missing = []")
  case True
  then have "t = s" "rb_MissingReceipts res = 0" "rb_CreatedReceipts res = 0"
    using assms by (auto simp: BackfillDebitLedgerReceipts_def Let_def run_ok)
  then show thesis using that [of "IdsUsed s" "[]"] True by simp
next
  case False
  then obtain rs u where rs: "map_each (backfill_receipt E) missing s = (Inr rs, u)"
    and c: "\<exists>xs. map_each (createReceipt E) rs u = (Inr xs, t)"
    and res: "rb_MissingReceipts res = length missing" "rb_CreatedReceipts res = length rs"
    using assms by (auto simp: BackfillDebitLedgerReceipts_def Let_def run_ok CreateLedgerReceipts_def)
  from backfill_receipts_ok [OF rs] obtain n where u: "u = s\<lparr>IdsUsed := n\<rparr>"
    and m: "map (\<lambda>r. (lr_TenantID r, lr_LedgerEntryID r)) rs = map (\<lambda>e. (le_TenantID e, le_ID e)) missing"
    by blast
  have len: "length rs = length missing" using m map_eq_imp_length_eq by blast
  have ten: "lr_TenantID r \<noteq> []" if r: "r \<in> set rs" for r
  proof -
    have "(lr_TenantID r, lr_LedgerEntryID r) \<in> set (map (\<lambda>e. (le_TenantID e, le_ID e)) missing)"
      unfolding m [symmetric] using r by simp
    then have "lr_TenantID r = TenantID E"
      by (auto simp: missing_def ListDebitLedgerEntriesMissingReceipts_def tenant_debit_def)
    then show ?thesis by simp
  qed
  have "map (\<lambda>r. (lr_TenantID r, lr_LedgerEntryID r)) (map (with_receipt_defaults E) rs) =
      map (\<lambda>r. (lr_TenantID r, lr_LedgerEntryID r)) rs"
    using ten by simp
  then show thesis
    using that [of n "map (with_receipt_defaults E) rs"] c createReceipts_ok [of E rs u _ t] u m res len by auto
qed

lemma Backfill_complete:
  assumes run: "BackfillDebitLedgerReceipts E by False req s = (Inr res, t)"
    and e: "e \<in> set (Ledger t)" "tenant_debit E e"
  shows "0 < receipt_count t e"
proof -
  obtain n rs where t: "t = s\<lparr>Receipts := Receipts s @ rs, IdsUsed := n\<rparr>"
    and m: "map (\<lambda>r. (lr_TenantID r, lr_LedgerEntryID r)) rs =
      map (\<lambda>e. (le_TenantID e, le_ID e)) (ListDebitLedgerEntriesMissingReceipts E s)"
    using run by (rule Backfill_ok)
  show ?thesis
  proof (cases "receipt_count s e = 0")
    case True
    then have "(le_TenantID e, le_ID e) \<in> set (map (\<lambda>r. (lr_TenantID r, lr_LedgerEntryID r)) rs)"
      unfolding m using e by (auto simp: t ListDebitLedgerEntriesMissingReceipts_def)
    then show ?thesis by (auto simp: receipt_count_pos t)
  next
    case False
    then show ?thesis by (auto simp: receipt_count_def t)
  qed
qed

section \<open>Properties\<close>

text \<open>
  A ledger with a final payment to the collaborator and its receipt, and an old debit without one.
\<close>

definition demo_receipts_store :: store where
  "demo_receipts_store = demo_store\<lparr>
     Ledger := Ledger demo_store @ [
       demo_entry ''f1'' ''brl'' ''DEBIT'' 100\<lparr>le_EntryType := ''FINAL_SETTLEMENT'',
         le_SourceType := ''JOURNEY_SETTLEMENT''\<rparr>,
       demo_entry ''old'' ''gold'' ''DEBIT'' 1],
     Receipts := [zeroLedgerReceipt\<lparr>lr_ID := ''r1'', lr_TenantID := ''t1'', lr_PersonID := ''g1'',
       lr_CollaboratorID := ''j1'', lr_LedgerEntryID := ''f1'', lr_ReceiptNumber := Some ''RCP-R1'',
       lr_ReceiptType := ''LEDGER_DEBIT'', lr_ReceiptPurpose := ''FINAL_SETTLEMENT_TENANT_PAYMENT'',
       lr_PaymentDirection := ''TENANT_TO_COLLABORATOR'', lr_AcceptingParty := ''COLLABORATOR'',
       lr_Status := ''PENDING_ISSUE''\<rparr>]\<rparr>"

lemma demo_receipts_books: "books_ok demo_receipts_store"
  by code_simp

definition demo_accept :: AcceptReceiptRequest where
  "demo_accept = \<lparr>aq_Confirm = True, aq_Notes = []\<rparr>"

definition demo_backfill :: ReceiptBackfillRequest where
  "demo_backfill = \<lparr>bf_Reason = demo_reason\<rparr>"

lemma demo_accept_runs:
  "\<not> isl (fst (AcceptReceipt demo_env ''f1'' ''ana'' ''collaborator'' demo_accept demo_receipts_store))"
  by code_simp

lemma demo_backfill_runs:
  "\<not> isl (fst (BackfillDebitLedgerReceipts demo_env ''boss'' False demo_backfill demo_receipts_store))"
  by code_simp





text \<open>
  A backfill that follows a backfill finds nothing to do: it creates no receipt and changes
  nothing.
\<close>

theorem backfill_idempotent:
  assumes "BackfillDebitLedgerReceipts E by False req s = (Inr res, t)"
    and "BackfillDebitLedgerReceipts E by' False req' t = (Inr res', t')"
  shows "t' = t \<and> rb_MissingReceipts res' = 0 \<and> rb_CreatedReceipts res' = 0"
proof -
  have "filter (\<lambda>e. tenant_debit E e \<and> receipt_count t e = 0) (Ledger t) = []"
    using Backfill_complete [OF assms(1)] by (fastforce simp: filter_empty_conv)
  then have none: "ListDebitLedgerEntriesMissingReceipts E t = []"
    by (simp add: ListDebitLedgerEntriesMissingReceipts_def)
  then show ?thesis
    using assms(2) by (auto simp: BackfillDebitLedgerReceipts_def Let_def run_ok)
qed

theorem backfill_idempotent_witness:
  "\<exists>res t res' t'. BackfillDebitLedgerReceipts demo_env ''boss'' False demo_backfill demo_receipts_store = (Inr res, t) \<and>
     BackfillDebitLedgerReceipts demo_env ''boss'' False demo_backfill t = (Inr res', t') \<and>
     t' = t \<and> rb_CreatedReceipts res' = 0"
proof -
  obtain res t where run: "BackfillDebitLedgerReceipts demo_env ''boss'' False demo_backfill
      demo_receipts_store = (Inr res, t)" using succeeded [OF demo_backfill_runs] by blast
  have "\<not> isl (fst (BackfillDebitLedgerReceipts demo_env ''boss'' False demo_backfill
      (snd (BackfillDebitLedgerReceipts demo_env ''boss'' False demo_backfill demo_receipts_store))))"
    by code_simp
  then have "\<not> isl (fst (BackfillDebitLedgerReceipts demo_env ''boss'' False demo_backfill t))"
    using run by simp
  then obtain res' t' where run': "BackfillDebitLedgerReceipts demo_env ''boss'' False demo_backfill t = (Inr res', t')"
    using succeeded by blast
  show ?thesis using backfill_idempotent [OF run run'] run run' by fast
qed

end
