(* ===== verification/JourneySettlements.thy ===== *)
theory JourneySettlements
  imports AccountReceipts
begin

text \<open>
  The settlements of a journey: zeroing its gold, a partial payout, and the final payment in either
  direction (\<open>zero_gold.go\<close>, \<open>payout.go\<close>, \<open>final_settlement.go\<close> and
  \<open>CreateSettlementWithEntries\<close> of \<open>repository_gorm.go\<close> in \<open>backend/internal/currentaccounts\<close>).
  Each writes one settlement and its ledger entries in one transaction; a request whose identifier
  was used before answers with what that request wrote.
\<close>

section \<open>Rows\<close>

definition newSettlement ::
  "env \<Rightarrow> string \<Rightarrow> string \<Rightarrow> string \<Rightarrow> string \<Rightarrow> float64 \<Rightarrow> float64 \<Rightarrow> string \<Rightarrow>
   CorrectionReasonRequest \<Rightarrow> string \<Rightarrow> JourneySettlement app"
  where
  "newSettlement E collaboratorID settlementType requestID effectiveDate brl gold notes reason authorizedBy =
    (let (code, text) = normalizedCorrectionReason reason; (by, byNotes) = normalizedSecondApproval reason in
     bnd (newID E) (\<lambda>i. ret \<lparr>
       js_ID = ''journey-settlement-'' @ i, js_CreatedAt = Now E, js_UpdatedAt = Now E,
       js_TenantID = TenantID E, js_CollaboratorID = collaboratorID,
       js_SettlementType = settlementType, js_RequestID = requestID, js_Status = ''POSTED'',
       js_EffectiveDate = dateOf effectiveDate, js_BRLAmount = brl, js_GoldGramAmount = gold,
       js_Notes = TrimSpace notes, js_ReasonCode = code, js_ReasonText = text,
       js_AuthorizedBy = TrimSpace authorizedBy, js_AuthorizedAt = Some (Now E),
       js_SecondApprovedBy = by, js_SecondApprovedAt = optionalApprovalTime by (Now E),
       js_SecondApprovalNotes = byNotes\<rparr>))"

definition settlementRow ::
  "env \<Rightarrow> string \<Rightarrow> string \<Rightarrow> string \<Rightarrow> JourneySettlement \<Rightarrow> string \<Rightarrow> string \<Rightarrow> string \<Rightarrow> float64 \<Rightarrow>
   string \<Rightarrow> LedgerEntry"
  where
  "settlementRow E i prefix entryType st personID valueUnitID direction amount description = \<lparr>
     le_ID = prefix @ i, le_CreatedAt = Now E, le_UpdatedAt = Now E, le_TenantID = js_TenantID st,
     le_PersonID = personID, le_CollaboratorID = js_CollaboratorID st,
     le_ValueUnitID = valueUnitID, le_EntryType = entryType, le_Direction = direction,
     le_Amount = amount, le_EffectiveDate = js_EffectiveDate st,
     le_SourceType = ''JOURNEY_SETTLEMENT'', le_SourceID = js_ID st, le_Description = description,
     le_Active = True, le_CorrectionType = ''ORIGINAL'', le_RelatedEntryID = None,
     le_CorrectionReason = js_ReasonText st, le_CorrectionReasonCode = js_ReasonCode st,
     le_CorrectionReasonText = js_ReasonText st, le_AuthorizedBy = js_AuthorizedBy st,
     le_AuthorizedAt = Some (Now E), le_SecondApprovedBy = js_SecondApprovedBy st,
     le_SecondApprovedAt = js_SecondApprovedAt st,
     le_SecondApprovalNotes = js_SecondApprovalNotes st\<rparr>"

definition payoutLedgerEntry ::
  "env \<Rightarrow> JourneySettlement \<Rightarrow> string \<Rightarrow> ReferenceData \<Rightarrow> float64 \<Rightarrow> LedgerEntry app" where
  "payoutLedgerEntry E st personID valueUnit amount = bnd (newID E) (\<lambda>i. ret
     (settlementRow E i ''ledger-settlement-'' ''PAYOUT'' st personID (rd_ID valueUnit) ''DEBIT'' amount
       (js_Notes st)))"

definition finalSettlementLedgerEntry ::
  "env \<Rightarrow> JourneySettlement \<Rightarrow> string \<Rightarrow> ReferenceData \<Rightarrow> string \<Rightarrow> float64 \<Rightarrow> string \<Rightarrow> LedgerEntry app"
  where
  "finalSettlementLedgerEntry E st personID valueUnit direction amount description =
     bnd (newID E) (\<lambda>i. ret (settlementRow E i ''ledger-final-settlement-'' ''FINAL_SETTLEMENT'' st
       personID (rd_ID valueUnit) direction amount description))"

definition CreateSettlementWithEntries ::
  "env \<Rightarrow> JourneySettlement \<Rightarrow> LedgerEntry list \<Rightarrow> JourneySettlement app" where
  "CreateSettlementWithEntries E st es = transaction
     (bnd (createSettlement E st) (\<lambda>st'. bnd (createEntries E es) (\<lambda>_. ret st')))"

text \<open>The entry of one value unit, written when its amount is positive.\<close>

definition entryWhenPositive ::
  "env \<Rightarrow> float64 \<Rightarrow> string \<Rightarrow> (ReferenceData \<Rightarrow> LedgerEntry app) \<Rightarrow> LedgerEntry list app" where
  "entryWhenPositive E amount code mk =
     (if 0 < amount then bnd (query (FindValueUnitByCode E code)) (\<lambda>u. bnd (mk u) (\<lambda>e. ret [e]))
      else ret [])"

section \<open>Zero gold\<close>

definition gold_balance :: "BalanceRow list \<Rightarrow> float64" where
  "gold_balance rows = (case List.find (\<lambda>r. br_ValueUnitCode r = ''GOLD_GRAM'') rows of
     None \<Rightarrow> 0 | Some r \<Rightarrow> normalizedZero (br_Balance r))"

definition ZeroGold ::
  "env \<Rightarrow> string \<Rightarrow> string \<Rightarrow> ZeroGoldRequest \<Rightarrow> (JourneySettlement \<times> LedgerEntry) app"
  where
  "ZeroGold E collaboratorID0 authorizedBy req = (let c = TrimSpace collaboratorID0 in
     bnd (lift (ValidateZeroGoldRequest req authorizedBy))
     (\<lambda>_. bnd (query (requireSecondApprovalWhenConfigured E (zg_Reason req) authorizedBy))
     (\<lambda>_. bnd (query (FindCollaboratorByID E c))
     (\<lambda>v. bnd (lift (financialOwnerPersonID v))
     (\<lambda>personID. attempt (query (FindSettlementByRequestID E c (TrimSpace (zg_RequestID req))))
       (\<lambda>existing. bnd (query (FindLedgerEntryBySource E ''JOURNEY_SETTLEMENT'' (js_ID existing)))
          (\<lambda>entry. ret (existing, entry)))
       ErrRecordNotFound
       (bnd (query (\<lambda>s. Inr (gold_balance (ListBalances E c s))))
       (\<lambda>goldBalance. bnd (ensure (\<not> goldBalance \<le> 0) ErrNoPositiveGoldBalance)
       (\<lambda>_. bnd (query (FindValueUnitByCode E ''GOLD_GRAM''))
       (\<lambda>valueUnit. bnd (newSettlement E c ''ZERO_GOLD'' (TrimSpace (zg_RequestID req))
            (zg_EffectiveDate req) 0 goldBalance (zg_Notes req) (zg_Reason req) authorizedBy)
       (\<lambda>st. bnd (payoutLedgerEntry E st personID valueUnit goldBalance)
       (\<lambda>entry. bnd (CreateSettlementWithEntries E st [entry])
       (\<lambda>st'. bnd (query (FindLedgerEntryBySource E ''JOURNEY_SETTLEMENT'' (js_ID st)))
       (\<lambda>reloaded. ret (st', reloaded))))))))))))))"

section \<open>Partial payout\<close>

definition PartialPayout ::
  "env \<Rightarrow> string \<Rightarrow> string \<Rightarrow> PartialPayoutRequest \<Rightarrow> (JourneySettlement \<times> LedgerEntry list) app"
  where
  "PartialPayout E collaboratorID0 authorizedBy req = (let c = TrimSpace collaboratorID0 in
     bnd (lift (ValidatePartialPayoutRequest req authorizedBy))
     (\<lambda>_. bnd (query (requireSecondApprovalWhenConfigured E (pp_Reason req) authorizedBy))
     (\<lambda>_. bnd (query (FindCollaboratorByID E c))
     (\<lambda>v. bnd (lift (financialOwnerPersonID v))
     (\<lambda>personID. attempt (query (FindSettlementByRequestID E c (TrimSpace (pp_RequestID req))))
       (\<lambda>existing. bnd (query (\<lambda>s. Inr (FindLedgerEntriesBySource E ''JOURNEY_SETTLEMENT'' (js_ID existing) s)))
          (\<lambda>entries. ret (existing, entries)))
       ErrRecordNotFound
       (bnd (query (\<lambda>s. Inr (ListBalances E c s)))
       (\<lambda>balances. bnd (ensure
            (\<not> (fadd (normalizedZero (balance_of_code ''BRL'' balances)) balanceZeroTolerance < pp_BRLAmount req \<or>
                fadd (normalizedZero (balance_of_code ''GOLD_GRAM'' balances)) balanceZeroTolerance
                  < pp_GoldGramAmount req)) ErrPayoutExceedsAvailableBalance)
       (\<lambda>_. bnd (newSettlement E c ''PAYOUT'' (TrimSpace (pp_RequestID req)) (pp_EffectiveDate req)
            (pp_BRLAmount req) (pp_GoldGramAmount req) (pp_Notes req) (pp_Reason req) authorizedBy)
       (\<lambda>st. bnd (entryWhenPositive E (pp_BRLAmount req) ''BRL''
            (\<lambda>u. payoutLedgerEntry E st personID u (pp_BRLAmount req)))
       (\<lambda>brl. bnd (entryWhenPositive E (pp_GoldGramAmount req) ''GOLD_GRAM''
            (\<lambda>u. payoutLedgerEntry E st personID u (pp_GoldGramAmount req)))
       (\<lambda>gold. bnd (CreateSettlementWithEntries E st (brl @ gold))
       (\<lambda>st'. bnd (query (\<lambda>s. Inr (FindLedgerEntriesBySource E ''JOURNEY_SETTLEMENT'' (js_ID st) s)))
       (\<lambda>rows. ret (st', rows))))))))))))))"

section \<open>Final payments\<close>

text \<open>The magnitude owed in one value unit by the paying side, the last row of the code deciding.\<close>

definition owed :: "bool \<Rightarrow> string \<Rightarrow> BalanceRow list \<Rightarrow> float64" where
  "owed tenantPays code rows = foldl (\<lambda>acc r. let amount = normalizedZero (br_Balance r) in
     if tenantPays \<and> amount \<le> 0 \<or> \<not> tenantPays \<and> 0 \<le> amount then acc
     else if br_ValueUnitCode r = code then \<bar>amount\<bar> else acc) 0 rows"

definition postFinalSettlement ::
  "env \<Rightarrow> string \<Rightarrow> string \<Rightarrow> FinalSettlementRequest \<Rightarrow> bool \<Rightarrow>
   (JourneySettlement \<times> LedgerEntry list) app"
  where
  "postFinalSettlement E collaboratorID0 authorizedBy req tenantPays = (let
       c = TrimSpace collaboratorID0;
       settlementType = (if tenantPays then ''FINAL_TENANT_PAYMENT'' else ''FINAL_COLLABORATOR_PAYMENT'');
       direction = (if tenantPays then ''DEBIT'' else ''CREDIT'');
       description = (if TrimSpace (fs_Notes req) \<noteq> [] then TrimSpace (fs_Notes req)
         else if tenantPays then ''Final Journey payment from Tenant to Collaborator''
         else ''Final Journey payment from Collaborator to Tenant'') in
     bnd (lift (ValidateFinalSettlementRequest req authorizedBy))
     (\<lambda>_. bnd (query (requireSecondApprovalWhenConfigured E (fs_Reason req) authorizedBy))
     (\<lambda>_. bnd (query (FindCollaboratorByID E c))
     (\<lambda>v. bnd (ensure (\<not> (EqualFold (TrimSpace (rd_Code (cv_Status v))) ''FINISHED'' \<or>
            cj_ClosedAt (cv_Journey v) \<noteq> None)) ErrJourneyAlreadyClosed)
     (\<lambda>_. bnd (lift (financialOwnerPersonID v))
     (\<lambda>personID. attempt (query (FindSettlementByRequestID E c (TrimSpace (fs_RequestID req))))
       (\<lambda>existing. bnd (query (\<lambda>s. Inr (FindLedgerEntriesBySource E ''JOURNEY_SETTLEMENT'' (js_ID existing) s)))
          (\<lambda>entries. ret (existing, entries)))
       ErrRecordNotFound
       (bnd (query (\<lambda>s. Inr (owed tenantPays ''BRL'' (ListBalances E c s),
                            owed tenantPays ''GOLD_GRAM'' (ListBalances E c s))))
       (\<lambda>(brlAmount, goldAmount). bnd (ensure (\<not> (brlAmount = 0 \<and> goldAmount = 0))
            (if tenantPays then ErrNoTenantOwedBalance else ErrNoCollaboratorOwedBalance))
       (\<lambda>_. bnd (newSettlement E c settlementType (TrimSpace (fs_RequestID req)) (fs_EffectiveDate req)
            brlAmount goldAmount (fs_Notes req) (fs_Reason req) authorizedBy)
       (\<lambda>st. bnd (entryWhenPositive E brlAmount ''BRL''
            (\<lambda>u. finalSettlementLedgerEntry E st personID u direction brlAmount description))
       (\<lambda>brl. bnd (entryWhenPositive E goldAmount ''GOLD_GRAM''
            (\<lambda>u. finalSettlementLedgerEntry E st personID u direction goldAmount description))
       (\<lambda>gold. bnd (CreateSettlementWithEntries E st (brl @ gold))
       (\<lambda>st'. bnd (query (\<lambda>s. Inr (FindLedgerEntriesBySource E ''JOURNEY_SETTLEMENT'' (js_ID st) s)))
       (\<lambda>rows. ret (st', rows)))))))))))))))"

definition FinalTenantPayment ::
  "env \<Rightarrow> string \<Rightarrow> string \<Rightarrow> FinalSettlementRequest \<Rightarrow> (JourneySettlement \<times> LedgerEntry list) app" where
  "FinalTenantPayment E c authorizedBy req = postFinalSettlement E c authorizedBy req True"

definition FinalCollaboratorPayment ::
  "env \<Rightarrow> string \<Rightarrow> string \<Rightarrow> FinalSettlementRequest \<Rightarrow> (JourneySettlement \<times> LedgerEntry list) app" where
  "FinalCollaboratorPayment E c authorizedBy req = postFinalSettlement E c authorizedBy req False"

section \<open>Kept relations\<close>

lemma newSettlement_results:
  "st \<in> results (newSettlement E c ty q d brl gold notes reason by) \<Longrightarrow> js_TenantID st = TenantID E"
  by (auto simp: newSettlement_def split_beta dest!: results_bnd)

lemma settlementRow_simps [simp]:
  fixes E i prefix ty st p u d a ds
  defines "x \<equiv> settlementRow E i prefix ty st p u d a ds"
  shows "le_TenantID x = js_TenantID st" "le_PersonID x = p" "le_CollaboratorID x = js_CollaboratorID st"
    "le_ValueUnitID x = u" "le_EntryType x = ty" "le_Direction x = d" "le_Amount x = a" "le_Active x"
    "le_SourceType x = ''JOURNEY_SETTLEMENT''" "le_SourceID x = js_ID st"
    "le_CorrectionType x = ''ORIGINAL''" "le_RelatedEntryID x = None"
    "le_CreatedAt x = Now E" "le_UpdatedAt x = Now E" "le_ID x = prefix @ i"
  by (simp_all add: x_def settlementRow_def)

lemma payoutLedgerEntry_results:
  "e \<in> results (payoutLedgerEntry E st p u a) \<Longrightarrow> le_TenantID e = js_TenantID st"
  and finalSettlementLedgerEntry_results:
  "e \<in> results (finalSettlementLedgerEntry E st p u d a ds) \<Longrightarrow> le_TenantID e = js_TenantID st"
  by (auto simp: payoutLedgerEntry_def finalSettlementLedgerEntry_def dest!: results_bnd)

lemma keeps_newSettlement: "keeps (accounting T) (newSettlement E c ty q d brl gold notes reason by)"
  and keeps_payoutLedgerEntry: "keeps (accounting T) (payoutLedgerEntry E st p u a)"
  and keeps_finalSettlementLedgerEntry: "keeps (accounting T) (finalSettlementLedgerEntry E st p u dir a ds)"
  unfolding newSettlement_def payoutLedgerEntry_def finalSettlementLedgerEntry_def split_beta Let_def
  by (intro acc.keeps_intros keeps_newID_acc)+

lemma entryWhenPositive_results:
  "es \<in> results (entryWhenPositive E a code mk) \<Longrightarrow> e \<in> set es \<Longrightarrow> \<exists>u. e \<in> results (mk u)"
  by (auto simp: entryWhenPositive_def dest!: results_bnd split: if_splits)

lemma keeps_entryWhenPositive:
  "(\<And>u. keeps (accounting T) (mk u)) \<Longrightarrow> keeps (accounting T) (entryWhenPositive E a code mk)"
  unfolding entryWhenPositive_def by (intro acc.keeps_intros)

lemma keeps_CreateSettlementWithEntries:
  assumes "js_TenantID st = T" and "\<And>e. e \<in> set es \<Longrightarrow> le_TenantID e = T" and "T \<noteq> []"
  shows "keeps (accounting T) (CreateSettlementWithEntries E st es)"
  unfolding CreateSettlementWithEntries_def using assms
  by (intro acc.keeps_transaction acc.keeps_ok_intros keeps_ok_createEntries
      keeps_keeps_ok [OF keeps_createSettlement]) auto

lemmas keeps_settlement_intros = acc.keeps_intros keeps_newSettlement keeps_payoutLedgerEntry
  keeps_finalSettlementLedgerEntry keeps_entryWhenPositive keeps_CreateSettlementWithEntries

lemma keeps_ZeroGold: "keeps (accounting (TenantID E)) (ZeroGold E c by req)"
  unfolding ZeroGold_def Let_def
  by (intro keeps_settlement_intros) (auto dest!: newSettlement_results payoutLedgerEntry_results)

lemma keeps_PartialPayout: "keeps (accounting (TenantID E)) (PartialPayout E c by preq)"
  unfolding PartialPayout_def Let_def
  by (intro keeps_settlement_intros)
    (auto dest!: newSettlement_results payoutLedgerEntry_results entryWhenPositive_results)

lemma keeps_postFinalSettlement: "keeps (accounting (TenantID E)) (postFinalSettlement E c by freq tp)"
  unfolding postFinalSettlement_def Let_def split_beta
  by (intro keeps_settlement_intros)
    (auto dest!: newSettlement_results finalSettlementLedgerEntry_results entryWhenPositive_results)

section \<open>What a settlement writes\<close>

lemma createEntries_books: "createEntries E es s = (Inr rows, t) \<Longrightarrow> books_only s t"
proof -
  have "keeps books_only (createEntries E es)"
    unfolding createEntries_def by (intro books.keeps_intros keeps_books_createLedgerEntry)
  then show "createEntries E es s = (Inr rows, t) \<Longrightarrow> books_only s t" by (rule keepsD)
qed

lemma settlement_defaults_simps [simp]:
  "js_ID (with_settlement_defaults E x) = js_ID x"
  "js_CollaboratorID (with_settlement_defaults E x) = js_CollaboratorID x"
  "js_RequestID (with_settlement_defaults E x) = js_RequestID x"
  "js_SettlementType (with_settlement_defaults E x) = js_SettlementType x"
  "js_BRLAmount (with_settlement_defaults E x) = js_BRLAmount x"
  "js_GoldGramAmount (with_settlement_defaults E x) = js_GoldGramAmount x"
  "js_TenantID (with_settlement_defaults E x) = or_default (js_TenantID x) ''default''"
  by (simp_all add: with_settlement_defaults_def)

lemma CreateSettlementWithEntries_ok:
  assumes "CreateSettlementWithEntries E st es s = (Inr st', t)"
  shows "st' = with_settlement_defaults E st" and "Settlements t = Settlements s @ [st']"
    and "Ledger t = Ledger s @ map (with_entry_defaults E) es"
    and "References t = References s" "Journeys t = Journeys s" "People t = People s"
    and "\<And>e. e \<in> set es \<Longrightarrow> le_Direction e = ''DEBIT'' \<Longrightarrow> receipt_count t (with_entry_defaults E e) = 1"
    and "\<And>e. e \<in> set es \<Longrightarrow> finalSettlement e \<Longrightarrow> receipt_count t (with_entry_defaults E e) = 1"
proof -
  from assms obtain u rows where st: "createSettlement E st s = (Inr st', u)"
    and c: "createEntries E es u = (Inr rows, t)"
    by (auto simp: CreateSettlementWithEntries_def run_ok)
  note u = createSettlement_ok [OF st]
  show "st' = with_settlement_defaults E st" using u by blast
  show "Settlements t = Settlements s @ [st']" "References t = References s" "Journeys t = Journeys s"
    "People t = People s"
    using u books_only_simps [OF createEntries_books [OF c]] by auto
  show "Ledger t = Ledger s @ map (with_entry_defaults E) es" using createEntries_ok(1,2) [OF c] u by auto
  show "receipt_count t (with_entry_defaults E e) = 1" if "e \<in> set es" "le_Direction e = ''DEBIT''" for e
    using createEntries_ok(1,3) [OF c] that by auto
  show "receipt_count t (with_entry_defaults E e) = 1" if "e \<in> set es" "finalSettlement e" for e
    using createEntries_ok(1,4) [OF c] that by (auto simp: finalSettlement_def)
qed

text \<open>The entry posted for one value unit: none for a zero amount, otherwise one for the amount.\<close>

definition posted ::
  "env \<Rightarrow> store \<Rightarrow> string \<Rightarrow> string \<Rightarrow> string \<Rightarrow> string \<Rightarrow> float64 \<Rightarrow> LedgerEntry list \<Rightarrow> bool" where
  "posted E s c ty d code a es \<longleftrightarrow> (if 0 < a
     then \<exists>u e. FindValueUnitByCode E code s = Inr u \<and> es = [e] \<and> le_TenantID e = TenantID E \<and>
       le_CollaboratorID e = c \<and> le_ValueUnitID e = rd_ID u \<and> le_Active e \<and> le_EntryType e = ty \<and>
       le_Direction e = d \<and> le_Amount e = a \<and> le_SourceType e = ''JOURNEY_SETTLEMENT''
     else es = [])"

lemma FindValueUnitByCode_ids [simp]:
  "FindValueUnitByCode E code (s\<lparr>IdsUsed := n\<rparr>) = FindValueUnitByCode E code s"
  by (simp add: FindValueUnitByCode_def FindReferenceByCode_def)

lemma entryWhenPositive_ok:
  assumes run: "entryWhenPositive E a code mk s = (Inr es, t)"
    and mk: "\<And>u e x y. mk u x = (Inr e, y) \<Longrightarrow> \<exists>i. e = settlementRow E i pre ty st p (rd_ID u) d a ds \<and>
      (\<exists>n. y = x\<lparr>IdsUsed := n\<rparr>)"
    and st: "js_TenantID st = TenantID E" "js_CollaboratorID st = c"
  shows "(\<exists>n. t = s\<lparr>IdsUsed := n\<rparr>) \<and> posted E s c ty d code a es \<and> map (with_entry_defaults E) es = es"
proof (cases "0 < a")
  case True
  then obtain u e where u: "FindValueUnitByCode E code s = Inr u" and e: "mk u s = (Inr e, t)" "es = [e]"
    using run by (auto simp: entryWhenPositive_def run_ok)
  from mk [OF e(1)] obtain i n where i: "e = settlementRow E i pre ty st p (rd_ID u) d a ds"
    and n: "t = s\<lparr>IdsUsed := n\<rparr>" by blast
  have "with_entry_defaults E e = e" using st by (simp add: i with_entry_defaults_id)
  then show ?thesis using True u e(2) n st by (auto simp: posted_def i)
next
  case False
  then have "t = s" "es = []" using run by (auto simp: entryWhenPositive_def)
  then show ?thesis using False by (auto simp: posted_def intro: exI [of _ "IdsUsed s"])
qed

lemma newSettlement_ok:
  assumes "newSettlement E c ty q d brl gold notes reason by s = (Inr st, t)"
  shows "t = s\<lparr>IdsUsed := Suc (IdsUsed s)\<rparr> \<and> js_TenantID st = TenantID E \<and> js_CollaboratorID st = c \<and>
    js_RequestID st = q \<and> js_SettlementType st = ty \<and> js_BRLAmount st = brl \<and> js_GoldGramAmount st = gold \<and>
    with_settlement_defaults E st = st"
  using assms
  by (auto simp: newSettlement_def split_beta bnd_ok with_settlement_defaults_def or_time_def)

lemma payoutLedgerEntry_ok:
  "payoutLedgerEntry E st p u a x = (Inr e, y) \<Longrightarrow>
   \<exists>i. e = settlementRow E i ''ledger-settlement-'' ''PAYOUT'' st p (rd_ID u) ''DEBIT'' a (js_Notes st) \<and>
     (\<exists>n. y = x\<lparr>IdsUsed := n\<rparr>)"
  and finalSettlementLedgerEntry_ok:
  "finalSettlementLedgerEntry E st p u d a ds x = (Inr e, y) \<Longrightarrow>
   \<exists>i. e = settlementRow E i ''ledger-final-settlement-'' ''FINAL_SETTLEMENT'' st p (rd_ID u) d a ds \<and>
     (\<exists>n. y = x\<lparr>IdsUsed := n\<rparr>)"
  by (auto simp: payoutLedgerEntry_def finalSettlementLedgerEntry_def bnd_ok)

section \<open>Runs of a fresh request\<close>

lemma ZeroGold_ok:
  assumes run: "ZeroGold E c by req s = (Inr (st, e), t)"
    and fresh: "FindSettlementByRequestID E (TrimSpace c) (TrimSpace (zg_RequestID req)) s = Inl ErrRecordNotFound"
  obtains es where "Ledger t = Ledger s @ es" and "Settlements t = Settlements s @ [st]"
    and "References t = References s" "Journeys t = Journeys s" "People t = People s"
    and "0 < gold_balance (ListBalances E (TrimSpace c) s)"
    and "posted E s (TrimSpace c) ''PAYOUT'' ''DEBIT'' ''GOLD_GRAM''
      (gold_balance (ListBalances E (TrimSpace c) s)) es"
    and "js_TenantID st = TenantID E" "js_CollaboratorID st = TrimSpace c"
      "js_RequestID st = TrimSpace (zg_RequestID req)"
    and "\<And>x. x \<in> set es \<Longrightarrow> receipt_count t x = 1"
proof -
  let ?g = "gold_balance (ListBalances E (TrimSpace c) s)"
  obtain p u n x y z where pos: "0 < ?g" and u: "FindValueUnitByCode E ''GOLD_GRAM'' s = Inr u"
    and n: "newSettlement E (TrimSpace c) ''ZERO_GOLD'' (TrimSpace (zg_RequestID req))
      (zg_EffectiveDate req) 0 ?g (zg_Notes req) (zg_Reason req) by s = (Inr n, x)"
    and e: "payoutLedgerEntry E n p u ?g x = (Inr z, y)"
    and w: "CreateSettlementWithEntries E n [z] y = (Inr st, t)"
    using run fresh
    by (auto simp: ZeroGold_def Let_def run_ok split: if_split_asm)
  note n' = newSettlement_ok [OF n]
  obtain i m where z: "z = settlementRow E i ''ledger-settlement-'' ''PAYOUT'' n p (rd_ID u) ''DEBIT'' ?g (js_Notes n)"
    and y: "y = x\<lparr>IdsUsed := m\<rparr>" using payoutLedgerEntry_ok [OF e] by blast
  note w' = CreateSettlementWithEntries_ok [OF w]
  have d: "with_entry_defaults E z = z" using n' by (simp add: z with_entry_defaults_id)
  show thesis
  proof (rule that [of "[z]"])
    show "posted E s (TrimSpace c) ''PAYOUT'' ''DEBIT'' ''GOLD_GRAM'' ?g [z]"
      using pos u n' by (simp add: posted_def z)
  qed (use w' n' y d z pos in \<open>auto\<close>)
qed

lemma PartialPayout_ok:
  assumes run: "PartialPayout E c by req s = (Inr (st, rows), t)"
    and fresh: "FindSettlementByRequestID E (TrimSpace c) (TrimSpace (pp_RequestID req)) s = Inl ErrRecordNotFound"
  obtains brl gold where "Ledger t = Ledger s @ brl @ gold" and "Settlements t = Settlements s @ [st]"
    and "posted E s (TrimSpace c) ''PAYOUT'' ''DEBIT'' ''BRL'' (pp_BRLAmount req) brl"
    and "posted E s (TrimSpace c) ''PAYOUT'' ''DEBIT'' ''GOLD_GRAM'' (pp_GoldGramAmount req) gold"
    and "pp_BRLAmount req \<le> fadd (normalizedZero (balance_of_code ''BRL''
      (ListBalances E (TrimSpace c) s))) balanceZeroTolerance"
    and "pp_GoldGramAmount req \<le> fadd (normalizedZero (balance_of_code ''GOLD_GRAM''
      (ListBalances E (TrimSpace c) s))) balanceZeroTolerance"
    and "js_TenantID st = TenantID E" "js_CollaboratorID st = TrimSpace c"
      "js_RequestID st = TrimSpace (pp_RequestID req)"
    and "\<And>x. x \<in> set (brl @ gold) \<Longrightarrow> receipt_count t x = 1"
proof -
  obtain p n x brl y gold z where lim: "pp_BRLAmount req \<le> fadd (normalizedZero (balance_of_code ''BRL''
      (ListBalances E (TrimSpace c) s))) balanceZeroTolerance"
      "pp_GoldGramAmount req \<le> fadd (normalizedZero (balance_of_code ''GOLD_GRAM''
      (ListBalances E (TrimSpace c) s))) balanceZeroTolerance"
    and n: "newSettlement E (TrimSpace c) ''PAYOUT'' (TrimSpace (pp_RequestID req)) (pp_EffectiveDate req)
      (pp_BRLAmount req) (pp_GoldGramAmount req) (pp_Notes req) (pp_Reason req) by s = (Inr n, x)"
    and b: "entryWhenPositive E (pp_BRLAmount req) ''BRL''
      (\<lambda>u. payoutLedgerEntry E n p u (pp_BRLAmount req)) x = (Inr brl, y)"
    and g: "entryWhenPositive E (pp_GoldGramAmount req) ''GOLD_GRAM''
      (\<lambda>u. payoutLedgerEntry E n p u (pp_GoldGramAmount req)) y = (Inr gold, z)"
    and w: "CreateSettlementWithEntries E n (brl @ gold) z = (Inr st, t)"
    using run fresh
    by (auto simp: PartialPayout_def Let_def run_ok not_less split: if_split_asm)
  note n' = newSettlement_ok [OF n]
  have ten: "js_TenantID n = TenantID E" "js_CollaboratorID n = TrimSpace c" using n' by simp_all
  have b': "(\<exists>m. y = x\<lparr>IdsUsed := m\<rparr>) \<and> posted E x (TrimSpace c) ''PAYOUT'' ''DEBIT'' ''BRL'' (pp_BRLAmount req) brl \<and>
      map (with_entry_defaults E) brl = brl"
    by (rule entryWhenPositive_ok [OF b _ ten]) (erule payoutLedgerEntry_ok)
  have g': "(\<exists>m. z = y\<lparr>IdsUsed := m\<rparr>) \<and> posted E y (TrimSpace c) ''PAYOUT'' ''DEBIT'' ''GOLD_GRAM'' (pp_GoldGramAmount req) gold \<and>
      map (with_entry_defaults E) gold = gold"
    by (rule entryWhenPositive_ok [OF g _ ten]) (erule payoutLedgerEntry_ok)
  note w' = CreateSettlementWithEntries_ok [OF w]
  have pb: "posted E s (TrimSpace c) ''PAYOUT'' ''DEBIT'' ''BRL'' (pp_BRLAmount req) brl"
    and pg: "posted E s (TrimSpace c) ''PAYOUT'' ''DEBIT'' ''GOLD_GRAM'' (pp_GoldGramAmount req) gold"
    using b' g' n' by (auto simp: posted_def)
  have d: "map (with_entry_defaults E) (brl @ gold) = brl @ gold" using b' g' by simp
  have deb: "le_Direction x = ''DEBIT''" if "x \<in> set (brl @ gold)" for x
    using that pb pg by (auto simp: posted_def split: if_splits)
  have r: "receipt_count t x = 1" if "x \<in> set (brl @ gold)" for x
    using w'(7) [OF that deb [OF that]] map_fixed [OF d that] by simp
  show thesis
    by (rule that [of brl gold]) (use w' n' b' g' d pb pg lim r in \<open>auto\<close>)
qed

lemma postFinalSettlement_ok:
  fixes E c req s tp
  defines "B \<equiv> owed tp ''BRL'' (ListBalances E (TrimSpace c) s)"
    and "G \<equiv> owed tp ''GOLD_GRAM'' (ListBalances E (TrimSpace c) s)"
    and "d \<equiv> if tp then ''DEBIT'' else ''CREDIT''"
  assumes run: "postFinalSettlement E c by req tp s = (Inr (st, rows), t)"
    and fresh: "FindSettlementByRequestID E (TrimSpace c) (TrimSpace (fs_RequestID req)) s = Inl ErrRecordNotFound"
  obtains brl gold where "Ledger t = Ledger s @ brl @ gold" and "Settlements t = Settlements s @ [st]"
    and "posted E s (TrimSpace c) ''FINAL_SETTLEMENT'' d ''BRL'' B brl"
    and "posted E s (TrimSpace c) ''FINAL_SETTLEMENT'' d ''GOLD_GRAM'' G gold"
    and "References t = References s" "Journeys t = Journeys s" "People t = People s"
    and "\<not> (B = 0 \<and> G = 0)"
    and "js_TenantID st = TenantID E" "js_CollaboratorID st = TrimSpace c"
      "js_RequestID st = TrimSpace (fs_RequestID req)"
    and "\<And>x. x \<in> set (brl @ gold) \<Longrightarrow> receipt_count t x = 1"
proof -
  define ty where "ty = (if tp then ''FINAL_TENANT_PAYMENT'' else ''FINAL_COLLABORATOR_PAYMENT'')"
  obtain p n x brl y gold z ds where nz: "\<not> (B = 0 \<and> G = 0)"
    and n: "newSettlement E (TrimSpace c) ty (TrimSpace (fs_RequestID req)) (fs_EffectiveDate req) B G
      (fs_Notes req) (fs_Reason req) by s = (Inr n, x)"
    and b: "entryWhenPositive E B ''BRL'' (\<lambda>u. finalSettlementLedgerEntry E n p u d B ds) x = (Inr brl, y)"
    and g: "entryWhenPositive E G ''GOLD_GRAM'' (\<lambda>u. finalSettlementLedgerEntry E n p u d G ds) y = (Inr gold, z)"
    and w: "CreateSettlementWithEntries E n (brl @ gold) z = (Inr st, t)"
    using run fresh unfolding postFinalSettlement_def Let_def B_def G_def d_def ty_def
    by (auto simp: run_ok split: if_split_asm)
  note n' = newSettlement_ok [OF n]
  have ten: "js_TenantID n = TenantID E" "js_CollaboratorID n = TrimSpace c" using n' by simp_all
  have b': "(\<exists>m. y = x\<lparr>IdsUsed := m\<rparr>) \<and> posted E x (TrimSpace c) ''FINAL_SETTLEMENT'' d ''BRL'' B brl \<and>
      map (with_entry_defaults E) brl = brl"
    by (rule entryWhenPositive_ok [OF b _ ten]) (erule finalSettlementLedgerEntry_ok)
  have g': "(\<exists>m. z = y\<lparr>IdsUsed := m\<rparr>) \<and> posted E y (TrimSpace c) ''FINAL_SETTLEMENT'' d ''GOLD_GRAM'' G gold \<and>
      map (with_entry_defaults E) gold = gold"
    by (rule entryWhenPositive_ok [OF g _ ten]) (erule finalSettlementLedgerEntry_ok)
  note w' = CreateSettlementWithEntries_ok [OF w]
  have pb: "posted E s (TrimSpace c) ''FINAL_SETTLEMENT'' d ''BRL'' B brl"
    and pg: "posted E s (TrimSpace c) ''FINAL_SETTLEMENT'' d ''GOLD_GRAM'' G gold"
    using b' g' n' by (auto simp: posted_def)
  have dd: "map (with_entry_defaults E) (brl @ gold) = brl @ gold" using b' g' by simp
  have fold: "EqualFold (TrimSpace ''FINAL_SETTLEMENT'') ''FINAL_SETTLEMENT''"
    "EqualFold (TrimSpace ''JOURNEY_SETTLEMENT'') ''JOURNEY_SETTLEMENT''" by code_simp+
  have fin: "finalSettlement x" if "x \<in> set (brl @ gold)" for x
    using that pb pg fold by (auto simp: posted_def finalSettlement_def split: if_splits)
  have r: "receipt_count t x = 1" if "x \<in> set (brl @ gold)" for x
    using w'(8) [OF that fin [OF that]] map_fixed [OF dd that] by simp
  show thesis
    by (rule that [of brl gold]) (use w' n' b' g' dd pb pg nz r in \<open>auto\<close>)
qed

end
