(* ===== verification/SettlementEffects.thy ===== *)
theory SettlementEffects
  imports JourneySettlements
begin

text \<open>
  What a settlement does to the balances a current account lists: the rows of \<open>ListBalances\<close>
  characterised on consistent books, the balances after a batch of entries, and the properties of
  zero gold, partial payout and the final payments.
\<close>

section \<open>The rows of a balance list\<close>

definition listed :: "env \<Rightarrow> string \<Rightarrow> store \<Rightarrow> bool" where
  "listed E c s \<longleftrightarrow> (\<exists>j p. List.find (\<lambda>j. cj_ID j = c \<and> cj_TenantID j = TenantID E) (Journeys s) = Some j \<and>
     List.find (\<lambda>p. pe_ID p = cj_PersonID j \<and> pe_TenantID p = TenantID E) (People s) = Some p)"

definition unit_coded :: "env \<Rightarrow> string \<Rightarrow> store \<Rightarrow> ReferenceData \<Rightarrow> bool" where
  "unit_coded E code s u \<longleftrightarrow> u \<in> set (References s) \<and> rd_TenantID u = TenantID E \<and>
     rd_Type u = ''value_unit'' \<and> rd_Code u = code"

definition balance :: "env \<Rightarrow> string \<Rightarrow> string \<Rightarrow> store \<Rightarrow> float64" where
  "balance E c u s = unit_balance E u (journey_entries s (TenantID E) c)"

lemma unit_coded_unique:
  assumes "books_ok s" and "unit_coded E code s u" and "unit_coded E code s v"
  shows "u = v"
proof -
  have "distinct (map (\<lambda>r. (rd_TenantID r, rd_Type r, rd_Code r)) (References s))"
    using assms(1) by (simp add: books_ok_def)
  from distinct_key [OF this, of u v] show ?thesis using assms(2,3) by (simp add: unit_coded_def)
qed

lemma unit_coded_by_id:
  assumes "books_ok s" and "unit_coded E code s u" and "unit_coded E code' s v" and "rd_ID u = rd_ID v"
  shows "u = v"
proof -
  have "distinct (map rd_ID (References s))" using assms(1) by (simp add: books_ok_def)
  from distinct_key [OF this, of u v] show ?thesis using assms(2-4) by (simp add: unit_coded_def)
qed

lemma FindValueUnitByCode_coded: "FindValueUnitByCode E code s = Inr u \<Longrightarrow> unit_coded E code s u"
  by (auto simp: FindValueUnitByCode_def FindReferenceByCode_def found_Inr unit_coded_def
      dest!: first_by_Some)

lemma unit_of_iff:
  assumes "books_ok s"
  shows "unit_of s T i = Some u \<longleftrightarrow> u \<in> set (References s) \<and> rd_ID u = i \<and> rd_TenantID u = T"
proof
  assume "unit_of s T i = Some u"
  then show "u \<in> set (References s) \<and> rd_ID u = i \<and> rd_TenantID u = T"
    by (auto simp: unit_of_def find_Some_iff)
next
  assume u: "u \<in> set (References s) \<and> rd_ID u = i \<and> rd_TenantID u = T"
  then obtain v where v: "unit_of s T i = Some v"
    by (cases "unit_of s T i") (auto simp: unit_of_def find_None_iff)
  then have "v \<in> set (References s) \<and> rd_ID v = i" by (auto simp: unit_of_def find_Some_iff)
  moreover have "distinct (map rd_ID (References s))" using assms by (simp add: books_ok_def)
  ultimately show "unit_of s T i = Some u" using u v distinct_key [of rd_ID "References s" u v] by simp
qed

text \<open>Every entry of consistent books joins its value unit.\<close>

lemma entry_unit:
  assumes "books_ok s" and "e \<in> set (journey_entries s T c)"
  obtains u where "unit_of s T (le_ValueUnitID e) = Some u" and "rd_Type u = ''value_unit''"
proof -
  have "value_unit_in s (le_TenantID e) (le_ValueUnitID e)" and T: "le_TenantID e = T"
    using assms by (auto simp: books_ok_def list_all_iff journey_entries_def)
  then obtain u where "u \<in> set (References s)" "rd_ID u = le_ValueUnitID e" "rd_TenantID u = T"
    "rd_Type u = ''value_unit''" by (auto simp: value_unit_in_def list_ex_iff)
  with that [of u] show thesis by (simp add: unit_of_iff [OF assms(1)])
qed

lemma ListBalances_rows:
  assumes ok: "books_ok s"
  shows "(\<exists>r \<in> set (ListBalances E c s). br_ValueUnitCode r = code \<and> br_Balance r = b) \<longleftrightarrow>
    listed E c s \<and> (\<exists>u. unit_coded E code s u \<and>
      rd_ID u \<in> le_ValueUnitID ` set (journey_entries s (TenantID E) c) \<and>
      b = balance E c (rd_ID u) s \<and> balanceZeroTolerance < \<bar>b\<bar>)"
proof (cases "listed E c s")
  case False
  then show ?thesis by (auto simp: ListBalances_def Let_def listed_def split: option.splits)
next
  case True
  let ?es = "journey_entries s (TenantID E) c"
  have joined: "filter (\<lambda>e. \<exists>y. unit_of s (TenantID E) (le_ValueUnitID e) = Some y) ?es = ?es"
    by (rule filter_True) (auto elim: entry_unit [OF ok])
  have kept: "u \<in> set (List.map_filter (unit_of s (TenantID E)) (remdups (map le_ValueUnitID ?es))) \<longleftrightarrow>
      unit_coded E (rd_Code u) s u \<and> rd_ID u \<in> le_ValueUnitID ` set ?es" for u
  proof
    assume "u \<in> set (List.map_filter (unit_of s (TenantID E)) (remdups (map le_ValueUnitID ?es)))"
    then obtain e where e: "e \<in> set ?es" "unit_of s (TenantID E) (le_ValueUnitID e) = Some u"
      by (auto simp: map_filter_def)
    then have "rd_Type u = ''value_unit''" by (auto elim: entry_unit [OF ok])
    then show "unit_coded E (rd_Code u) s u \<and> rd_ID u \<in> le_ValueUnitID ` set ?es"
      using e by (auto simp: unit_of_iff [OF ok] unit_coded_def)
  next
    assume u: "unit_coded E (rd_Code u) s u \<and> rd_ID u \<in> le_ValueUnitID ` set ?es"
    then have "unit_of s (TenantID E) (rd_ID u) = Some u" by (simp add: unit_of_iff [OF ok] unit_coded_def)
    with u show "u \<in> set (List.map_filter (unit_of s (TenantID E)) (remdups (map le_ValueUnitID ?es)))"
      unfolding map_filter_def set_map set_filter set_remdups comp_def
      by (intro image_eqI [of _ _ "rd_ID u"]) simp_all
  qed
  obtain lab where rows: "ListBalances E c s = grouped_balances E s (\<lambda>r b. \<lparr>
      br_PersonID = [], br_PersonLabel = [], br_CollaboratorID = c, br_CollaboratorLabel = lab,
      br_ValueUnitID = rd_ID r, br_ValueUnitCode = rd_Code r, br_ValueUnitLabel = rd_Label r,
      br_Balance = b\<rparr>) ?es"
    using True by (auto simp: listed_def ListBalances_def Let_def)
  let ?units = "List.map_filter (unit_of s (TenantID E)) (remdups (map le_ValueUnitID ?es))"
  have "set (ListBalances E c s) = (\<lambda>u. \<lparr>
      br_PersonID = [], br_PersonLabel = [], br_CollaboratorID = c, br_CollaboratorLabel = lab,
      br_ValueUnitID = rd_ID u, br_ValueUnitCode = rd_Code u, br_ValueUnitLabel = rd_Label u,
      br_Balance = balance E c (rd_ID u) s\<rparr>) `
      {u \<in> set ?units. balanceZeroTolerance < \<bar>balance E c (rd_ID u) s\<bar>}"
    by (simp add: rows grouped_balances_def Let_def joined balance_def)
  then have "(\<exists>r \<in> set (ListBalances E c s). br_ValueUnitCode r = code \<and> br_Balance r = b) \<longleftrightarrow>
      (\<exists>u \<in> set ?units. balanceZeroTolerance < \<bar>balance E c (rd_ID u) s\<bar> \<and> rd_Code u = code \<and>
        balance E c (rd_ID u) s = b)" by auto
  also have "\<dots> \<longleftrightarrow> (\<exists>u. unit_coded E code s u \<and> rd_ID u \<in> le_ValueUnitID ` set ?es \<and>
      b = balance E c (rd_ID u) s \<and> balanceZeroTolerance < \<bar>b\<bar>)"
    unfolding Bex_def kept by (auto simp: unit_coded_def)
  finally show ?thesis using True by simp
qed

section \<open>Balances after a batch of entries\<close>

definition account_entries :: "env \<Rightarrow> string \<Rightarrow> string \<Rightarrow> LedgerEntry list \<Rightarrow> LedgerEntry list" where
  "account_entries E c u es = filter (\<lambda>e. le_TenantID e = TenantID E \<and> le_CollaboratorID e = c \<and>
     le_Active e \<and> le_ValueUnitID e = u) es"

lemma account_entries_append:
  "account_entries E c u (xs @ ys) = account_entries E c u xs @ account_entries E c u ys"
  by (simp add: account_entries_def)

lemma balance_append:
  assumes "Ledger t = Ledger s @ es"
  shows "balance E c u t = SumAgg E (map signed (unit_entries u (journey_entries s (TenantID E) c)) @
    map signed (account_entries E c u es))"
proof -
  have "unit_entries u (filter (\<lambda>e. le_TenantID e = TenantID E \<and> le_CollaboratorID e = c \<and> le_Active e) es) =
      account_entries E c u es"
    unfolding unit_entries_def account_entries_def filter_filter by (rule filter_cong) auto
  then show ?thesis
    by (simp add: balance_def unit_balance_def journey_entries_def assms unit_entries_def)
qed

lemma posted_account:
  assumes "posted E s c ty d code a es" and "books_ok s" and "unit_coded E code' s v"
  shows "map signed (account_entries E c (rd_ID v) es) =
    (if 0 < a \<and> code' = code then [if d = ''CREDIT'' then a else - a] else [])"
proof (cases "0 < a")
  case True
  with assms(1) obtain u e where u: "unit_coded E code s u" and e: "es = [e]" "le_TenantID e = TenantID E"
    "le_CollaboratorID e = c" "le_ValueUnitID e = rd_ID u" "le_Active e" "le_Direction e = d" "le_Amount e = a"
    by (auto simp: posted_def dest: FindValueUnitByCode_coded)
  have "rd_ID u = rd_ID v \<longleftrightarrow> code' = code"
    using unit_coded_by_id [OF assms(2) u assms(3)] unit_coded_unique [OF assms(2) u, of v] u assms(3)
    by (auto simp: unit_coded_def)
  then show ?thesis using True e by (auto simp: account_entries_def signed_def)
next
  case False
  then show ?thesis using assms(1) by (simp add: posted_def account_entries_def)
qed

text \<open>
  The database's sum after the opposite of a balance is added to it: within the tolerance of zero.
  The engine's summation is documented to be at least as accurate as adding the terms in order.
\<close>

definition cancels :: "env \<Rightarrow> bool" where
  "cancels E \<longleftrightarrow> (\<forall>xs. \<bar>SumAgg E (xs @ [- SumAgg E xs])\<bar> \<le> balanceZeroTolerance)"

lemma demo_cancels: "cancels demo_env"
  by (simp add: cancels_def demo_env_def fadd_def balanceZeroTolerance_def rnd_nonneg)

section \<open>Amounts read off the balance rows\<close>

lemma gold_balance_row:
  assumes "0 < gold_balance rows"
  shows "\<exists>r \<in> set rows. br_ValueUnitCode r = ''GOLD_GRAM'' \<and> br_Balance r = gold_balance rows"
proof (cases "List.find (\<lambda>r. br_ValueUnitCode r = ''GOLD_GRAM'') rows")
  case None
  then show ?thesis using assms by (simp add: gold_balance_def)
next
  case (Some r)
  then have "r \<in> set rows" "br_ValueUnitCode r = ''GOLD_GRAM''" by (auto simp: find_Some_iff)
  then show ?thesis
    using assms Some by (intro bexI [of _ r]) (auto simp: gold_balance_def normalizedZero_def split: if_splits)
qed

lemma tolerance_nonneg: "0 \<le> balanceZeroTolerance"
  by (simp add: balanceZeroTolerance_def rnd_nonneg)

definition owes :: "bool \<Rightarrow> float64 \<Rightarrow> bool" where
  "owes tp b \<longleftrightarrow> balanceZeroTolerance < \<bar>b\<bar> \<and> (if tp then 0 < b else b < 0)"

lemma owes_normalizedZero: "owes tp b \<longleftrightarrow> \<not> (tp \<and> normalizedZero b \<le> 0 \<or> \<not> tp \<and> 0 \<le> normalizedZero b)"
  by (cases tp; cases "\<bar>b\<bar> \<le> balanceZeroTolerance") (simp_all add: owes_def normalizedZero_def not_le)

lemma owes_abs: "owes tp b \<Longrightarrow> normalizedZero b = b"
  by (simp add: owes_def normalizedZero_def)

lemma owed_eq: "owed tp code rows =
   foldl (\<lambda>acc r. if br_ValueUnitCode r = code \<and> owes tp (br_Balance r) then \<bar>br_Balance r\<bar> else acc) 0 rows"
proof -
  have step: "(let amount = normalizedZero b in if tp \<and> amount \<le> 0 \<or> \<not> tp \<and> 0 \<le> amount then acc
       else if p then \<bar>amount\<bar> else acc) = (if p \<and> owes tp b then \<bar>b\<bar> else acc)" for b acc p
  proof (cases "owes tp b")
    case True
    then have "(tp \<and> b \<le> 0 \<or> \<not> tp \<and> 0 \<le> b) = False"
      using owes_normalizedZero [of tp b] owes_abs [OF True] by (simp only: not_not simp_thms)
    then show ?thesis by (simp only: Let_def owes_abs [OF True] True if_False simp_thms)
  next
    case False
    then have "(tp \<and> normalizedZero b \<le> 0 \<or> \<not> tp \<and> 0 \<le> normalizedZero b) = True"
      by (simp only: owes_normalizedZero not_not simp_thms)
    then show ?thesis by (simp only: Let_def False if_True if_False simp_thms)
  qed
  show ?thesis unfolding owed_def step ..
qed


lemma owed_Nil: "owed tp code [] = 0"
  by (simp add: owed_def)

lemma owed_snoc: "owed tp code (rows @ [r]) =
   (if br_ValueUnitCode r = code \<and> owes tp (br_Balance r) then \<bar>br_Balance r\<bar> else owed tp code rows)"
  by (simp add: owed_eq)

lemma owed_row:
  "owed tp code rows \<noteq> 0 \<Longrightarrow> \<exists>r \<in> set rows. br_ValueUnitCode r = code \<and> owed tp code rows = \<bar>br_Balance r\<bar> \<and>
    owes tp (br_Balance r)"
  by (induction rows rule: rev_induct) (auto simp: owed_Nil owed_snoc split: if_split_asm)

lemma owed_nonneg: "0 \<le> owed tp code rows"
  by (induction rows rule: rev_induct) (simp_all add: owed_Nil owed_snoc)

lemma owed_pos:
  "r \<in> set rows \<Longrightarrow> br_ValueUnitCode r = code \<Longrightarrow> owes tp (br_Balance r) \<Longrightarrow> 0 < owed tp code rows"
  by (induction rows rule: rev_induct) (auto simp: owed_snoc owes_def split: if_split_asm)

section \<open>Rows after a posting\<close>

definition lists :: "env \<Rightarrow> string \<Rightarrow> string \<Rightarrow> float64 \<Rightarrow> store \<Rightarrow> bool" where
  "lists E c code b s \<longleftrightarrow> (\<exists>r \<in> set (ListBalances E c s). br_ValueUnitCode r = code \<and> br_Balance r = b)"

lemma lists_iff:
  "books_ok s \<Longrightarrow> lists E c code b s \<longleftrightarrow> listed E c s \<and> (\<exists>u. unit_coded E code s u \<and>
      rd_ID u \<in> le_ValueUnitID ` set (journey_entries s (TenantID E) c) \<and>
      b = balance E c (rd_ID u) s \<and> balanceZeroTolerance < \<bar>b\<bar>)"
  unfolding lists_def by (rule ListBalances_rows)

lemma lists_tolerance: "books_ok s \<Longrightarrow> lists E c code b s \<Longrightarrow> balanceZeroTolerance < \<bar>b\<bar>"
  unfolding lists_iff by blast

lemma lists_unique: "books_ok s \<Longrightarrow> lists E c code b s \<Longrightarrow> lists E c code b' s \<Longrightarrow> b = b'"
  unfolding lists_iff using unit_coded_unique by blast

lemma lists_unaffected:
  assumes ok: "books_ok s" "books_ok t" and t: "Ledger t = Ledger s @ es" "References t = References s"
      "Journeys t = Journeys s" "People t = People s"
    and none: "\<And>u. unit_coded E code s u \<Longrightarrow> map signed (account_entries E c (rd_ID u) es) = []"
  shows "lists E c code b t \<longleftrightarrow> lists E c code b s"
proof -
  have l: "listed E c t = listed E c s" using t by (simp add: listed_def)
  have u: "unit_coded E code t u = unit_coded E code s u" for u using t by (simp add: unit_coded_def)
  have b: "balance E c (rd_ID u) t = balance E c (rd_ID u) s" if "unit_coded E code s u" for u
    using balance_append [OF t(1), of E c "rd_ID u"] none [OF that] by (simp add: balance_def unit_balance_def)
  have i: "rd_ID u \<in> le_ValueUnitID ` set (journey_entries t (TenantID E) c) \<longleftrightarrow>
      rd_ID u \<in> le_ValueUnitID ` set (journey_entries s (TenantID E) c)" if "unit_coded E code s u" for u
    using none [OF that] t(1) by (auto simp: account_entries_def journey_entries_def filter_empty_conv)
  show ?thesis
    unfolding lists_iff [OF ok(1)] lists_iff [OF ok(2)] l u
    by (rule conj_cong [OF refl], rule ex_cong1, rule conj_cong [OF refl]) (simp add: b i)
qed

lemma lists_cancelled:
  assumes ok: "books_ok s" "books_ok t" and t: "Ledger t = Ledger s @ es" "References t = References s"
    and b: "lists E c code b s" and "cancels E"
    and some: "\<And>u. unit_coded E code s u \<Longrightarrow> map signed (account_entries E c (rd_ID u) es) = [- b]"
  shows "\<not> lists E c code x t"
proof
  assume x: "lists E c code x t"
  from b obtain u where u: "unit_coded E code s u" and bu: "b = balance E c (rd_ID u) s"
    by (auto simp: lists_iff [OF ok(1)])
  from x obtain v where v: "unit_coded E code t v" and xv: "x = balance E c (rd_ID v) t"
    "balanceZeroTolerance < \<bar>x\<bar>" by (auto simp: lists_iff [OF ok(2)])
  have "unit_coded E code s v" using v t by (simp add: unit_coded_def)
  then have "v = u" using unit_coded_unique [OF ok(1) u] by simp
  then have "x = SumAgg E (map signed (unit_entries (rd_ID u) (journey_entries s (TenantID E) c)) @ [- b])"
    using xv(1) balance_append [OF t(1), of E c "rd_ID u"] some [OF u] by simp
  then show False
    using xv(2) \<open>cancels E\<close> by (auto simp: cancels_def bu balance_def unit_balance_def not_less [symmetric])
qed

section \<open>A request identifier that was used\<close>

definition settled :: "env \<Rightarrow> string \<Rightarrow> string \<Rightarrow> store \<Rightarrow> bool" where
  "settled E c q s \<longleftrightarrow> (\<exists>x \<in> set (Settlements s). js_TenantID x = TenantID E \<and> js_CollaboratorID x = c \<and>
     js_RequestID x = q)"

lemma settled_found: "settled E c q s \<longleftrightarrow> (\<exists>x. FindSettlementByRequestID E c q s = Inr x)"
  by (auto simp: settled_def FindSettlementByRequestID_def found_Inr first_by_None [symmetric] not_None_eq
      dest!: first_by_Some) (metis (mono_tags, lifting) first_by_None not_None_eq)

lemma not_settled: "\<not> settled E c q s \<longleftrightarrow> FindSettlementByRequestID E c q s = Inl ErrRecordNotFound"
  unfolding settled_found FindSettlementByRequestID_def found_def by (simp split: option.split)

lemma replay_unchanged:
  "settled E (TrimSpace c) (TrimSpace (zg_RequestID zreq)) s \<Longrightarrow> snd (ZeroGold E c by zreq s) = s"
  "settled E (TrimSpace c) (TrimSpace (pp_RequestID preq)) s \<Longrightarrow> snd (PartialPayout E c by preq s) = s"
  "settled E (TrimSpace c) (TrimSpace (fs_RequestID freq)) s \<Longrightarrow> snd (postFinalSettlement E c by freq tp s) = s"
  unfolding ZeroGold_def PartialPayout_def postFinalSettlement_def Let_def run_simps settled_found
  by (elim exE, simp split: sum.split)+

lemma run_settles:
  "ZeroGold E c by zreq s = (Inr z, t) \<Longrightarrow> settled E (TrimSpace c) (TrimSpace (zg_RequestID zreq)) t"
  "PartialPayout E c by preq s = (Inr p, t) \<Longrightarrow> settled E (TrimSpace c) (TrimSpace (pp_RequestID preq)) t"
  "postFinalSettlement E c by freq tp s = (Inr f, t) \<Longrightarrow> settled E (TrimSpace c) (TrimSpace (fs_RequestID freq)) t"
proof -
  show "settled E (TrimSpace c) (TrimSpace (zg_RequestID zreq)) t" if run: "ZeroGold E c by zreq s = (Inr z, t)"
  proof (cases "settled E (TrimSpace c) (TrimSpace (zg_RequestID zreq)) s")
    case True
    then show ?thesis using replay_unchanged(1) [OF True, of "by"] run by simp
  next
    case False
    obtain st es where z: "z = (st, es)" by (cases z)
    show ?thesis
      by (rule ZeroGold_ok [OF run [unfolded z] False [unfolded not_settled]])
        (auto simp: settled_def)
  qed
  show "settled E (TrimSpace c) (TrimSpace (pp_RequestID preq)) t" if run: "PartialPayout E c by preq s = (Inr p, t)"
  proof (cases "settled E (TrimSpace c) (TrimSpace (pp_RequestID preq)) s")
    case True
    then show ?thesis using replay_unchanged(2) [OF True, of "by"] run by simp
  next
    case False
    obtain st es where p: "p = (st, es)" by (cases p)
    show ?thesis
      by (rule PartialPayout_ok [OF run [unfolded p] False [unfolded not_settled]])
        (auto simp: settled_def)
  qed
  show "settled E (TrimSpace c) (TrimSpace (fs_RequestID freq)) t"
    if run: "postFinalSettlement E c by freq tp s = (Inr f, t)"
  proof (cases "settled E (TrimSpace c) (TrimSpace (fs_RequestID freq)) s")
    case True
    then show ?thesis using replay_unchanged(3) [OF True, of "by" tp] run by simp
  next
    case False
    obtain st es where f: "f = (st, es)" by (cases f)
    show ?thesis
      by (rule postFinalSettlement_ok [OF run [unfolded f] False [unfolded not_settled]])
        (auto simp: settled_def)
  qed
qed

lemma settled_later:
  "settled E c q s \<Longrightarrow> grows T s t \<Longrightarrow> settled E c q t"
  by (auto simp: settled_def grows_defs)

section \<open>Properties\<close>

definition demo_zero_gold :: ZeroGoldRequest where
  "demo_zero_gold = \<lparr>zg_Reason = demo_reason, zg_RequestID = ''q1'', zg_EffectiveDate = ''2024-01-02'', zg_Notes = []\<rparr>"

definition demo_payout :: PartialPayoutRequest where
  "demo_payout = \<lparr>pp_Reason = demo_reason, pp_RequestID = ''q2'', pp_EffectiveDate = ''2024-01-02'',
     pp_BRLAmount = 40, pp_GoldGramAmount = 1, pp_Notes = []\<rparr>"

definition demo_final :: FinalSettlementRequest where
  "demo_final = \<lparr>fs_Reason = demo_reason, fs_RequestID = ''q3'', fs_EffectiveDate = ''2024-01-02'', fs_Notes = []\<rparr>"

lemma demo_settlements_run:
  "\<not> isl (fst (ZeroGold demo_env ''j1'' ''boss'' demo_zero_gold demo_store))"
  "\<not> isl (fst (PartialPayout demo_env ''j1'' ''boss'' demo_payout demo_store))"
  "\<not> isl (fst (FinalTenantPayment demo_env ''j1'' ''boss'' demo_final demo_store))"
  by code_simp+

lemma demo_unsettled: "\<not> settled demo_env (TrimSpace ''j1'') q demo_store"
  by (simp add: settled_def demo_store_def)





text \<open>
  C12. A partial payout stays within the balances: a fresh request posts, for each value unit with a
  positive amount, one debit of exactly that amount with its receipt and nothing else, and no amount
  exceeds the listed balance by more than the tolerance.
\<close>

theorem partial_payout_within_balance:
  assumes "PartialPayout E c by req s = (Inr (st, rows), t)"
    and "\<not> settled E (TrimSpace c) (TrimSpace (pp_RequestID req)) s"
  shows "\<exists>brl gold. Ledger t = Ledger s @ brl @ gold \<and>
    posted E s (TrimSpace c) ''PAYOUT'' ''DEBIT'' ''BRL'' (pp_BRLAmount req) brl \<and>
    posted E s (TrimSpace c) ''PAYOUT'' ''DEBIT'' ''GOLD_GRAM'' (pp_GoldGramAmount req) gold \<and>
    (\<forall>x \<in> set (brl @ gold). receipt_count t x = 1) \<and>
    pp_BRLAmount req \<le> fadd (normalizedZero (balance_of_code ''BRL''
      (ListBalances E (TrimSpace c) s))) balanceZeroTolerance \<and>
    pp_GoldGramAmount req \<le> fadd (normalizedZero (balance_of_code ''GOLD_GRAM''
      (ListBalances E (TrimSpace c) s))) balanceZeroTolerance"
  by (rule PartialPayout_ok [OF assms(1) assms(2) [unfolded not_settled]]) blast

theorem partial_payout_within_balance_witness:
  "\<exists>brl gold. Ledger (snd (PartialPayout demo_env ''j1'' ''boss'' demo_payout demo_store)) =
     Ledger demo_store @ brl @ gold \<and> posted demo_env demo_store (TrimSpace ''j1'') ''PAYOUT'' ''DEBIT'' ''BRL'' 40 brl"
proof -
  obtain st rows t where run: "PartialPayout demo_env ''j1'' ''boss'' demo_payout demo_store = (Inr (st, rows), t)"
    using succeeded [OF demo_settlements_run(2)] by fast
  have "pp_BRLAmount demo_payout = 40" by (simp add: demo_payout_def)
  then show ?thesis using partial_payout_within_balance [OF run demo_unsettled] run by auto
qed



end
