(* ===== verification/JourneyClosing.thy ===== *)
theory JourneyClosing
  imports SettlementEffects
begin

text \<open>
  Closing a journey (\<open>close_journey.go\<close> and \<open>CloseJourneyWithAudit\<close> of \<open>repository_gorm.go\<close> in
  \<open>backend/internal/currentaccounts\<close>): the settlement preview has to be free of blockers, the journey
  takes the FINISHED status and a closing time under the database's zero-balance guard, and a
  settlement of zero amounts records the event. No ledger entry is posted.
\<close>

section \<open>Operations\<close>

definition close_error :: "app_error \<Rightarrow> app_error" where
  "close_error e = (case e of
     DBError m \<Rightarrow> if Contains m ''collaborator_journey_non_zero_balance'' then ErrJourneyCloseBlocked else e
   | _ \<Rightarrow> e)"

definition closed_row :: "string \<Rightarrow> time \<Rightarrow> CollaboratorJourney \<Rightarrow> CollaboratorJourney" where
  "closed_row finishedStatusID closedAt j =
     j\<lparr>cj_StatusID := finishedStatusID, cj_ClosedAt := Some closedAt, cj_UpdatedAt := closedAt\<rparr>"

definition open_journey :: "env \<Rightarrow> string \<Rightarrow> CollaboratorJourney \<Rightarrow> bool" where
  "open_journey E c j \<longleftrightarrow> cj_ID j = c \<and> cj_TenantID j = TenantID E \<and> cj_ClosedAt j = None"

definition CloseJourneyWithAudit ::
  "env \<Rightarrow> string \<Rightarrow> string \<Rightarrow> time \<Rightarrow> JourneySettlement \<Rightarrow> JourneySettlement app" where
  "CloseJourneyWithAudit E c finishedStatusID closedAt st = map_error close_error (transaction
     (bnd (updateJourneys E (open_journey E c) (closed_row finishedStatusID closedAt))
     (\<lambda>affected. bnd (ensure (affected = 1) ErrJourneyAlreadyClosed)
     (\<lambda>_. createSettlement E st))))"

definition CloseJourney ::
  "env \<Rightarrow> string \<Rightarrow> string \<Rightarrow> CloseJourneyRequest \<Rightarrow>
   (JourneySettlement \<times> LedgerEntry list \<times> CollaboratorView) app"
  where
  "CloseJourney E collaboratorID0 authorizedBy req = (let c = TrimSpace collaboratorID0 in
     bnd (lift (ValidateCloseJourneyRequest req authorizedBy))
     (\<lambda>_. bnd (query (requireSecondApprovalWhenConfigured E (cl_Reason req) authorizedBy))
     (\<lambda>_. attempt (query (FindSettlementByRequestID E c (TrimSpace (cl_RequestID req))))
       (\<lambda>existing. bnd (query (\<lambda>s. Inr (FindLedgerEntriesBySource E ''JOURNEY_SETTLEMENT'' (js_ID existing) s)))
          (\<lambda>entries. bnd (query (FindCollaboratorByID E c))
          (\<lambda>v. ret (existing, entries, v))))
       ErrRecordNotFound
       (bnd (query (FindCollaboratorByID E c))
       (\<lambda>_. bnd (query (SettlementPreview E c))
       (\<lambda>preview. bnd (ensure (JourneyAlreadyClosed \<notin> set (sv_BlockingReasons preview)) ErrJourneyAlreadyClosed)
       (\<lambda>_. bnd (ensure (sv_CanClose preview) ErrJourneyCloseBlocked)
       (\<lambda>_. bnd (query (FindCollaboratorStatusByCode E ''FINISHED''))
       (\<lambda>finished. bnd (newSettlement E c ''CLOSE_JOURNEY'' (TrimSpace (cl_RequestID req))
            (cl_EffectiveDate req) 0 0 (cl_Notes req) (cl_Reason req) authorizedBy)
       (\<lambda>st. bnd (CloseJourneyWithAudit E c (rd_ID finished) (Now E) st)
       (\<lambda>st'. bnd (query (FindCollaboratorByID E c))
       (\<lambda>v. ret (st', [], v)))))))))))))"

section \<open>Kept relations\<close>

lemma closed_row_simps [simp]:
  "cj_ID (closed_row i t j) = cj_ID j" "cj_TenantID (closed_row i t j) = cj_TenantID j"
  "cj_StatusID (closed_row i t j) = i" "cj_ClosedAt (closed_row i t j) = Some t"
  "cj_PersonID (closed_row i t j) = cj_PersonID j" "cj_MembershipID (closed_row i t j) = cj_MembershipID j"
  by (simp_all add: closed_row_def)

lemma keeps_CloseJourneyWithAudit:
  assumes "js_TenantID st = TenantID E"
  shows "keeps (accounting (TenantID E)) (CloseJourneyWithAudit E c i t st)"
  unfolding CloseJourneyWithAudit_def using assms
  by (intro acc.keeps_map_error acc.keeps_transaction keeps_keeps_ok [OF acc.keeps_bnd] acc.keeps_intros
      keeps_updateJourneys keeps_createSettlement) (simp_all add: open_journey_def journey_follows_def)

lemma keeps_CloseJourney: "keeps (accounting (TenantID E)) (CloseJourney E c by req)"
  unfolding CloseJourney_def Let_def
  by (intro keeps_settlement_intros keeps_CloseJourneyWithAudit) (auto dest!: newSettlement_results)

section \<open>What a close does\<close>

lemma filter_single: "filter P xs = [j] \<Longrightarrow> j \<in> set xs \<and> P j"
  by (drule arg_cong [of _ _ set]) auto

lemma updateJourneys_ok:
  "updateJourneys E P f s = (Inr n, t) \<Longrightarrow> n = count_where P (Journeys s) \<and>
   t = s\<lparr>Journeys := update_where P f (Journeys s)\<rparr> \<and>
   (\<forall>j \<in> set (Journeys s). P j \<longrightarrow> \<not> journeyZeroBalanceClosureGuard E s j (f j))"
  by (auto simp: updateJourneys_def run_simps abort_if_ok journey_update_guards_def split: sum.splits)

lemma CloseJourneyWithAudit_ok:
  assumes "CloseJourneyWithAudit E c i now st s = (Inr st', t)"
  obtains j where "filter (open_journey E c) (Journeys s) = [j]"
    and "\<not> nonzero_balance E (journey_entries s (TenantID E) c)"
    and "t = s\<lparr>Journeys := update_where (open_journey E c) (closed_row i now) (Journeys s),
      Settlements := Settlements s @ [st']\<rparr>"
    and "st' = with_settlement_defaults E st"
proof -
  from assms obtain u where u: "updateJourneys E (open_journey E c) (closed_row i now) s = (Inr 1, u)"
    and st: "createSettlement E st u = (Inr st', t)"
    by (auto simp: CloseJourneyWithAudit_def run_ok split: if_split_asm)
  note u' = updateJourneys_ok [OF u]
  have "length (filter (open_journey E c) (Journeys s)) = Suc 0" using u' by (simp add: count_where_def)
  then obtain j where j: "filter (open_journey E c) (Journeys s) = [j]" by (auto simp: length_Suc_conv)
  then have "j \<in> set (Journeys s)" "open_journey E c j" using filter_single [OF j] by simp_all
  then have "\<not> nonzero_balance E (journey_entries s (TenantID E) c)"
    using u' by (auto simp: journeyZeroBalanceClosureGuard_def open_journey_def)
  with j show thesis using u' createSettlement_ok [OF st] that by auto
qed

lemma CloseJourney_ok:
  assumes run: "CloseJourney E c by req s = (Inr (st, es, v), t)"
    and fresh: "\<not> settled E (TrimSpace c) (TrimSpace (cl_RequestID req)) s"
  obtains p finished j where "SettlementPreview E (TrimSpace c) s = Inr p" and "sv_CanClose p"
    and "FindCollaboratorStatusByCode E ''FINISHED'' s = Inr finished"
    and "filter (open_journey E (TrimSpace c)) (Journeys s) = [j]"
    and "\<not> nonzero_balance E (journey_entries s (TenantID E) (TrimSpace c))"
    and "t = s\<lparr>IdsUsed := Suc (IdsUsed s), Settlements := Settlements s @ [st],
      Journeys := update_where (open_journey E (TrimSpace c)) (closed_row (rd_ID finished) (Now E)) (Journeys s)\<rparr>"
    and "js_TenantID st = TenantID E" "js_CollaboratorID st = TrimSpace c"
      "js_RequestID st = TrimSpace (cl_RequestID req)" "js_SettlementType st = ''CLOSE_JOURNEY''"
      "js_BRLAmount st = 0" "js_GoldGramAmount st = 0"
    and "FindCollaboratorByID E (TrimSpace c) t = Inr v" and "es = []"
proof -
  obtain p finished n x where p: "SettlementPreview E (TrimSpace c) s = Inr p" "sv_CanClose p"
    and f: "FindCollaboratorStatusByCode E ''FINISHED'' s = Inr finished"
    and n: "newSettlement E (TrimSpace c) ''CLOSE_JOURNEY'' (TrimSpace (cl_RequestID req))
            (cl_EffectiveDate req) 0 0 (cl_Notes req) (cl_Reason req) by s = (Inr n, x)"
    and w: "CloseJourneyWithAudit E (TrimSpace c) (rd_ID finished) (Now E) n x = (Inr st, t)"
    and v: "FindCollaboratorByID E (TrimSpace c) t = Inr v" "es = []"
    using run fresh [unfolded not_settled]
    by (auto simp: CloseJourney_def Let_def run_ok split: if_split_asm)
  note n' = newSettlement_ok [OF n]
  have je: "journey_entries x = journey_entries s" using n' by (simp add: journey_entries_def [abs_def])
  show thesis
    by (rule CloseJourneyWithAudit_ok [OF w], rule that [OF p f]) (use n' v je in \<open>auto\<close>)
qed

section \<open>The preview\<close>

text \<open>The blocker of a non-zero balance and the database's closing guard look at the same sums.\<close>

lemma nonzero_balance_iff:
  assumes ok: "books_ok s" and l: "listed E c s"
  shows "nonzero_balance E (journey_entries s (TenantID E) c) \<longleftrightarrow> ListBalances E c s \<noteq> []"
proof -
  let ?es = "journey_entries s (TenantID E) c"
  have "nonzero_balance E ?es \<longleftrightarrow> (\<exists>code b. lists E c code b s)"
  proof
    assume "nonzero_balance E ?es"
    then obtain e where e: "e \<in> set ?es" "balanceZeroTolerance < \<bar>unit_balance E (le_ValueUnitID e) ?es\<bar>"
      by (auto simp: nonzero_balance_def list_ex_iff)
    obtain u where u: "unit_of s (TenantID E) (le_ValueUnitID e) = Some u" "rd_Type u = ''value_unit''"
      by (rule entry_unit [OF ok e(1)])
    then have "unit_coded E (rd_Code u) s u" "rd_ID u = le_ValueUnitID e"
      by (auto simp: unit_of_iff [OF ok] unit_coded_def)
    then have "lists E c (rd_Code u) (balance E c (rd_ID u) s) s"
      using e l unfolding lists_iff [OF ok] by (auto simp: balance_def)
    then show "\<exists>code b. lists E c code b s" by blast
  next
    assume "\<exists>code b. lists E c code b s"
    then show "nonzero_balance E ?es"
      unfolding lists_iff [OF ok] by (auto simp: nonzero_balance_def list_ex_iff balance_def)
  qed
  also have "\<dots> \<longleftrightarrow> ListBalances E c s \<noteq> []"
    by (cases "ListBalances E c s") (auto simp: lists_def)
  finally show ?thesis .
qed

lemma preview_ok:
  assumes "SettlementPreview E c s = Inr p"
  obtains v where "FindCollaboratorByID E (TrimSpace c) s = Inr v"
    and "sv_BlockingReasons p = blocking_reasons v (ListBalances E (TrimSpace c) s)
      (CountPendingAccrualItems E (TrimSpace c) s) (CountOutstandingReceiptsForCollaborator E (TrimSpace c) s)"
    and "sv_CanClose p \<longleftrightarrow> sv_BlockingReasons p = []"
  using assms that by (auto simp: SettlementPreview_def Let_def tri_Inr)

lemma blockers:
  "JourneyAlreadyClosed \<in> set (blocking_reasons v bs p o') \<longleftrightarrow>
     EqualFold (rd_Code (cv_Status v)) ''FINISHED'' \<or> cj_ClosedAt (cv_Journey v) \<noteq> None"
  "NonZeroBalance \<in> set (blocking_reasons v bs p o') \<longleftrightarrow> bs \<noteq> []"
  "PendingAccruals \<in> set (blocking_reasons v bs p o') \<longleftrightarrow> 0 < p"
  "OutstandingReceipts \<in> set (blocking_reasons v bs p o') \<longleftrightarrow> 0 < o'"
  by (auto simp: blocking_reasons_def)

lemma no_blockers: "blocking_reasons v bs p o' = [] \<longleftrightarrow>
   \<not> EqualFold (rd_Code (cv_Status v)) ''FINISHED'' \<and> cj_ClosedAt (cv_Journey v) = None \<and> bs = [] \<and>
   p = 0 \<and> o' = 0"
  by (auto simp: blocking_reasons_def)

section \<open>Finding the journey again\<close>

lemma FindCollaboratorByID_iff:
  assumes "books_ok s"
  shows "FindCollaboratorByID E c s = Inr v \<longleftrightarrow>
    (\<exists>j \<in> set (Journeys s). cj_ID j = c \<and> cj_TenantID j = TenantID E \<and> v = collaborator_view s j)"
proof -
  have d: "distinct (map cj_ID (Journeys s))" using assms by (simp add: books_ok_def)
  have "first_by cj_ID (\<lambda>j. cj_ID j = c \<and> cj_TenantID j = TenantID E) (Journeys s) = Some j \<longleftrightarrow>
      j \<in> set (Journeys s) \<and> cj_ID j = c \<and> cj_TenantID j = TenantID E" for j
    using first_by_Some [of cj_ID "\<lambda>j. cj_ID j = c \<and> cj_TenantID j = TenantID E" "Journeys s"]
      first_by_unique [of j "Journeys s" "\<lambda>j. cj_ID j = c \<and> cj_TenantID j = TenantID E" cj_ID]
      distinct_key [OF d, of _ j] by blast
  then show ?thesis
    unfolding FindCollaboratorByID_def tri_Inr found_Inr by auto
qed

lemma closed_journey_in:
  assumes "filter P rows = [j]"
  shows "f j \<in> set (update_where P f rows)"
proof -
  have "j \<in> set rows \<and> P j" using assms by (rule filter_single)
  then show ?thesis by (auto simp: update_where_def image_iff)
qed

section \<open>Properties\<close>

definition demo_close :: CloseJourneyRequest where
  "demo_close = \<lparr>cl_Reason = demo_reason, cl_RequestID = ''q4'', cl_EffectiveDate = ''2024-01-02'',
     cl_Confirm = True, cl_Notes = []\<rparr>"

lemma demo_close_runs: "\<not> isl (fst (CloseJourney demo_env ''j1'' ''boss'' demo_close demo_no_ledger))"
  by code_simp

lemma demo_no_ledger_books: "books_ok demo_no_ledger"
  by code_simp

lemma demo_no_ledger_unsettled: "\<not> settled demo_env (TrimSpace ''j1'') q demo_no_ledger"
  by (simp add: settled_def demo_store_def demo_no_ledger_def)

lemma CloseJourney_journey:
  assumes run: "CloseJourney E c by req s = (Inr (st, es, v), t)" and "books_ok s"
    and fresh: "\<not> settled E (TrimSpace c) (TrimSpace (cl_RequestID req)) s"
  shows "cj_ClosedAt (cv_Journey v) = Some (Now E)"
    and "finished_status s (TenantID E) (cj_StatusID (cv_Journey v))"
    and "FindCollaboratorByID E (TrimSpace c) t = Inr v"
proof -
  obtain f j where f: "FindCollaboratorStatusByCode E ''FINISHED'' s = Inr f"
    and j: "filter (open_journey E (TrimSpace c)) (Journeys s) = [j]"
    and t: "Journeys t = update_where (open_journey E (TrimSpace c)) (closed_row (rd_ID f) (Now E)) (Journeys s)"
    and v: "FindCollaboratorByID E (TrimSpace c) t = Inr v"
    by (rule CloseJourney_ok [OF run fresh]) simp
  have ok: "books_ok t"
    using keepsD [OF keeps_CloseJourney run] assms(2) by (simp add: accounting_def grows_defs)
  let ?j = "closed_row (rd_ID f) (Now E) j"
  have "?j \<in> set (Journeys t)" using closed_journey_in [OF j] by (simp add: t)
  moreover have "open_journey E (TrimSpace c) j" using filter_single [OF j] by simp
  moreover obtain k where k: "k \<in> set (Journeys t)" "cj_ID k = TrimSpace c" "v = collaborator_view t k"
    using v by (auto simp: FindCollaboratorByID_iff [OF ok])
  ultimately have "k = ?j"
    using ok distinct_key [of cj_ID "Journeys t" k ?j] by (simp add: books_ok_def open_journey_def)
  then show "cj_ClosedAt (cv_Journey v) = Some (Now E)"
    "finished_status s (TenantID E) (cj_StatusID (cv_Journey v))"
    using k(3) f
    by (auto simp: collaborator_view_def finished_status_def list_ex_iff FindCollaboratorStatusByCode_def
        FindReferenceByCode_def found_Inr dest!: first_by_Some)
  show "FindCollaboratorByID E (TrimSpace c) t = Inr v" by (rule v)
qed

text \<open>
  C14. A journey is closed only when it is settled: a fresh close succeeds only if the journey was open,
  listed no balance, had no pending accrual and no outstanding receipt, and every value unit of its
  ledger summed to zero within the tolerance. It then has the FINISHED status and its closing time,
  one settlement of zero amounts is recorded, and neither ledger nor receipts change.
\<close>

theorem close_only_when_settled:
  assumes "CloseJourney E c by req s = (Inr (st, es, v), t)" and "books_ok s"
    and "\<not> settled E (TrimSpace c) (TrimSpace (cl_RequestID req)) s"
  shows "ListBalances E (TrimSpace c) s = [] \<and> CountPendingAccrualItems E (TrimSpace c) s = 0 \<and>
    CountOutstandingReceiptsForCollaborator E (TrimSpace c) s = 0 \<and>
    (\<exists>v0. FindCollaboratorByID E (TrimSpace c) s = Inr v0 \<and> cj_ClosedAt (cv_Journey v0) = None) \<and>
    \<not> nonzero_balance E (journey_entries s (TenantID E) (TrimSpace c)) \<and>
    cj_ClosedAt (cv_Journey v) = Some (Now E) \<and>
    finished_status s (TenantID E) (cj_StatusID (cv_Journey v)) \<and>
    Settlements t = Settlements s @ [st] \<and> js_SettlementType st = ''CLOSE_JOURNEY'' \<and>
    js_BRLAmount st = 0 \<and> js_GoldGramAmount st = 0 \<and>
    Ledger t = Ledger s \<and> Receipts t = Receipts s \<and> es = []"
proof -
  note j = CloseJourney_journey [OF assms]
  show ?thesis
    by (rule CloseJourney_ok [OF assms(1,3)], erule preview_ok, insert j)
      (simp add: no_blockers)
qed

theorem close_only_when_settled_witness:
  "\<exists>st es v t. CloseJourney demo_env ''j1'' ''boss'' demo_close demo_no_ledger = (Inr (st, es, v), t) \<and>
     cj_ClosedAt (cv_Journey v) = Some (Now demo_env) \<and> Ledger t = Ledger demo_no_ledger"
proof -
  obtain st es v t where run: "CloseJourney demo_env ''j1'' ''boss'' demo_close demo_no_ledger = (Inr (st, es, v), t)"
    using succeeded [OF demo_close_runs] by fast
  show ?thesis
    using close_only_when_settled [OF run demo_no_ledger_books demo_no_ledger_unsettled] run by blast
qed

text \<open>
  C15. Closing is final: after a close, a further close of the journey under another request identifier
  and every final payment fail with \<open>ErrJourneyAlreadyClosed\<close> and change nothing, whenever the request
  is valid and approved.
\<close>

theorem closed_journey_stays_closed:
  assumes "CloseJourney E c by req s = (Inr r, t)" and "books_ok s"
    and "\<not> settled E (TrimSpace c) (TrimSpace (cl_RequestID req)) s"
    and "\<not> settled E (TrimSpace c) (TrimSpace (cl_RequestID req')) t"
    and "ValidateCloseJourneyRequest req' by' = Inr ()"
    and "requireSecondApprovalWhenConfigured E (cl_Reason req') by' t = Inr ()"
    and "ValidateFinalSettlementRequest freq by'' = Inr ()"
    and "requireSecondApprovalWhenConfigured E (fs_Reason freq) by'' t = Inr ()"
  shows "CloseJourney E c by' req' t = (Inl ErrJourneyAlreadyClosed, t) \<and>
    postFinalSettlement E c by'' freq tenantPays t = (Inl ErrJourneyAlreadyClosed, t)"
proof -
  obtain st es v where r: "r = (st, es, v)" by (cases r)
  note j = CloseJourney_journey [OF assms(1) [unfolded r] assms(2,3)]
  obtain p where p: "SettlementPreview E (TrimSpace c) t = Inr p"
    and b: "JourneyAlreadyClosed \<in> set (sv_BlockingReasons p)"
    using j(1,3) by (simp add: SettlementPreview_def Let_def blockers)
  have "CloseJourney E c by' req' t = (Inl ErrJourneyAlreadyClosed, t)"
    using assms(4-6) j(3) p b by (simp add: CloseJourney_def Let_def run_simps not_settled)
  moreover have "postFinalSettlement E c by'' freq tenantPays t = (Inl ErrJourneyAlreadyClosed, t)"
    using assms(7,8) j(1,3) by (simp add: postFinalSettlement_def Let_def run_simps)
  ultimately show ?thesis by blast
qed

definition demo_close_again :: CloseJourneyRequest where
  "demo_close_again = demo_close\<lparr>cl_RequestID := ''q5''\<rparr>"

theorem closed_journey_stays_closed_witness:
  "let t = snd (CloseJourney demo_env ''j1'' ''boss'' demo_close demo_no_ledger) in
   CloseJourney demo_env ''j1'' ''boss'' demo_close_again t = (Inl ErrJourneyAlreadyClosed, t) \<and>
   postFinalSettlement demo_env ''j1'' ''boss'' demo_final True t = (Inl ErrJourneyAlreadyClosed, t)"
proof -
  let ?t = "snd (CloseJourney demo_env ''j1'' ''boss'' demo_close demo_no_ledger)"
  obtain r where run: "CloseJourney demo_env ''j1'' ''boss'' demo_close demo_no_ledger = (Inr r, ?t)"
    using succeeded [OF demo_close_runs] by (metis snd_conv)
  have free: "\<not> settled demo_env (TrimSpace ''j1'') (TrimSpace (cl_RequestID demo_close_again)) ?t" by code_simp
  have valid: "ValidateCloseJourneyRequest demo_close_again ''boss'' = Inr ()"
    "ValidateFinalSettlementRequest demo_final ''boss'' = Inr ()" by code_simp+
  have approved: "requireSecondApprovalWhenConfigured demo_env (cl_Reason demo_close_again) ''boss'' ?t = Inr ()"
    "requireSecondApprovalWhenConfigured demo_env (fs_Reason demo_final) ''boss'' ?t = Inr ()" by code_simp+
  show ?thesis
    unfolding Let_def
    by (rule closed_journey_stays_closed
        [OF run demo_no_ledger_books demo_no_ledger_unsettled free valid(1) approved(1) valid(2) approved(2)])
qed

text \<open>
  C16. The preview is exact: a journey whose owner is on file can be closed according to the preview if
  and only if it is neither finished nor closed, every value unit of its ledger sums to zero within the
  tolerance, no accrual item of it is pending and no receipt of it is outstanding. Its non-zero-balance
  blocker is present exactly when the database would refuse to close the open journey.
\<close>

theorem preview_exact:
  assumes "books_ok s" and "listed E (TrimSpace c) s" and "SettlementPreview E c s = Inr p"
  shows "(sv_CanClose p \<longleftrightarrow>
      (\<exists>v. FindCollaboratorByID E (TrimSpace c) s = Inr v \<and> cj_ClosedAt (cv_Journey v) = None \<and>
        \<not> EqualFold (rd_Code (cv_Status v)) ''FINISHED'') \<and>
      (\<forall>u \<in> le_ValueUnitID ` set (journey_entries s (TenantID E) (TrimSpace c)).
        \<bar>balance E (TrimSpace c) u s\<bar> \<le> balanceZeroTolerance) \<and>
      (\<forall>i \<in> set (AccrualItems s). ai_TenantID i = TenantID E \<and> ai_CollaboratorID i = TrimSpace c \<longrightarrow>
        ai_Status i \<noteq> ''PENDING'') \<and>
      (\<forall>r \<in> set (Receipts s). lr_TenantID r = TenantID E \<and> lr_CollaboratorID r = TrimSpace c \<longrightarrow>
        lr_Status r \<notin> set [''PENDING_ISSUE'', ''ISSUED'', ''PRINTED'', ''SIGNED''])) \<and>
    (\<forall>j i now. open_journey E (TrimSpace c) j \<longrightarrow>
      journeyZeroBalanceClosureGuard E s j (closed_row i now j) = (NonZeroBalance \<in> set (sv_BlockingReasons p)))"
proof -
  let ?c = "TrimSpace c"
  obtain v where v: "FindCollaboratorByID E ?c s = Inr v"
    and reasons: "sv_BlockingReasons p = blocking_reasons v (ListBalances E ?c s)
      (CountPendingAccrualItems E ?c s) (CountOutstandingReceiptsForCollaborator E ?c s)"
    and can: "sv_CanClose p \<longleftrightarrow> sv_BlockingReasons p = []"
    by (rule preview_ok [OF assms(3)])
  have "nonzero_balance E (journey_entries s (TenantID E) ?c) \<longleftrightarrow>
      (\<exists>u \<in> le_ValueUnitID ` set (journey_entries s (TenantID E) ?c). balanceZeroTolerance < \<bar>balance E ?c u s\<bar>)"
    by (simp add: nonzero_balance_def list_ex_iff balance_def)
  then have bal: "ListBalances E ?c s = [] \<longleftrightarrow> (\<forall>u \<in> le_ValueUnitID ` set (journey_entries s (TenantID E) ?c).
      \<bar>balance E ?c u s\<bar> \<le> balanceZeroTolerance)"
    using nonzero_balance_iff [OF assms(1,2)] by (simp add: linorder_not_less [symmetric]) blast
  have items: "CountPendingAccrualItems E ?c s = 0 \<longleftrightarrow> (\<forall>i \<in> set (AccrualItems s).
      ai_TenantID i = TenantID E \<and> ai_CollaboratorID i = ?c \<longrightarrow> ai_Status i \<noteq> ''PENDING'')"
    by (auto simp: CountPendingAccrualItems_def count_where_0)
  have rec: "CountOutstandingReceiptsForCollaborator E ?c s = 0 \<longleftrightarrow> (\<forall>r \<in> set (Receipts s).
      lr_TenantID r = TenantID E \<and> lr_CollaboratorID r = ?c \<longrightarrow>
      lr_Status r \<notin> set [''PENDING_ISSUE'', ''ISSUED'', ''PRINTED'', ''SIGNED''])"
    by (auto simp: CountOutstandingReceiptsForCollaborator_def count_where_0 outstandingStatuses_def)
  have guard: "journeyZeroBalanceClosureGuard E s j (closed_row i now j) = (NonZeroBalance \<in> set (sv_BlockingReasons p))"
    if "open_journey E ?c j" for j i now
    using that nonzero_balance_iff [OF assms(1,2)]
    by (simp add: journeyZeroBalanceClosureGuard_def open_journey_def reasons blockers)
  show ?thesis
    unfolding can reasons no_blockers bal items rec using v guard [unfolded reasons] by auto
qed

theorem preview_exact_witness:
  "\<exists>p. SettlementPreview demo_env ''j1'' demo_store = Inr p \<and> \<not> sv_CanClose p \<and>
     journeyZeroBalanceClosureGuard demo_env demo_store demo_journey (closed_row ''finished'' 5 demo_journey)"
proof -
  obtain p where p: "SettlementPreview demo_env ''j1'' demo_store = Inr p"
    and can: "\<not> sv_CanClose p" and b: "NonZeroBalance \<in> set (sv_BlockingReasons p)"
  proof -
    have "\<not> isl (SettlementPreview demo_env ''j1'' demo_store)" by code_simp
    then obtain p where "SettlementPreview demo_env ''j1'' demo_store = Inr p"
      by (cases "SettlementPreview demo_env ''j1'' demo_store") auto
    moreover have "\<not> sv_CanClose (projr (SettlementPreview demo_env ''j1'' demo_store))"
      "NonZeroBalance \<in> set (sv_BlockingReasons (projr (SettlementPreview demo_env ''j1'' demo_store)))" by code_simp+
    ultimately show thesis using that by simp
  qed
  have l: "listed demo_env (TrimSpace ''j1'') demo_store"
    unfolding listed_def by (intro exI conjI) (code_simp, code_simp)
  have o: "open_journey demo_env (TrimSpace ''j1'') demo_journey" by code_simp
  show ?thesis using preview_exact [OF demo_books l p] p can b o by blast
qed

end
