(* ===== verification/FinancialProjection.thy ===== *)
theory FinancialProjection
  imports JourneyClosing "HOL-Library.Multiset"
begin

text \<open>
  The financial projection of a journey (\<open>financial_projection.go\<close> and the three reads of
  \<open>repository_gorm.go\<close> it uses, in \<open>backend/internal/currentaccounts\<close>): what the journey will have
  earned at its end, from the balances, the ready accruals and an estimate of the periods left.
\<close>

section \<open>Reads\<close>

record DailyGoldProductionRow =
  dg_ProductionDate :: time
  dg_GoldGrams :: float64

definition production_rows :: "env \<Rightarrow> string \<Rightarrow> store \<Rightarrow> GoldProductionEntry list" where
  "production_rows E locationID s = filter (\<lambda>g. ge_TenantID g = TenantID E \<and>
     ge_LocationID g = locationID \<and> ge_Active g) (GoldProduction s)"

definition ListRecentDailyGoldProduction :: "env \<Rightarrow> string \<Rightarrow> nat \<Rightarrow> store \<Rightarrow> DailyGoldProductionRow list" where
  "ListRecentDailyGoldProduction E locationID limit s = (let
       rows = production_rows E locationID s;
       dates = take limit (rev (sort (remdups (map ge_ProductionDate rows))))
     in map (\<lambda>d. \<lparr>dg_ProductionDate = d,
          dg_GoldGrams = SumAgg E (map ge_GoldGramsProduced (filter (\<lambda>g. ge_ProductionDate g = d) rows))\<rparr>) dates)"

text \<open>
  A date column holds the text of the whole time, and these two reads compare it with the text of a
  date alone: the day of the bound itself is greater than its text.
\<close>

definition formatDateForQuery :: "time \<Rightarrow> string" where
  "formatDateForQuery t = format_civil (civil_of_time t)"

definition date_between :: "time \<Rightarrow> time \<Rightarrow> time \<Rightarrow> bool" where
  "date_between startDate endDate t \<longleftrightarrow>
     formatDateForQuery startDate \<le> formatRFC3339Nano t \<and> formatRFC3339Nano t \<le> formatDateForQuery endDate"

definition work_period :: "store \<Rightarrow> string \<Rightarrow> string \<Rightarrow> WorkPeriod option" where
  "work_period s T i = List.find (\<lambda>w. wp_ID w = i \<and> wp_TenantID w = T) (WorkPeriods s)"

definition accrual_run :: "store \<Rightarrow> string \<Rightarrow> string \<Rightarrow> AccrualRun option" where
  "accrual_run s T i = List.find (\<lambda>r. ar_ID r = i \<and> ar_TenantID r = T) (AccrualRuns s)"

definition latest_run :: "store \<Rightarrow> string \<Rightarrow> string \<Rightarrow> string option" where
  "latest_run s T w = (case rev (sort_key (\<lambda>r. (ar_CreatedAt r, ar_ID r))
       (filter (\<lambda>r. ar_TenantID r = T \<and> ar_WorkPeriodID r = w \<and> ar_Status r \<noteq> ''VOIDED'') (AccrualRuns s))) of
     [] \<Rightarrow> None | r # rs \<Rightarrow> Some (ar_ID r))"

record AccrualProjectionRow =
  ap_BRLAmount :: float64
  ap_GoldGramAmount :: float64
  ap_WorkPeriodDates :: int
  ap_PendingItems :: int

definition zeroAccrualProjectionRow :: AccrualProjectionRow where
  "zeroAccrualProjectionRow =
     \<lparr>ap_BRLAmount = 0, ap_GoldGramAmount = 0, ap_WorkPeriodDates = 0, ap_PendingItems = 0\<rparr>"

definition coalesce_sum :: "env \<Rightarrow> float64 list \<Rightarrow> float64" where
  "coalesce_sum E xs = (if xs = [] then 0 else SumAgg E xs)"

definition projected_items :: "env \<Rightarrow> string \<Rightarrow> time \<Rightarrow> time \<Rightarrow> store \<Rightarrow> AccrualItem list" where
  "projected_items E c startDate endDate s = filter (\<lambda>i.
     ai_TenantID i = TenantID E \<and> ai_CollaboratorID i = c \<and> ai_Status i \<in> set [''READY'', ''PENDING''] \<and>
     (case work_period s (ai_TenantID i) (ai_WorkPeriodID i) of
        None \<Rightarrow> False | Some w \<Rightarrow> date_between startDate endDate (wp_WorkDate w)) \<and>
     (case accrual_run s (ai_TenantID i) (ai_AccrualRunID i) of
        None \<Rightarrow> False | Some r \<Rightarrow> latest_run s (ai_TenantID i) (ai_WorkPeriodID i) = Some (ar_ID r)))
     (AccrualItems s)"

definition ready_amount :: "(AccrualItem \<Rightarrow> float64 option) \<Rightarrow> AccrualItem \<Rightarrow> float64" where
  "ready_amount f i = (if ai_Status i = ''READY'' \<and> ai_Direction i = ''CREDIT'' then case_option 0 id (f i)
     else if ai_Status i = ''READY'' \<and> ai_Direction i = ''DEBIT'' then - case_option 0 id (f i)
     else 0)"

definition AccrualProjectionForCollaborator ::
  "env \<Rightarrow> string \<Rightarrow> time \<Rightarrow> time \<Rightarrow> store \<Rightarrow> AccrualProjectionRow" where
  "AccrualProjectionForCollaborator E c startDate endDate s = (let
       items = projected_items E c startDate endDate s;
       worked = filter (\<lambda>i. ai_Status i = ''READY'' \<and> ai_WorkPeriodAssignmentID i \<noteq> None) items
     in \<lparr>ap_BRLAmount = coalesce_sum E (map (ready_amount ai_BRLAmount) items),
         ap_GoldGramAmount = coalesce_sum E (map (ready_amount ai_GoldGramAmount) items),
         ap_WorkPeriodDates = int (length (remdups (map wp_WorkDate
           (List.map_filter (\<lambda>i. work_period s (ai_TenantID i) (ai_WorkPeriodID i)) worked)))),
         ap_PendingItems = int (count_where (\<lambda>i. ai_Status i = ''PENDING'') items)\<rparr>)"

definition entry_work_period :: "store \<Rightarrow> LedgerEntry \<Rightarrow> WorkPeriod option" where
  "entry_work_period s e =
     (case List.find (\<lambda>a. wa_ID a = le_SourceID e \<and> wa_TenantID a = le_TenantID e) (Assignments s) of
        None \<Rightarrow> None | Some a \<Rightarrow> work_period s (le_TenantID e) (wa_WorkPeriodID a))"

definition CountPostedEarningWorkPeriodDates :: "env \<Rightarrow> string \<Rightarrow> time \<Rightarrow> time \<Rightarrow> store \<Rightarrow> int" where
  "CountPostedEarningWorkPeriodDates E c startDate endDate s = (let
       earned = filter (\<lambda>e. le_TenantID e = TenantID E \<and> le_CollaboratorID e = c \<and> le_Active e \<and>
         le_EntryType e = ''EARNING_CREDIT'' \<and> le_Direction e = ''CREDIT'' \<and>
         le_SourceType e = ''WORK_PERIOD_ASSIGNMENT'') (Ledger s);
       dates = map wp_WorkDate (List.map_filter (entry_work_period s) earned)
     in int (length (remdups (filter (date_between startDate endDate) dates))))"

section \<open>Periods and amounts\<close>

definition projectionTolerance :: float64 where
  "projectionTolerance = rnd (1 / 100000000)"

definition projectionNormalizedZero :: "float64 \<Rightarrow> float64" where
  "projectionNormalizedZero v = (if \<bar>v\<bar> \<le> projectionTolerance then 0 else v)"

definition projection_balance :: "string \<Rightarrow> BalanceRow list \<Rightarrow> float64" where
  "projection_balance code rows = foldl (\<lambda>b r.
     if ToUpper (TrimSpace (br_ValueUnitCode r)) = code then br_Balance r else b) 0 rows"

definition projectionBalances :: "BalanceRow list \<Rightarrow> float64 \<times> float64" where
  "projectionBalances rows = (projectionNormalizedZero (projection_balance ''BRL'' rows),
     projectionNormalizedZero (projection_balance ''GOLD_GRAM'' rows))"

definition canonicalProjectionPaymentMethod :: "string \<Rightarrow> string" where
  "canonicalProjectionPaymentMethod code = (let u = ToUpper (TrimSpace code) in
     if u \<in> set [''DAILY'', ''DAILY_WAGES'', ''DAILY_BRL''] then ''DAILY_BRL''
     else if u \<in> set [''SALARY'', ''FIXED_BRL''] then ''FIXED_BRL''
     else if u \<in> set [''COMMISSION'', ''GOLD_COMMISSION''] then ''GOLD_COMMISSION''
     else u)"

definition projectionProductionValue :: "DailyGoldProductionRow list \<Rightarrow> (float64 \<times> string) option" where
  "projectionProductionValue rows = (if 10 \<le> length rows
     then Some (sort (map dg_GoldGrams (take 10 rows)) ! 4, ''DISCRETE_LOWER_MEDIAN_LAST_10_RECORDED_DATES'')
     else case List.find (\<lambda>r. projectionTolerance < \<bar>dg_GoldGrams r\<bar>) rows of
       Some r \<Rightarrow> Some (dg_GoldGrams r, ''MOST_RECENT_NON_ZERO'')
     | None \<Rightarrow> None)"

text \<open>
  \<open>Time.Sub\<close> saturates at the 64 bits of a \<open>Duration\<close>; \<open>Hours\<close> adds whole hours and the fraction,
  and the conversion to \<open>int\<close> truncates.
\<close>

definition duration :: "time \<Rightarrow> time \<Rightarrow> int" where
  "duration a b = max (- (2 ^ 63)) (min (2 ^ 63 - 1) (a - b))"

definition hour_ns :: int where
  "hour_ns = 3600000000000"

definition Hours :: "int \<Rightarrow> float64" where
  "Hours d = fadd (rnd (of_int (d div hour_ns))) (fdiv (rnd (of_int (d mod hour_ns))) (of_int hour_ns))"

definition remainingProjectionPeriods :: "time \<Rightarrow> time \<Rightarrow> int" where
  "remainingProjectionPeriods start0 end0 = (let start = dateOnlyUTC start0; fin = dateOnlyUTC end0 in
     if fin < start then 0 else \<lfloor>fdiv (Hours (duration fin start)) 24\<rfloor> + 1)"

definition clampProjectionPeriodCount :: "int \<Rightarrow> int \<Rightarrow> int" where
  "clampProjectionPeriodCount v m = (if v < 0 \<or> m \<le> 0 then 0 else if m < v then m else v)"

definition projectionValueOrFallback :: "float64 option \<Rightarrow> float64 \<Rightarrow> float64" where
  "projectionValueOrFallback v fallback = (case v of Some x \<Rightarrow> x | None \<Rightarrow> fallback)"

definition roundBRL :: "float64 \<Rightarrow> float64" where
  "roundBRL v = fdiv (goRound (fmul v 100)) 100"

definition roundGold :: "float64 \<Rightarrow> float64" where
  "roundGold v = fdiv (goRound (fmul v 100000000)) 100000000"

definition projectedCommissionAvailabilityFactor :: "string \<Rightarrow> float64" where
  "projectedCommissionAvailabilityFactor a =
     (if ToUpper (TrimSpace a) \<in> set [''DAY_OFF'', ''LEAVE_OF_ABSENCE''] then 1 / 2 else 1)"

section \<open>The projection\<close>

record ProjectionAmountsDTO =
  pa_BRLAmount :: "float64 option"
  pa_GoldGramAmount :: "float64 option"

definition amounts :: "float64 \<Rightarrow> float64 \<Rightarrow> ProjectionAmountsDTO" where
  "amounts brl gold = \<lparr>pa_BRLAmount = Some brl, pa_GoldGramAmount = Some gold\<rparr>"

definition brl_only :: "float64 \<Rightarrow> ProjectionAmountsDTO" where
  "brl_only brl = \<lparr>pa_BRLAmount = Some brl, pa_GoldGramAmount = None\<rparr>"

record FinancialProjectionBasisDTO =
  pb_ProjectionDate :: string
  pb_JourneyEndDate :: string
  pb_PeriodsPerDay :: int
  pb_RemainingWorkPeriods :: int
  pb_CalendarWorkPeriods :: int
  pb_PostedWorkPeriods :: int
  pb_ReadyAccrualWorkPeriods :: int
  pb_EstimatedFutureWorkPeriods :: int
  pb_PendingAccrualItems :: int
  pb_LocationID :: string
  pb_LocationLabel :: string
  pb_ProductionMethod :: string
  pb_ProductionDatesAvailable :: nat
  pb_ProductionValueUsed :: "float64 option"
  pb_Warning :: string

record FinancialProjectionDTO =
  pj_CollaboratorID :: string
  pj_CollaboratorLabel :: string
  pj_PaymentMethodCode :: string
  pj_CurrentBalances :: ProjectionAmountsDTO
  pj_UnpostedReadyEarnings :: ProjectionAmountsDTO
  pj_EstimatedFutureEarnings :: ProjectionAmountsDTO
  pj_ProjectedEarnings :: ProjectionAmountsDTO
  pj_ProjectedFinalBalances :: ProjectionAmountsDTO
  pj_Projection :: FinancialProjectionBasisDTO

text \<open>
  \<open>setProjectionBRL\<close> and \<open>setProjectionGold\<close>: the three results from the balances (\<open>b\<close>, \<open>g\<close>), the
  ready accruals (\<open>rb\<close>, \<open>rg\<close>) and the estimate.
\<close>

definition setProjectionBRL ::
  "FinancialProjectionDTO \<Rightarrow> float64 \<Rightarrow> float64 \<Rightarrow> float64 \<Rightarrow> float64 \<Rightarrow> float64 \<Rightarrow> FinancialProjectionDTO" where
  "setProjectionBRL p b rb g rg estimated = p\<lparr>
     pj_EstimatedFutureEarnings := amounts estimated 0,
     pj_ProjectedEarnings := amounts (roundBRL (fadd rb estimated)) (roundGold rg),
     pj_ProjectedFinalBalances := amounts (roundBRL (fadd (fadd b rb) estimated)) (roundGold (fadd g rg))\<rparr>"

definition setProjectionGold ::
  "FinancialProjectionDTO \<Rightarrow> float64 \<Rightarrow> float64 \<Rightarrow> float64 \<Rightarrow> float64 \<Rightarrow> float64 \<Rightarrow> FinancialProjectionDTO" where
  "setProjectionGold p b rb g rg estimated = p\<lparr>
     pj_EstimatedFutureEarnings := amounts 0 estimated,
     pj_ProjectedEarnings := amounts (roundBRL rb) (roundGold (fadd rg estimated)),
     pj_ProjectedFinalBalances := amounts (roundBRL (fadd b rb)) (roundGold (fadd (fadd g rg) estimated))\<rparr>"

text \<open>What the service computes from the rows it read, after \<open>FindCollaboratorByID\<close>.\<close>

definition projection_base ::
  "env \<Rightarrow> CollaboratorView \<Rightarrow> float64 \<Rightarrow> float64 \<Rightarrow> AccrualProjectionRow \<Rightarrow> int \<Rightarrow> FinancialProjectionDTO" where
  "projection_base E v b g ap postedPeriods = (let
       j = cv_Journey v;
       today = dateOnlyUTC (Now E);
       journeyEnd = dateOnlyUTC (cj_ProjectedEndDate j);
       calendar = remainingProjectionPeriods today journeyEnd;
       ready = clampProjectionPeriodCount (ap_WorkPeriodDates ap) (calendar - postedPeriods);
       estimated = clampProjectionPeriodCount (calendar - postedPeriods - ready) calendar
     in \<lparr>pj_CollaboratorID = cj_ID j, pj_CollaboratorLabel = collaboratorLabel (cv_Person v),
         pj_PaymentMethodCode = canonicalProjectionPaymentMethod (rd_Code (cv_PaymentMethod v)),
         pj_CurrentBalances = amounts b g,
         pj_UnpostedReadyEarnings = amounts (roundBRL (ap_BRLAmount ap)) (roundGold (ap_GoldGramAmount ap)),
         pj_EstimatedFutureEarnings = \<lparr>pa_BRLAmount = None, pa_GoldGramAmount = None\<rparr>,
         pj_ProjectedEarnings = \<lparr>pa_BRLAmount = None, pa_GoldGramAmount = None\<rparr>,
         pj_ProjectedFinalBalances = \<lparr>pa_BRLAmount = None, pa_GoldGramAmount = None\<rparr>,
         pj_Projection = \<lparr>
           pb_ProjectionDate = format_civil (civil_of_time today),
           pb_JourneyEndDate = format_civil (civil_of_time journeyEnd), pb_PeriodsPerDay = 1,
           pb_RemainingWorkPeriods = estimated, pb_CalendarWorkPeriods = calendar,
           pb_PostedWorkPeriods = clampProjectionPeriodCount postedPeriods calendar,
           pb_ReadyAccrualWorkPeriods = ready, pb_EstimatedFutureWorkPeriods = estimated,
           pb_PendingAccrualItems = ap_PendingItems ap, pb_LocationID = cj_LocationID j,
           pb_LocationLabel = rd_Label (cv_Location v), pb_ProductionMethod = [],
           pb_ProductionDatesAvailable = 0, pb_ProductionValueUsed = None,
           pb_Warning = (if 0 < ap_PendingItems ap then ''PENDING_ACCRUAL_INPUTS'' else [])\<rparr>\<rparr>)"

definition with_basis ::
  "(FinancialProjectionBasisDTO \<Rightarrow> FinancialProjectionBasisDTO) \<Rightarrow> FinancialProjectionDTO \<Rightarrow> FinancialProjectionDTO"
  where "with_basis f p = p\<lparr>pj_Projection := f (pj_Projection p)\<rparr>"

definition project_commission ::
  "CollaboratorJourney \<Rightarrow> float64 \<Rightarrow> float64 \<Rightarrow> AccrualProjectionRow \<Rightarrow> DailyGoldProductionRow list \<Rightarrow>
   FinancialProjectionDTO \<Rightarrow> FinancialProjectionDTO" where
  "project_commission j b g ap rows p0 = (let
       p = with_basis (\<lambda>x. x\<lparr>pb_ProductionDatesAvailable := length rows\<rparr>) p0;
       rb = ap_BRLAmount ap; rg = ap_GoldGramAmount ap;
       periods = rnd (of_int (pb_EstimatedFutureWorkPeriods (pj_Projection p)))
     in case projectionProductionValue rows of
       None \<Rightarrow> (with_basis (\<lambda>x. x\<lparr>pb_ProductionMethod := [],
             pb_Warning := (if pb_Warning x = [] then ''NO_GOLD_PRODUCTION_HISTORY'' else pb_Warning x)\<rparr>) p)
           \<lparr>pj_EstimatedFutureEarnings := brl_only 0, pj_ProjectedEarnings := brl_only (roundBRL rb),
            pj_ProjectedFinalBalances := brl_only (roundBRL (fadd b rb))\<rparr>
     | Some (value, meth) \<Rightarrow>
         setProjectionGold (with_basis (\<lambda>x. x\<lparr>pb_ProductionMethod := meth,
             pb_ProductionValueUsed := Some (roundGold value)\<rparr>) p) b rb g rg
           (roundGold (fmul (fmul (fdiv (fmul value
               (projectionValueOrFallback (cj_GoldCommissionPercent j) (cj_PaymentValue j))) 100) periods)
             (projectedCommissionAvailabilityFactor (cj_PlanningAvailability j)))))"

definition project ::
  "CollaboratorJourney \<Rightarrow> float64 \<Rightarrow> float64 \<Rightarrow> AccrualProjectionRow \<Rightarrow> DailyGoldProductionRow list \<Rightarrow>
   FinancialProjectionDTO \<Rightarrow> FinancialProjectionDTO" where
  "project j b g ap rows p = (let
       rb = ap_BRLAmount ap; rg = ap_GoldGramAmount ap;
       periods = rnd (of_int (pb_EstimatedFutureWorkPeriods (pj_Projection p)));
       code = pj_PaymentMethodCode p;
       tagged = with_basis (\<lambda>x. x\<lparr>pb_ProductionMethod := code\<rparr>) p
     in if code = ''FIXED_BRL'' then setProjectionBRL tagged b rb g rg (roundBRL (fmul (fdiv
            (projectionValueOrFallback (cj_FixedMonthlyBRLAmount j) (cj_PaymentValue j)) 30) periods))
        else if code = ''DAILY_BRL'' then setProjectionBRL tagged b rb g rg (roundBRL (fmul
            (projectionValueOrFallback (cj_DailyBRLAmount j) (cj_PaymentValue j)) periods))
        else if code = ''GOLD_COMMISSION'' then project_commission j b g ap rows p
        else p\<lparr>pj_EstimatedFutureEarnings := amounts 0 0,
            pj_ProjectedEarnings := amounts (roundBRL rb) (roundGold rg),
            pj_ProjectedFinalBalances := amounts (roundBRL (fadd b rb)) (roundGold (fadd g rg))\<rparr>)"

definition FinancialProjection :: "env \<Rightarrow> string \<Rightarrow> store \<Rightarrow> app_error + FinancialProjectionDTO" where
  "FinancialProjection E c0 s = (let c = TrimSpace c0 in
     tri (FindCollaboratorByID E c s) (\<lambda>v. let
         (b, g) = projectionBalances (ListBalances E c s);
         j = cv_Journey v;
         today = dateOnlyUTC (Now E);
         journeyEnd = dateOnlyUTC (cj_ProjectedEndDate j);
         counted = 0 < remainingProjectionPeriods today journeyEnd;
         ap = (if counted then AccrualProjectionForCollaborator E c today journeyEnd s
               else zeroAccrualProjectionRow);
         postedPeriods = (if counted then CountPostedEarningWorkPeriodDates E c today journeyEnd s else 0)
       in Inr (project j b g ap (ListRecentDailyGoldProduction E (cj_LocationID j) 10 s)
            (projection_base E v b g ap postedPeriods))))"

section \<open>The periods of a projection\<close>

text \<open>A duration of whole days that fits is counted exactly.\<close>

lemma remaining_exact:
  assumes "dateOnlyUTC a \<le> dateOnlyUTC b" and "dateOnlyUTC b - dateOnlyUTC a < 2 ^ 63"
  shows "remainingProjectionPeriods a b = b div day_ns - a div day_ns + 1"
proof -
  define k where "k = b div day_ns - a div day_ns"
  have d: "dateOnlyUTC b - dateOnlyUTC a = k * day_ns" by (simp add: k_def dateOnlyUTC_def algebra_simps)
  have k: "0 \<le> k" "k < 2 ^ 20"
    using assms d by (simp_all add: day_ns_def zero_le_mult_iff)
  have dur: "duration (dateOnlyUTC b) (dateOnlyUTC a) = k * day_ns"
    using assms d by (simp add: duration_def)
  have h: "k * day_ns div hour_ns = 24 * k" "k * day_ns mod hour_ns = 0"
    by (simp_all add: day_ns_def hour_ns_def)
  have hours: "Hours (duration (dateOnlyUTC b) (dateOnlyUTC a)) = of_int (24 * k)"
    using k rnd_of_int [of "24 * k"] by (simp add: Hours_def dur h fadd_def fdiv_def)
  have "fdiv (of_int (24 * k)) 24 = of_int k"
    using k rnd_of_int [of k] by (simp add: fdiv_def)
  then show ?thesis
    using assms(1) by (simp add: remainingProjectionPeriods_def Let_def hours k_def)
qed

lemma remaining_nonneg:
  "0 \<le> remainingProjectionPeriods a b"
proof (cases "dateOnlyUTC b < dateOnlyUTC a")
  case False
  then have "0 \<le> duration (dateOnlyUTC b) (dateOnlyUTC a)" by (simp add: duration_def)
  then have "0 \<le> Hours (duration (dateOnlyUTC b) (dateOnlyUTC a))"
    unfolding Hours_def fadd_def
    by (intro rnd_nonneg add_nonneg_nonneg fdiv_nonneg) (simp_all add: hour_ns_def pos_imp_zdiv_nonneg_iff)
  then show ?thesis
    using False fdiv_nonneg [of "Hours (duration (dateOnlyUTC b) (dateOnlyUTC a))" 24]
    by (simp add: remainingProjectionPeriods_def Let_def)
qed (simp add: remainingProjectionPeriods_def)

lemma clamp_partition:
  assumes "0 \<le> w" and "0 \<le> n" and "0 \<le> cal"
  shows "0 \<le> clampProjectionPeriodCount n cal" and "0 \<le> clampProjectionPeriodCount w (cal - n)"
    and "0 \<le> clampProjectionPeriodCount (cal - n - clampProjectionPeriodCount w (cal - n)) cal"
    and "clampProjectionPeriodCount n cal + clampProjectionPeriodCount w (cal - n) +
      clampProjectionPeriodCount (cal - n - clampProjectionPeriodCount w (cal - n)) cal = cal"
  using assms by (auto simp: clampProjectionPeriodCount_def)

lemma project_periods:
  "pb_CalendarWorkPeriods (pj_Projection (project j b g ap rows p)) = pb_CalendarWorkPeriods (pj_Projection p)"
  "pb_PostedWorkPeriods (pj_Projection (project j b g ap rows p)) = pb_PostedWorkPeriods (pj_Projection p)"
  "pb_ReadyAccrualWorkPeriods (pj_Projection (project j b g ap rows p)) = pb_ReadyAccrualWorkPeriods (pj_Projection p)"
  "pb_EstimatedFutureWorkPeriods (pj_Projection (project j b g ap rows p)) = pb_EstimatedFutureWorkPeriods (pj_Projection p)"
  by (simp_all add: project_def project_commission_def Let_def setProjectionBRL_def setProjectionGold_def
      with_basis_def split: option.split prod.split)

section \<open>Properties\<close>

text \<open>
  C17. The periods of a projection add up: posted, ready and estimated periods are not negative and
  together are the calendar periods left, whatever the accruals and the ledger say; and the calendar
  periods are the days from today to the end of the journey, both included, when that end is not in
  the past and within the range of a Go duration.
\<close>

theorem projection_periods_add_up:
  fixes E p
  defines "x \<equiv> pj_Projection p"
  assumes "FinancialProjection E c s = Inr p"
  shows "0 \<le> pb_PostedWorkPeriods x \<and> 0 \<le> pb_ReadyAccrualWorkPeriods x \<and>
    0 \<le> pb_EstimatedFutureWorkPeriods x \<and>
    pb_PostedWorkPeriods x + pb_ReadyAccrualWorkPeriods x + pb_EstimatedFutureWorkPeriods x =
      pb_CalendarWorkPeriods x \<and>
    (\<exists>v. FindCollaboratorByID E (TrimSpace c) s = Inr v \<and>
      (let journeyEnd = cj_ProjectedEndDate (cv_Journey v) in
       dateOnlyUTC (Now E) \<le> dateOnlyUTC journeyEnd \<and>
       dateOnlyUTC journeyEnd - dateOnlyUTC (Now E) < 2 ^ 63 \<longrightarrow>
       pb_CalendarWorkPeriods x = journeyEnd div day_ns - Now E div day_ns + 1))"
proof -
  obtain b g where bg: "projectionBalances (ListBalances E (TrimSpace c) s) = (b, g)" by fastforce
  obtain v where v: "FindCollaboratorByID E (TrimSpace c) s = Inr v"
    using assms(2) by (auto simp: FinancialProjection_def Let_def tri_Inr)
  define today journeyEnd where "today = dateOnlyUTC (Now E)"
    and "journeyEnd = dateOnlyUTC (cj_ProjectedEndDate (cv_Journey v))"
  define ap where "ap = (if 0 < remainingProjectionPeriods today journeyEnd
    then AccrualProjectionForCollaborator E (TrimSpace c) today journeyEnd s else zeroAccrualProjectionRow)"
  define posted where "posted = (if 0 < remainingProjectionPeriods today journeyEnd
    then CountPostedEarningWorkPeriodDates E (TrimSpace c) today journeyEnd s else 0)"
  obtain rows where p: "p = project (cv_Journey v) b g ap rows (projection_base E v b g ap posted)"
    using assms(2) v bg unfolding FinancialProjection_def Let_def ap_def posted_def today_def journeyEnd_def
    by (simp only: tri_simps prod.case sum.inject) blast
  have n: "0 \<le> ap_WorkPeriodDates ap" "0 \<le> posted"
    by (simp_all add: ap_def posted_def AccrualProjectionForCollaborator_def zeroAccrualProjectionRow_def
        CountPostedEarningWorkPeriodDates_def Let_def)
  let ?cal = "remainingProjectionPeriods (dateOnlyUTC (Now E)) (dateOnlyUTC (cj_ProjectedEndDate (cv_Journey v)))"
  have cal: "pb_CalendarWorkPeriods x = ?cal"
    by (simp add: x_def p project_periods projection_base_def Let_def)
  have same: "?cal = remainingProjectionPeriods (Now E) (cj_ProjectedEndDate (cv_Journey v))"
    by (simp add: remainingProjectionPeriods_def)
  note parts = clamp_partition [OF n remaining_nonneg [of "Now E" "cj_ProjectedEndDate (cv_Journey v)"]]
  have fields: "pb_PostedWorkPeriods x = clampProjectionPeriodCount posted ?cal"
    "pb_ReadyAccrualWorkPeriods x = clampProjectionPeriodCount (ap_WorkPeriodDates ap) (?cal - posted)"
    "pb_EstimatedFutureWorkPeriods x = clampProjectionPeriodCount
      (?cal - posted - clampProjectionPeriodCount (ap_WorkPeriodDates ap) (?cal - posted)) ?cal"
    by (simp_all add: x_def p project_periods projection_base_def Let_def)
  show ?thesis
    unfolding fields cal same
    using parts v remaining_exact [of "Now E" "cj_ProjectedEndDate (cv_Journey v)"] by (simp add: Let_def)
qed

lemma projection_found:
  "FindCollaboratorByID E (TrimSpace c) s = Inr v \<Longrightarrow> \<exists>p. FinancialProjection E c s = Inr p"
  by (simp add: FinancialProjection_def Let_def split: prod.split)

theorem projection_periods_add_up_witness:
  "\<exists>p. FinancialProjection demo_env ''j1'' demo_store = Inr p \<and>
     pb_PostedWorkPeriods (pj_Projection p) + pb_ReadyAccrualWorkPeriods (pj_Projection p) +
     pb_EstimatedFutureWorkPeriods (pj_Projection p) = pb_CalendarWorkPeriods (pj_Projection p)"
proof -
  have "\<not> isl (FindCollaboratorByID demo_env (TrimSpace ''j1'') demo_store)" by code_simp
  then obtain v where "FindCollaboratorByID demo_env (TrimSpace ''j1'') demo_store = Inr v"
    by (cases "FindCollaboratorByID demo_env (TrimSpace ''j1'') demo_store") auto
  from projection_found [OF this] obtain p where "FinancialProjection demo_env ''j1'' demo_store = Inr p" by blast
  then show ?thesis using projection_periods_add_up by blast
qed

lemma count_where_sort: "count_where P (sort xs) = count_where P xs"
  by (metis count_where_def mset_filter mset_sort size_mset)

lemma count_where_part:
  "list_all P xs \<Longrightarrow> length xs \<le> count_where P (ys @ xs @ zs)"
  by (simp add: count_where_def list_all_iff)

text \<open>
  With ten recorded dates the projection takes the lower median of the ten most recent ones: a value
  produced on one of them, at least five of the ten are at most it and at least six are at least it. With fewer
  it takes the most recent value that is not zero, and none if there is none.
\<close>

theorem projection_lower_median:
  fixes rows
  defines "xs \<equiv> map dg_GoldGrams (take 10 rows)"
  shows "(10 \<le> length rows \<longrightarrow> (\<exists>v. projectionProductionValue rows =
      Some (v, ''DISCRETE_LOWER_MEDIAN_LAST_10_RECORDED_DATES'') \<and> v \<in> set xs \<and>
      5 \<le> count_where (\<lambda>x. x \<le> v) xs \<and> 6 \<le> count_where (\<lambda>x. v \<le> x) xs)) \<and>
    (length rows < 10 \<longrightarrow> (case projectionProductionValue rows of
        None \<Rightarrow> \<forall>r \<in> set rows. \<bar>dg_GoldGrams r\<bar> \<le> projectionTolerance
      | Some (v, m) \<Rightarrow> m = ''MOST_RECENT_NON_ZERO'' \<and> (\<exists>ys r zs. rows = ys @ r # zs \<and> v = dg_GoldGrams r \<and>
          projectionTolerance < \<bar>v\<bar> \<and> (\<forall>y \<in> set ys. \<bar>dg_GoldGrams y\<bar> \<le> projectionTolerance))))"
proof (intro conjI impI)
  assume len: "10 \<le> length rows"
  let ?ys = "sort xs"
  have l: "length ?ys = 10" using len by (simp add: xs_def)
  let ?v = "?ys ! 4"
  have le: "?ys ! i \<le> ?v" if "i \<le> 4" for i using that l by (intro sorted_nth_mono) simp_all
  have ge: "?v \<le> ?ys ! i" if "4 \<le> i" "i < 10" for i using that l by (intro sorted_nth_mono) simp_all
  have "list_all (\<lambda>x. x \<le> ?v) (take 5 ?ys)"
    using le l by (auto simp: list_all_length)
  from count_where_part [OF this, of "[]" "drop 5 ?ys"] have lo: "5 \<le> count_where (\<lambda>x. x \<le> ?v) xs"
    using l count_where_sort [of "\<lambda>x. x \<le> ?v" xs] by simp
  have "list_all (\<lambda>x. ?v \<le> x) (drop 4 ?ys)"
    using ge l by (auto simp: list_all_length)
  from count_where_part [OF this, of "take 4 ?ys" "[]"] have hi: "6 \<le> count_where (\<lambda>x. ?v \<le> x) xs"
    using l count_where_sort [of "\<lambda>x. ?v \<le> x" xs] by simp
  have "?v \<in> set ?ys" using l by (intro nth_mem) simp
  then show "\<exists>v. projectionProductionValue rows = Some (v, ''DISCRETE_LOWER_MEDIAN_LAST_10_RECORDED_DATES'') \<and>
      v \<in> set xs \<and> 5 \<le> count_where (\<lambda>x. x \<le> v) xs \<and> 6 \<le> count_where (\<lambda>x. v \<le> x) xs"
    using len lo hi by (simp add: projectionProductionValue_def xs_def)
next
  assume len: "length rows < 10"
  show "case projectionProductionValue rows of
        None \<Rightarrow> \<forall>r \<in> set rows. \<bar>dg_GoldGrams r\<bar> \<le> projectionTolerance
      | Some (v, m) \<Rightarrow> m = ''MOST_RECENT_NON_ZERO'' \<and> (\<exists>ys r zs. rows = ys @ r # zs \<and> v = dg_GoldGrams r \<and>
          projectionTolerance < \<bar>v\<bar> \<and> (\<forall>y \<in> set ys. \<bar>dg_GoldGrams y\<bar> \<le> projectionTolerance))"
  proof (cases "List.find (\<lambda>r. projectionTolerance < \<bar>dg_GoldGrams r\<bar>) rows")
    case None
    then have "\<forall>r \<in> set rows. \<bar>dg_GoldGrams r\<bar> \<le> projectionTolerance" by (simp add: find_None_iff not_less)
    then show ?thesis using len None by (simp add: projectionProductionValue_def)
  next
    case (Some r)
    then obtain i where i: "i < length rows" "projectionTolerance < \<bar>dg_GoldGrams r\<bar>" "r = rows ! i"
      "\<And>j. j < i \<Longrightarrow> \<not> projectionTolerance < \<bar>dg_GoldGrams (rows ! j)\<bar>"
      by (auto simp: find_Some_iff)
    have "rows = take i rows @ r # drop (Suc i) rows" using i by (simp add: id_take_nth_drop)
    moreover have "\<forall>y \<in> set (take i rows). \<bar>dg_GoldGrams y\<bar> \<le> projectionTolerance"
      using i by (auto simp: in_set_conv_nth not_less)
    ultimately show ?thesis using len Some i(2) by (auto simp: projectionProductionValue_def)
  qed
qed

definition demo_production :: "DailyGoldProductionRow list" where
  "demo_production = map (\<lambda>i. \<lparr>dg_ProductionDate = i * day_ns, dg_GoldGrams = of_int (i * i)\<rparr>) [1..10]"

theorem projection_lower_median_witness:
  "\<exists>v. projectionProductionValue demo_production = Some (v, ''DISCRETE_LOWER_MEDIAN_LAST_10_RECORDED_DATES'') \<and>
     5 \<le> count_where (\<lambda>x. x \<le> v) (map dg_GoldGrams (take 10 demo_production))"
proof -
  have "10 \<le> length demo_production" by (simp add: demo_production_def)
  then show ?thesis using projection_lower_median [of demo_production] by blast
qed

end
