(* ===== verification/AccrualStore.thy ===== *)
theory AccrualStore
  imports AccountLists
begin

text \<open>
  The tables of the accruals (\<open>accrual_runs\<close>, \<open>accrual_items\<close>, \<open>work_periods\<close>): their writes with the
  constraints and triggers of the migrations 000011, 000015, 000041 and 000057, and the reads and
  writes of \<open>backend/internal/accruals/repository_gorm.go\<close>. None of the writes touches the ledger but
  \<open>PostReadyItems\<close>, which goes through the ledger's own inserts.
\<close>

section \<open>Constraints and writes\<close>

definition work_period_in :: "store \<Rightarrow> string \<Rightarrow> string \<Rightarrow> bool" where
  "work_period_in s T w \<longleftrightarrow> list_ex (\<lambda>x. wp_ID x = w \<and> wp_TenantID x = T) (WorkPeriods s)"

definition run_in :: "store \<Rightarrow> string \<Rightarrow> string \<Rightarrow> bool" where
  "run_in s T r \<longleftrightarrow> list_ex (\<lambda>x. ar_ID x = r \<and> ar_TenantID x = T) (AccrualRuns s)"

definition assignment_in :: "store \<Rightarrow> string \<Rightarrow> string \<Rightarrow> bool" where
  "assignment_in s T a \<longleftrightarrow> list_ex (\<lambda>x. wa_ID x = a \<and> wa_TenantID x = T) (Assignments s)"

definition run_checks :: "AccrualRun \<Rightarrow> (bool \<times> string) list" where
  "run_checks r = [
     (ar_Status r \<notin> set [''DRAFT'', ''PENDING_INPUT'', ''READY_TO_POST'', ''POSTED'', ''VOIDED''],
        ''CHECK constraint failed: status'')]"

definition run_insert_guards :: "store \<Rightarrow> AccrualRun \<Rightarrow> (bool \<times> string) list" where
  "run_insert_guards s r = [
     (\<not> tenant_exists s (ar_TenantID r), ''tenant_integrity_violation''),
     (\<not> work_period_in s (ar_TenantID r) (ar_WorkPeriodID r), ''cross_tenant_reference'')]
     @ run_checks r @
     [(list_ex (\<lambda>x. ar_ID x = ar_ID r) (AccrualRuns s), ''UNIQUE constraint failed: accrual_runs.id'')]"

definition run_update_guards :: "store \<Rightarrow> AccrualRun \<Rightarrow> AccrualRun \<Rightarrow> (bool \<times> string) list" where
  "run_update_guards s old new = [
     (ar_TenantID new \<noteq> ar_TenantID old, ''tenant_id_immutable''),
     (\<not> work_period_in s (ar_TenantID new) (ar_WorkPeriodID new), ''cross_tenant_reference'')]
     @ run_checks new"

definition item_references :: "store \<Rightarrow> AccrualItem \<Rightarrow> (bool \<times> string) list" where
  "item_references s i = [
     (\<not> run_in s (ai_TenantID i) (ai_AccrualRunID i) \<or>
      \<not> work_period_in s (ai_TenantID i) (ai_WorkPeriodID i) \<or>
      \<not> journey_in s (ai_TenantID i) (ai_CollaboratorID i) \<or>
      (case ai_WorkPeriodAssignmentID i of None \<Rightarrow> False
       | Some a \<Rightarrow> \<not> assignment_in s (ai_TenantID i) a), ''cross_tenant_reference'')]"

definition item_checks :: "AccrualItem \<Rightarrow> (bool \<times> string) list" where
  "item_checks i = [
     (ai_Direction i \<notin> set [''CREDIT'', ''DEBIT''], ''CHECK constraint failed: direction''),
     (ai_Status i \<notin> set [''PENDING'', ''READY'', ''POSTED'', ''SKIPPED''], ''CHECK constraint failed: status'')]"

definition item_insert_guards :: "store \<Rightarrow> AccrualItem \<Rightarrow> (bool \<times> string) list" where
  "item_insert_guards s i =
     [(\<not> tenant_exists s (ai_TenantID i), ''tenant_integrity_violation'')] @ item_references s i @
     [(SqlTrim (ai_PersonID i) = [], ''accrual_item_person_required''),
      (\<not> owns_journey s (ai_TenantID i) (ai_CollaboratorID i) (ai_PersonID i),
         ''accrual_item_person_tenant_journey_mismatch'')] @ item_checks i @
     [(list_ex (\<lambda>x. ai_ID x = ai_ID i) (AccrualItems s), ''UNIQUE constraint failed: accrual_items.id'')]"

definition item_update_guards :: "store \<Rightarrow> AccrualItem \<Rightarrow> AccrualItem \<Rightarrow> (bool \<times> string) list" where
  "item_update_guards s old new =
     [(ai_TenantID new \<noteq> ai_TenantID old \<or> ai_PersonID new \<noteq> ai_PersonID old \<or>
         ai_CollaboratorID new \<noteq> ai_CollaboratorID old, ''accrual_item_financial_identity_immutable'')]
     @ item_references s new @ item_checks new"

definition work_period_update_guards :: "WorkPeriod \<Rightarrow> WorkPeriod \<Rightarrow> (bool \<times> string) list" where
  "work_period_update_guards old new = [
     (wp_TenantID new \<noteq> wp_TenantID old, ''tenant_id_immutable''),
     (wp_Status new \<notin> set [''PLANNING'', ''INFORMED'', ''ACCRUAL_OPEN'', ''PARTIALLY_POSTED'',
        ''FULLY_POSTED'', ''CLOSED''], ''CHECK constraint failed: ck_work_period_status''),
     (\<not> wp_StartsAt new < wp_EndsAt new, ''CHECK constraint failed: ck_work_period_time_order'')]"

text \<open>An \<open>UPDATE\<close> of a table: every touched row passes its guards or the statement fails.\<close>

definition guarded_update ::
  "(store \<Rightarrow> 'r list) \<Rightarrow> (('r list \<Rightarrow> 'r list) \<Rightarrow> store \<Rightarrow> store) \<Rightarrow>
   (store \<Rightarrow> 'r \<Rightarrow> 'r \<Rightarrow> (bool \<times> string) list) \<Rightarrow> ('r \<Rightarrow> bool) \<Rightarrow> ('r \<Rightarrow> 'r) \<Rightarrow> unit app"
  where
  "guarded_update rows put guards P f = bnd
     (query (\<lambda>s. abort_if (concat (map (\<lambda>r. guards s r (f r)) (filter P (rows s))))))
     (\<lambda>_. modify (put (update_where P f)))"

definition updateRuns :: "(AccrualRun \<Rightarrow> bool) \<Rightarrow> (AccrualRun \<Rightarrow> AccrualRun) \<Rightarrow> unit app" where
  "updateRuns = guarded_update AccrualRuns AccrualRuns_update run_update_guards"

definition updateItems :: "(AccrualItem \<Rightarrow> bool) \<Rightarrow> (AccrualItem \<Rightarrow> AccrualItem) \<Rightarrow> unit app" where
  "updateItems = guarded_update AccrualItems AccrualItems_update item_update_guards"

definition updateWorkPeriods :: "(WorkPeriod \<Rightarrow> bool) \<Rightarrow> (WorkPeriod \<Rightarrow> WorkPeriod) \<Rightarrow> unit app" where
  "updateWorkPeriods = guarded_update WorkPeriods WorkPeriods_update (\<lambda>_. work_period_update_guards)"

definition with_run_defaults :: "env \<Rightarrow> AccrualRun \<Rightarrow> AccrualRun" where
  "with_run_defaults E r = r\<lparr>
     ar_CreatedAt := or_time (ar_CreatedAt r) (Now E), ar_UpdatedAt := or_time (ar_UpdatedAt r) (Now E),
     ar_TenantID := or_default (ar_TenantID r) ''default''\<rparr>"

definition with_item_defaults :: "env \<Rightarrow> AccrualItem \<Rightarrow> AccrualItem" where
  "with_item_defaults E i = i\<lparr>
     ai_CreatedAt := or_time (ai_CreatedAt i) (Now E), ai_UpdatedAt := or_time (ai_UpdatedAt i) (Now E),
     ai_TenantID := or_default (ai_TenantID i) ''default'',
     ai_Direction := or_default (ai_Direction i) ''CREDIT''\<rparr>"

text \<open>One \<open>INSERT\<close> of all the rows: a row that fails undoes the statement.\<close>

definition insertItem :: "AccrualItem \<Rightarrow> unit app" where
  "insertItem i = bnd (query (\<lambda>s. abort_if (item_insert_guards s i)))
     (\<lambda>_. modify (\<lambda>s. s\<lparr>AccrualItems := AccrualItems s @ [i]\<rparr>))"

definition createItems :: "env \<Rightarrow> AccrualItem list \<Rightarrow> unit app" where
  "createItems E items = transaction (for_each insertItem (map (with_item_defaults E) items))"

section \<open>The repository\<close>

definition repoCreateRun :: "env \<Rightarrow> AccrualRun \<Rightarrow> unit app" where
  "repoCreateRun E r0 = (let r = with_run_defaults E r0 in
     bnd (query (\<lambda>s. abort_if (run_insert_guards s r)))
     (\<lambda>_. modify (\<lambda>s. s\<lparr>AccrualRuns := AccrualRuns s @ [r]\<rparr>)))"

definition FindWorkPeriodByID :: "env \<Rightarrow> string \<Rightarrow> store \<Rightarrow> app_error + WorkPeriod" where
  "FindWorkPeriodByID E i s = found ErrRecordNotFound
     (first_by wp_ID (\<lambda>w. wp_ID w = i \<and> wp_TenantID w = TenantID E) (WorkPeriods s))"

text \<open>\<open>FindRunByID\<close> preloads the run's work period.\<close>

definition FindRunByID :: "env \<Rightarrow> string \<Rightarrow> store \<Rightarrow> app_error + (AccrualRun \<times> WorkPeriod)" where
  "FindRunByID E i s = tri (found ErrRecordNotFound
       (first_by ar_ID (\<lambda>r. ar_ID r = i \<and> ar_TenantID r = TenantID E) (AccrualRuns s)))
     (\<lambda>r. Inr (r, preload wp_ID zeroWorkPeriod (ar_WorkPeriodID r) (WorkPeriods s)))"

definition run_of :: "env \<Rightarrow> string \<Rightarrow> AccrualRun \<Rightarrow> bool" where
  "run_of E i r \<longleftrightarrow> ar_ID r = i \<and> ar_TenantID r = TenantID E"

definition UpdateRun :: "env \<Rightarrow> AccrualRun \<Rightarrow> unit app" where
  "UpdateRun E r = updateRuns (run_of E (ar_ID r)) (\<lambda>x. x\<lparr>ar_Status := ar_Status r,
     ar_AccrualDate := ar_AccrualDate r, ar_Notes := ar_Notes r, ar_UpdatedAt := ar_UpdatedAt r\<rparr>)"

definition run_item :: "env \<Rightarrow> string \<Rightarrow> AccrualItem \<Rightarrow> bool" where
  "run_item E r i \<longleftrightarrow> ai_TenantID i = TenantID E \<and> ai_AccrualRunID i = r"

definition ReplaceItemsForRun :: "env \<Rightarrow> AccrualRun \<Rightarrow> AccrualItem list \<Rightarrow> unit app" where
  "ReplaceItemsForRun E r items = transaction
     (bnd (modify (\<lambda>s. s\<lparr>AccrualItems :=
        filter (\<lambda>i. \<not> (run_item E (ar_ID r) i \<and> ai_Status i \<noteq> ''POSTED'')) (AccrualItems s)\<rparr>))
     (\<lambda>_. bnd (if items = [] then ret () else createItems E items)
     (\<lambda>_. updateRuns (run_of E (ar_ID r)) (\<lambda>x. x\<lparr>ar_Status := ar_Status r, ar_UpdatedAt := ar_UpdatedAt r\<rparr>))))"

record AccrualSummaryDTO =
  su_TotalItems :: nat
  su_ReadyItems :: nat
  su_PendingItems :: nat
  su_SkippedItems :: nat
  su_PostedItems :: nat

definition zeroAccrualSummary :: AccrualSummaryDTO where
  "zeroAccrualSummary = \<lparr>su_TotalItems = 0, su_ReadyItems = 0, su_PendingItems = 0,
     su_SkippedItems = 0, su_PostedItems = 0\<rparr>"

text \<open>One row of \<open>GROUP BY accrual_run_id, status\<close>, added to the summary of its run.\<close>

definition add_summary :: "string \<Rightarrow> nat \<Rightarrow> AccrualSummaryDTO \<Rightarrow> AccrualSummaryDTO" where
  "add_summary status n d0 = (let d = d0\<lparr>su_TotalItems := su_TotalItems d0 + n\<rparr> in
     if status = ''READY'' then d\<lparr>su_ReadyItems := su_ReadyItems d + n\<rparr>
     else if status = ''PENDING'' then d\<lparr>su_PendingItems := su_PendingItems d + n\<rparr>
     else if status = ''SKIPPED'' then d\<lparr>su_SkippedItems := su_SkippedItems d + n\<rparr>
     else if status = ''POSTED'' then d\<lparr>su_PostedItems := su_PostedItems d + n\<rparr>
     else d)"

definition summary_rows :: "env \<Rightarrow> string list \<Rightarrow> store \<Rightarrow> ((string \<times> string) \<times> nat) list" where
  "summary_rows E runIDs s = (let
       keys = map (\<lambda>i. (ai_AccrualRunID i, ai_Status i))
         (filter (\<lambda>i. ai_TenantID i = TenantID E \<and> ai_AccrualRunID i \<in> set runIDs) (AccrualItems s))
     in map (\<lambda>k. (k, count_list keys k)) (remdups keys))"

text \<open>The Go map, of which a run that is not a key has the zero summary.\<close>

definition SummariesForRuns :: "env \<Rightarrow> string list \<Rightarrow> store \<Rightarrow> string \<Rightarrow> AccrualSummaryDTO" where
  "SummariesForRuns E runIDs s = (if runIDs = [] then (\<lambda>_. zeroAccrualSummary)
     else foldl (\<lambda>out ((r, status), n). out(r := add_summary status n (out r)))
       (\<lambda>_. zeroAccrualSummary) (summary_rows E runIDs s))"

record AssignmentView =
  av_Assignment :: WorkPeriodAssignment
  av_Collaborator :: CollaboratorJourney
  av_PaymentMethod :: ReferenceData
  av_Person :: Person
  av_Membership :: PersonTenantMembership

definition assignment_view :: "store \<Rightarrow> WorkPeriodAssignment \<Rightarrow> AssignmentView" where
  "assignment_view s a = (let j = preload cj_ID zeroCollaboratorJourney (wa_CollaboratorID a) (Journeys s) in
     \<lparr>av_Assignment = a, av_Collaborator = j,
      av_PaymentMethod = preload rd_ID zeroReferenceData (cj_PaymentMethodID j) (References s),
      av_Person = preload pe_ID zeroPerson (cj_PersonID j) (People s),
      av_Membership = journey_membership s j\<rparr>)"

definition ListAssignmentsForCalculation :: "env \<Rightarrow> string \<Rightarrow> store \<Rightarrow> AssignmentView list" where
  "ListAssignmentsForCalculation E w s = map (assignment_view s)
     (filter (\<lambda>a. wa_TenantID a = TenantID E \<and> wa_WorkPeriodID a = w \<and> wa_Active a \<and>
        wa_PlannedStatus a = ''INCLUDED'') (Assignments s))"

definition FindGoldProduction :: "env \<Rightarrow> string \<Rightarrow> string \<Rightarrow> store \<Rightarrow> app_error + GoldProductionEntry" where
  "FindGoldProduction E w l s = found ErrRecordNotFound
     (first_by ge_ID (\<lambda>g. ge_TenantID g = TenantID E \<and> ge_WorkPeriodID g = w \<and> ge_LocationID g = l \<and>
        ge_Active g) (GoldProduction s))"

definition ListReadyItemsByRun :: "env \<Rightarrow> string \<Rightarrow> store \<Rightarrow> AccrualItem list" where
  "ListReadyItemsByRun E r s =
     sort_key ai_CreatedAt (filter (\<lambda>i. run_item E r i \<and> ai_Status i = ''READY'') (AccrualItems s))"

definition PendingItemCountByRun :: "env \<Rightarrow> string \<Rightarrow> store \<Rightarrow> nat" where
  "PendingItemCountByRun E r s =
     count_where (\<lambda>i. run_item E r i \<and> ai_Status i = ''PENDING'') (AccrualItems s)"

definition itemKey :: "string \<Rightarrow> string \<Rightarrow> string \<Rightarrow> string" where
  "itemKey assignmentID calculationType direction =
     TrimSpace assignmentID @ ''|'' @ ToUpper (TrimSpace calculationType) @ ''|'' @ ToUpper (TrimSpace direction)"

text \<open>The keys that are true in the map of \<open>PostedItemKeysForWorkPeriod\<close>.\<close>

definition PostedItemKeysForWorkPeriod :: "env \<Rightarrow> string \<Rightarrow> store \<Rightarrow> string list" where
  "PostedItemKeysForWorkPeriod E w s = List.map_filter
     (\<lambda>i. map_option (\<lambda>a. itemKey a (ai_CalculationType i) (ai_Direction i)) (ai_WorkPeriodAssignmentID i))
     (filter (\<lambda>i. ai_TenantID i = TenantID E \<and> ai_WorkPeriodID i = w \<and> ai_Status i = ''POSTED'') (AccrualItems s))"

definition posted_row :: "time \<Rightarrow> AccrualItem \<Rightarrow> AccrualItem" where
  "posted_row now i = i\<lparr>ai_Status := ''POSTED'', ai_UpdatedAt := now\<rparr>"

definition PostReadyItems ::
  "env \<Rightarrow> AccrualRun \<Rightarrow> AccrualItem list \<Rightarrow> LedgerEntry list \<Rightarrow> string \<Rightarrow> unit app" where
  "PostReadyItems E r readyItems entries workPeriodStatus = (let ids = map ai_ID readyItems in transaction
     (bnd (if entries = [] then ret () else createLedgerEntriesDoNothing E entries)
     (\<lambda>_. bnd (if ids = [] then ret () else
            updateItems (\<lambda>i. run_item E (ar_ID r) i \<and> ai_ID i \<in> set ids \<and> ai_Status i = ''READY'')
              (posted_row (ar_UpdatedAt r)))
     (\<lambda>_. bnd (updateRuns (run_of E (ar_ID r)) (\<lambda>x. x\<lparr>ar_Status := ar_Status r, ar_UpdatedAt := ar_UpdatedAt r\<rparr>))
     (\<lambda>_. updateWorkPeriods (\<lambda>w. wp_ID w = ar_WorkPeriodID r \<and> wp_TenantID w = TenantID E)
            (\<lambda>w. w\<lparr>wp_Status := workPeriodStatus, wp_UpdatedAt := ar_UpdatedAt r\<rparr>))))))"

text \<open>The lists; \<open>ToItemDTO\<close> takes the name from the preloaded person.\<close>

record normalizedAccrualRunListFilter =
  rf_Status :: string
  rf_Page :: int
  rf_PageSize :: int

record normalizedAccrualItemListFilter =
  if_Status :: string
  if_PendingReason :: string
  if_CollaboratorID :: string
  if_Page :: int
  if_PageSize :: int

definition repoListRunsByWorkPeriod ::
  "env \<Rightarrow> string \<Rightarrow> normalizedAccrualRunListFilter \<Rightarrow> store \<Rightarrow> AccrualRun list \<times> nat" where
  "repoListRunsByWorkPeriod E w f s = (let rows = filter (\<lambda>r. ar_TenantID r = TenantID E \<and>
       ar_WorkPeriodID r = w \<and> matches_unless_empty (rf_Status f) (ar_Status r)) (AccrualRuns s)
     in (page_of (rf_Page f) (rf_PageSize f) (sort_key (\<lambda>r. - ar_CreatedAt r) rows), length rows))"

definition item_person :: "store \<Rightarrow> AccrualItem \<Rightarrow> Person" where
  "item_person s i = preload pe_ID zeroPerson
     (cj_PersonID (preload cj_ID zeroCollaboratorJourney (ai_CollaboratorID i) (Journeys s))) (People s)"

definition repoListItemsByRun ::
  "env \<Rightarrow> string \<Rightarrow> normalizedAccrualItemListFilter \<Rightarrow> store \<Rightarrow> (AccrualItem \<times> Person) list \<times> nat" where
  "repoListItemsByRun E r f s = (let rows = filter (\<lambda>i. run_item E r i \<and>
       matches_unless_empty (if_Status f) (ai_Status i) \<and>
       matches_unless_empty (if_PendingReason f) (ai_PendingReason i) \<and>
       matches_unless_empty (if_CollaboratorID f) (ai_CollaboratorID i)) (AccrualItems s)
     in (map (\<lambda>i. (i, item_person s i)) (page_of (if_Page f) (if_PageSize f)
          (sort_key (\<lambda>i. (ai_Status i, ai_CreatedAt i)) rows)), length rows))"

end
