(* ===== verification/AccrualCalculation.thy ===== *)
theory AccrualCalculation
  imports AccrualStore
begin

text \<open>
  What an accrual run computes for the assignments of its work period
  (\<open>backend/internal/accruals/service_impl.go\<close>, \<open>calculateItems\<close> and what it calls): earnings by
  payment method, skipped and pending outcomes, the gold a substitute receives for a day of sickness
  or time off, and the filter that keeps what was posted from being computed again.
\<close>

section \<open>Assignments\<close>

definition stringValue :: "string option \<Rightarrow> string" where
  "stringValue v = (case v of None \<Rightarrow> [] | Some x \<Rightarrow> x)"

definition assignment_id :: "AssignmentView \<Rightarrow> string" where
  "assignment_id a = wa_ID (av_Assignment a)"

definition actual_status :: "AssignmentView \<Rightarrow> string" where
  "actual_status a = TrimSpace (stringValue (wa_ActualStatus (av_Assignment a)))"

definition replaces :: "AssignmentView \<Rightarrow> string" where
  "replaces a = TrimSpace (stringValue (wa_ReplacementForAssignmentID (av_Assignment a)))"

definition method_code :: "AssignmentView \<Rightarrow> string" where
  "method_code a = ToUpper (TrimSpace (rd_Code (av_PaymentMethod a)))"

definition isGoldCommissionAssignment :: "AssignmentView \<Rightarrow> bool" where
  "isGoldCommissionAssignment a \<longleftrightarrow> method_code a \<in> set [''COMMISSION'', ''GOLD_COMMISSION'']"

text \<open>The two maps of replacements; a later assignment with the same key overwrites an earlier one.\<close>

definition replacementsByOriginal :: "AssignmentView list \<Rightarrow> string \<Rightarrow> AssignmentView list" where
  "replacementsByOriginal as = foldl (\<lambda>out a. if replaces a = [] then out
     else out(replaces a := out (replaces a) @ [a])) (\<lambda>_. []) as"

definition assignments_by_id :: "AssignmentView list \<Rightarrow> string \<Rightarrow> AssignmentView option" where
  "assignments_by_id as = foldl (\<lambda>out a. out(assignment_id a := Some a)) (\<lambda>_. None) as"

definition originalByReplacement :: "AssignmentView list \<Rightarrow> string \<Rightarrow> AssignmentView option" where
  "originalByReplacement as = foldl (\<lambda>out a. if replaces a = [] then out
     else (case assignments_by_id as (replaces a) of None \<Rightarrow> out
        | Some original \<Rightarrow> out(assignment_id a := Some original))) (\<lambda>_. None) as"

section \<open>Items\<close>

definition base_item :: "env \<Rightarrow> AccrualRun \<Rightarrow> AssignmentView \<Rightarrow> string \<Rightarrow> string \<Rightarrow> AccrualItem" where
  "base_item E run a personID i = zeroAccrualItem\<lparr>ai_ID := i, ai_CreatedAt := Now E, ai_UpdatedAt := Now E,
     ai_TenantID := ar_TenantID run, ai_PersonID := personID, ai_AccrualRunID := ar_ID run,
     ai_WorkPeriodID := ar_WorkPeriodID run, ai_WorkPeriodAssignmentID := Some (assignment_id a),
     ai_CollaboratorID := wa_CollaboratorID (av_Assignment a), ai_Direction := ''CREDIT''\<rparr>"

definition pending_item :: "string \<Rightarrow> string \<Rightarrow> string \<Rightarrow> AccrualItem \<Rightarrow> AccrualItem" where
  "pending_item calculationType reason description i = i\<lparr>ai_CalculationType := calculationType,
     ai_Status := ''PENDING'', ai_PendingReason := reason, ai_Description := description\<rparr>"

definition skipped_item :: "string \<Rightarrow> string \<Rightarrow> AccrualItem \<Rightarrow> AccrualItem" where
  "skipped_item calculationType description i = i\<lparr>ai_CalculationType := calculationType,
     ai_Status := ''SKIPPED'', ai_Description := description\<rparr>"

definition pendingPaymentConfig :: "AccrualItem \<Rightarrow> string \<Rightarrow> string \<Rightarrow> AccrualItem" where
  "pendingPaymentConfig i calculationType description =
     pending_item calculationType ''PAYMENT_CONFIGURATION_MISSING'' description i"

definition member_item :: "env \<Rightarrow> AccrualRun \<Rightarrow> AssignmentView \<Rightarrow> string \<Rightarrow> AccrualItem" where
  "member_item E run a i = base_item E run a (pm_PersonID (av_Membership a)) i"

definition pendingReplacementAssignment ::
  "env \<Rightarrow> AssignmentView \<Rightarrow> AccrualRun \<Rightarrow> string \<Rightarrow> string \<Rightarrow> AccrualItem app" where
  "pendingReplacementAssignment E a run calculationType description = bnd (newID E) (\<lambda>i. ret
     (pending_item calculationType ''REPLACEMENT_ASSIGNMENT_MISSING'' description (member_item E run a i)))"

definition pendingGoldProductionForReplacement ::
  "env \<Rightarrow> AssignmentView \<Rightarrow> AccrualRun \<Rightarrow> string \<Rightarrow> string \<Rightarrow> AccrualItem app" where
  "pendingGoldProductionForReplacement E a run calculationType description = bnd (newID E) (\<lambda>i. ret
     (pending_item calculationType ''GOLD_PRODUCTION_MISSING'' description (member_item E run a i)))"

definition replacementGoldItem ::
  "env \<Rightarrow> AssignmentView \<Rightarrow> AccrualRun \<Rightarrow> string \<Rightarrow> string \<Rightarrow> float64 \<Rightarrow> string \<Rightarrow> AccrualItem app" where
  "replacementGoldItem E a run calculationType direction amount description = bnd (newID E) (\<lambda>i. ret
     ((member_item E run a i)\<lparr>ai_CalculationType := calculationType, ai_Direction := direction,
        ai_GoldGramAmount := Some amount, ai_Status := ''READY'', ai_Description := description\<rparr>))"

section \<open>Earnings\<close>

definition valueOrFallback :: "float64 option \<Rightarrow> float64 \<Rightarrow> float64" where
  "valueOrFallback v fallback = (case v of Some x \<Rightarrow> x | None \<Rightarrow> fallback)"

definition commission_percent :: "AssignmentView \<Rightarrow> float64" where
  "commission_percent a = valueOrFallback (cj_GoldCommissionPercent (av_Collaborator a))
     (cj_PaymentValue (av_Collaborator a))"

definition goldCommissionAmount :: "env \<Rightarrow> AccrualRun \<Rightarrow> AssignmentView \<Rightarrow> store \<Rightarrow> app_error + float64" where
  "goldCommissionAmount E run a s = (if commission_percent a \<le> 0 then Inr 0 else
     tri (FindGoldProduction E (ar_WorkPeriodID run) (wa_LocationID (av_Assignment a)) s) (\<lambda>production.
     Inr (fdiv (fmul (ge_GoldGramsProduced production) (commission_percent a)) 100)))"

definition calculatePaymentItem ::
  "env \<Rightarrow> AccrualRun \<Rightarrow> AssignmentView \<Rightarrow> string \<Rightarrow> AccrualItem \<Rightarrow> store \<Rightarrow> app_error + AccrualItem" where
  "calculatePaymentItem E run a actualStatus item s = (let j = av_Collaborator a; code = method_code a in
     if code \<in> set [''DAILY'', ''DAILY_WAGES'', ''DAILY_BRL''] then
       (let amount = valueOrFallback (cj_DailyBRLAmount j) (cj_PaymentValue j) in
        Inr (if amount \<le> 0 then pendingPaymentConfig item ''DAILY_BRL'' ''Daily BRL amount is missing''
          else item\<lparr>ai_CalculationType := ''DAILY_BRL'', ai_BRLAmount := Some amount,
            ai_Status := ''READY'', ai_Description := ''Daily BRL earning for work period''\<rparr>))
     else if code \<in> set [''SALARY'', ''FIXED_BRL''] then
       (let monthly = valueOrFallback (cj_FixedMonthlyBRLAmount j) (cj_PaymentValue j) in
        Inr (if monthly \<le> 0 then pendingPaymentConfig item ''FIXED_BRL_DAILY'' ''Fixed monthly BRL amount is missing''
          else item\<lparr>ai_CalculationType := ''FIXED_BRL_DAILY'', ai_BRLAmount := Some (fdiv monthly 30),
            ai_Status := ''READY'',
            ai_Description := ''Fixed BRL earning prorated at 1/30 per work period''\<rparr>))
     else if code \<in> set [''COMMISSION'', ''GOLD_COMMISSION''] then
       (let percent = commission_percent a in
        if percent \<le> 0 then
          Inr (pendingPaymentConfig item ''GOLD_COMMISSION'' ''Gold commission percent is missing'')
        else case FindGoldProduction E (ar_WorkPeriodID run) (wa_LocationID (av_Assignment a)) s of
          Inl e \<Rightarrow> if e = ErrRecordNotFound then Inr (pending_item ''GOLD_COMMISSION'' ''GOLD_PRODUCTION_MISSING''
              ''Gold production is missing for this work period and location'' item) else Inl e
        | Inr production \<Rightarrow> Inr (item\<lparr>ai_CalculationType := ''GOLD_COMMISSION'',
            ai_GoldGramAmount := Some (fdiv (fmul (ge_GoldGramsProduced production) percent) 100),
            ai_Status := ''READY'',
            ai_Description := (if actualStatus = ''SICK_DAY_OFF'' then ''Full gold commission for sick day off''
              else ''Gold commission earning for work period'')\<rparr>))
     else Inr (pendingPaymentConfig item ''UNKNOWN_PAYMENT_METHOD'' ''Unknown payment method''))"

section \<open>Replacements\<close>

definition both :: "'a app \<Rightarrow> 'a app \<Rightarrow> 'a list app" where
  "both m n = bnd m (\<lambda>x. bnd n (\<lambda>y. ret [x, y]))"

definition calculateSickDayOffReplacementItems ::
  "env \<Rightarrow> AccrualRun \<Rightarrow> AssignmentView \<Rightarrow> AssignmentView list \<Rightarrow> AccrualItem list app" where
  "calculateSickDayOffReplacementItems E run original replacements = (case replacements of
     [] \<Rightarrow> bnd (pendingReplacementAssignment E original run ''SICK_DAY_OFF_REPLACEMENT''
         ''Sick day off replacement assignment is missing'') (\<lambda>i. ret [i])
   | r # rs \<Rightarrow> attempt (query (goldCommissionAmount E run original))
       (\<lambda>_. let amount = valueOrFallback (cj_SickDayOffReplacementGoldGrams (av_Collaborator original)) 1 in both
         (replacementGoldItem E original run ''SICK_DAY_OFF_REPLACEMENT_GOLD_DEBIT'' ''DEBIT'' amount
            ''Sick day off replacement gold paid to substitute'')
         (replacementGoldItem E r run ''SICK_DAY_OFF_REPLACEMENT_GOLD_CREDIT'' ''CREDIT'' amount
            ''Sick day off replacement gold received from replaced collaborator''))
       ErrRecordNotFound (both
         (pendingGoldProductionForReplacement E original run ''SICK_DAY_OFF_REPLACEMENT_GOLD_DEBIT''
            ''Gold production is required before sick day off replacement gold can be debited'')
         (pendingGoldProductionForReplacement E r run ''SICK_DAY_OFF_REPLACEMENT_GOLD_CREDIT''
            ''Gold production is required before sick day off replacement gold can be credited'')))"

text \<open>The two shares of a gold commission on a day of time off.\<close>

definition replacement_share :: "float64 \<Rightarrow> float64 \<Rightarrow> float64" where
  "replacement_share whole percent = fdiv (fmul whole percent) 100"

definition original_share :: "float64 \<Rightarrow> float64 \<Rightarrow> float64" where
  "original_share whole percent = fdiv (fmul whole (fsub 100 percent)) 100"

definition calculateTimeOffItems ::
  "env \<Rightarrow> AccrualRun \<Rightarrow> AssignmentView \<Rightarrow> AssignmentView list \<Rightarrow> AccrualItem \<Rightarrow> AccrualItem list app" where
  "calculateTimeOffItems E run original replacements base =
     (if \<not> isGoldCommissionAssignment original then
        ret [skipped_item ''TIME_OFF'' ''No earning is calculated for TIME_OFF with this payment method'' base]
      else case replacements of
        [] \<Rightarrow> bnd (pendingReplacementAssignment E original run ''TIME_OFF_REPLACEMENT''
            ''Time off replacement assignment is missing'') (\<lambda>i. ret [i])
      | r # rs \<Rightarrow> attempt (query (goldCommissionAmount E run original))
          (\<lambda>whole. let percent = valueOrFallback (cj_TimeOffGoldSplitPercent (av_Collaborator original)) 50 in both
            (replacementGoldItem E original run ''TIME_OFF_GOLD_COMMISSION_RETAINED'' ''CREDIT''
               (original_share whole percent) ''Time off retained gold commission'')
            (replacementGoldItem E r run ''TIME_OFF_REPLACEMENT_GOLD_CREDIT'' ''CREDIT''
               (replacement_share whole percent) ''Time off replacement gold split''))
          ErrRecordNotFound (both
            (pendingGoldProductionForReplacement E original run ''TIME_OFF_GOLD_COMMISSION_RETAINED''
               ''Gold production is missing for this work period and location'')
            (pendingGoldProductionForReplacement E r run ''TIME_OFF_REPLACEMENT_GOLD_CREDIT''
               ''Gold production is missing for this work period and location'')))"

section \<open>The items of a run\<close>

text \<open>What the loop body of \<open>calculateItems\<close> adds for one assignment, before the posted ones are left out.\<close>

definition calculateAssignment ::
  "env \<Rightarrow> AccrualRun \<Rightarrow> (string \<Rightarrow> AssignmentView list) \<Rightarrow> (string \<Rightarrow> AssignmentView option) \<Rightarrow>
   AssignmentView \<Rightarrow> AccrualItem list app" where
  "calculateAssignment E run replacements original a = (let
       personID = TrimSpace (pm_PersonID (av_Membership a)); status = actual_status a in
     bnd (ensure (personID \<noteq> []) ErrAssignmentMembershipMissing)
     (\<lambda>_. bnd (newID E)
     (\<lambda>i. let base = base_item E run a personID i in
        if status = [] then
          ret [pending_item ''ACTUAL_OUTCOME'' ''ACTUAL_OUTCOME_MISSING'' ''Actual outcome has not been marked'' base]
        else if status \<in> set [''ABSENT'', ''CANCELLED'', ''REPLACED''] then
          ret [skipped_item status (''No earning is calculated for actual status '' @ status) base]
        else if (case original (assignment_id a) of None \<Rightarrow> False | Some o' \<Rightarrow> actual_status o' = ''TIME_OFF'') then
          ret []
        else if status = ''TIME_OFF'' then
          calculateTimeOffItems E run a (replacements (assignment_id a)) base
        else bnd (query (calculatePaymentItem E run a status base))
          (\<lambda>item. if status = ''SICK_DAY_OFF'' \<and> isGoldCommissionAssignment a then
             bnd (calculateSickDayOffReplacementItems E run a (replacements (assignment_id a)))
             (\<lambda>items. ret (item # items))
           else ret [item]))))"

definition is_posted :: "string list \<Rightarrow> AccrualItem \<Rightarrow> bool" where
  "is_posted postedKeys i \<longleftrightarrow> (case ai_WorkPeriodAssignmentID i of None \<Rightarrow> False
     | Some a \<Rightarrow> itemKey a (ai_CalculationType i) (ai_Direction i) \<in> set postedKeys)"

definition appendIfNotPosted :: "AccrualItem list \<Rightarrow> AccrualItem \<Rightarrow> string list \<Rightarrow> AccrualItem list" where
  "appendIfNotPosted items i postedKeys = (if is_posted postedKeys i then items else items @ [i])"

definition appendAllIfNotPosted :: "AccrualItem list \<Rightarrow> AccrualItem list \<Rightarrow> string list \<Rightarrow> AccrualItem list" where
  "appendAllIfNotPosted items additions postedKeys =
     foldl (\<lambda>xs i. appendIfNotPosted xs i postedKeys) items additions"

fun calculateFrom ::
  "env \<Rightarrow> AccrualRun \<Rightarrow> (string \<Rightarrow> AssignmentView list) \<Rightarrow> (string \<Rightarrow> AssignmentView option) \<Rightarrow> string list \<Rightarrow>
   AssignmentView list \<Rightarrow> AccrualItem list \<Rightarrow> AccrualItem list app" where
  "calculateFrom E run reps orig postedKeys [] items = ret items"
| "calculateFrom E run reps orig postedKeys (a # as) items = bnd (calculateAssignment E run reps orig a)
     (\<lambda>additions. calculateFrom E run reps orig postedKeys as (appendAllIfNotPosted items additions postedKeys))"

definition calculateItems :: "env \<Rightarrow> AccrualRun \<Rightarrow> AccrualItem list app" where
  "calculateItems E run =
     bnd (query (\<lambda>s. Inr (ListAssignmentsForCalculation E (ar_WorkPeriodID run) s)))
     (\<lambda>as. bnd (query (\<lambda>s. Inr (PostedItemKeysForWorkPeriod E (ar_WorkPeriodID run) s)))
     (\<lambda>postedKeys. calculateFrom E run (replacementsByOriginal as) (originalByReplacement as) postedKeys as []))"

definition statusForItems :: "AccrualItem list \<Rightarrow> string" where
  "statusForItems items = (if list_ex (\<lambda>i. ai_Status i = ''PENDING'') items then ''PENDING_INPUT''
     else if list_ex (\<lambda>i. ai_Status i = ''READY'') items then ''READY_TO_POST'' else ''DRAFT'')"

end
