(* ===== verification/Accruals.thy ===== *)
theory Accruals
  imports AccrualCalculation
begin

text \<open>
  The accrual service (\<open>service_impl.go\<close>, \<open>validation.go\<close>, \<open>dto.go\<close>, \<open>mapper.go\<close> of
  \<open>backend/internal/accruals\<close>): a run is created and calculated for a work period, recalculated while
  it is neither posted nor voided, and posted, which writes a ledger entry for every positive amount of
  its ready items.
\<close>

section \<open>Requests and results\<close>

record CreateAccrualRunRequest =
  rq_AccrualDate :: string
  rq_Notes :: string

record AccrualRunListFilter =
  rl_Status :: string
  rl_Page :: int
  rl_PageSize :: int

record AccrualItemListFilter =
  il_Status :: string
  il_PendingReason :: string
  il_CollaboratorID :: string
  il_Page :: int
  il_PageSize :: int

record AccrualRunDTO =
  rt_ID :: string
  rt_TenantID :: string
  rt_WorkPeriodID :: string
  rt_Status :: string
  rt_AccrualDate :: string
  rt_Notes :: string
  rt_Summary :: AccrualSummaryDTO
  rt_CreatedAt :: string
  rt_UpdatedAt :: string

record AccrualItemDTO =
  it_ID :: string
  it_TenantID :: string
  it_PersonID :: string
  it_AccrualRunID :: string
  it_WorkPeriodID :: string
  it_WorkPeriodAssignmentID :: string
  it_CollaboratorID :: string
  it_CollaboratorName :: string
  it_CalculationType :: string
  it_Direction :: string
  it_BRLAmount :: "float64 option"
  it_GoldGramAmount :: "float64 option"
  it_Status :: string
  it_PendingReason :: string
  it_Description :: string
  it_CreatedAt :: string
  it_UpdatedAt :: string

definition formatTime :: "time \<Rightarrow> string" where
  "formatTime t = (if t = 0 then [] else formatRFC3339 t)"

definition collaboratorName :: "Person \<Rightarrow> string" where
  "collaboratorName p = TrimSpace (pe_FirstName p @ '' '' @ pe_LastName p)"

definition ToRunDTO :: "AccrualRun \<Rightarrow> AccrualSummaryDTO \<Rightarrow> AccrualRunDTO" where
  "ToRunDTO r summary = \<lparr>rt_ID = ar_ID r, rt_TenantID = ar_TenantID r,
     rt_WorkPeriodID = ar_WorkPeriodID r, rt_Status = ar_Status r,
     rt_AccrualDate = formatDate (ar_AccrualDate r), rt_Notes = ar_Notes r, rt_Summary = summary,
     rt_CreatedAt = formatTime (ar_CreatedAt r), rt_UpdatedAt = formatTime (ar_UpdatedAt r)\<rparr>"

definition ToItemDTO :: "AccrualItem \<Rightarrow> Person \<Rightarrow> AccrualItemDTO" where
  "ToItemDTO i p = \<lparr>it_ID = ai_ID i, it_TenantID = ai_TenantID i, it_PersonID = ai_PersonID i,
     it_AccrualRunID = ai_AccrualRunID i, it_WorkPeriodID = ai_WorkPeriodID i,
     it_WorkPeriodAssignmentID = stringValue (ai_WorkPeriodAssignmentID i),
     it_CollaboratorID = ai_CollaboratorID i, it_CollaboratorName = collaboratorName p,
     it_CalculationType = ai_CalculationType i, it_Direction = ai_Direction i,
     it_BRLAmount = ai_BRLAmount i, it_GoldGramAmount = ai_GoldGramAmount i, it_Status = ai_Status i,
     it_PendingReason = ai_PendingReason i, it_Description = ai_Description i,
     it_CreatedAt = formatTime (ai_CreatedAt i), it_UpdatedAt = formatTime (ai_UpdatedAt i)\<rparr>"

section \<open>Validation\<close>

definition ValidateCreateAccrualRun :: "CreateAccrualRunRequest \<Rightarrow> app_error + unit" where
  "ValidateCreateAccrualRun req = validated
     (check (invalid_date (rq_AccrualDate req)) ''accrualDate'' ''Accrual date must be YYYY-MM-DD'' [])"

definition isKnownRunStatus :: "string \<Rightarrow> bool" where
  "isKnownRunStatus v \<longleftrightarrow> v \<in> set [''DRAFT'', ''PENDING_INPUT'', ''READY_TO_POST'', ''POSTED'', ''VOIDED'']"

definition isKnownItemStatus :: "string \<Rightarrow> bool" where
  "isKnownItemStatus v \<longleftrightarrow> v \<in> set [''PENDING'', ''READY'', ''POSTED'', ''SKIPPED'']"

definition validate_page :: "int \<Rightarrow> int \<Rightarrow> validation_fields \<Rightarrow> validation_fields" where
  "validate_page page pageSize fs =
     check (pageSize < 0) ''pageSize'' ''Page size must be greater than zero''
     (check (page < 0) ''page'' ''Page must be greater than zero'' fs)"

definition ValidateRunListFilter :: "AccrualRunListFilter \<Rightarrow> app_error + unit" where
  "ValidateRunListFilter f = validated (validate_page (rl_Page f) (rl_PageSize f)
     (check (TrimSpace (rl_Status f) \<noteq> [] \<and> \<not> isKnownRunStatus (ToUpper (TrimSpace (rl_Status f))))
        ''status'' ''Unknown accrual run status'' []))"

definition ValidateItemListFilter :: "AccrualItemListFilter \<Rightarrow> app_error + unit" where
  "ValidateItemListFilter f = validated (validate_page (il_Page f) (il_PageSize f)
     (check (TrimSpace (il_Status f) \<noteq> [] \<and> \<not> isKnownItemStatus (ToUpper (TrimSpace (il_Status f))))
        ''status'' ''Unknown accrual item status'' []))"

definition normalizeRunListFilter :: "AccrualRunListFilter \<Rightarrow> app_error + normalizedAccrualRunListFilter" where
  "normalizeRunListFilter f = tri (ValidateRunListFilter f) (\<lambda>_. Inr \<lparr>
     rf_Status = ToUpper (TrimSpace (rl_Status f)), rf_Page = normalizedPage (rl_Page f),
     rf_PageSize = normalizedPageSize (rl_PageSize f)\<rparr>)"

definition normalizeItemListFilter :: "AccrualItemListFilter \<Rightarrow> app_error + normalizedAccrualItemListFilter" where
  "normalizeItemListFilter f = tri (ValidateItemListFilter f) (\<lambda>_. Inr \<lparr>
     if_Status = ToUpper (TrimSpace (il_Status f)),
     if_PendingReason = ToUpper (TrimSpace (il_PendingReason f)),
     if_CollaboratorID = TrimSpace (il_CollaboratorID f), if_Page = normalizedPage (il_Page f),
     if_PageSize = normalizedPageSize (il_PageSize f)\<rparr>)"

section \<open>Reads\<close>

definition GetRunByID :: "env \<Rightarrow> string \<Rightarrow> store \<Rightarrow> app_error + AccrualRunDTO" where
  "GetRunByID E i s = tri (FindRunByID E (TrimSpace i) s) (\<lambda>(run, _).
     Inr (ToRunDTO run (SummariesForRuns E [ar_ID run] s (ar_ID run))))"

definition ListRunsByWorkPeriod ::
  "env \<Rightarrow> string \<Rightarrow> AccrualRunListFilter \<Rightarrow> store \<Rightarrow> app_error + AccrualRunDTO list_result" where
  "ListRunsByWorkPeriod E w f s =
     tri (FindWorkPeriodByID E (TrimSpace w) s) (\<lambda>_.
     tri (normalizeRunListFilter f) (\<lambda>n. let (rows, t) = repoListRunsByWorkPeriod E (TrimSpace w) n s in
     Inr \<lparr>li_Items = map (\<lambda>r. ToRunDTO r (SummariesForRuns E (map ar_ID rows) s (ar_ID r))) rows,
       li_Total = t, li_Page = rf_Page n, li_PageSize = rf_PageSize n\<rparr>))"

definition ListItemsByRun ::
  "env \<Rightarrow> string \<Rightarrow> AccrualItemListFilter \<Rightarrow> store \<Rightarrow> app_error + AccrualItemDTO list_result" where
  "ListItemsByRun E r f s =
     tri (FindRunByID E (TrimSpace r) s) (\<lambda>_.
     tri (normalizeItemListFilter f) (\<lambda>n. let (rows, t) = repoListItemsByRun E (TrimSpace r) n s in
     Inr \<lparr>li_Items = map (\<lambda>(i, p). ToItemDTO i p) rows, li_Total = t, li_Page = if_Page n,
       li_PageSize = if_PageSize n\<rparr>))"

section \<open>Calculation\<close>

definition RecalculateRun :: "env \<Rightarrow> string \<Rightarrow> AccrualRunDTO app" where
  "RecalculateRun E i =
     bnd (query (FindRunByID E (TrimSpace i)))
     (\<lambda>(run, workPeriod). bnd (ensure (ar_Status run \<noteq> ''POSTED'' \<and> ar_Status run \<noteq> ''VOIDED'')
        (ValidationError [(''status'', ''Posted or voided accrual runs cannot be recalculated'')]))
     (\<lambda>_. bnd (ensure (wp_Status workPeriod \<noteq> ''CLOSED'')
        (ValidationError [(''workPeriodId'', ''Closed work periods cannot be accrued'')]))
     (\<lambda>_. bnd (calculateItems E run)
     (\<lambda>items. bnd (ReplaceItemsForRun E
          (run\<lparr>ar_Status := statusForItems items, ar_UpdatedAt := Now E\<rparr>) items)
     (\<lambda>_. query (GetRunByID E (ar_ID run)))))))"

definition CreateRun :: "env \<Rightarrow> string \<Rightarrow> CreateAccrualRunRequest \<Rightarrow> AccrualRunDTO app" where
  "CreateRun E w req =
     bnd (lift (ValidateCreateAccrualRun req))
     (\<lambda>_. bnd (query (FindWorkPeriodByID E (TrimSpace w)))
     (\<lambda>workPeriod. bnd (ensure (wp_Status workPeriod \<noteq> ''CLOSED'')
        (ValidationError [(''workPeriodId'', ''Closed work periods cannot be accrued'')]))
     (\<lambda>_. bnd (newID E)
     (\<lambda>i. bnd (repoCreateRun E \<lparr>ar_ID = i, ar_CreatedAt = Now E, ar_UpdatedAt = Now E,
          ar_TenantID = wp_TenantID workPeriod, ar_WorkPeriodID = wp_ID workPeriod, ar_Status = ''DRAFT'',
          ar_AccrualDate = (if TrimSpace (rq_AccrualDate req) \<noteq> [] then dateOf (rq_AccrualDate req)
             else wp_WorkDate workPeriod),
          ar_Notes = TrimSpace (rq_Notes req)\<rparr>)
     (\<lambda>_. RecalculateRun E i)))))"

section \<open>Posting\<close>

definition ledgerEntryTypeForAccrualItem :: "AccrualItem \<Rightarrow> string" where
  "ledgerEntryTypeForAccrualItem i = (if Contains (ToUpper (TrimSpace (ai_CalculationType i))) ''REPLACEMENT''
     then ''REPLACEMENT_TRANSFER'' else ''EARNING_CREDIT'')"

definition ledgerSourceForAccrualItem :: "AccrualItem \<Rightarrow> string \<Rightarrow> string \<times> string" where
  "ledgerSourceForAccrualItem i entryType =
     (if entryType = ''EARNING_CREDIT'' \<and> TrimSpace (stringValue (ai_WorkPeriodAssignmentID i)) \<noteq> []
      then (''WORK_PERIOD_ASSIGNMENT'', TrimSpace (stringValue (ai_WorkPeriodAssignmentID i)))
      else (''ACCRUAL_ITEM'', ai_ID i))"

definition accrualLedgerEntry ::
  "env \<Rightarrow> AccrualItem \<Rightarrow> ReferenceData \<Rightarrow> string \<Rightarrow> float64 \<Rightarrow> time \<Rightarrow> string \<Rightarrow> LedgerEntry" where
  "accrualLedgerEntry E i valueUnit direction amount effectiveDate suffix = (let
       entryType = ledgerEntryTypeForAccrualItem i;
       (sourceType, sourceID) = ledgerSourceForAccrualItem i entryType;
       entryID = (if sourceType = ''WORK_PERIOD_ASSIGNMENT''
         then ''ledger-work-period-assignment-'' @ suffix @ ''-'' @ ToLower (TrimSpace direction) @ ''-'' @ sourceID
         else ''ledger-accrual-'' @ suffix @ ''-'' @ ai_ID i)
     in zeroLedgerEntry\<lparr>le_ID := entryID, le_CreatedAt := Now E, le_UpdatedAt := Now E,
         le_TenantID := ai_TenantID i, le_PersonID := ai_PersonID i, le_CollaboratorID := ai_CollaboratorID i,
         le_ValueUnitID := rd_ID valueUnit, le_EntryType := entryType, le_Direction := direction,
         le_Amount := amount, le_EffectiveDate := effectiveDate, le_SourceType := sourceType,
         le_SourceID := sourceID, le_Description := ai_Description i, le_Active := True,
         le_CorrectionType := ''ORIGINAL''\<rparr>)"

definition item_direction :: "AccrualItem \<Rightarrow> string" where
  "item_direction i = or_default (TrimSpace (ai_Direction i)) ''CREDIT''"

definition positive :: "float64 option \<Rightarrow> float64 option" where
  "positive v = (case v of Some x \<Rightarrow> if 0 < x then Some x else None | None \<Rightarrow> None)"

definition item_entries :: "env \<Rightarrow> AccrualRun \<Rightarrow> ReferenceData \<Rightarrow> ReferenceData \<Rightarrow> AccrualItem \<Rightarrow> LedgerEntry list" where
  "item_entries E run brl gold i =
     (case positive (ai_BRLAmount i) of None \<Rightarrow> []
      | Some x \<Rightarrow> [accrualLedgerEntry E i brl (item_direction i) x (ar_AccrualDate run) ''brl'']) @
     (case positive (ai_GoldGramAmount i) of None \<Rightarrow> []
      | Some x \<Rightarrow> [accrualLedgerEntry E i gold (item_direction i) x (ar_AccrualDate run) ''gold''])"

definition ledgerEntriesForReadyItems ::
  "env \<Rightarrow> AccrualRun \<Rightarrow> AccrualItem list \<Rightarrow> store \<Rightarrow> app_error + LedgerEntry list" where
  "ledgerEntriesForReadyItems E run items s =
     tri (FindValueUnitByCode E ''BRL'' s) (\<lambda>brl.
     tri (FindValueUnitByCode E ''GOLD_GRAM'' s) (\<lambda>gold.
     Inr (concat (map (item_entries E run brl gold) items))))"

definition PostRun :: "env \<Rightarrow> string \<Rightarrow> AccrualRunDTO app" where
  "PostRun E i =
     bnd (query (FindRunByID E (TrimSpace i)))
     (\<lambda>(run, workPeriod). if ar_Status run = ''POSTED'' then query (GetRunByID E (ar_ID run)) else
       bnd (ensure (ar_Status run \<noteq> ''VOIDED'')
          (ValidationError [(''status'', ''Voided accrual runs cannot be posted'')]))
       (\<lambda>_. bnd (ensure (wp_Status workPeriod \<noteq> ''CLOSED'')
          (ValidationError [(''workPeriodId'', ''Closed work periods cannot be posted'')]))
       (\<lambda>_. bnd (query (\<lambda>s. Inr (ListReadyItemsByRun E (ar_ID run) s)))
       (\<lambda>readyItems. bnd (ensure (readyItems \<noteq> [])
          (ValidationError [(''status'', ''No READY accrual items are available to post'')]))
       (\<lambda>_. bnd (query (ledgerEntriesForReadyItems E run readyItems))
       (\<lambda>entries. bnd (ensure (entries \<noteq> [])
          (ValidationError [(''items'', ''READY accrual items do not contain positive BRL or gold amounts'')]))
       (\<lambda>_. bnd (query (\<lambda>s. Inr (PendingItemCountByRun E (ar_ID run) s)))
       (\<lambda>pendingCount. bnd (PostReadyItems E (run\<lparr>ar_Status := ''POSTED'', ar_UpdatedAt := Now E\<rparr>)
            readyItems entries (if 0 < pendingCount then ''PARTIALLY_POSTED'' else ''FULLY_POSTED''))
       (\<lambda>_. query (GetRunByID E (ar_ID run)))))))))))"

end
