(* ===== verification/AccrualEffects.thy ===== *)
theory AccrualEffects
  imports Accruals Corrections
begin

text \<open>
  What the accrual operations do to the store: they write rows of their tenant only, the ledger grows
  by what a posted run owes and never otherwise, a recalculation replaces what was not posted, and a
  posted run stays as it is.
\<close>

section \<open>Tables beside the ledger\<close>

text \<open>
  A table whose writes leave the ledger, its receipts, the settlements and the journeys alone: a write
  that leaves the rows of other tenants in place keeps the accounting relation.
\<close>

locale aside_table =
  fixes rows :: "store \<Rightarrow> 'r list" and put :: "('r list \<Rightarrow> 'r list) \<Rightarrow> store \<Rightarrow> store"
    and tenant :: "'r \<Rightarrow> string"
  assumes rows_put: "rows (put f s) = f (rows s)"
    and aside: "filter (\<lambda>r. tenant r \<noteq> T) (f (rows s)) = filter (\<lambda>r. tenant r \<noteq> T) (rows s) \<Longrightarrow>
      accounting T s (put f s)"
begin

lemma guarded_update_run:
  "guarded_update rows put guards P f s =
    (case abort_if (concat (map (\<lambda>r. guards s r (f r)) (filter P (rows s)))) of
       Inl e \<Rightarrow> (Inl e, s) | Inr u \<Rightarrow> (Inr (), put (update_where P f) s))"
  by (simp add: guarded_update_def run_simps split: sum.split)

lemma guarded_update_ok:
  "guarded_update rows put guards P f s = (Inr u, t) \<Longrightarrow>
   t = put (update_where P f) s \<and> rows t = update_where P f (rows s)"
  by (auto simp: guarded_update_run rows_put split: sum.splits)

lemma keeps_guarded_update:
  assumes "\<And>r. P r \<Longrightarrow> tenant r = T" and "\<And>r. tenant (f r) = tenant r"
  shows "keeps (accounting T) (guarded_update rows put guards P f)"
  using assms acc.R_refl
  by (auto simp: keeps_def guarded_update_run filter_update_where_tenant split: sum.split intro!: aside)

lemma accounting_insert: "tenant r = T \<Longrightarrow> accounting T s (put (\<lambda>_. rows s @ [r]) s)"
  by (rule aside) simp

lemma accounting_delete: "(\<And>r. P r \<Longrightarrow> tenant r = T) \<Longrightarrow> accounting T s (put (\<lambda>_. filter (\<lambda>r. \<not> P r) (rows s)) s)"
  by (rule aside) (auto intro: filter_cong simp: conj_commute)

end

interpretation runs: aside_table AccrualRuns AccrualRuns_update ar_TenantID
  by unfold_locales (simp, rule accounting_aside, simp_all add: other_tenants_kept_def)

interpretation items: aside_table AccrualItems AccrualItems_update ai_TenantID
  by unfold_locales (simp, rule accounting_aside, simp_all add: other_tenants_kept_def)

text \<open>An update of work periods moves each along its life.\<close>

lemma updateWorkPeriods_run: "updateWorkPeriods P f s =
    (case abort_if (concat (map (\<lambda>w. work_period_update_guards w (f w)) (filter P (WorkPeriods s)))) of
       Inl e \<Rightarrow> (Inl e, s) | Inr u \<Rightarrow> (Inr (), s\<lparr>WorkPeriods := update_where P f (WorkPeriods s)\<rparr>))"
  by (simp add: updateWorkPeriods_def guarded_update_def run_simps split: sum.split)

lemma updateWorkPeriods_ok:
  "updateWorkPeriods P f s = (Inr u, t) \<Longrightarrow>
   t = s\<lparr>WorkPeriods := update_where P f (WorkPeriods s)\<rparr> \<and> WorkPeriods t = update_where P f (WorkPeriods s)"
  by (auto simp: updateWorkPeriods_run split: sum.splits)

lemma list_ex_same: "(\<And>x. x \<in> set xs \<Longrightarrow> Q (h x) = Q x) \<Longrightarrow> list_ex Q (map h xs) = list_ex Q xs"
  by (auto simp: list_ex_iff)

lemma accounting_update_periods:
  assumes ten: "\<And>w. P w \<Longrightarrow> wp_TenantID w = T \<and> wp_TenantID (f w) = T"
    and step: "\<And>w. planning_ok s \<Longrightarrow> w \<in> set (WorkPeriods s) \<Longrightarrow> P w \<Longrightarrow> period_follows w (f w)"
  shows "accounting T s (s\<lparr>WorkPeriods := update_where P f (WorkPeriods s)\<rparr>)"
proof (rule accounting_aside)
  let ?g = "\<lambda>w. if P w then f w else w"
  let ?t = "s\<lparr>WorkPeriods := update_where P f (WorkPeriods s)\<rparr>"
  show "planning_ok ?t \<and> periods_follow (WorkPeriods s) (WorkPeriods ?t)" if ok: "planning_ok s"
  proof -
    have same: "wp_ID (?g w) = wp_ID w" "period_key (?g w) = period_key w" "wp_TenantID (?g w) = wp_TenantID w"
      "wp_StartsAt (?g w) = wp_StartsAt w" "wp_EndsAt (?g w) = wp_EndsAt w" "wp_WorkDate (?g w) = wp_WorkDate w"
      if "w \<in> set (WorkPeriods s)" for w
      using step [OF ok that] by (simp_all add: period_follows_def period_key_def)
    have "gold_dated ?t g = gold_dated s g" for g
      by (simp add: gold_dated_def update_where_def, rule list_ex_same) (simp add: same)
    then have "planning_ok ?t"
      using ok same by (simp add: planning_ok_def update_where_def list.pred_map comp_def cong: map_cong list.pred_cong)
    then show ?thesis using step [OF ok] by (simp add: periods_follow_update)
  qed
  show "other_tenants_kept T s ?t"
    using ten by (simp add: other_tenants_kept_def filter_update_where_tenant)
qed simp_all

lemma keeps_updateWorkPeriods:
  assumes "\<And>w. P w \<Longrightarrow> wp_TenantID w = T \<and> period_follows w (f w)"
  shows "keeps (accounting T) (updateWorkPeriods P f)"
  unfolding keeps_def updateWorkPeriods_run
  using assms acc.R_refl by (auto simp: period_follows_def split: sum.split intro!: accounting_update_periods)

lemmas update_ok = runs.guarded_update_ok [of run_update_guards, folded updateRuns_def]
  items.guarded_update_ok [of item_update_guards, folded updateItems_def]
  updateWorkPeriods_ok

lemmas keeps_update = runs.keeps_guarded_update [of _ _ _ run_update_guards, folded updateRuns_def]
  items.keeps_guarded_update [of _ _ _ item_update_guards, folded updateItems_def]
  keeps_updateWorkPeriods

section \<open>Kept relations\<close>

lemma keeps_insertItem:
  assumes "ai_TenantID i = T"
  shows "keeps (accounting T) (insertItem i)"
  using items.accounting_insert [OF assms] acc.R_refl
  by (auto simp: keeps_def insertItem_def run_simps split: sum.split)

lemma keeps_createItems:
  assumes "\<And>i. i \<in> set xs \<Longrightarrow> ai_TenantID i = T" and "T \<noteq> []"
  shows "keeps (accounting T) (createItems E xs)"
  unfolding createItems_def using assms
  by (intro acc.keeps_transaction keeps_keeps_ok [OF acc.keeps_for_each] keeps_insertItem)
    (auto simp: with_item_defaults_def)

lemma keeps_repoCreateRun:
  assumes "ar_TenantID r = T" and "T \<noteq> []"
  shows "keeps (accounting T) (repoCreateRun E r)"
proof -
  have "ar_TenantID (with_run_defaults E r) = T" using assms by (simp add: with_run_defaults_def)
  then show ?thesis
    using runs.accounting_insert acc.R_refl
    by (auto simp: keeps_def repoCreateRun_def Let_def run_simps split: sum.split)
qed

lemma keeps_ReplaceItemsForRun:
  assumes "\<And>i. i \<in> set xs \<Longrightarrow> ai_TenantID i = TenantID E"
  shows "keeps (accounting (TenantID E)) (ReplaceItemsForRun E r xs)"
proof -
  have "keeps (accounting (TenantID E)) (modify (\<lambda>s. s\<lparr>AccrualItems :=
      filter (\<lambda>i. \<not> (run_item E (ar_ID r) i \<and> ai_Status i \<noteq> ''POSTED'')) (AccrualItems s)\<rparr>))"
    using items.accounting_delete [of "\<lambda>i. run_item E (ar_ID r) i \<and> ai_Status i \<noteq> ''POSTED''" "TenantID E"]
    by (simp add: keeps_def run_item_def)
  then show ?thesis
    unfolding ReplaceItemsForRun_def using assms
    by (intro acc.keeps_transaction keeps_keeps_ok [OF acc.keeps_bnd] acc.keeps_intros keeps_createItems
        keeps_update) (auto simp: run_of_def)
qed

lemma keeps_PostReadyItems:
  assumes "\<And>e. e \<in> set es \<Longrightarrow> le_TenantID e = TenantID E"
    and "status = ''PARTIALLY_POSTED'' \<or> status = ''FULLY_POSTED''"
  shows "keeps (accounting (TenantID E)) (PostReadyItems E r xs es status)"
  unfolding PostReadyItems_def Let_def using assms
  by (intro acc.keeps_transaction acc.keeps_ok_intros keeps_ok_createLedgerEntriesDoNothing
      keeps_keeps_ok [OF keeps_update(1)] keeps_keeps_ok [OF keeps_update(2)] keeps_keeps_ok [OF keeps_update(3)])
    (auto simp: run_of_def run_item_def posted_row_def period_follows_def intro: period_step.intros)

section \<open>Calculated items\<close>

text \<open>
  An item of a run: made now, of its tenant and work period, for an assignment; ready with one amount, pending
  with a reason, or skipped.
\<close>

definition item_wf :: "env \<Rightarrow> AccrualRun \<Rightarrow> AccrualItem \<Rightarrow> bool" where
  "item_wf E run i \<longleftrightarrow> ai_CreatedAt i = Now E \<and> ai_UpdatedAt i = Now E \<and> ai_TenantID i = ar_TenantID run \<and> ai_AccrualRunID i = ar_ID run \<and>
     ai_WorkPeriodID i = ar_WorkPeriodID run \<and> ai_WorkPeriodAssignmentID i \<noteq> None \<and>
     ai_Direction i \<in> {''CREDIT'', ''DEBIT''} \<and>
     (ai_Status i = ''READY'' \<and> ai_PendingReason i = [] \<and> (ai_BRLAmount i = None) \<noteq> (ai_GoldGramAmount i = None) \<or>
      ai_Status i = ''PENDING'' \<and> ai_PendingReason i \<noteq> [] \<and> ai_BRLAmount i = None \<and> ai_GoldGramAmount i = None \<or>
      ai_Status i = ''SKIPPED'' \<and> ai_PendingReason i = [] \<and> ai_BRLAmount i = None \<and> ai_GoldGramAmount i = None)"

lemma base_item_simps [simp]:
  "ai_ID (base_item E run a p i) = i" "ai_TenantID (base_item E run a p i) = ar_TenantID run"
  "ai_PersonID (base_item E run a p i) = p" "ai_AccrualRunID (base_item E run a p i) = ar_ID run"
  "ai_WorkPeriodID (base_item E run a p i) = ar_WorkPeriodID run"
  "ai_WorkPeriodAssignmentID (base_item E run a p i) = Some (assignment_id a)"
  "ai_CollaboratorID (base_item E run a p i) = wa_CollaboratorID (av_Assignment a)"
  "ai_Direction (base_item E run a p i) = ''CREDIT''" "ai_PendingReason (base_item E run a p i) = []"
  "ai_BRLAmount (base_item E run a p i) = None" "ai_GoldGramAmount (base_item E run a p i) = None"
  "ai_CreatedAt (base_item E run a p i) = Now E" "ai_UpdatedAt (base_item E run a p i) = Now E"
  by (simp_all add: base_item_def zeroAccrualItem_def)

lemma both_ok: "both m n s = (Inr xs, t) \<longleftrightarrow>
    (\<exists>x u y. m s = (Inr x, u) \<and> n u = (Inr y, t) \<and> xs = [x, y])"
  by (auto simp: both_def run_ok)

lemmas item_ops = pendingReplacementAssignment_def pendingGoldProductionForReplacement_def replacementGoldItem_def
  pending_item_def skipped_item_def pendingPaymentConfig_def member_item_def

lemma payment_item_wf:
  "calculatePaymentItem E run a status (base_item E run a p i) s = Inr x \<Longrightarrow> item_wf E run x"
  unfolding calculatePaymentItem_def Let_def
  by (simp only: item_ops split: if_split_asm sum.split_asm; simp only: sum.inject sum.distinct;
      hypsubst?; simp add: item_wf_def)

lemma sick_day_wf:
  "calculateSickDayOffReplacementItems E run a reps s = (Inr xs, t) \<Longrightarrow> list_all (item_wf E run) xs"
  by (cases reps) (auto simp: calculateSickDayOffReplacementItems_def Let_def item_ops item_wf_def run_ok both_ok)

lemma time_off_wf:
  "calculateTimeOffItems E run a reps (base_item E run a p i) s = (Inr xs, t) \<Longrightarrow> list_all (item_wf E run) xs"
  by (cases reps) (auto simp: calculateTimeOffItems_def Let_def item_ops item_wf_def run_ok both_ok split: if_split_asm)

lemma assignment_items_wf:
  "calculateAssignment E run reps orig a s = (Inr xs, t) \<Longrightarrow> list_all (item_wf E run) xs"
  by (auto simp: calculateAssignment_def Let_def run_ok item_ops split: if_split_asm
      dest: payment_item_wf sick_day_wf time_off_wf) (simp_all add: item_wf_def)

lemma appendAll_filter:
  "appendAllIfNotPosted items additions keys = items @ filter (\<lambda>i. \<not> is_posted keys i) additions"
  unfolding appendAllIfNotPosted_def
  by (induction additions arbitrary: items) (auto simp: appendIfNotPosted_def)

lemma calculateFrom_ok:
  assumes "calculateFrom E run reps orig keys as items s = (Inr xs, t)"
    and "list_all (\<lambda>i. item_wf E run i \<and> \<not> is_posted keys i) items"
  shows "list_all (\<lambda>i. item_wf E run i \<and> \<not> is_posted keys i) xs"
  using assms
proof (induction as arbitrary: items s)
  case (Cons a as)
  from Cons.prems(1) obtain ys u where ys: "calculateAssignment E run reps orig a s = (Inr ys, u)"
    and rest: "calculateFrom E run reps orig keys as (appendAllIfNotPosted items ys keys) u = (Inr xs, t)"
    by (auto simp: run_ok)
  show ?case
    by (rule Cons.IH [OF rest]) (use Cons.prems(2) assignment_items_wf [OF ys] in \<open>auto simp: appendAll_filter list_all_iff\<close>)
qed simp

lemma calculateItems_ok:
  "calculateItems E run s = (Inr xs, t) \<Longrightarrow>
   list_all (\<lambda>i. item_wf E run i \<and> \<not> is_posted (PostedItemKeysForWorkPeriod E (ar_WorkPeriodID run) s) i) xs"
  by (rule calculateFrom_ok) (auto simp: calculateItems_def run_ok)

section \<open>The service keeps the accounting relation\<close>

lemma calculateItems_results:
  "xs \<in> results (calculateItems E run) \<Longrightarrow> i \<in> set xs \<Longrightarrow> ai_TenantID i = ar_TenantID run"
  by (auto simp: results_def list_all_iff item_wf_def dest!: calculateItems_ok)

lemma item_wf_defaults: "list_all (item_wf E run) xs \<Longrightarrow> ar_TenantID run \<noteq> [] \<Longrightarrow> map (with_item_defaults E) xs = xs"
  by (intro map_idI) (auto simp: list_all_iff item_wf_def with_item_defaults_def or_time_def)

lemma FindRunByID_Inr: "FindRunByID E i s = Inr (run, w) \<Longrightarrow> run \<in> set (AccrualRuns s) \<and> run_of E i run"
  by (auto simp: FindRunByID_def tri_Inr found_Inr run_of_def dest!: first_by_Some)

lemma FindWorkPeriodByID_Inr:
  "FindWorkPeriodByID E i s = Inr w \<Longrightarrow> w \<in> set (WorkPeriods s) \<and> wp_ID w = i \<and> wp_TenantID w = TenantID E"
  by (auto simp: FindWorkPeriodByID_def found_Inr dest!: first_by_Some)

text \<open>
  The calculation reads the tables and takes identifiers: it keeps every relation that the use of
  identifiers keeps.
\<close>

locale id_frame = state_frame R for R :: "store \<Rightarrow> store \<Rightarrow> bool" +
  assumes R_ids: "R s (s\<lparr>IdsUsed := n\<rparr>)"
begin

lemma keeps_ids: "keeps R (newID E)"
  by (simp add: keeps_def R_ids)

lemma keeps_both: "keeps R m \<Longrightarrow> keeps R n \<Longrightarrow> keeps R (both m n)"
  unfolding both_def by (intro keeps_intros)

lemma keeps_calculateAssignment: "keeps R (calculateAssignment E run reps orig a)"
proof -
  have ids: "keeps R (pendingReplacementAssignment E b run ct d)"
    "keeps R (pendingGoldProductionForReplacement E b run ct d)"
    "keeps R (replacementGoldItem E b run ct dir x d)" for b ct d dir x
    unfolding item_ops by (intro keeps_intros keeps_ids)+
  have "keeps R (calculateSickDayOffReplacementItems E run a xs)"
    "keeps R (calculateTimeOffItems E run a xs b)" for xs b
    unfolding calculateSickDayOffReplacementItems_def calculateTimeOffItems_def Let_def
    by (cases xs; simp; intro keeps_intros keeps_both ids impI conjI)+
  then show ?thesis
    unfolding calculateAssignment_def Let_def by (intro keeps_intros keeps_ids)
qed

lemma keeps_calculateItems: "keeps R (calculateItems E run)"
proof -
  have "keeps R (calculateFrom E run reps orig keys as xs)" for reps orig keys as xs
    by (induction as arbitrary: xs) (simp_all add: keeps_pure keeps_bnd keeps_calculateAssignment)
  then show ?thesis unfolding calculateItems_def by (intro keeps_intros)
qed

end

interpretation calc: id_frame "accounting T" for T
  by unfold_locales (rule accounting_aside, simp_all add: other_tenants_kept_def)

definition ids_only :: "store \<Rightarrow> store \<Rightarrow> bool" where
  "ids_only s t \<longleftrightarrow> (\<exists>n. t = s\<lparr>IdsUsed := n\<rparr>)"

interpretation ids: id_frame ids_only
proof
  show "ids_only s s" for s by (simp add: ids_only_def) (metis store.surjective store.update_convs(19))
qed (auto simp: ids_only_def)

lemma keeps_RecalculateRun: "keeps (accounting (TenantID E)) (RecalculateRun E i)"
  unfolding RecalculateRun_def split_beta
  by (intro acc.keeps_intros calc.keeps_calculateItems keeps_ReplaceItemsForRun)
    (auto dest!: calculateItems_results FindRunByID_Inr simp: run_of_def)

lemma keeps_CreateRun: "keeps (accounting (TenantID E)) (CreateRun E w req)"
  unfolding CreateRun_def
  by (intro acc.keeps_intros calc.keeps_ids keeps_repoCreateRun keeps_RecalculateRun)
    (auto dest!: FindWorkPeriodByID_Inr)

lemma accrualLedgerEntry_simps [simp]:
  "le_TenantID (accrualLedgerEntry E i u dir x d suffix) = ai_TenantID i"
  "le_PersonID (accrualLedgerEntry E i u dir x d suffix) = ai_PersonID i"
  "le_CollaboratorID (accrualLedgerEntry E i u dir x d suffix) = ai_CollaboratorID i"
  "le_ValueUnitID (accrualLedgerEntry E i u dir x d suffix) = rd_ID u"
  "le_EntryType (accrualLedgerEntry E i u dir x d suffix) = ledgerEntryTypeForAccrualItem i"
  "le_Direction (accrualLedgerEntry E i u dir x d suffix) = dir"
  "le_Amount (accrualLedgerEntry E i u dir x d suffix) = x"
  "le_EffectiveDate (accrualLedgerEntry E i u dir x d suffix) = d"
  "le_SourceType (accrualLedgerEntry E i u dir x d suffix) =
     fst (ledgerSourceForAccrualItem i (ledgerEntryTypeForAccrualItem i))"
  "le_SourceID (accrualLedgerEntry E i u dir x d suffix) =
     snd (ledgerSourceForAccrualItem i (ledgerEntryTypeForAccrualItem i))"
  by (simp_all add: accrualLedgerEntry_def Let_def split_beta)

lemma item_entries_tenant: "e \<in> set (item_entries E run brl gold i) \<Longrightarrow> le_TenantID e = ai_TenantID i"
  by (auto simp: item_entries_def split: option.splits)

lemma entries_tenant:
  "ledgerEntriesForReadyItems E run is s = Inr es \<Longrightarrow> (\<And>i. i \<in> set is \<Longrightarrow> ai_TenantID i = T) \<Longrightarrow>
   e \<in> set es \<Longrightarrow> le_TenantID e = T"
  by (auto simp: ledgerEntriesForReadyItems_def tri_Inr dest!: item_entries_tenant)

lemma ready_item: "i \<in> set (ListReadyItemsByRun E r s) \<longleftrightarrow>
    i \<in> set (AccrualItems s) \<and> run_item E r i \<and> ai_Status i = ''READY''"
  by (auto simp: ListReadyItemsByRun_def)

lemma keeps_PostRun: "keeps (accounting (TenantID E)) (PostRun E i)"
  unfolding PostRun_def split_beta
  by (intro acc.keeps_intros keeps_PostReadyItems)
    (auto simp: ready_item run_item_def intro!: entries_tenant)

section \<open>What a recalculation does\<close>

definition unposted_of :: "env \<Rightarrow> string \<Rightarrow> AccrualItem \<Rightarrow> bool" where
  "unposted_of E r i \<longleftrightarrow> run_item E r i \<and> ai_Status i \<noteq> ''POSTED''"

definition recalculated :: "env \<Rightarrow> AccrualRun \<Rightarrow> AccrualItem list \<Rightarrow> store \<Rightarrow> store \<Rightarrow> bool" where
  "recalculated E run xs s t \<longleftrightarrow>
     AccrualItems t = filter (\<lambda>i. \<not> unposted_of E (ar_ID run) i) (AccrualItems s) @ xs \<and>
     AccrualRuns t = update_where (run_of E (ar_ID run))
       (\<lambda>r. r\<lparr>ar_Status := statusForItems xs, ar_UpdatedAt := Now E\<rparr>) (AccrualRuns s) \<and>
     WorkPeriods t = WorkPeriods s \<and> Ledger t = Ledger s \<and> Receipts t = Receipts s \<and> Settlements t = Settlements s"

lemma insertItem_ok: "insertItem x s = (Inr u, t) \<Longrightarrow> t = s\<lparr>AccrualItems := AccrualItems s @ [x]\<rparr>"
  by (auto simp: insertItem_def run_simps split: sum.splits)

lemma insert_items_ok:
  "for_each insertItem xs s = (Inr u, t) \<Longrightarrow> t = s\<lparr>AccrualItems := AccrualItems s @ xs\<rparr>"
proof (induction xs arbitrary: s)
  case (Cons x xs)
  from Cons.prems obtain m where "insertItem x s = (Inr (), m)" "for_each insertItem xs m = (Inr u, t)"
    by (auto simp: run_ok)
  then show ?case using Cons.IH [of m] by (auto dest!: insertItem_ok)
qed simp

lemma createItems_ok:
  "createItems E xs s = (Inr u, t) \<Longrightarrow> t = s\<lparr>AccrualItems := AccrualItems s @ map (with_item_defaults E) xs\<rparr>"
  unfolding createItems_def transaction_ok by (rule insert_items_ok)

lemma ReplaceItemsForRun_ok:
  assumes "ReplaceItemsForRun E r xs s = (Inr u, t)" and "map (with_item_defaults E) xs = xs"
    and "ar_Status r = statusForItems xs" "ar_UpdatedAt r = Now E"
  shows "recalculated E r xs s t"
proof -
  let ?s = "s\<lparr>AccrualItems := filter (\<lambda>i. \<not> unposted_of E (ar_ID r) i) (AccrualItems s)\<rparr>"
  obtain m where m: "(if xs = [] then ret () else createItems E xs) ?s = (Inr (), m)"
    and t: "updateRuns (run_of E (ar_ID r)) (\<lambda>x. x\<lparr>ar_Status := ar_Status r, ar_UpdatedAt := ar_UpdatedAt r\<rparr>) m
        = (Inr u, t)"
    using assms(1) by (auto simp: ReplaceItemsForRun_def run_ok unposted_of_def)
  have "m = ?s\<lparr>AccrualItems := AccrualItems ?s @ xs\<rparr>"
    using m assms(2) createItems_ok [of E xs ?s "()" m] by (cases "xs = []") auto
  then show ?thesis using update_ok(1) [OF t] assms(3,4) by (simp add: recalculated_def)
qed

lemma RecalculateRun_ok:
  assumes "RecalculateRun E i s = (Inr d, t)"
  obtains run w xs where "FindRunByID E (TrimSpace i) s = Inr (run, w)"
    and "ar_Status run \<noteq> ''POSTED''" "ar_Status run \<noteq> ''VOIDED''" "wp_Status w \<noteq> ''CLOSED''"
    and "recalculated E run xs s t" and "list_all (item_wf E run) xs"
    and "\<forall>x \<in> set xs. \<not> is_posted (PostedItemKeysForWorkPeriod E (ar_WorkPeriodID run) s) x"
    and "GetRunByID E (ar_ID run) t = Inr d"
proof -
  obtain run w xs m where run: "FindRunByID E (TrimSpace i) s = Inr (run, w)"
    and st: "ar_Status run \<noteq> ''POSTED''" "ar_Status run \<noteq> ''VOIDED''" "wp_Status w \<noteq> ''CLOSED''"
    and calc: "calculateItems E run s = (Inr xs, m)"
    and rep: "ReplaceItemsForRun E (run\<lparr>ar_Status := statusForItems xs, ar_UpdatedAt := Now E\<rparr>) xs m = (Inr (), t)"
    and get: "GetRunByID E (ar_ID run) t = Inr d"
    using assms by (auto simp: RecalculateRun_def run_ok split: if_split_asm)
  have wf: "list_all (item_wf E run) xs" and keys: "\<forall>x \<in> set xs. \<not> is_posted (PostedItemKeysForWorkPeriod E (ar_WorkPeriodID run) s) x"
    using calculateItems_ok [OF calc] by (auto simp: list_all_iff)
  obtain n where m: "m = s\<lparr>IdsUsed := n\<rparr>"
    using keepsD [OF ids.keeps_calculateItems calc] by (auto simp: ids_only_def)
  have "recalculated E (run\<lparr>ar_Status := statusForItems xs, ar_UpdatedAt := Now E\<rparr>) xs m t"
    by (rule ReplaceItemsForRun_ok [OF rep]) (use item_wf_defaults [OF wf] FindRunByID_Inr [OF run] in \<open>auto simp: run_of_def\<close>)
  then have "recalculated E run xs s t" by (simp add: recalculated_def m unposted_of_def)
  then show thesis using that run st wf keys get by blast
qed

section \<open>What posting does\<close>

text \<open>An entry that need not be written again: the ledger has its identifier or its source.\<close>

definition in_ledger :: "store \<Rightarrow> LedgerEntry \<Rightarrow> bool" where
  "in_ledger s e \<longleftrightarrow> (\<exists>l \<in> set (Ledger s). le_ID l = le_ID e \<or> source_key l = source_key e)"

lemma keys_taken_in_ledger:
  "le_CorrectionType e = ''ORIGINAL'' \<Longrightarrow> list_ex fst (ledger_keys_taken s e) \<longleftrightarrow> in_ledger s e"
  by (auto simp: ledger_keys_taken_def in_ledger_def list_ex_iff source_key_def)

lemma insert_entries_ok:
  assumes "for_each insertEntryDoNothing es s = (Inr u, t)"
    and "\<forall>e \<in> set es. le_CorrectionType e = ''ORIGINAL''"
  shows "\<exists>xs. Ledger t = Ledger s @ xs \<and> set xs \<subseteq> set es \<and> (\<forall>e \<in> set es. in_ledger t e)"
  using assms
proof (induction es arbitrary: s)
  case (Cons e es)
  from Cons.prems(1) obtain m where m: "insertEntryDoNothing e s = (Inr (), m)"
    and t: "for_each insertEntryDoNothing es m = (Inr u, t)" by (auto simp: run_ok)
  from Cons.IH [OF t] Cons.prems(2) obtain xs where xs: "Ledger t = Ledger m @ xs" "set xs \<subseteq> set es"
    "\<forall>e \<in> set es. in_ledger t e" by auto
  have L: "Ledger m = Ledger s @ (if in_ledger s e then [] else [e])"
    using insertEntryDoNothing_ok [OF m] keys_taken_in_ledger [of e s] Cons.prems(2) by simp
  then have "in_ledger m e" by (auto simp: in_ledger_def)
  then have "in_ledger t e" by (auto simp: in_ledger_def xs(1))
  then show ?case using xs L by auto
qed simp

lemma createLedgerEntriesDoNothing_new:
  assumes "createLedgerEntriesDoNothing E es s = (Inr u, t)"
    and "map (with_entry_defaults E) es = es" and "\<forall>e \<in> set es. le_CorrectionType e = ''ORIGINAL''"
  shows "\<exists>xs. Ledger t = Ledger s @ xs \<and> set xs \<subseteq> set es \<and> (\<forall>e \<in> set es. in_ledger t e)"
proof -
  obtain m where m: "for_each insertEntryDoNothing es s = (Inr (), m)"
    and t: "for_each (AfterCreate E) es m = (Inr u, t)"
    using assms(1,2) by (auto simp: createLedgerEntriesDoNothing_def Let_def run_ok)
  have "Ledger t = Ledger m"
    using t
  proof (induction es arbitrary: m)
    case (Cons e es)
    from Cons.prems obtain m' where "AfterCreate E e m = (Inr (), m')" "for_each (AfterCreate E) es m' = (Inr u, t)"
      by (auto simp: run_ok)
    then show ?case using Cons.IH [of m'] AfterCreate_ok [of E e m "()" m'] by simp
  qed simp
  then show ?thesis using insert_entries_ok [OF m assms(3)] by (simp add: in_ledger_def)
qed

definition ready_of :: "env \<Rightarrow> string \<Rightarrow> AccrualItem \<Rightarrow> bool" where
  "ready_of E r i \<longleftrightarrow> run_item E r i \<and> ai_Status i = ''READY''"

definition posted_run :: "env \<Rightarrow> AccrualRun \<Rightarrow> string \<Rightarrow> store \<Rightarrow> store \<Rightarrow> bool" where
  "posted_run E run status s t \<longleftrightarrow>
     AccrualItems t = update_where (ready_of E (ar_ID run)) (posted_row (Now E)) (AccrualItems s) \<and>
     AccrualRuns t = update_where (run_of E (ar_ID run))
       (\<lambda>r. r\<lparr>ar_Status := ''POSTED'', ar_UpdatedAt := Now E\<rparr>) (AccrualRuns s) \<and>
     WorkPeriods t = update_where (\<lambda>w. wp_ID w = ar_WorkPeriodID run \<and> wp_TenantID w = TenantID E)
       (\<lambda>w. w\<lparr>wp_Status := status, wp_UpdatedAt := Now E\<rparr>) (WorkPeriods s) \<and>
     Settlements t = Settlements s \<and> Journeys t = Journeys s"

lemma PostReadyItems_ok:
  assumes post: "PostReadyItems E r (ListReadyItemsByRun E (ar_ID r) s) es status s = (Inr u, t)"
    and es: "map (with_entry_defaults E) es = es" "\<forall>e \<in> set es. le_CorrectionType e = ''ORIGINAL''"
    and r: "ar_Status r = ''POSTED''" "ar_UpdatedAt r = Now E"
  shows "posted_run E r status s t"
    and "\<exists>xs. Ledger t = Ledger s @ xs \<and> set xs \<subseteq> set es \<and> (\<forall>e \<in> set es. in_ledger t e)"
proof -
  let ?xs = "ListReadyItemsByRun E (ar_ID r) s"
  let ?P = "\<lambda>i. run_item E (ar_ID r) i \<and> ai_ID i \<in> set (map ai_ID ?xs) \<and> ai_Status i = ''READY''"
  obtain a b c u1 u2 u3 where a: "(if es = [] then ret () else createLedgerEntriesDoNothing E es) s = (Inr u1, a)"
    and b: "(if map ai_ID ?xs = [] then ret () else updateItems ?P (posted_row (ar_UpdatedAt r))) a = (Inr u2, b)"
    and c: "updateRuns (run_of E (ar_ID r)) (\<lambda>x. x\<lparr>ar_Status := ar_Status r, ar_UpdatedAt := ar_UpdatedAt r\<rparr>) b
      = (Inr u3, c)"
    and t: "updateWorkPeriods (\<lambda>w. wp_ID w = ar_WorkPeriodID r \<and> wp_TenantID w = TenantID E)
      (\<lambda>w. w\<lparr>wp_Status := status, wp_UpdatedAt := ar_UpdatedAt r\<rparr>) c = (Inr u, t)"
    using post unfolding PostReadyItems_def Let_def run_ok by blast
  have "books_only s a"
    using a keepsD [OF keeps_books_createLedgerEntriesDoNothing] books.R_refl by (cases "es = []") auto
  note a' = books_only_simps [OF this]
  have P: "?P i \<longleftrightarrow> ready_of E (ar_ID r) i" if "i \<in> set (AccrualItems s)" for i
    using that by (auto simp: ready_of_def ready_item)
  have "update_where ?P f (AccrualItems s) = update_where (ready_of E (ar_ID r)) f (AccrualItems s)" for f
    unfolding update_where_def by (intro map_cong refl) (simp only: P)
  moreover have "update_where ?P f (AccrualItems s) = AccrualItems s" if "?xs = []" for f
    using that by (simp add: update_where_def)
  ultimately have items: "AccrualItems b = update_where (ready_of E (ar_ID r)) (posted_row (Now E)) (AccrualItems s)
      \<and> b = a\<lparr>AccrualItems := AccrualItems b\<rparr>"
    using b a' r update_ok(2) [of ?P "posted_row (ar_UpdatedAt r)" a u2 b] by (cases "?xs = []") auto
  show "posted_run E r status s t"
    using items update_ok(1) [OF c] update_ok(3) [OF t] a' r by (auto simp: posted_run_def)
  have "Ledger t = Ledger a"
    using items update_ok(1) [OF c] update_ok(3) [OF t] by auto
  then show "\<exists>xs. Ledger t = Ledger s @ xs \<and> set xs \<subseteq> set es \<and> (\<forall>e \<in> set es. in_ledger t e)"
    using a createLedgerEntriesDoNothing_new [OF _ es, of s u1 a] by (cases "es = []") (auto simp: in_ledger_def)
qed

lemma accrualLedgerEntry_defaults:
  "ai_TenantID i \<noteq> [] \<Longrightarrow>
   with_entry_defaults E (accrualLedgerEntry E i u dir x d suffix) = accrualLedgerEntry E i u dir x d suffix"
  "le_CorrectionType (accrualLedgerEntry E i u dir x d suffix) = ''ORIGINAL''"
  by (simp_all add: with_entry_defaults_def accrualLedgerEntry_def Let_def split_beta or_time_def zeroLedgerEntry_def)

lemma item_entries_default:
  assumes "e \<in> set (item_entries E run brl gold i)" and "ai_TenantID i \<noteq> []"
  shows "with_entry_defaults E e = e \<and> le_CorrectionType e = ''ORIGINAL''"
  using assms by (auto simp: item_entries_def accrualLedgerEntry_defaults split: option.splits)

definition run_entries :: "env \<Rightarrow> AccrualRun \<Rightarrow> ReferenceData \<Rightarrow> ReferenceData \<Rightarrow> store \<Rightarrow> LedgerEntry list" where
  "run_entries E run brl gold s = concat (map (item_entries E run brl gold) (ListReadyItemsByRun E (ar_ID run) s))"

lemma run_entries_default:
  "e \<in> set (run_entries E run brl gold s) \<Longrightarrow> with_entry_defaults E e = e \<and> le_CorrectionType e = ''ORIGINAL''"
  by (auto simp: run_entries_def ready_item run_item_def TenantID_nonempty [symmetric] dest!: item_entries_default)

lemma PostRun_ok:
  assumes post: "PostRun E i s = (Inr d, t)" and run: "FindRunByID E (TrimSpace i) s = Inr (run, w)"
    and fresh: "ar_Status run \<noteq> ''POSTED''"
  obtains brl gold xs where "FindValueUnitByCode E ''BRL'' s = Inr brl" "FindValueUnitByCode E ''GOLD_GRAM'' s = Inr gold"
    and "ar_Status run \<noteq> ''VOIDED''" "wp_Status w \<noteq> ''CLOSED''"
    and "posted_run E run (if 0 < PendingItemCountByRun E (ar_ID run) s then ''PARTIALLY_POSTED'' else ''FULLY_POSTED'') s t"
    and "Ledger t = Ledger s @ xs" "set xs \<subseteq> set (run_entries E run brl gold s)"
    and "\<forall>e \<in> set (run_entries E run brl gold s). in_ledger t e"
    and "GetRunByID E (ar_ID run) t = Inr d"
proof -
  let ?r = "run\<lparr>ar_Status := ''POSTED'', ar_UpdatedAt := Now E\<rparr>"
  let ?status = "if 0 < PendingItemCountByRun E (ar_ID run) s then ''PARTIALLY_POSTED'' else ''FULLY_POSTED''"
  obtain brl gold where units: "FindValueUnitByCode E ''BRL'' s = Inr brl" "FindValueUnitByCode E ''GOLD_GRAM'' s = Inr gold"
    and st: "ar_Status run \<noteq> ''VOIDED''" "wp_Status w \<noteq> ''CLOSED''"
    and w: "PostReadyItems E ?r (ListReadyItemsByRun E (ar_ID run) s) (run_entries E run brl gold s) ?status s = (Inr (), t)"
    and d: "GetRunByID E (ar_ID run) t = Inr d"
    using post run fresh unfolding PostRun_def ledgerEntriesForReadyItems_def run_entries_def
    by (auto simp: run_ok tri_Inr split: if_split_asm)
  note ok = PostReadyItems_ok [of E ?r s "run_entries E run brl gold s" ?status "()" t, simplified, OF w]
  have "map (with_entry_defaults E) (run_entries E run brl gold s) = run_entries E run brl gold s"
    "\<forall>e \<in> set (run_entries E run brl gold s). le_CorrectionType e = ''ORIGINAL''"
    using run_entries_default by (auto intro!: map_idI)
  then have "posted_run E ?r ?status s t" "\<exists>xs. Ledger t = Ledger s @ xs \<and>
      set xs \<subseteq> set (run_entries E run brl gold s) \<and> (\<forall>e \<in> set (run_entries E run brl gold s). in_ledger t e)"
    using ok by blast+
  then show thesis using that units st d by (auto simp: posted_run_def)
qed

end
