(* ===== verification/AccrualProperties.thy ===== *)
theory AccrualProperties
  imports AccrualEffects Demo
begin

text \<open>
  The properties of the accruals: recalculation, posting, the transfers for sickness and time off, and
  the summary of a run, each applied to a small run of one work period.
\<close>

section \<open>A work period to calculate\<close>

definition demo_assignment :: "string \<Rightarrow> string option \<Rightarrow> string option \<Rightarrow> WorkPeriodAssignment" where
  "demo_assignment i actual original = \<lparr>wa_ID = i, wa_CreatedAt = 1, wa_UpdatedAt = 1, wa_TenantID = ''t1'',
     wa_WorkPeriodID = ''w1'', wa_CollaboratorID = ''j1'', wa_PlannedStatus = ''INCLUDED'',
     wa_PlanningAvailability = ''ACTIVE'', wa_ActualStatus = actual, wa_ReplacementForAssignmentID = original,
     wa_SectorID = ''sec'', wa_LocationID = ''loc'', wa_TaskID = ''task'', wa_Active = True\<rparr>"

definition demo_period :: store where
  "demo_period = demo_store\<lparr>
     WorkPeriods := [zeroWorkPeriod\<lparr>wp_ID := ''w1'', wp_TenantID := ''t1'', wp_WorkDate := 3 * day_ns,
       wp_PeriodCode := ''D'', wp_StartsAt := 3 * day_ns, wp_EndsAt := 4 * day_ns, wp_Status := ''ACCRUAL_OPEN''\<rparr>],
     Assignments := [demo_assignment ''a1'' (Some ''WORKED'') None, demo_assignment ''a2'' None None],
     GoldProduction := [\<lparr>ge_ID = ''g'', ge_CreatedAt = 1, ge_UpdatedAt = 1, ge_TenantID = ''t1'',
       ge_WorkPeriodID = ''w1'', ge_LocationID = ''loc'', ge_ProductionDate = 3 * day_ns,
       ge_GoldGramsProduced = 25, ge_Active = True, ge_Notes = []\<rparr>]\<rparr>"

definition demo_create_run :: CreateAccrualRunRequest where
  "demo_create_run = \<lparr>rq_AccrualDate = [], rq_Notes = ''first''\<rparr>"

text \<open>The period after its run was created and calculated: one ready item and one pending item.\<close>

definition demo_run :: store where
  "demo_run = snd (CreateRun demo_env ''w1'' demo_create_run demo_period)"

lemma demo_run_created: "\<not> isl (fst (CreateRun demo_env ''w1'' demo_create_run demo_period))"
  by code_simp

lemma demo_recalculates: "\<not> isl (fst (RecalculateRun demo_env ''n'' demo_run))"
  by code_simp

lemma demo_posts: "\<not> isl (fst (PostRun demo_env ''n'' demo_run))"
  by code_simp

section \<open>Recalculation\<close>

text \<open>
  C19. A recalculation replaces what was not posted: it succeeds only for a run that is neither posted nor
  voided, in a work period that is not closed. The run's items that are posted, and the items of all
  other runs, stay; the rest of the run's items is replaced by freshly calculated ones, each ready with
  one amount, pending with a reason or skipped, and none of them repeats the assignment, calculation
  and direction of an item already posted for the period. The run's status says whether any of them is
  pending, else whether any is ready. The ledger and the receipts are untouched.
\<close>

theorem recalculation_replaces:
  assumes "RecalculateRun E i s = (Inr d, t)"
  shows "\<exists>run w xs. FindRunByID E (TrimSpace i) s = Inr (run, w) \<and>
    ar_Status run \<notin> {''POSTED'', ''VOIDED''} \<and> wp_Status w \<noteq> ''CLOSED'' \<and>
    AccrualItems t = filter (\<lambda>x. \<not> unposted_of E (ar_ID run) x) (AccrualItems s) @ xs \<and>
    list_all (item_wf E run) xs \<and>
    list_all (\<lambda>x. \<not> is_posted (PostedItemKeysForWorkPeriod E (ar_WorkPeriodID run) s) x) xs \<and>
    AccrualRuns t = update_where (run_of E (ar_ID run))
      (\<lambda>r. r\<lparr>ar_Status := statusForItems xs, ar_UpdatedAt := Now E\<rparr>) (AccrualRuns s) \<and>
    (statusForItems xs = ''PENDING_INPUT'' \<longleftrightarrow> (\<exists>x \<in> set xs. ai_Status x = ''PENDING'')) \<and>
    Ledger t = Ledger s \<and> Receipts t = Receipts s"
proof -
  obtain run w xs where *: "FindRunByID E (TrimSpace i) s = Inr (run, w)" "ar_Status run \<noteq> ''POSTED''"
    "ar_Status run \<noteq> ''VOIDED''" "wp_Status w \<noteq> ''CLOSED''" "recalculated E run xs s t"
    "list_all (item_wf E run) xs"
    "\<forall>x \<in> set xs. \<not> is_posted (PostedItemKeysForWorkPeriod E (ar_WorkPeriodID run) s) x"
    by (rule RecalculateRun_ok [OF assms]) blast
  have "statusForItems xs = ''PENDING_INPUT'' \<longleftrightarrow> (\<exists>x \<in> set xs. ai_Status x = ''PENDING'')"
    by (auto simp: statusForItems_def list_ex_iff)
  with * show ?thesis
    by (intro exI [of _ run] exI [of _ w] exI [of _ xs]) (simp add: recalculated_def list_all_iff)
qed

theorem recalculation_replaces_witness:
  "Ledger (snd (RecalculateRun demo_env ''n'' demo_run)) = Ledger demo_run"
proof -
  obtain d t where run: "RecalculateRun demo_env ''n'' demo_run = (Inr d, t)"
    using succeeded [OF demo_recalculates] by blast
  show ?thesis using recalculation_replaces [OF run] run by auto
qed

section \<open>Posting\<close>


lemma demo_run_found: "\<exists>run w. FindRunByID demo_env (TrimSpace ''n'') demo_run = Inr (run, w) \<and> ar_Status run \<noteq> ''POSTED''"
proof -
  have "\<not> isl (FindRunByID demo_env (TrimSpace ''n'') demo_run)"
    "ar_Status (fst (projr (FindRunByID demo_env (TrimSpace ''n'') demo_run))) \<noteq> ''POSTED''" by code_simp+
  then show ?thesis by (cases "FindRunByID demo_env (TrimSpace ''n'') demo_run") auto
qed


text \<open>
  C20. A posted run is final: posting it again answers the same and changes nothing, and it cannot be
  recalculated.
\<close>

theorem posted_run_is_final:
  assumes post: "PostRun E i s = (Inr d, t)" and run: "FindRunByID E (TrimSpace i) s = Inr (run, w)"
    and fresh: "ar_Status run \<noteq> ''POSTED''"
  shows "PostRun E i t = (Inr d, t) \<and> RecalculateRun E i t = (Inl (ValidationError
    [(''status'', ''Posted or voided accrual runs cannot be recalculated'')]), t)"
proof -
  have runs: "AccrualRuns t = update_where (run_of E (ar_ID run))
      (\<lambda>r. r\<lparr>ar_Status := ''POSTED'', ar_UpdatedAt := Now E\<rparr>) (AccrualRuns s)"
    and get: "GetRunByID E (ar_ID run) t = Inr d"
    by (rule PostRun_ok [OF assms], simp add: posted_run_def)+
  have id: "ar_ID run = TrimSpace i" and r: "run \<in> set (AccrualRuns s)" "run_of E (TrimSpace i) run"
    using FindRunByID_Inr [OF run] by (auto simp: run_of_def)
  have all: "ar_Status x = ''POSTED''" if "x \<in> set (AccrualRuns t)" "run_of E (TrimSpace i) x" for x
    using that id by (auto simp: runs update_where_def run_of_def split: if_split_asm)
  have "\<exists>x \<in> set (AccrualRuns t). run_of E (TrimSpace i) x"
    using r id unfolding runs update_where_def set_map
    by (intro bexI [OF _ imageI [OF r(1)]]) (simp add: run_of_def)
  then obtain x where x: "first_by ar_ID (run_of E (TrimSpace i)) (AccrualRuns t) = Some x"
    using first_by_None by (metis not_None_eq)
  then have "ar_Status x = ''POSTED''" "ar_ID x = TrimSpace i" using first_by_Some [OF x] all by (auto simp: run_of_def)
  moreover have "FindRunByID E (TrimSpace i) t =
      Inr (x, preload wp_ID zeroWorkPeriod (ar_WorkPeriodID x) (WorkPeriods t))"
    using x by (simp add: FindRunByID_def run_of_def [abs_def])
  ultimately show ?thesis using get id by (simp add: PostRun_def RecalculateRun_def run_simps)
qed

theorem posted_run_is_final_witness:
  "\<exists>d t. PostRun demo_env ''n'' demo_run = (Inr d, t) \<and> PostRun demo_env ''n'' t = (Inr d, t)"
proof -
  obtain d t where run: "PostRun demo_env ''n'' demo_run = (Inr d, t)"
    using succeeded [OF demo_posts] by blast
  obtain r w where f: "FindRunByID demo_env (TrimSpace ''n'') demo_run = Inr (r, w)" "ar_Status r \<noteq> ''POSTED''"
    using demo_run_found by blast
  show ?thesis using posted_run_is_final [OF run f] run by blast
qed

section \<open>Transfers between collaborators\<close>

lemma replacement_types:
  "Contains (ToUpper (TrimSpace ''SICK_DAY_OFF_REPLACEMENT_GOLD_DEBIT'')) ''REPLACEMENT''"
  "Contains (ToUpper (TrimSpace ''SICK_DAY_OFF_REPLACEMENT_GOLD_CREDIT'')) ''REPLACEMENT''"
  by code_simp+

text \<open>
  C22. A sick day moves gold and creates none: when the gold commission of the day is known, the items
  computed for a replaced sick collaborator become two replacement transfers, a debit of the collaborator
  and a credit of the first substitute, of the agreed grams (one gram when nothing is agreed). They sum to
  zero, and the debit owes a receipt.
\<close>

theorem sick_day_moves_gold:
  assumes "calculateSickDayOffReplacementItems E run original (substitute # others) s = (Inr is, t)"
    and "goldCommissionAmount E run original s = Inr g"
    and "0 < valueOrFallback (cj_SickDayOffReplacementGoldGrams (av_Collaborator original)) 1"
    and "ledgerEntriesForReadyItems E run is s' = Inr es"
  shows "\<exists>debit credit. es = [debit, credit] \<and>
    le_CollaboratorID debit = wa_CollaboratorID (av_Assignment original) \<and> le_Direction debit = ''DEBIT'' \<and>
    le_CollaboratorID credit = wa_CollaboratorID (av_Assignment substitute) \<and> le_Direction credit = ''CREDIT'' \<and>
    le_EntryType debit = ''REPLACEMENT_TRANSFER'' \<and> le_EntryType credit = ''REPLACEMENT_TRANSFER'' \<and>
    le_ValueUnitID debit = le_ValueUnitID credit \<and>
    le_Amount debit = valueOrFallback (cj_SickDayOffReplacementGoldGrams (av_Collaborator original)) 1 \<and>
    signed debit + signed credit = 0 \<and> needs_receipt debit"
proof -
  have trim: "TrimSpace ''DEBIT'' = ''DEBIT''" "TrimSpace ''CREDIT'' = ''CREDIT''" "ToUpper ''DEBIT'' = ''DEBIT''"
    by code_simp+
  let ?x = "valueOrFallback (cj_SickDayOffReplacementGoldGrams (av_Collaborator original)) 1"
  obtain d c where items: "is = [d, c]"
    and d: "ai_CalculationType d = ''SICK_DAY_OFF_REPLACEMENT_GOLD_DEBIT''" "ai_Direction d = ''DEBIT''"
      "ai_CollaboratorID d = wa_CollaboratorID (av_Assignment original)" "ai_BRLAmount d = None" "ai_GoldGramAmount d = Some ?x"
    and c: "ai_CalculationType c = ''SICK_DAY_OFF_REPLACEMENT_GOLD_CREDIT''" "ai_Direction c = ''CREDIT''"
      "ai_CollaboratorID c = wa_CollaboratorID (av_Assignment substitute)" "ai_BRLAmount c = None" "ai_GoldGramAmount c = Some ?x"
    using assms(1,2)
    by (auto simp: calculateSickDayOffReplacementItems_def attempt_query both_def item_ops Let_def bnd_def)
  obtain gold where "es = [accrualLedgerEntry E d gold ''DEBIT'' ?x (ar_AccrualDate run) ''gold'',
      accrualLedgerEntry E c gold ''CREDIT'' ?x (ar_AccrualDate run) ''gold'']"
    using assms(3,4) d c
    by (auto simp: items ledgerEntriesForReadyItems_def tri_Inr item_entries_def positive_def item_direction_def trim)
  then show ?thesis
    using d c by (simp add: ledgerEntryTypeForAccrualItem_def replacement_types signed_def needs_receipt_def
        hook_direction_def trim)
qed

definition demo_accrual_run :: AccrualRun where
  "demo_accrual_run = zeroAccrualRun\<lparr>ar_ID := ''n'', ar_TenantID := ''t1'', ar_WorkPeriodID := ''w1''\<rparr>"

definition demo_sick :: AssignmentView where
  "demo_sick = assignment_view demo_period (demo_assignment ''a1'' (Some ''SICK_DAY_OFF'') None)"

definition demo_substitute :: AssignmentView where
  "demo_substitute = assignment_view demo_period (demo_assignment ''a2'' (Some ''WORKED'') (Some ''a1''))"

definition demo_pending :: AssignmentView where
  "demo_pending = assignment_view demo_period (demo_assignment ''a2'' None None)"

definition demo_sick_items :: "AccrualItem list app" where
  "demo_sick_items = calculateSickDayOffReplacementItems demo_env demo_accrual_run demo_sick [demo_substitute]"

theorem sick_day_moves_gold_witness:
  "\<exists>is t debit credit. demo_sick_items demo_period = (Inr is, t) \<and>
     ledgerEntriesForReadyItems demo_env demo_accrual_run is demo_period = Inr [debit, credit] \<and>
     signed debit + signed credit = 0"
proof -
  have "\<not> isl (fst (demo_sick_items demo_period))" by code_simp
  then obtain "is" t where run: "demo_sick_items demo_period = (Inr is, t)" using succeeded by blast
  have "\<not> isl (goldCommissionAmount demo_env demo_accrual_run demo_sick demo_period)" by code_simp
  then obtain g where g: "goldCommissionAmount demo_env demo_accrual_run demo_sick demo_period = Inr g"
    by (cases "goldCommissionAmount demo_env demo_accrual_run demo_sick demo_period") auto
  have "\<not> isl (ledgerEntriesForReadyItems demo_env demo_accrual_run
      (projr (fst (demo_sick_items demo_period))) demo_period)" by code_simp
  then obtain es where es: "ledgerEntriesForReadyItems demo_env demo_accrual_run is demo_period = Inr es"
    unfolding run by (cases "ledgerEntriesForReadyItems demo_env demo_accrual_run is demo_period") auto
  have pos: "0 < valueOrFallback (cj_SickDayOffReplacementGoldGrams (av_Collaborator demo_sick)) 1" by code_simp
  show ?thesis using sick_day_moves_gold [OF run [unfolded demo_sick_items_def] g pos es] run es by blast
qed

lemma rnd_bound: "\<bar>rnd x - x\<bar> \<le> pow2 (- 53) * \<bar>x\<bar> + pow2 (- 1075)"
proof (cases "pow2 (- 1022) \<le> \<bar>x\<bar>")
  case True
  then show ?thesis using rnd_rel_error [of x] by (simp add: add_increasing2)
next
  case False
  show ?thesis
  proof (cases "x = 0")
    case nz: False
    then have "pow2 (ilog2 \<bar>x\<bar>) < pow2 (- 1022)" using ilog2_bounds [of "\<bar>x\<bar>"] False by simp
    then have "ulp x = pow2 (- 1074)" by (simp add: ulp_def pow2_less_iff max_def)
    moreover have "pow2 (- 1074) = 2 * pow2 (- 1075)" using pow2_add [of 1 "- 1075"] by (simp add: pow2_def)
    ultimately show ?thesis using rnd_error [of x] by (simp add: add_increasing)
  qed simp
qed

lemma split_error:
  fixes e d g p q m n a b :: rat
  assumes e: "0 \<le> e" "e \<le> 1 / 8" and d: "0 \<le> d" "d \<le> e" and g: "0 \<le> g" and p: "0 \<le> p" "p \<le> 100"
    and q: "0 \<le> q" "q \<le> 100" "\<bar>q - (100 - p)\<bar> \<le> e * 100 + d"
    and m: "\<bar>m - g * q\<bar> \<le> e * (g * q) + d" and a: "\<bar>a - m / 100\<bar> \<le> e * \<bar>m / 100\<bar> + d"
    and n: "\<bar>n - g * p\<bar> \<le> e * (g * p) + d" and b: "\<bar>b - n / 100\<bar> \<le> e * \<bar>n / 100\<bar> + d"
  shows "\<bar>a + b - g\<bar> \<le> 8 * (e * g) + 8 * d"
proof -
  have gq: "g * q \<le> g * 100" "g * p \<le> g * 100" "0 \<le> g * q" "0 \<le> g * p"
    using g p q by (simp_all add: mult_left_mono)
  have sq: "e * (g * q) \<le> e * g * 100" "e * (g * p) \<le> e * g * 100" "e * (e * g) \<le> e * g / 8" "e * d \<le> d / 8" "g * d \<le> e * g"
    "e * \<bar>m\<bar> \<le> e * (g * 100 + e * g * 100 + d)"  "e * \<bar>n\<bar> \<le> e * (g * 100 + e * g * 100 + d)"
  proof -
    show q1: "e * (g * q) \<le> e * g * 100" and p1: "e * (g * p) \<le> e * g * 100"
      using mult_left_mono [OF gq(1) e(1)] mult_left_mono [OF gq(2) e(1)] by simp_all
    show "e * (e * g) \<le> e * g / 8" using mult_right_mono [OF e(2), of "e * g"] e g by simp
    show "e * d \<le> d / 8" using mult_right_mono [OF e(2) d(1)] by simp
    show "g * d \<le> e * g" using mult_left_mono [OF d(2) g] by (simp add: mult.commute)
    show "e * \<bar>m\<bar> \<le> e * (g * 100 + e * g * 100 + d)" using m q1 gq by (intro mult_left_mono e(1)) linarith
    show "e * \<bar>n\<bar> \<le> e * (g * 100 + e * g * 100 + d)" using n p1 gq by (intro mult_left_mono e(1)) linarith
  qed
  have "\<bar>g * q - g * (100 - p)\<bar> = g * \<bar>q - (100 - p)\<bar>" using g by (simp add: abs_mult flip: right_diff_distrib)
  also have "\<dots> \<le> g * (e * 100 + d)" using q(3) g by (intro mult_left_mono)
  finally have gqp: "\<bar>g * q - g * (100 - p)\<bar> \<le> 100 * (e * g) + g * d" by (simp add: algebra_simps)
  have M: "\<bar>a - m / 100\<bar> \<le> e * \<bar>m\<bar> / 100 + d" "\<bar>b - n / 100\<bar> \<le> e * \<bar>n\<bar> / 100 + d" using a b by simp_all
  have ex: "e * (g * 100 + e * g * 100 + d) = 100 * (e * g) + 100 * (e * (e * g)) + e * d" by (simp add: algebra_simps)
  have gp: "g * (100 - p) = 100 * g - g * p" by (simp add: algebra_simps)
  show ?thesis using M m n gqp sq d gq unfolding ex gp by linarith
qed

lemma share_error:
  assumes g: "0 \<le> g" and p: "0 \<le> p" "p \<le> 100"
  shows "0 \<le> original_share g p" "0 \<le> replacement_share g p"
    and "\<bar>original_share g p + replacement_share g p - g\<bar> \<le> pow2 (- 50) * g + pow2 (- 1072)"
proof -
  have e: "pow2 (- 53) \<le> 1 / 8" using pow2_mono [of "- 53" "- 3"] by (simp add: pow2_def)
  have d: "pow2 (- 1075) \<le> pow2 (- 53)" by (rule pow2_mono) simp
  have q: "0 \<le> fsub 100 p" "fsub 100 p \<le> 100"
    using p rnd_nonneg [of "100 - p"] rnd_mono [of "100 - p" 100] rnd_of_int [of 100] by (simp_all add: fsub_def)
  then show "0 \<le> original_share g p" "0 \<le> replacement_share g p"
    using g p by (simp_all add: original_share_def replacement_share_def fdiv_nonneg fmul_nonneg)
  have b: "\<bar>rnd x - x\<bar> \<le> pow2 (- 53) * x + pow2 (- 1075)" if "0 \<le> x" for x
    using rnd_bound [of x] that by simp
  have "\<bar>fsub 100 p - (100 - p)\<bar> \<le> pow2 (- 53) * (100 - p) + pow2 (- 1075)"
    using b [of "100 - p"] p by (simp add: fsub_def)
  also have "\<dots> \<le> pow2 (- 53) * 100 + pow2 (- 1075)"
    using p by (intro add_right_mono mult_left_mono) simp_all
  finally have q': "\<bar>fsub 100 p - (100 - p)\<bar> \<le> pow2 (- 53) * 100 + pow2 (- 1075)" .
  have "\<bar>original_share g p + replacement_share g p - g\<bar> \<le> 8 * (pow2 (- 53) * g) + 8 * pow2 (- 1075)"
    unfolding original_share_def replacement_share_def
    unfolding fmul_def fdiv_def
    by (rule split_error [OF pow2_nonneg e pow2_nonneg d g p q q' b rnd_bound b rnd_bound]) (use g p q in simp_all)
  moreover have "8 * pow2 (- 53) = pow2 (- 50)" "8 * pow2 (- 1075) = pow2 (- 1072)"
    using pow2_add [of 3 "- 53"] pow2_add [of 3 "- 1075"] by (simp_all add: pow2_def)
  ultimately show "\<bar>original_share g p + replacement_share g p - g\<bar> \<le> pow2 (- 50) * g + pow2 (- 1072)"
    by (simp add: mult.assoc [symmetric])
qed
text \<open>
  C23. Time off splits a commission: for a percentage between 0 and 100, the share the collaborator keeps
  and the share of the substitute are not negative, and together they are the commission of the day up to
  eight units in the last place of a \<open>float64\<close>.
\<close>

theorem time_off_split:
  assumes "calculateTimeOffItems E run original (substitute # others) base s = (Inr [kept, given], t)"
    and "goldCommissionAmount E run original s = Inr g" and "0 \<le> g"
    and "isGoldCommissionAssignment original"
    and "0 \<le> valueOrFallback (cj_TimeOffGoldSplitPercent (av_Collaborator original)) 50"
    and "valueOrFallback (cj_TimeOffGoldSplitPercent (av_Collaborator original)) 50 \<le> 100"
  shows "\<exists>a b. ai_GoldGramAmount kept = Some a \<and> ai_GoldGramAmount given = Some b \<and>
    ai_CollaboratorID kept = wa_CollaboratorID (av_Assignment original) \<and>
    ai_CollaboratorID given = wa_CollaboratorID (av_Assignment substitute) \<and>
    0 \<le> a \<and> 0 \<le> b \<and> \<bar>a + b - g\<bar> \<le> pow2 (- 50) * g + pow2 (- 1072)"
proof -
  let ?p = "valueOrFallback (cj_TimeOffGoldSplitPercent (av_Collaborator original)) 50"
  have "ai_GoldGramAmount kept = Some (original_share g ?p)" "ai_GoldGramAmount given = Some (replacement_share g ?p)"
    "ai_CollaboratorID kept = wa_CollaboratorID (av_Assignment original)"
    "ai_CollaboratorID given = wa_CollaboratorID (av_Assignment substitute)"
    using assms(1,2,4) by (auto simp: calculateTimeOffItems_def attempt_query both_def item_ops Let_def bnd_def)
  then show ?thesis using share_error [OF assms(3,5,6)] by simp
qed

definition demo_off :: AssignmentView where
  "demo_off = assignment_view demo_period (demo_assignment ''a1'' (Some ''TIME_OFF'') None)"

definition demo_off_items :: "AccrualItem list app" where
  "demo_off_items = calculateTimeOffItems demo_env demo_accrual_run demo_off [demo_substitute] zeroAccrualItem"

theorem time_off_split_witness:
  "\<exists>kept given t a b. demo_off_items demo_period = (Inr [kept, given], t) \<and>
     ai_GoldGramAmount kept = Some a \<and> ai_GoldGramAmount given = Some b \<and>
     \<bar>a + b - 5 / 2\<bar> \<le> pow2 (- 50) * (5 / 2) + pow2 (- 1072)"
proof -
  have "\<not> isl (fst (demo_off_items demo_period)) \<and> length (projr (fst (demo_off_items demo_period))) = 2" by code_simp
  then obtain kept given t where run: "demo_off_items demo_period = (Inr [kept, given], t)"
    by (cases "demo_off_items demo_period"; cases "fst (demo_off_items demo_period)")
      (auto simp: numeral_2_eq_2 length_Suc_conv)
  have g: "goldCommissionAmount demo_env demo_accrual_run demo_off demo_period = Inr (5 / 2)" by code_simp
  have p: "isGoldCommissionAssignment demo_off"
    "0 \<le> valueOrFallback (cj_TimeOffGoldSplitPercent (av_Collaborator demo_off)) 50"
    "valueOrFallback (cj_TimeOffGoldSplitPercent (av_Collaborator demo_off)) 50 \<le> 100" by code_simp+
  have "\<exists>a b. ai_GoldGramAmount kept = Some a \<and> ai_GoldGramAmount given = Some b \<and>
      \<bar>a + b - 5 / 2\<bar> \<le> pow2 (- 50) * (5 / 2) + pow2 (- 1072)"
    using time_off_split [OF run [unfolded demo_off_items_def] g _ p] by fastforce
  then show ?thesis using run by blast
qed

section \<open>Completeness of a calculation\<close>

lemma payment_item_assignment:
  "calculatePaymentItem E run a status base s = Inr x \<Longrightarrow>
   ai_WorkPeriodAssignmentID x = ai_WorkPeriodAssignmentID base"
  unfolding calculatePaymentItem_def Let_def
  by (simp only: item_ops split: if_split_asm sum.split_asm; simp only: sum.inject sum.distinct;
      hypsubst?; simp)

lemma time_off_assignment:
  "calculateTimeOffItems E run a reps (base_item E run a p i) s = (Inr xs, t) \<Longrightarrow>
   \<exists>x \<in> set xs. ai_WorkPeriodAssignmentID x = Some (assignment_id a)"
  by (cases reps) (auto simp: calculateTimeOffItems_def Let_def item_ops run_ok both_ok split: if_split_asm)

lemma assignment_covered:
  "calculateAssignment E run reps orig a s = (Inr xs, t) \<Longrightarrow>
   (\<exists>x \<in> set xs. ai_WorkPeriodAssignmentID x = Some (assignment_id a)) \<or>
   (\<exists>o'. orig (assignment_id a) = Some o' \<and> actual_status o' = ''TIME_OFF'')"
  by (auto simp: calculateAssignment_def Let_def run_ok item_ops split: if_split_asm option.split_asm
      dest: payment_item_assignment time_off_assignment)

definition accounted :: "string list \<Rightarrow> AccrualItem list \<Rightarrow> (string \<Rightarrow> AssignmentView option) \<Rightarrow> AssignmentView \<Rightarrow> bool" where
  "accounted keys xs orig a \<longleftrightarrow>
     (\<exists>x \<in> set xs. ai_WorkPeriodAssignmentID x = Some (assignment_id a)) \<or>
     (\<exists>calculation direction. itemKey (assignment_id a) calculation direction \<in> set keys) \<or>
     (\<exists>o'. orig (assignment_id a) = Some o' \<and> actual_status o' = ''TIME_OFF'')"

lemma calculateFrom_covers:
  "calculateFrom E run reps orig keys as items s = (Inr xs, t) \<Longrightarrow>
   set items \<subseteq> set xs \<and> (\<forall>a \<in> set as. accounted keys xs orig a)"
proof (induction as arbitrary: items s)
  case (Cons a as)
  from Cons.prems obtain ys u where ys: "calculateAssignment E run reps orig a s = (Inr ys, u)"
    and rest: "calculateFrom E run reps orig keys as (appendAllIfNotPosted items ys keys) u = (Inr xs, t)"
    by (auto simp: run_ok)
  note ih = Cons.IH [OF rest, unfolded appendAll_filter]
  have "accounted keys xs orig a"
  proof (cases "\<exists>o'. orig (assignment_id a) = Some o' \<and> actual_status o' = ''TIME_OFF''")
    case False
    then obtain y where "y \<in> set ys" "ai_WorkPeriodAssignmentID y = Some (assignment_id a)"
      using assignment_covered [OF ys] by blast
    then show ?thesis using ih by (cases "is_posted keys y") (auto simp: accounted_def is_posted_def)
  qed (simp add: accounted_def)
  with ih show ?case by auto
qed simp



section \<open>The summary of a run\<close>

lemma grouped_count:
  "sum_list (map (count_list keys) (filter P (remdups keys))) = length (filter P keys)"
proof -
  have "count_list keys k = count_list (filter P keys) k" if "P k" for k
    using that by (induction keys) auto
  then have "sum_list (map (count_list keys) (filter P (remdups keys))) =
      sum (count_list (filter P keys)) (set (filter P keys))"
    by (simp add: sum_list_distinct_conv_sum_set cong: sum.cong_simp)
  then show ?thesis by (simp add: sum_count_set)
qed

definition summary_of :: "(string \<Rightarrow> nat) \<Rightarrow> nat \<Rightarrow> AccrualSummaryDTO" where
  "summary_of n whole = \<lparr>su_TotalItems = whole, su_ReadyItems = n ''READY'', su_PendingItems = n ''PENDING'',
     su_SkippedItems = n ''SKIPPED'', su_PostedItems = n ''POSTED''\<rparr>"

lemma add_summary_of:
  "add_summary st k (summary_of n w) = summary_of (n(st := n st + k)) (w + k)"
  by (simp add: add_summary_def summary_of_def Let_def)

lemma summary_fold:
  "foldl (\<lambda>out ((r, status), n). out(r := add_summary status n (out r))) (\<lambda>r. summary_of (n r) (w r)) rows r =
   summary_of (\<lambda>st. n r st + sum_list (map snd (filter (\<lambda>x. fst x = (r, st)) rows)))
     (w r + sum_list (map snd (filter (\<lambda>x. fst (fst x) = r) rows)))"
proof (induction rows arbitrary: n w)
  case (Cons x rows)
  obtain q st k where x: "x = ((q, st), k)" by (metis prod.collapse)
  have "(\<lambda>r. summary_of (n r) (w r))(q := add_summary st k (summary_of (n q) (w q))) =
      (\<lambda>r. summary_of ((n(q := (n q)(st := n q st + k))) r) ((w(q := w q + k)) r))"
    by (auto simp: add_summary_of)
  then show ?case
    by (simp only: x foldl_Cons prod.case Cons.IH) (auto intro!: arg_cong2 [of _ _ _ _ summary_of])
qed simp

text \<open>
  The summary of a run counts its items: the grouped query, folded into the map, gives for a requested
  run the number of its items and of those that are ready, pending, skipped and posted.
\<close>

theorem summary_counts_items:
  assumes "r \<in> set runIDs"
  shows "SummariesForRuns E runIDs s r = (let n = (\<lambda>P. count_where (\<lambda>i. run_item E r i \<and> P (ai_Status i)) (AccrualItems s)) in
    \<lparr>su_TotalItems = n (\<lambda>_. True), su_ReadyItems = n (\<lambda>st. st = ''READY''), su_PendingItems = n (\<lambda>st. st = ''PENDING''),
     su_SkippedItems = n (\<lambda>st. st = ''SKIPPED''), su_PostedItems = n (\<lambda>st. st = ''POSTED'')\<rparr>)"
proof -
  let ?keys = "map (\<lambda>i. (ai_AccrualRunID i, ai_Status i))
    (filter (\<lambda>i. ai_TenantID i = TenantID E \<and> ai_AccrualRunID i \<in> set runIDs) (AccrualItems s))"
  have rows: "sum_list (map snd (filter (\<lambda>x. P (fst x)) (summary_rows E runIDs s))) = length (filter P ?keys)" for P
    using grouped_count [of ?keys P] by (simp add: summary_rows_def Let_def filter_map comp_def)
  have zero: "(\<lambda>_. zeroAccrualSummary) = (\<lambda>r :: string. summary_of (\<lambda>_. 0) 0)"
    by (simp add: zeroAccrualSummary_def summary_of_def)
  have "SummariesForRuns E runIDs s r = summary_of (\<lambda>st. length (filter (\<lambda>k. k = (r, st)) ?keys))
      (length (filter (\<lambda>k. fst k = r) ?keys))"
    using assms rows [of "\<lambda>k. fst k = r"] rows [of "\<lambda>k. k = (r, st)" for st]
    by (auto simp: SummariesForRuns_def zero summary_fold)
  moreover have "length (filter (\<lambda>k. k = (r, st)) ?keys) = count_where (\<lambda>i. run_item E r i \<and> ai_Status i = st) (AccrualItems s)" for st
    using assms by (auto simp: filter_map count_where_def run_item_def comp_def intro!: arg_cong [of _ _ length] filter_cong)
  moreover have "length (filter (\<lambda>k. fst k = r) ?keys) = count_where (run_item E r) (AccrualItems s)"
    using assms by (auto simp: filter_map count_where_def run_item_def comp_def intro!: arg_cong [of _ _ length] filter_cong)
  ultimately show ?thesis by (simp add: summary_of_def)
qed
theorem summary_counts_items_witness:
  "su_PendingItems (SummariesForRuns demo_env [''n''] demo_run ''n'') =
     count_where (\<lambda>i. run_item demo_env ''n'' i \<and> ai_Status i = ''PENDING'') (AccrualItems demo_run)"
  using summary_counts_items [of "''n''" "[''n'']" demo_env demo_run] by (simp add: Let_def)

end
