(* ===== verification/ExpenseStore.thy ===== *)
theory ExpenseStore
  imports AccrualCalculation
begin

text \<open>
  The table of the expenses with the constraints and triggers of the migrations 000030, 000041, 000057
  and 000060, and the repository of \<open>backend/internal/expenses/repository_gorm.go\<close>: an expense and its
  ledger debit are written together, a change reverses the latest posting and posts a replacement, and a
  cancellation reverses it and closes the receipts that are still open.
\<close>

section \<open>Constraints\<close>

definition missing :: "string \<Rightarrow> bool" where
  "missing v \<longleftrightarrow> SqlTrim v = []"

definition not_positive :: "float64 option \<Rightarrow> bool" where
  "not_positive v \<longleftrightarrow> (case v of None \<Rightarrow> True | Some x \<Rightarrow> x \<le> 0)"

definition expense_audit_guards :: "Expense \<Rightarrow> (bool \<times> string) list" where
  "expense_audit_guards x = [
     (ex_PriceListItemID x \<noteq> None \<and>
        (missing (ex_PriceListItemCode x) \<or> SqlTrim (ex_ItemType x) \<notin> set [''CANTEEN'', ''ADMINISTRATIVE''] \<or>
         missing (ex_ItemDescription x) \<or> not_positive (ex_Quantity x) \<or> not_positive (ex_UnitPriceBRL x) \<or>
         SqlTrim (ex_CurrencyCode x) \<notin> set [''BRL'', ''GOLD_GRAM''] \<or> not_positive (ex_UnitPriceAmount x) \<or>
         not_positive (ex_TotalAmount x) \<or> missing (ex_CalculationMethod x) \<or>
         missing (ex_CalculationDetailsJSON x)),
        ''price-list expense requires complete audit snapshot''),
     (ex_PriceListItemID x \<noteq> None \<and> SqlTrim (ex_CurrencyCode x) = ''GOLD_GRAM'' \<and>
        ((case ex_GoldPriceID x of None \<Rightarrow> True | Some g \<Rightarrow> missing g) \<or> not_positive (ex_GoldBRLPerGram x) \<or>
         missing (ex_GoldPriceDate x) \<or> SqlTrim (ex_CalculationMethod x) \<noteq> ''BRL_TO_GOLD_GRAM_LATEST_PRICE''),
        ''gold price-list expense requires gold conversion audit snapshot''),
     (ex_PriceListItemID x \<noteq> None \<and> SqlTrim (ex_CurrencyCode x) = ''BRL'' \<and>
        SqlTrim (ex_CalculationMethod x) \<noteq> ''BRL_PRICE_LIST'',
        ''BRL price-list expense requires BRL calculation method'')]"

definition expense_references :: "store \<Rightarrow> Expense \<Rightarrow> (bool \<times> string) list" where
  "expense_references s x = (let T = ex_TenantID x in [
     (\<not> journey_in s T (ex_CollaboratorID x) \<or>
      \<not> reference_in s T ''expense_category'' (ex_ExpenseCategoryID x) \<or>
      \<not> reference_in s T ''value_unit'' (ex_ValueUnitID x) \<or>
      (case ex_PriceListItemID x of None \<Rightarrow> False
       | Some p \<Rightarrow> \<not> list_ex (\<lambda>r. pl_ID r = p \<and> pl_TenantID r = T) (PriceListItems s)) \<or>
      (case ex_GoldPriceID x of None \<Rightarrow> False
       | Some g \<Rightarrow> \<not> list_ex (\<lambda>r. gr_ID r = g \<and> gr_TenantID r = T) (GoldPrices s)),
      ''cross_tenant_reference'')])"

definition expense_cancellation_guards :: "store \<Rightarrow> Expense \<Rightarrow> (bool \<times> string) list" where
  "expense_cancellation_guards s x = [
     (ex_CancelledAt x \<noteq> None \<and> (ex_Active x \<or> missing (ex_CancelledBy x) \<or> missing (ex_CancellationReason x)),
        ''expense_cancellation_incomplete''),
     (case ex_RecreatedFromExpenseID x of None \<Rightarrow> False
      | Some r \<Rightarrow> \<not> list_ex (\<lambda>y. ex_ID y = r \<and> ex_TenantID y = ex_TenantID x \<and> \<not> ex_Active y \<and>
          ex_CancelledAt y \<noteq> None) (Expenses s), ''expense_recreation_source_invalid'')]"

definition expense_insert_guards :: "store \<Rightarrow> Expense \<Rightarrow> (bool \<times> string) list" where
  "expense_insert_guards s x =
     [(\<not> tenant_exists s (ex_TenantID x), ''tenant_integrity_violation'')] @ expense_references s x @
     [(missing (ex_PersonID x), ''expense_person_required''),
      (\<not> owns_journey s (ex_TenantID x) (ex_CollaboratorID x) (ex_PersonID x), ''expense_person_tenant_journey_mismatch'')]
     @ expense_audit_guards x @ expense_cancellation_guards s x @
     [(list_ex (\<lambda>y. ex_ID y = ex_ID x) (Expenses s), ''UNIQUE constraint failed: expenses.id''),
      (ex_RecreatedFromExpenseID x \<noteq> None \<and>
         list_ex (\<lambda>y. ex_RecreatedFromExpenseID y = ex_RecreatedFromExpenseID x) (Expenses s),
         ''UNIQUE constraint failed: expenses.recreated_from_expense_id'')]"

definition expense_update_guards :: "store \<Rightarrow> Expense \<Rightarrow> Expense \<Rightarrow> (bool \<times> string) list" where
  "expense_update_guards s old new =
     [(ex_CancelledAt old \<noteq> None \<and>
         (ex_CancelledAt new \<noteq> ex_CancelledAt old \<or> ex_CancelledBy new \<noteq> ex_CancelledBy old \<or>
          ex_CancellationReason new \<noteq> ex_CancellationReason old \<or> ex_Active new \<noteq> ex_Active old),
         ''expense_cancellation_immutable''),
      (stringValue (ex_RecreatedFromExpenseID new) \<noteq> stringValue (ex_RecreatedFromExpenseID old),
         ''expense_recreation_link_immutable'')]
     @ expense_cancellation_guards s new @ expense_references s new @ expense_audit_guards new"

text \<open>The owner's trigger fires on a statement that names the owner's columns.\<close>

definition expense_owner_guards :: "store \<Rightarrow> Expense \<Rightarrow> (bool \<times> string) list" where
  "expense_owner_guards s new = [
     (missing (ex_PersonID new) \<or> \<not> owns_journey s (ex_TenantID new) (ex_CollaboratorID new) (ex_PersonID new),
      ''expense_person_tenant_journey_mismatch'')]"

definition updateExpenses ::
  "(store \<Rightarrow> Expense \<Rightarrow> Expense \<Rightarrow> (bool \<times> string) list) \<Rightarrow> (Expense \<Rightarrow> bool) \<Rightarrow> (Expense \<Rightarrow> Expense) \<Rightarrow> unit app"
  where "updateExpenses = guarded_update Expenses Expenses_update"

definition with_expense_defaults :: "env \<Rightarrow> Expense \<Rightarrow> Expense" where
  "with_expense_defaults E x = x\<lparr>
     ex_CreatedAt := or_time (ex_CreatedAt x) (Now E), ex_UpdatedAt := or_time (ex_UpdatedAt x) (Now E),
     ex_TenantID := or_default (ex_TenantID x) ''default'', ex_Active := True\<rparr>"

definition createExpense :: "env \<Rightarrow> Expense \<Rightarrow> Expense app" where
  "createExpense E x0 = (let x = with_expense_defaults E x0 in
     bnd (query (\<lambda>s. abort_if (expense_insert_guards s x)))
     (\<lambda>_. bnd (modify (\<lambda>s. s\<lparr>Expenses := Expenses s @ [x]\<rparr>)) (\<lambda>_. ret x)))"

section \<open>Ledger entries of an expense\<close>

definition expenseLedgerEntry :: "Expense \<Rightarrow> LedgerEntry" where
  "expenseLedgerEntry x = zeroLedgerEntry\<lparr>le_ID := ''ledger-expense-'' @ ex_ID x, le_CreatedAt := ex_CreatedAt x,
     le_UpdatedAt := ex_UpdatedAt x, le_TenantID := ex_TenantID x, le_PersonID := ex_PersonID x,
     le_CollaboratorID := ex_CollaboratorID x, le_ValueUnitID := ex_ValueUnitID x,
     le_EntryType := ''EXPENSE_DEDUCTION'', le_Direction := ''DEBIT'', le_Amount := ex_Amount x,
     le_EffectiveDate := ex_ExpenseDate x, le_SourceType := ''EXPENSE'', le_SourceID := ex_ID x,
     le_Description := ex_Description x, le_Active := True, le_CorrectionType := ''ORIGINAL''\<rparr>"

definition expenseOppositeDirection :: "string \<Rightarrow> string" where
  "expenseOppositeDirection d = (if d = ''CREDIT'' then ''DEBIT'' else ''CREDIT'')"

definition reversalLedgerEntry :: "env \<Rightarrow> LedgerEntry \<Rightarrow> time \<Rightarrow> string \<Rightarrow> LedgerEntry app" where
  "reversalLedgerEntry E original now reason = bnd (newID E) (\<lambda>i. bnd (newID E) (\<lambda>j. ret
     (zeroLedgerEntry\<lparr>le_ID := ''ledger-reversal-'' @ i, le_CreatedAt := now, le_UpdatedAt := now,
        le_TenantID := le_TenantID original, le_PersonID := le_PersonID original,
        le_CollaboratorID := le_CollaboratorID original, le_ValueUnitID := le_ValueUnitID original,
        le_EntryType := le_EntryType original, le_Direction := expenseOppositeDirection (le_Direction original),
        le_Amount := le_Amount original, le_EffectiveDate := now, le_SourceType := ''LEDGER_CORRECTION'',
        le_SourceID := ''ledger-reversal-'' @ le_ID original @ ''-'' @ j,
        le_Description := ''Reversal of ledger entry '' @ le_ID original, le_Active := True,
        le_CorrectionType := ''REVERSAL'', le_RelatedEntryID := Some (le_ID original),
        le_CorrectionReason := reason\<rparr>)))"

definition replacementExpenseLedgerEntry ::
  "env \<Rightarrow> Expense \<Rightarrow> LedgerEntry option \<Rightarrow> time \<Rightarrow> LedgerEntry app" where
  "replacementExpenseLedgerEntry E x original now = bnd (newID E) (\<lambda>i. bnd (newID E) (\<lambda>j. ret
     (zeroLedgerEntry\<lparr>le_ID := ''ledger-expense-replacement-'' @ i, le_CreatedAt := now, le_UpdatedAt := now,
        le_TenantID := ex_TenantID x, le_PersonID := ex_PersonID x, le_CollaboratorID := ex_CollaboratorID x,
        le_ValueUnitID := ex_ValueUnitID x, le_EntryType := ''EXPENSE_DEDUCTION'', le_Direction := ''DEBIT'',
        le_Amount := ex_Amount x, le_EffectiveDate := ex_ExpenseDate x, le_SourceType := ''EXPENSE_REPLACEMENT'',
        le_SourceID := ex_ID x @ '':'' @ j, le_Description := ex_Description x, le_Active := True,
        le_CorrectionType := ''REPLACEMENT'', le_RelatedEntryID := map_option le_ID original,
        le_CorrectionReason := ''Expense replacement for '' @ ex_ID x\<rparr>)))"

text \<open>The postings of an expense: its own debit and the replacements, whose source begins with its identifier.\<close>

definition expense_posting :: "string \<Rightarrow> string \<Rightarrow> LedgerEntry \<Rightarrow> bool" where
  "expense_posting T i e \<longleftrightarrow> le_TenantID e = T \<and> le_CorrectionType e \<in> set [''ORIGINAL'', ''REPLACEMENT''] \<and>
     (le_SourceType e = ''EXPENSE'' \<and> le_SourceID e = i \<or>
      le_SourceType e = ''EXPENSE_REPLACEMENT'' \<and> sql_like (i @ '':%'') (le_SourceID e))"

definition latestExpenseLedgerEntry :: "string \<Rightarrow> string \<Rightarrow> store \<Rightarrow> LedgerEntry option" where
  "latestExpenseLedgerEntry T i s =
     first_by (\<lambda>e. (- le_CreatedAt e, le_ID e)) (expense_posting T i) (Ledger s)"

definition ensureReceiptObligation :: "string \<Rightarrow> string \<Rightarrow> store \<Rightarrow> app_error + unit" where
  "ensureReceiptObligation T i s =
     (if count_where (\<lambda>r. lr_LedgerEntryID r = i \<and> lr_TenantID r = T) (Receipts s) \<noteq> 1
      then Inl ErrExpenseReceiptObligationMissing else Inr ())"

section \<open>Writing an expense\<close>

definition createWithPosting :: "env \<Rightarrow> Expense \<Rightarrow> Expense app" where
  "createWithPosting E x0 =
     bnd (createExpense E x0)
     (\<lambda>x. bnd (createLedgerEntry E (expenseLedgerEntry x))
     (\<lambda>entry. bnd (query (ensureReceiptObligation (le_TenantID entry) (le_ID entry))) (\<lambda>_. ret x)))"

definition repoCreate :: "env \<Rightarrow> Expense \<Rightarrow> Expense app" where
  "repoCreate E x = transaction (createWithPosting E x)"

definition CreateBatch :: "env \<Rightarrow> Expense list \<Rightarrow> Expense list app" where
  "CreateBatch E xs = (if xs = [] then ret [] else transaction (map_each (createWithPosting E) xs))"

text \<open>\<open>if previous != nil\<close>: the reversal of the previous posting.\<close>

definition reversePrevious :: "env \<Rightarrow> LedgerEntry option \<Rightarrow> time \<Rightarrow> string \<Rightarrow> unit app" where
  "reversePrevious E previous now reason = (case previous of None \<Rightarrow> ret ()
     | Some e \<Rightarrow> bnd (reversalLedgerEntry E e now reason)
         (\<lambda>reversal. bnd (createLedgerEntry E reversal) (\<lambda>_. ret ())))"

definition expense_of :: "env \<Rightarrow> string \<Rightarrow> Expense \<Rightarrow> bool" where
  "expense_of E i x \<longleftrightarrow> ex_ID x = i \<and> ex_TenantID x = TenantID E"

text \<open>The columns \<open>Update\<close> writes.\<close>

definition updated_row :: "Expense \<Rightarrow> Expense \<Rightarrow> Expense" where
  "updated_row x row = row\<lparr>ex_PersonID := ex_PersonID x, ex_CollaboratorID := ex_CollaboratorID x,
     ex_ExpenseCategoryID := ex_ExpenseCategoryID x, ex_ValueUnitID := ex_ValueUnitID x, ex_Amount := ex_Amount x,
     ex_ExpenseDate := ex_ExpenseDate x, ex_Description := ex_Description x, ex_Active := ex_Active x,
     ex_PriceListItemID := ex_PriceListItemID x, ex_PriceListItemCode := ex_PriceListItemCode x,
     ex_ItemType := ex_ItemType x, ex_ItemDescription := ex_ItemDescription x, ex_Quantity := ex_Quantity x,
     ex_UnitPriceBRL := ex_UnitPriceBRL x, ex_CurrencyCode := ex_CurrencyCode x, ex_GoldPriceID := ex_GoldPriceID x,
     ex_GoldBRLPerGram := ex_GoldBRLPerGram x, ex_GoldPriceDate := ex_GoldPriceDate x,
     ex_UnitPriceAmount := ex_UnitPriceAmount x, ex_TotalAmount := ex_TotalAmount x,
     ex_CalculationMethod := ex_CalculationMethod x, ex_CalculationDetailsJSON := ex_CalculationDetailsJSON x,
     ex_UpdatedAt := ex_UpdatedAt x\<rparr>"

definition repoUpdate :: "env \<Rightarrow> Expense \<Rightarrow> unit app" where
  "repoUpdate E x = transaction
     (bnd (query (\<lambda>s. Inr (latestExpenseLedgerEntry (ex_TenantID x) (ex_ID x) s)))
     (\<lambda>previous. bnd (updateExpenses (\<lambda>s old new. expense_update_guards s old new @ expense_owner_guards s new)
          (expense_of E (ex_ID x)) (updated_row x))
     (\<lambda>_. let now = or_time (ex_UpdatedAt x) (Now E) in
        bnd (reversePrevious E previous now ''Expense ledger correction'')
     (\<lambda>_. if ex_Active x then
          bnd (replacementExpenseLedgerEntry E x previous now)
          (\<lambda>replacement0. bnd (createLedgerEntry E replacement0)
          (\<lambda>replacement. query (ensureReceiptObligation (le_TenantID replacement) (le_ID replacement))))
        else ret ()))))"

section \<open>Cancelling an expense\<close>

definition open_receipt_of :: "string \<Rightarrow> string \<Rightarrow> LedgerReceipt \<Rightarrow> bool" where
  "open_receipt_of T i r \<longleftrightarrow> lr_TenantID r = T \<and> lr_LedgerEntryID r = i \<and>
     lr_Status r \<notin> set [''RETURNED'', ''CANCELLED'']"

definition cancelled_receipt :: "string \<Rightarrow> string \<Rightarrow> time \<Rightarrow> LedgerReceipt \<Rightarrow> LedgerReceipt" where
  "cancelled_receipt actor reason now r = r\<lparr>lr_Status := ''CANCELLED'', lr_CancelledAt := Some now,
     lr_CancelledBy := TrimSpace actor, lr_CancellationReason := TrimSpace reason, lr_UpdatedAt := now\<rparr>"

definition cancelOpenExpenseReceipt :: "string \<Rightarrow> string \<Rightarrow> string \<Rightarrow> string \<Rightarrow> time \<Rightarrow> unit app" where
  "cancelOpenExpenseReceipt T i actor reason now =
     updateReceipts (open_receipt_of T i) (cancelled_receipt actor reason now)"

definition ensureExpenseReceiptTerminal :: "string \<Rightarrow> string \<Rightarrow> store \<Rightarrow> app_error + unit" where
  "ensureExpenseReceiptTerminal T i s =
     (case first_by lr_ID (\<lambda>r. lr_TenantID r = T \<and> lr_LedgerEntryID r = i) (Receipts s) of
        None \<Rightarrow> Inl ErrExpenseReceiptObligationMissing
      | Some r \<Rightarrow> if lr_Status r \<notin> set [''RETURNED'', ''CANCELLED'']
          then Inl ErrExpenseReceiptCancellationIncomplete else Inr ())"

definition cancelled_row :: "Expense \<Rightarrow> string \<Rightarrow> string \<Rightarrow> Expense \<Rightarrow> Expense" where
  "cancelled_row x actor reason row = row\<lparr>ex_Active := False, ex_CancelledAt := ex_CancelledAt x,
     ex_CancelledBy := TrimSpace actor, ex_CancellationReason := TrimSpace reason, ex_UpdatedAt := ex_UpdatedAt x\<rparr>"

definition debit_postings :: "string \<Rightarrow> string \<Rightarrow> store \<Rightarrow> string list" where
  "debit_postings T i s = map le_ID (filter (\<lambda>e. expense_posting T i e \<and> le_Direction e = ''DEBIT'') (Ledger s))"

text \<open>What follows the update of the row: the reversal of the latest posting and the closing of the receipts.\<close>

definition reverseCancelled :: "env \<Rightarrow> Expense \<Rightarrow> string \<Rightarrow> string \<Rightarrow> LedgerEntry option \<Rightarrow> unit app" where
  "reverseCancelled E x actor reason previous = (case previous of None \<Rightarrow> ret ()
     | Some e \<Rightarrow> let T = ex_TenantID x; now = or_time (ex_UpdatedAt x) (Now E) in
       bnd (reversePrevious E previous now (''Expense cancellation: '' @ TrimSpace reason))
       (\<lambda>_. bnd (cancelOpenExpenseReceipt T (le_ID e) actor reason now)
       (\<lambda>_. bnd (query (\<lambda>s. Inr (debit_postings T (ex_ID x) s)))
       (\<lambda>ids. bnd (for_each (\<lambda>i. if i = le_ID e then ret () else cancelOpenExpenseReceipt T i actor reason now) ids)
       (\<lambda>_. query (ensureExpenseReceiptTerminal T (le_ID e)))))))"

definition repoCancel :: "env \<Rightarrow> Expense \<Rightarrow> string \<Rightarrow> string \<Rightarrow> unit app" where
  "repoCancel E x actor reason = (let P = (\<lambda>row. expense_of E (ex_ID x) row \<and> ex_Active row) in transaction
     (bnd (query (\<lambda>s. Inr (latestExpenseLedgerEntry (ex_TenantID x) (ex_ID x) s)))
     (\<lambda>previous. bnd (query (\<lambda>s. Inr (count_where P (Expenses s))))
     (\<lambda>affected. bnd (updateExpenses expense_update_guards P (cancelled_row x actor reason))
     (\<lambda>_. bnd (ensure (affected = 1) ErrRecordNotFound)
     (\<lambda>_. reverseCancelled E x actor reason previous))))))"

end
