(* ===== verification/ExpenseCalculation.thy ===== *)
theory ExpenseCalculation
  imports ExpenseStore
begin

text \<open>
  The requests of the expense service, their validation and what an expense costs
  (\<open>dto.go\<close>, \<open>validation.go\<close>, \<open>mapper.go\<close> and the calculation of \<open>service_impl.go\<close> in
  \<open>backend/internal/expenses\<close>): a price-list item is charged in BRL or, at the latest gold price, in
  grams of gold; the older form takes a category, a value unit and an amount. Either leaves on the row
  the audit fields and the JSON text of the calculation.
\<close>

section \<open>Requests\<close>

record CreateExpenseRequest =
  eq_CollaboratorID :: string
  eq_ExpenseCategoryID :: string
  eq_ValueUnitID :: string
  eq_Amount :: float64
  eq_ExpenseDate :: string
  eq_Description :: string
  eq_RecreatedFromExpenseID :: string
  eq_PriceListItemID :: string
  eq_CurrencyCode :: string
  eq_Quantity :: float64

text \<open>The update request is declared with the same fields.\<close>

type_synonym UpdateExpenseRequest = CreateExpenseRequest

record CreateCanteenExpenseBatchItemRequest =
  bi_PriceListItemID :: string
  bi_CurrencyCode :: string
  bi_Quantity :: float64

record CreateCanteenExpenseBatchRequest =
  bq_CollaboratorID :: string
  bq_ExpenseDate :: string
  bq_Description :: string
  bq_Items :: "CreateCanteenExpenseBatchItemRequest list"

record ExpenseListFilter =
  ef_CollaboratorID :: string
  ef_CollaboratorSearch :: string
  ef_ExpenseCategoryID :: string
  ef_ValueUnitID :: string
  ef_ItemType :: string
  ef_PriceListItemID :: string
  ef_CurrencyCode :: string
  ef_DateFrom :: string
  ef_DateTo :: string
  ef_IncludeInactive :: bool
  ef_Page :: int
  ef_PageSize :: int

section \<open>Validation\<close>

definition normalizeCurrencyCode :: "string \<Rightarrow> string" where
  "normalizeCurrencyCode v = ToUpper (TrimSpace v)"

definition normalizeItemType :: "string \<Rightarrow> string" where
  "normalizeItemType v = ToUpper (TrimSpace v)"

definition usesPriceListCalculation :: "string \<Rightarrow> string \<Rightarrow> float64 \<Rightarrow> bool" where
  "usesPriceListCalculation item currency quantity \<longleftrightarrow>
     TrimSpace item \<noteq> [] \<or> TrimSpace currency \<noteq> [] \<or> 0 < quantity"

definition requireString :: "string \<Rightarrow> string \<Rightarrow> validation_fields \<Rightarrow> validation_fields" where
  "requireString key v = check (TrimSpace v = []) key ''Required''"

definition valid_currency :: "string \<Rightarrow> bool" where
  "valid_currency v \<longleftrightarrow> normalizeCurrencyCode v \<in> set [''BRL'', ''GOLD_GRAM'']"

definition invalid_currency :: "string \<Rightarrow> bool" where
  "invalid_currency v \<longleftrightarrow> TrimSpace v \<noteq> [] \<and> \<not> valid_currency v"

definition validateLegacyExpenseFields ::
  "string \<Rightarrow> string \<Rightarrow> string \<Rightarrow> float64 \<Rightarrow> string \<Rightarrow> app_error + unit" where
  "validateLegacyExpenseFields collaborator category valueUnit amount date = validated
     (check (amount \<le> 0) ''amount'' ''Amount must be greater than zero''
     (check (invalid_date date) ''expenseDate'' ''Expense date must be YYYY-MM-DD''
     (requireString ''expenseDate'' date
     (requireString ''valueUnitId'' valueUnit
     (requireString ''expenseCategoryId'' category
     (requireString ''collaboratorId'' collaborator []))))))"

definition validatePriceListExpenseFields ::
  "string \<Rightarrow> string \<Rightarrow> string \<Rightarrow> float64 \<Rightarrow> string \<Rightarrow> string \<Rightarrow> string \<Rightarrow> float64 \<Rightarrow> app_error + unit" where
  "validatePriceListExpenseFields collaborator item currency quantity date category valueUnit amount = validated
     (check (0 < amount) ''amount'' ''Amount is calculated from unit price and quantity''
     (check (TrimSpace valueUnit \<noteq> []) ''valueUnitId'' ''Value unit is derived from the selected currency''
     (check (TrimSpace category \<noteq> []) ''expenseCategoryId''
        ''Expense category is derived from the price list item''
     (check (quantity \<le> 0) ''quantity'' ''Quantity must be greater than zero''
     (check (invalid_currency currency) ''currencyCode'' ''Currency code must be BRL or GOLD_GRAM''
     (check (invalid_date date) ''expenseDate'' ''Expense date must be YYYY-MM-DD''
     (requireString ''expenseDate'' date
     (requireString ''currencyCode'' currency
     (requireString ''priceListItemId'' item
     (requireString ''collaboratorId'' collaborator []))))))))))"

definition ValidateCreateExpense :: "CreateExpenseRequest \<Rightarrow> app_error + unit" where
  "ValidateCreateExpense q =
     (if usesPriceListCalculation (eq_PriceListItemID q) (eq_CurrencyCode q) (eq_Quantity q)
      then validatePriceListExpenseFields (eq_CollaboratorID q) (eq_PriceListItemID q) (eq_CurrencyCode q)
        (eq_Quantity q) (eq_ExpenseDate q) (eq_ExpenseCategoryID q) (eq_ValueUnitID q) (eq_Amount q)
      else validateLegacyExpenseFields (eq_CollaboratorID q) (eq_ExpenseCategoryID q) (eq_ValueUnitID q)
        (eq_Amount q) (eq_ExpenseDate q))"

definition ValidateUpdateExpense :: "UpdateExpenseRequest \<Rightarrow> app_error + unit" where
  "ValidateUpdateExpense q =
     (if usesPriceListCalculation (eq_PriceListItemID q) (eq_CurrencyCode q) (eq_Quantity q)
      then validatePriceListExpenseFields (eq_CollaboratorID q) (eq_PriceListItemID q) (eq_CurrencyCode q)
        (eq_Quantity q) (eq_ExpenseDate q) (eq_ExpenseCategoryID q) (eq_ValueUnitID q) (eq_Amount q)
      else validateLegacyExpenseFields (eq_CollaboratorID q) (eq_ExpenseCategoryID q) (eq_ValueUnitID q)
        (eq_Amount q) (eq_ExpenseDate q))"

definition ValidateExpenseListFilter :: "ExpenseListFilter \<Rightarrow> app_error + unit" where
  "ValidateExpenseListFilter f = validated
     (check (ef_PageSize f < 0) ''pageSize'' ''Page size must be greater than zero''
     (check (ef_Page f < 0) ''page'' ''Page must be greater than zero''
     (check (TrimSpace (ef_ItemType f) \<noteq> [] \<and>
          normalizeItemType (ef_ItemType f) \<notin> set [''CANTEEN'', ''ADMINISTRATIVE'']) ''itemType''
        ''Item type must be CANTEEN or ADMINISTRATIVE''
     (check (invalid_currency (ef_CurrencyCode f)) ''currencyCode'' ''Currency code must be BRL or GOLD_GRAM''
     (check (invalid_date (ef_DateTo f)) ''dateTo'' ''Date to must be YYYY-MM-DD''
     (check (invalid_date (ef_DateFrom f)) ''dateFrom'' ''Date from must be YYYY-MM-DD'' []))))))"

definition parseExpenseDate :: "string \<Rightarrow> app_error + time" where
  "parseExpenseDate v = (case parseDate v of
       None \<Rightarrow> Inl (ValidationError [(''expenseDate'', ''Expense date must be YYYY-MM-DD'')])
     | Some t \<Rightarrow> Inr t)"

section \<open>Reference data and prices\<close>

definition FindActiveReferenceByID :: "env \<Rightarrow> string \<Rightarrow> string \<Rightarrow> store \<Rightarrow> app_error + ReferenceData" where
  "FindActiveReferenceByID E i ty s = found ErrRecordNotFound
     (first_by rd_ID (\<lambda>r. rd_ID r = TrimSpace i \<and> rd_TenantID r = TenantID E \<and> rd_Type r = ty \<and>
        rd_Active r) (References s))"

definition FindActivePriceListItemByID :: "env \<Rightarrow> string \<Rightarrow> store \<Rightarrow> app_error + ExpensePriceListItem" where
  "FindActivePriceListItemByID E i s = found ErrRecordNotFound
     (first_by pl_ID (\<lambda>p. pl_ID p = i \<and> pl_TenantID p = TenantID E \<and> pl_Active p) (PriceListItems s))"

definition newer_price :: "GoldPrice \<Rightarrow> GoldPrice \<Rightarrow> bool" where
  "newer_price p q \<longleftrightarrow> (gr_PriceDate q, gr_CreatedAt q) < (gr_PriceDate p, gr_CreatedAt p) \<or>
     (gr_PriceDate q, gr_CreatedAt q) = (gr_PriceDate p, gr_CreatedAt p) \<and> gr_ID p \<le> gr_ID q"

text \<open>\<open>ORDER BY price_date DESC, created_at DESC\<close>, and the primary key that \<open>First\<close> appends.\<close>

fun newest_price :: "GoldPrice list \<Rightarrow> GoldPrice option" where
  "newest_price [] = None"
| "newest_price (p # ps) = (case newest_price ps of None \<Rightarrow> Some p
     | Some q \<Rightarrow> Some (if newer_price p q then p else q))"

definition FindLatestActiveGoldPrice :: "env \<Rightarrow> store \<Rightarrow> app_error + GoldPrice" where
  "FindLatestActiveGoldPrice E s = found ErrRecordNotFound
     (newest_price (filter (\<lambda>p. gr_TenantID p = TenantID E \<and> gr_Active p) (GoldPrices s)))"

text \<open>A missing record reported as a field of the request.\<close>

definition not_found_as :: "string \<Rightarrow> string \<Rightarrow> app_error + 'r \<Rightarrow> app_error + 'r" where
  "not_found_as field msg r = (case r of
       Inl e \<Rightarrow> Inl (if e = ErrRecordNotFound then ValidationError [(field, msg)] else e)
     | Inr x \<Rightarrow> Inr x)"

definition findActiveReference ::
  "env \<Rightarrow> string \<Rightarrow> string \<Rightarrow> string \<Rightarrow> string \<Rightarrow> store \<Rightarrow> app_error + ReferenceData" where
  "findActiveReference E field i ty msg s =
     not_found_as field msg (FindActiveReferenceByID E (TrimSpace i) ty s)"

section \<open>JSON\<close>

text \<open>
  \<open>json.Marshal\<close> of a \<open>map[string]any\<close>: the keys in order, strings escaped as the encoder does for
  HTML, numbers in their shortest decimal form.
\<close>

datatype json = JString string | JNumber float64 | JInt string

definition hex_digit :: "nat \<Rightarrow> char" where
  "hex_digit n = (if n < 10 then char_of (48 + n) else char_of (87 + n))"

definition json_char :: "char \<Rightarrow> string" where
  "json_char c = (let n = (of_char c :: nat) in
     if n = 34 then [CHR 0x5C, c] else if n = 92 then [CHR 0x5C, c]
     else if n = 8 then CHR 0x5C # ''b'' else if n = 12 then CHR 0x5C # ''f''
     else if n = 10 then CHR 0x5C # ''n'' else if n = 13 then CHR 0x5C # ''r''
     else if n = 9 then CHR 0x5C # ''t''
     else if n < 32 \<or> n \<in> set [38, 60, 62]
     then CHR 0x5C # ''u00'' @ [hex_digit (n div 16), hex_digit (n mod 16)] else [c])"

definition json_string :: "string \<Rightarrow> string" where
  "json_string v = CHR 0x22 # concat (map json_char v) @ [CHR 0x22]"

fun json_value :: "env \<Rightarrow> json \<Rightarrow> string" where
  "json_value E (JString v) = json_string v"
| "json_value E (JNumber x) = FormatFloat E x"
| "json_value E (JInt v) = v"

fun json_members :: "env \<Rightarrow> (string \<times> json) list \<Rightarrow> string" where
  "json_members E [] = []"
| "json_members E [(k, v)] = json_string k @ '':'' @ json_value E v"
| "json_members E ((k, v) # w # ms) = json_string k @ '':'' @ json_value E v @ '','' @ json_members E (w # ms)"

definition json_object :: "env \<Rightarrow> (string \<times> json) list \<Rightarrow> string" where
  "json_object E ms = ''{'' @ json_members E (sort_key fst ms) @ ''}''"

section \<open>Calculation\<close>

definition legacyItemTypeForCategory :: "string \<Rightarrow> string" where
  "legacyItemTypeForCategory code = (if normalizeItemType code = ''CANTEEN'' then ''CANTEEN'' else ''ADMINISTRATIVE'')"

definition legacyPriceListItemCode :: "string \<Rightarrow> string" where
  "legacyPriceListItemCode itemType = (if itemType = ''CANTEEN'' then ''LEGACY_CANTEEN_DIRECT_ENTRY''
     else ''LEGACY_ADMINISTRATIVE_DIRECT_ENTRY'')"

definition normalizeStoredGoldPriceDate :: "string \<Rightarrow> string" where
  "normalizeStoredGoldPriceDate v = (let t = TrimSpace v in if 10 \<le> length t then take 10 t else t)"

definition legacyCalculationDetailsJSON ::
  "env \<Rightarrow> ReferenceData \<Rightarrow> ReferenceData \<Rightarrow> string \<Rightarrow> string \<Rightarrow> float64 \<Rightarrow> string" where
  "legacyCalculationDetailsJSON E category valueUnit itemType itemDescription amount = json_object E [
     (''calculationVersion'', JInt ''1''),
     (''calculationMethod'', JString ''LEGACY_DIRECT_ENTRY''),
     (''source'', JString ''legacy_direct_entry_api''),
     (''legacyExpenseCategoryId'', JString (rd_ID category)),
     (''legacyExpenseCategoryCode'', JString (normalizeItemType (rd_Code category))),
     (''legacyExpenseCategory'', JString (rd_Label category)),
     (''legacyValueUnitId'', JString (rd_ID valueUnit)),
     (''currencyCode'', JString (normalizeCurrencyCode (rd_Code valueUnit))),
     (''itemType'', JString itemType),
     (''itemDescription'', JString itemDescription),
     (''quantity'', JInt ''1''),
     (''unitPriceAmount'', JNumber amount),
     (''totalAmount'', JNumber amount)]"

definition calculationDetailsJSON ::
  "env \<Rightarrow> ExpensePriceListItem \<Rightarrow> string \<Rightarrow> float64 \<Rightarrow> float64 \<Rightarrow> float64 \<Rightarrow> string option \<Rightarrow>
   float64 option \<Rightarrow> string \<Rightarrow> string \<Rightarrow> string" where
  "calculationDetailsJSON E item currency quantity unitPrice totalAmount goldID goldRate goldDate calcMethod =
     json_object E ([
     (''priceListItemId'', JString (pl_ID item)),
     (''itemType'', JString (pl_ItemType item)),
     (''itemCode'', JString (pl_Code item)),
     (''itemDescription'', JString (pl_Description item)),
     (''unitPriceBrl'', JNumber (pl_UnitPriceBRL item)),
     (''currencyCode'', JString currency),
     (''quantity'', JNumber quantity),
     (''unitPriceAmount'', JNumber unitPrice),
     (''totalAmount'', JNumber totalAmount),
     (''calculationMethod'', JString calcMethod),
     (''calculationVersion'', JInt ''1'')] @
     (case (goldID, goldRate) of
        (Some g, Some r) \<Rightarrow> [(''goldPriceId'', JString g), (''goldBrlPerGram'', JNumber r),
          (''goldPriceDate'', JString goldDate)]
      | _ \<Rightarrow> []))"

definition clearPriceListCalculation :: "Expense \<Rightarrow> Expense" where
  "clearPriceListCalculation x = x\<lparr>ex_PriceListItemID := None, ex_PriceListItemCode := [], ex_ItemType := [],
     ex_ItemDescription := [], ex_Quantity := None, ex_UnitPriceBRL := None, ex_CurrencyCode := [],
     ex_GoldPriceID := None, ex_GoldBRLPerGram := None, ex_GoldPriceDate := [], ex_UnitPriceAmount := None,
     ex_TotalAmount := None, ex_CalculationMethod := [], ex_CalculationDetailsJSON := []\<rparr>"

definition applyLegacyExpenseFields ::
  "env \<Rightarrow> Expense \<Rightarrow> string \<Rightarrow> string \<Rightarrow> float64 \<Rightarrow> store \<Rightarrow> app_error + Expense" where
  "applyLegacyExpenseFields E x categoryID valueUnitID amount s =
     tri (findActiveReference E ''expenseCategoryId'' categoryID ''expense_category''
        ''Expense category must be active reference data of type expense_category'' s) (\<lambda>category.
     tri (findActiveReference E ''valueUnitId'' valueUnitID ''value_unit''
        ''Value unit must be active reference data of type value_unit'' s) (\<lambda>valueUnit. let
       itemType = legacyItemTypeForCategory (rd_Code category);
       currency = normalizeCurrencyCode (rd_Code valueUnit);
       itemDescription = (if TrimSpace (ex_Description x) = []
          then TrimSpace (rd_Label category @ '' legacy expense'') else TrimSpace (ex_Description x))
     in Inr (x\<lparr>ex_ExpenseCategoryID := TrimSpace categoryID, ex_ValueUnitID := TrimSpace valueUnitID,
          ex_Amount := amount, ex_PriceListItemCode := legacyPriceListItemCode itemType,
          ex_ItemType := itemType, ex_ItemDescription := itemDescription, ex_Quantity := Some 1,
          ex_UnitPriceBRL := (if currency = ''BRL'' then Some amount else None),
          ex_CurrencyCode := currency, ex_UnitPriceAmount := Some amount, ex_TotalAmount := Some amount,
          ex_CalculationMethod := ''LEGACY_DIRECT_ENTRY'',
          ex_CalculationDetailsJSON :=
            legacyCalculationDetailsJSON E category valueUnit itemType itemDescription amount\<rparr>)))"

text \<open>The gold price a charge in grams is converted at; a charge in BRL needs none.\<close>

definition conversion :: "env \<Rightarrow> string \<Rightarrow> store \<Rightarrow> app_error + GoldPrice option" where
  "conversion E currency s = (if currency = ''GOLD_GRAM''
     then tri (not_found_as ''currencyCode'' ''A current gold price is required for GOLD_GRAM expenses''
        (FindLatestActiveGoldPrice E s)) (\<lambda>g. Inr (Some g))
     else Inr None)"

definition unit_price :: "ExpensePriceListItem \<Rightarrow> GoldPrice option \<Rightarrow> float64" where
  "unit_price item gold = (case gold of None \<Rightarrow> pl_UnitPriceBRL item
     | Some g \<Rightarrow> fdiv (pl_UnitPriceBRL item) (gr_BRLPerGram g))"

definition priced ::
  "env \<Rightarrow> Expense \<Rightarrow> ExpensePriceListItem \<Rightarrow> ReferenceData \<Rightarrow> ReferenceData \<Rightarrow> string \<Rightarrow> float64 \<Rightarrow>
   GoldPrice option \<Rightarrow> Expense" where
  "priced E x item category valueUnit currency quantity gold = (let
       unitPrice = unit_price item gold;
       calcMethod = (if gold = None then ''BRL_PRICE_LIST'' else ''BRL_TO_GOLD_GRAM_LATEST_PRICE'');
       goldDate = (case gold of None \<Rightarrow> [] | Some g \<Rightarrow> normalizeStoredGoldPriceDate (gr_PriceDate g));
       totalAmount = fmul unitPrice quantity;
       goldID = map_option gr_ID gold; goldRate = map_option gr_BRLPerGram gold
     in x\<lparr>ex_ExpenseCategoryID := rd_ID category, ex_ValueUnitID := rd_ID valueUnit, ex_Amount := totalAmount,
          ex_PriceListItemID := Some (pl_ID item), ex_PriceListItemCode := pl_Code item,
          ex_ItemType := pl_ItemType item, ex_ItemDescription := pl_Description item,
          ex_Quantity := Some quantity, ex_UnitPriceBRL := Some (pl_UnitPriceBRL item),
          ex_CurrencyCode := currency, ex_GoldPriceID := goldID, ex_GoldBRLPerGram := goldRate,
          ex_GoldPriceDate := goldDate, ex_UnitPriceAmount := Some unitPrice, ex_TotalAmount := Some totalAmount,
          ex_CalculationMethod := calcMethod,
          ex_CalculationDetailsJSON := calculationDetailsJSON E item currency quantity unitPrice totalAmount
            goldID goldRate goldDate calcMethod,
          ex_Description := (if TrimSpace (ex_Description x) = [] then pl_Description item
            else ex_Description x)\<rparr>)"

definition applyPriceListCalculation ::
  "env \<Rightarrow> Expense \<Rightarrow> string \<Rightarrow> string \<Rightarrow> float64 \<Rightarrow> store \<Rightarrow> app_error + Expense" where
  "applyPriceListCalculation E x itemID currencyCode quantity s =
     tri (not_found_as ''priceListItemId'' ''Price list item must be active''
        (FindActivePriceListItemByID E (TrimSpace itemID) s)) (\<lambda>item.
     tri (FindReferenceByCode E ''expense_category''
        (if pl_ItemType item = ''CANTEEN'' then ''CANTEEN'' else ''ADMINISTRATIVE'') s) (\<lambda>category.
     tri (FindReferenceByCode E ''value_unit''
        (if normalizeCurrencyCode currencyCode = ''GOLD_GRAM'' then ''GOLD_GRAM'' else ''BRL'') s) (\<lambda>valueUnit.
     tri (conversion E (normalizeCurrencyCode currencyCode) s) (\<lambda>gold.
     Inr (priced E x item category valueUnit (normalizeCurrencyCode currencyCode) quantity gold)))))"

end
