(* ===== verification/Expenses.thy ===== *)
theory Expenses
  imports ExpenseCalculation
begin

text \<open>
  The expense service (\<open>backend/internal/expenses/service_impl.go\<close>, \<open>mapper.go\<close> and the reads of
  \<open>repository_gorm.go\<close>): creating, updating, cancelling and deactivating an expense, the canteen batch,
  and what the API shows of an expense and of its ledger posting.
\<close>

section \<open>Reads\<close>

record ExpenseView =
  xv_Expense :: Expense
  xv_Person :: Person
  xv_Category :: ReferenceData
  xv_ValueUnit :: ReferenceData

definition expense_view :: "store \<Rightarrow> Expense \<Rightarrow> ExpenseView" where
  "expense_view s x = \<lparr>xv_Expense = x,
     xv_Person = preload pe_ID zeroPerson
       (cj_PersonID (preload cj_ID zeroCollaboratorJourney (ex_CollaboratorID x) (Journeys s))) (People s),
     xv_Category = preload rd_ID zeroReferenceData (ex_ExpenseCategoryID x) (References s),
     xv_ValueUnit = preload rd_ID zeroReferenceData (ex_ValueUnitID x) (References s)\<rparr>"

text \<open>A row that was just created has no association loaded.\<close>

definition bare_view :: "Expense \<Rightarrow> ExpenseView" where
  "bare_view x = \<lparr>xv_Expense = x, xv_Person = zeroPerson, xv_Category = zeroReferenceData,
     xv_ValueUnit = zeroReferenceData\<rparr>"

definition FindExpenseByID :: "env \<Rightarrow> string \<Rightarrow> store \<Rightarrow> app_error + ExpenseView" where
  "FindExpenseByID E i s = tri (found ErrRecordNotFound (first_by ex_ID (expense_of E i) (Expenses s)))
     (\<lambda>x. Inr (expense_view s x))"

definition ExistsRecreationFromExpenseID :: "env \<Rightarrow> string \<Rightarrow> store \<Rightarrow> bool" where
  "ExistsRecreationFromExpenseID E i s \<longleftrightarrow> 0 < count_where (\<lambda>x. ex_TenantID x = TenantID E \<and>
     ex_RecreatedFromExpenseID x = Some (TrimSpace i)) (Expenses s)"

text \<open>\<open>ORDER BY created_at DESC, id DESC\<close>.\<close>

definition latest_first :: "LedgerEntry list \<Rightarrow> LedgerEntry list" where
  "latest_first es = rev (sort_key (\<lambda>e. (le_CreatedAt e, le_ID e)) es)"

definition FindFinancialPostingByExpenseID :: "env \<Rightarrow> string \<Rightarrow> store \<Rightarrow> LedgerEntry option" where
  "FindFinancialPostingByExpenseID E i s =
     (case latest_first (filter (\<lambda>e. expense_posting (TenantID E) i e \<and> le_Direction e = ''DEBIT'') (Ledger s)) of
        [] \<Rightarrow> None | e # es \<Rightarrow> Some e)"

text \<open>\<open>strings.Cut(s, ":")\<close>, the part before the separator.\<close>

definition cut_colon :: "string \<Rightarrow> string option" where
  "cut_colon v = (if CHR '':'' \<in> set v then Some (takeWhile (\<lambda>c. c \<noteq> CHR '':'') v) else None)"

definition expenseIDForPosting :: "LedgerEntry \<Rightarrow> string" where
  "expenseIDForPosting e = (if le_SourceType e = ''EXPENSE'' then TrimSpace (le_SourceID e)
     else if le_SourceType e = ''EXPENSE_REPLACEMENT''
     then (case cut_colon (le_SourceID e) of Some i \<Rightarrow> TrimSpace i | None \<Rightarrow> []) else [])"

definition FindFinancialPostingsByExpenseIDs ::
  "env \<Rightarrow> string list \<Rightarrow> store \<Rightarrow> string \<Rightarrow> LedgerEntry option" where
  "FindFinancialPostingsByExpenseIDs E ids s i = (if i = [] then None else
     List.find (\<lambda>e. expenseIDForPosting e = i) (latest_first (filter (\<lambda>e. le_TenantID e = TenantID E \<and>
       le_Direction e = ''DEBIT'' \<and> le_CorrectionType e \<in> set [''ORIGINAL'', ''REPLACEMENT''] \<and>
       (le_SourceType e = ''EXPENSE'' \<and> le_SourceID e \<in> set ids \<or>
        list_ex (\<lambda>j. le_SourceType e = ''EXPENSE_REPLACEMENT'' \<and> sql_like (TrimSpace j @ '':%'') (le_SourceID e)) ids))
       (Ledger s))))"

section \<open>What the API shows\<close>

record ExpenseFinancialPostingDTO =
  fp_LedgerEntryID :: string
  fp_Direction :: string
  fp_EntryType :: string
  fp_Amount :: float64
  fp_SignedAmount :: float64
  fp_EffectiveDate :: string
  fp_ValueUnitID :: string
  fp_ValueUnitCode :: string
  fp_ValueUnitLabel :: string
  fp_SourceType :: string
  fp_SourceID :: string
  fp_CorrectionType :: string
  fp_ReceiptID :: string
  fp_ReceiptNumber :: string
  fp_ReceiptStatus :: string
  fp_OutstandingReceipt :: bool

record ExpenseDTO =
  xd_ID :: string
  xd_TenantID :: string
  xd_PersonID :: string
  xd_CollaboratorID :: string
  xd_CollaboratorLabel :: string
  xd_ExpenseCategoryID :: string
  xd_ExpenseCategoryLabel :: string
  xd_ValueUnitID :: string
  xd_ValueUnitLabel :: string
  xd_Amount :: float64
  xd_ExpenseDate :: string
  xd_Description :: string
  xd_Active :: bool
  xd_CancelledAt :: string
  xd_CancelledBy :: string
  xd_CancellationReason :: string
  xd_RecreatedFromExpenseID :: "string option"
  xd_PriceListItemID :: "string option"
  xd_PriceListItemCode :: string
  xd_ItemType :: string
  xd_ItemDescription :: string
  xd_Quantity :: "float64 option"
  xd_UnitPriceBRL :: "float64 option"
  xd_CurrencyCode :: string
  xd_GoldPriceID :: "string option"
  xd_GoldBRLPerGram :: "float64 option"
  xd_GoldPriceDate :: string
  xd_UnitPriceAmount :: "float64 option"
  xd_TotalAmount :: "float64 option"
  xd_CalculationMethod :: string
  xd_CalculationDetailsJSON :: string
  xd_FinancialPosting :: "ExpenseFinancialPostingDTO option"
  xd_CreatedAt :: string
  xd_UpdatedAt :: string

definition signedAmount :: "string \<Rightarrow> float64 \<Rightarrow> float64" where
  "signedAmount direction amount = (if EqualFold direction ''DEBIT'' then - amount else amount)"

definition receiptIDOf :: "LedgerReceipt option \<Rightarrow> string" where
  "receiptIDOf r = (case r of None \<Rightarrow> [] | Some x \<Rightarrow> lr_ID x)"

definition receiptNumberOf :: "LedgerReceipt option \<Rightarrow> string" where
  "receiptNumberOf r = (case r of None \<Rightarrow> []
     | Some x \<Rightarrow> (case lr_ReceiptNumber x of None \<Rightarrow> [] | Some n \<Rightarrow> TrimSpace n))"

definition receiptStatus :: "LedgerReceipt option \<Rightarrow> string" where
  "receiptStatus r = (case r of None \<Rightarrow> ''MISSING'' | Some x \<Rightarrow> TrimSpace (lr_Status x))"

definition expenseReceiptOutstanding :: "LedgerReceipt option \<Rightarrow> bool" where
  "expenseReceiptOutstanding r \<longleftrightarrow> (case r of None \<Rightarrow> True
     | Some x \<Rightarrow> ToUpper (TrimSpace (lr_Status x)) \<in> set [''PENDING_ISSUE'', ''ISSUED'', ''PRINTED'', ''SIGNED''])"

definition toFinancialPostingDTO :: "store \<Rightarrow> LedgerEntry \<Rightarrow> ExpenseFinancialPostingDTO" where
  "toFinancialPostingDTO s e = (let
       unit = preload rd_ID zeroReferenceData (le_ValueUnitID e) (References s);
       receipt = List.find (\<lambda>r. lr_LedgerEntryID r = le_ID e) (Receipts s)
     in \<lparr>fp_LedgerEntryID = le_ID e, fp_Direction = le_Direction e, fp_EntryType = le_EntryType e,
          fp_Amount = le_Amount e, fp_SignedAmount = signedAmount (le_Direction e) (le_Amount e),
          fp_EffectiveDate = formatDate (le_EffectiveDate e), fp_ValueUnitID = le_ValueUnitID e,
          fp_ValueUnitCode = rd_Code unit, fp_ValueUnitLabel = rd_Label unit,
          fp_SourceType = le_SourceType e, fp_SourceID = le_SourceID e,
          fp_CorrectionType = le_CorrectionType e, fp_ReceiptID = receiptIDOf receipt,
          fp_ReceiptNumber = receiptNumberOf receipt, fp_ReceiptStatus = receiptStatus receipt,
          fp_OutstandingReceipt = expenseReceiptOutstanding receipt\<rparr>)"

definition ToExpenseDTO :: "ExpenseView \<Rightarrow> ExpenseDTO" where
  "ToExpenseDTO v = (let x = xv_Expense v in
     \<lparr>xd_ID = ex_ID x, xd_TenantID = ex_TenantID x, xd_PersonID = ex_PersonID x,
      xd_CollaboratorID = ex_CollaboratorID x, xd_CollaboratorLabel = collaboratorLabel (xv_Person v),
      xd_ExpenseCategoryID = ex_ExpenseCategoryID x, xd_ExpenseCategoryLabel = rd_Label (xv_Category v),
      xd_ValueUnitID = ex_ValueUnitID x, xd_ValueUnitLabel = rd_Label (xv_ValueUnit v),
      xd_Amount = ex_Amount x, xd_ExpenseDate = formatDate (ex_ExpenseDate x),
      xd_Description = ex_Description x, xd_Active = ex_Active x,
      xd_CancelledAt = formatOptionalTime (ex_CancelledAt x), xd_CancelledBy = ex_CancelledBy x,
      xd_CancellationReason = ex_CancellationReason x,
      xd_RecreatedFromExpenseID = ex_RecreatedFromExpenseID x, xd_PriceListItemID = ex_PriceListItemID x,
      xd_PriceListItemCode = ex_PriceListItemCode x, xd_ItemType = ex_ItemType x,
      xd_ItemDescription = ex_ItemDescription x, xd_Quantity = ex_Quantity x,
      xd_UnitPriceBRL = ex_UnitPriceBRL x, xd_CurrencyCode = ex_CurrencyCode x,
      xd_GoldPriceID = ex_GoldPriceID x, xd_GoldBRLPerGram = ex_GoldBRLPerGram x,
      xd_GoldPriceDate = normalizeStoredGoldPriceDate (ex_GoldPriceDate x),
      xd_UnitPriceAmount = ex_UnitPriceAmount x, xd_TotalAmount = ex_TotalAmount x,
      xd_CalculationMethod = ex_CalculationMethod x, xd_CalculationDetailsJSON = ex_CalculationDetailsJSON x,
      xd_FinancialPosting = None, xd_CreatedAt = formatRFC3339 (ex_CreatedAt x),
      xd_UpdatedAt = formatRFC3339 (ex_UpdatedAt x)\<rparr>)"

definition ToDTOWithFinancialPosting :: "store \<Rightarrow> ExpenseView \<Rightarrow> LedgerEntry option \<Rightarrow> ExpenseDTO" where
  "ToDTOWithFinancialPosting s v posting =
     (ToExpenseDTO v)\<lparr>xd_FinancialPosting := map_option (toFinancialPostingDTO s) posting\<rparr>"

definition expenseDTOWithPosting :: "env \<Rightarrow> ExpenseView \<Rightarrow> store \<Rightarrow> ExpenseDTO" where
  "expenseDTOWithPosting E v s =
     ToDTOWithFinancialPosting s v (FindFinancialPostingByExpenseID E (ex_ID (xv_Expense v)) s)"

definition GetExpenseByID :: "env \<Rightarrow> string \<Rightarrow> store \<Rightarrow> app_error + ExpenseDTO" where
  "GetExpenseByID E i s = tri (FindExpenseByID E i s) (\<lambda>v. Inr (expenseDTOWithPosting E v s))"

section \<open>Lists\<close>

record normalizedExpenseListFilter =
  ne_CollaboratorID :: string
  ne_CollaboratorSearch :: string
  ne_ExpenseCategoryID :: string
  ne_ValueUnitID :: string
  ne_ItemType :: string
  ne_PriceListItemID :: string
  ne_CurrencyCode :: string
  ne_DateFrom :: "time option"
  ne_DateTo :: "time option"
  ne_IncludeInactive :: bool
  ne_Page :: int
  ne_PageSize :: int

definition normalizeExpenseListFilter :: "ExpenseListFilter \<Rightarrow> app_error + normalizedExpenseListFilter" where
  "normalizeExpenseListFilter f =
     tri (ValidateExpenseListFilter f) (\<lambda>_.
     tri (optional_date ''dateFrom'' ''Date from must be YYYY-MM-DD'' (ef_DateFrom f)) (\<lambda>dateFrom.
     tri (optional_date ''dateTo'' ''Date to must be YYYY-MM-DD'' (ef_DateTo f)) (\<lambda>dateTo.
     Inr \<lparr>ne_CollaboratorID = TrimSpace (ef_CollaboratorID f),
       ne_CollaboratorSearch = TrimSpace (ef_CollaboratorSearch f),
       ne_ExpenseCategoryID = TrimSpace (ef_ExpenseCategoryID f), ne_ValueUnitID = TrimSpace (ef_ValueUnitID f),
       ne_ItemType = normalizeItemType (ef_ItemType f), ne_PriceListItemID = TrimSpace (ef_PriceListItemID f),
       ne_CurrencyCode = normalizeCurrencyCode (ef_CurrencyCode f), ne_DateFrom = dateFrom, ne_DateTo = dateTo,
       ne_IncludeInactive = ef_IncludeInactive f, ne_Page = normalizedPage (ef_Page f),
       ne_PageSize = normalizedPageSize (ef_PageSize f)\<rparr>)))"

definition applyCollaboratorSearchFilter :: "store \<Rightarrow> string \<Rightarrow> Expense \<Rightarrow> bool" where
  "applyCollaboratorSearchFilter s search x \<longleftrightarrow> (let pat = ToLower (TrimSpace search) @ ''%'' in
     list_ex (\<lambda>j. cj_ID j = ex_CollaboratorID x \<and> cj_TenantID j = ex_TenantID x \<and>
       list_ex (\<lambda>p. pe_ID p = cj_PersonID j \<and> pe_TenantID p = cj_TenantID j \<and>
         (sql_like pat (ToLower (pe_FirstName p)) \<or> sql_like pat (ToLower (pe_LastName p)) \<or>
          sql_like pat (ToLower (pe_Nickname p)) \<or>
          sql_like pat (ToLower (pe_FirstName p @ '' '' @ pe_LastName p)))) (People s)) (Journeys s))"

definition applyItemTypeFilter :: "store \<Rightarrow> string \<Rightarrow> Expense \<Rightarrow> bool" where
  "applyItemTypeFilter s itemType x \<longleftrightarrow>
     ToUpper (SqlTrim (ex_ItemType x)) = itemType \<or>
     list_ex (\<lambda>p. ex_PriceListItemID x = Some (pl_ID p) \<and> pl_TenantID p = ex_TenantID x \<and>
        ToUpper (SqlTrim (pl_ItemType p)) = itemType) (PriceListItems s) \<or>
     list_ex (\<lambda>r. rd_ID r = ex_ExpenseCategoryID x \<and> rd_TenantID r = ex_TenantID x \<and>
        rd_Type r = ''expense_category'' \<and> ToUpper (SqlTrim (rd_Code r)) = itemType) (References s)"

definition expense_filter :: "env \<Rightarrow> store \<Rightarrow> normalizedExpenseListFilter \<Rightarrow> Expense \<Rightarrow> bool" where
  "expense_filter E s f x \<longleftrightarrow> ex_TenantID x = TenantID E \<and>
     (ne_IncludeInactive f \<or> ex_Active x) \<and>
     matches_unless_empty (ne_CollaboratorID f) (ex_CollaboratorID x) \<and>
     (ne_CollaboratorSearch f \<noteq> [] \<longrightarrow> applyCollaboratorSearchFilter s (ne_CollaboratorSearch f) x) \<and>
     matches_unless_empty (ne_ExpenseCategoryID f) (ex_ExpenseCategoryID x) \<and>
     matches_unless_empty (ne_ValueUnitID f) (ex_ValueUnitID x) \<and>
     (ne_ItemType f \<noteq> [] \<longrightarrow> applyItemTypeFilter s (ne_ItemType f) x) \<and>
     (ne_PriceListItemID f \<noteq> [] \<longrightarrow> ex_PriceListItemID x = Some (ne_PriceListItemID f)) \<and>
     matches_unless_empty (ne_CurrencyCode f) (ex_CurrencyCode x) \<and>
     (case ne_DateFrom f of None \<Rightarrow> True | Some d \<Rightarrow> d \<le> ex_ExpenseDate x) \<and>
     (case ne_DateTo f of None \<Rightarrow> True | Some d \<Rightarrow> ex_ExpenseDate x < d + day_ns)"

definition repoListExpenses :: "env \<Rightarrow> normalizedExpenseListFilter \<Rightarrow> store \<Rightarrow> Expense list \<times> nat" where
  "repoListExpenses E f s = (let rows = filter (expense_filter E s f) (Expenses s) in
     (page_of (ne_Page f) (ne_PageSize f) (sort_key (\<lambda>x. (- ex_ExpenseDate x, - ex_CreatedAt x)) rows),
      length rows))"

definition ListExpenses :: "env \<Rightarrow> ExpenseListFilter \<Rightarrow> store \<Rightarrow> app_error + ExpenseDTO list_result" where
  "ListExpenses E f s = tri (normalizeExpenseListFilter f) (\<lambda>n. let (rows, t) = repoListExpenses E n s in
     Inr \<lparr>li_Items = map (\<lambda>x. ToDTOWithFinancialPosting s (expense_view s x)
            (FindFinancialPostingsByExpenseIDs E (map ex_ID rows) s (ex_ID x))) rows,
       li_Total = t, li_Page = ne_Page n, li_PageSize = ne_PageSize n\<rparr>)"

section \<open>The collaborator an expense belongs to\<close>

definition isActiveCollaborator :: "env \<Rightarrow> CollaboratorView \<Rightarrow> bool" where
  "isActiveCollaborator E v \<longleftrightarrow> cj_ClosedAt (cv_Journey v) = None \<and>
     cj_TenantID (cv_Journey v) = TenantID E \<and> rd_Type (cv_Status v) = ''collaborator_status'' \<and>
     rd_Code (cv_Status v) = ''ACTIVE'' \<and> rd_Active (cv_Status v)"

definition validateCollaborator :: "env \<Rightarrow> string \<Rightarrow> store \<Rightarrow> app_error + CollaboratorView" where
  "validateCollaborator E c s = tri (FindCollaboratorByID E (TrimSpace c) s) (\<lambda>v.
     if \<not> isActiveCollaborator E v
     then Inl (ValidationError [(''collaboratorId'', ''Collaborator must be active and open'')])
     else if TrimSpace (pm_PersonID (cv_Membership v)) = []
     then Inl (ValidationError [(''collaboratorId'',
       ''Collaborator must resolve to a Person'' @ [CHR 0xE2, CHR 0x80, CHR 0x93] @ ''Tenant Membership'')])
     else Inr v)"

section \<open>Creating\<close>

definition applyCharge :: "env \<Rightarrow> CreateExpenseRequest \<Rightarrow> Expense \<Rightarrow> store \<Rightarrow> app_error + Expense" where
  "applyCharge E q x s =
     (if usesPriceListCalculation (eq_PriceListItemID q) (eq_CurrencyCode q) (eq_Quantity q)
      then applyPriceListCalculation E x (eq_PriceListItemID q) (eq_CurrencyCode q) (eq_Quantity q) s
      else applyLegacyExpenseFields E x (eq_ExpenseCategoryID q) (eq_ValueUnitID q) (eq_Amount q) s)"

definition recreation_source :: "env \<Rightarrow> string \<Rightarrow> store \<Rightarrow> app_error + string option" where
  "recreation_source E v s = (let sourceID = TrimSpace v in if sourceID = [] then Inr None else
     tri (FindExpenseByID E sourceID s) (\<lambda>src.
     if ex_Active (xv_Expense src) \<or> ex_CancelledAt (xv_Expense src) = None
     then Inl (ValidationError [(''recreatedFromExpenseId'',
       ''Source expense must be cancelled before it can be recreated'')])
     else if ExistsRecreationFromExpenseID E sourceID s
     then Inl (ValidationError [(''recreatedFromExpenseId'',
       ''Cancelled source expense has already been recreated'')])
     else Inr (Some sourceID)))"

definition new_expense ::
  "env \<Rightarrow> string \<Rightarrow> CollaboratorView \<Rightarrow> string \<Rightarrow> time \<Rightarrow> string \<Rightarrow> string option \<Rightarrow> Expense" where
  "new_expense E i collaborator collaboratorID expenseDate description src =
     zeroExpense\<lparr>ex_ID := i, ex_CreatedAt := Now E, ex_UpdatedAt := Now E, ex_TenantID := TenantID E,
       ex_PersonID := pm_PersonID (cv_Membership collaborator), ex_CollaboratorID := TrimSpace collaboratorID,
       ex_ExpenseDate := expenseDate, ex_Description := TrimSpace description, ex_Active := True,
       ex_RecreatedFromExpenseID := src\<rparr>"

definition CreateExpense :: "env \<Rightarrow> CreateExpenseRequest \<Rightarrow> ExpenseDTO app" where
  "CreateExpense E q =
     bnd (lift (ValidateCreateExpense q))
     (\<lambda>_. bnd (lift (parseExpenseDate (eq_ExpenseDate q)))
     (\<lambda>expenseDate. bnd (query (validateCollaborator E (eq_CollaboratorID q)))
     (\<lambda>collaborator. bnd (query (recreation_source E (eq_RecreatedFromExpenseID q)))
     (\<lambda>src. bnd (newID E)
     (\<lambda>i. bnd (query (applyCharge E q
          (new_expense E i collaborator (eq_CollaboratorID q) expenseDate (eq_Description q) src)))
     (\<lambda>x. bnd (repoCreate E x)
     (\<lambda>_. query (GetExpenseByID E i))))))))"

section \<open>The canteen batch\<close>

fun itoa :: "nat \<Rightarrow> string" where
  "itoa n = (if n < 10 then [digit_char (int n)] else itoa (n div 10) @ [digit_char (int n)])"

declare itoa.simps [simp del]

definition batchItemField :: "nat \<Rightarrow> string \<Rightarrow> string" where
  "batchItemField index field = ''items.'' @ itoa index @ ''.'' @ field"

definition prefixBatchItemValidationError :: "nat \<Rightarrow> app_error \<Rightarrow> app_error" where
  "prefixBatchItemValidationError index e = (case e of
       ValidationError fs \<Rightarrow> ValidationError (map (\<lambda>(field, message).
         (if field \<in> set [''collaboratorId'', ''expenseDate''] then field else batchItemField index field, message)) fs)
     | _ \<Rightarrow> e)"

definition batch_errors :: "CreateCanteenExpenseBatchRequest \<Rightarrow> validation_fields" where
  "batch_errors q =
     check (100 < length (bq_Items q)) ''items'' ''No more than 100 Canteen items may be recorded at once''
     (check (bq_Items q = []) ''items'' ''At least one Canteen item is required''
     (check (invalid_date (bq_ExpenseDate q)) ''expenseDate'' ''Expense date must be YYYY-MM-DD''
     (requireString ''expenseDate'' (bq_ExpenseDate q)
     (requireString ''collaboratorId'' (bq_CollaboratorID q) []))))"

definition batch_item ::
  "env \<Rightarrow> CreateCanteenExpenseBatchRequest \<Rightarrow> CollaboratorView \<Rightarrow> time \<Rightarrow>
   nat \<times> CreateCanteenExpenseBatchItemRequest \<Rightarrow> Expense app" where
  "batch_item E q collaborator expenseDate = (\<lambda>(index, item).
     bnd (map_error (prefixBatchItemValidationError index) (lift (validatePriceListExpenseFields
        (bq_CollaboratorID q) (bi_PriceListItemID item) (bi_CurrencyCode item) (bi_Quantity item)
        (bq_ExpenseDate q) [] [] 0)))
     (\<lambda>_. bnd (newID E)
     (\<lambda>i. bnd (map_error (prefixBatchItemValidationError index) (query (applyPriceListCalculation E
          (new_expense E i collaborator (bq_CollaboratorID q) expenseDate (bq_Description q) None)
          (bi_PriceListItemID item) (bi_CurrencyCode item) (bi_Quantity item))))
     (\<lambda>x. bnd (ensure (ex_ItemType x = ''CANTEEN'') (ValidationError [(batchItemField index ''priceListItemId'',
          ''Only active Canteen price-list items may be recorded in a Canteen batch'')]))
     (\<lambda>_. ret x)))))"

definition CreateCanteenBatch :: "env \<Rightarrow> CreateCanteenExpenseBatchRequest \<Rightarrow> ExpenseDTO list app" where
  "CreateCanteenBatch E q =
     bnd (lift (validated (batch_errors q)))
     (\<lambda>_. bnd (lift (parseExpenseDate (bq_ExpenseDate q)))
     (\<lambda>expenseDate. bnd (query (validateCollaborator E (bq_CollaboratorID q)))
     (\<lambda>collaborator. bnd (map_each (batch_item E q collaborator expenseDate) (enumerate 0 (bq_Items q)))
     (\<lambda>xs. bnd (CreateBatch E xs)
     (\<lambda>rows. ret (map (\<lambda>x. (ToExpenseDTO (bare_view x))
         \<lparr>xd_CollaboratorLabel := globalPersonLabel (cv_MembershipPerson collaborator)\<rparr>) rows))))))"

section \<open>Changing\<close>

definition UpdateExpense :: "env \<Rightarrow> string \<Rightarrow> UpdateExpenseRequest \<Rightarrow> ExpenseDTO app" where
  "UpdateExpense E i q =
     bnd (lift (ValidateUpdateExpense q))
     (\<lambda>_. bnd (query (FindExpenseByID E i))
     (\<lambda>v. bnd (ensure (ex_Active (xv_Expense v))
        (ValidationError [(''id'', ''Inactive expenses cannot be updated'')]))
     (\<lambda>_. bnd (lift (parseExpenseDate (eq_ExpenseDate q)))
     (\<lambda>expenseDate. bnd (query (validateCollaborator E (eq_CollaboratorID q)))
     (\<lambda>collaborator. bnd (query (applyCharge E q (clearPriceListCalculation ((xv_Expense v)
          \<lparr>ex_PersonID := pm_PersonID (cv_Membership collaborator),
           ex_CollaboratorID := TrimSpace (eq_CollaboratorID q), ex_ExpenseDate := expenseDate,
           ex_Description := TrimSpace (eq_Description q), ex_UpdatedAt := Now E\<rparr>))))
     (\<lambda>x. bnd (repoUpdate E x)
     (\<lambda>_. query (GetExpenseByID E (ex_ID x)))))))))"

definition CancelExpense :: "env \<Rightarrow> string \<Rightarrow> string \<Rightarrow> string \<Rightarrow> ExpenseDTO app" where
  "CancelExpense E i reason0 actor = (let reason = TrimSpace reason0 in
     bnd (ensure (reason \<noteq> []) (ValidationError [(''reason'', ''Cancellation reason is required'')]))
     (\<lambda>_. bnd (query (FindExpenseByID E i))
     (\<lambda>v. let x = xv_Expense v in
       if \<not> ex_Active x
       then if ex_CancelledAt x \<noteq> None then query (\<lambda>s. Inr (expenseDTOWithPosting E v s))
         else throw (ValidationError [(''id'', ''Inactive expense cannot be cancelled'')])
       else bnd (repoCancel E (x\<lparr>ex_Active := False, ex_CancelledAt := Some (Now E),
           ex_CancelledBy := TrimSpace actor, ex_CancellationReason := reason, ex_UpdatedAt := Now E\<rparr>)
           actor reason)
         (\<lambda>_. query (GetExpenseByID E (ex_ID x))))))"

definition DeactivateExpense :: "env \<Rightarrow> string \<Rightarrow> ExpenseDTO app" where
  "DeactivateExpense E i =
     bnd (query (FindExpenseByID E i))
     (\<lambda>v. let x = xv_Expense v in if \<not> ex_Active x then ret (ToExpenseDTO v)
       else bnd (repoUpdate E (x\<lparr>ex_Active := False, ex_UpdatedAt := Now E\<rparr>))
         (\<lambda>_. query (GetExpenseByID E (ex_ID x))))"

definition DeleteExpense :: "env \<Rightarrow> string \<Rightarrow> unit app" where
  "DeleteExpense E i = bnd (DeactivateExpense E i) (\<lambda>_. ret ())"

end
