(* ===== verification/ExpenseEffects.thy ===== *)
theory ExpenseEffects
  imports Expenses AccrualEffects
begin

text \<open>
  What the expense operations do to the store: an expense is written with one receipted debit, a change
  reverses the live posting and posts a replacement, a cancellation reverses it and leaves no receipt
  open, and an expense is recreated from a cancelled one at most once.
\<close>

interpretation expenses: aside_table Expenses Expenses_update ex_TenantID
  by unfold_locales (simp, rule accounting_aside, simp_all add: other_tenants_kept_def)

section \<open>Rows\<close>

lemma expense_defaults_simps [simp]:
  "ex_ID (with_expense_defaults E x) = ex_ID x"
  "ex_TenantID (with_expense_defaults E x) = or_default (ex_TenantID x) ''default''"
  "ex_Amount (with_expense_defaults E x) = ex_Amount x"
  "ex_ItemType (with_expense_defaults E x) = ex_ItemType x"
  "ex_Quantity (with_expense_defaults E x) = ex_Quantity x"
  "ex_CollaboratorID (with_expense_defaults E x) = ex_CollaboratorID x"
  "ex_PersonID (with_expense_defaults E x) = ex_PersonID x"
  "ex_RecreatedFromExpenseID (with_expense_defaults E x) = ex_RecreatedFromExpenseID x"
  by (simp_all add: with_expense_defaults_def)

lemma or_default_nonempty [simp]: "or_default x ''default'' \<noteq> []"
  by (simp add: or_default_def)

lemma or_time_idem [simp]: "or_time (or_time t n) n = or_time t n"
  by (simp add: or_time_def)

lemma expenseLedgerEntry_simps [simp]:
  "le_ID (expenseLedgerEntry x) = ''ledger-expense-'' @ ex_ID x"
  "le_TenantID (expenseLedgerEntry x) = ex_TenantID x" "le_PersonID (expenseLedgerEntry x) = ex_PersonID x"
  "le_CollaboratorID (expenseLedgerEntry x) = ex_CollaboratorID x"
  "le_ValueUnitID (expenseLedgerEntry x) = ex_ValueUnitID x" "le_Direction (expenseLedgerEntry x) = ''DEBIT''"
  "le_EntryType (expenseLedgerEntry x) = ''EXPENSE_DEDUCTION''"
  "le_Amount (expenseLedgerEntry x) = ex_Amount x" "le_SourceType (expenseLedgerEntry x) = ''EXPENSE''"
  "le_SourceID (expenseLedgerEntry x) = ex_ID x" "le_CorrectionType (expenseLedgerEntry x) = ''ORIGINAL''"
  by (simp_all add: expenseLedgerEntry_def)

lemma charge_has_defaults:
  "with_entry_defaults E (expenseLedgerEntry (with_expense_defaults E x)) =
   expenseLedgerEntry (with_expense_defaults E x)"
  by (simp add: with_entry_defaults_def expenseLedgerEntry_def with_expense_defaults_def)

lemma FindExpenseByID_Inr:
  "FindExpenseByID E i s = Inr v \<longleftrightarrow>
   (\<exists>x. first_by ex_ID (expense_of E i) (Expenses s) = Some x \<and> v = expense_view s x)"
  by (auto simp: FindExpenseByID_def tri_Inr found_Inr)

lemma xv_Expense_view [simp]: "xv_Expense (expense_view s x) = x"
  by (simp add: expense_view_def)

lemma FindExpenseByID_row:
  "FindExpenseByID E i s = Inr v \<Longrightarrow> xv_Expense v \<in> set (Expenses s) \<and> ex_ID (xv_Expense v) = i \<and>
     ex_TenantID (xv_Expense v) = TenantID E"
  by (auto simp: FindExpenseByID_Inr expense_of_def dest!: first_by_Some)

text \<open>A charge fills the audit fields and leaves the identity of the row alone.\<close>

definition same_identity :: "Expense \<Rightarrow> Expense \<Rightarrow> bool" where
  "same_identity x y \<longleftrightarrow> ex_ID y = ex_ID x \<and> ex_CreatedAt y = ex_CreatedAt x \<and> ex_UpdatedAt y = ex_UpdatedAt x \<and>
     ex_TenantID y = ex_TenantID x \<and> ex_PersonID y = ex_PersonID x \<and> ex_CollaboratorID y = ex_CollaboratorID x \<and>
     ex_ExpenseDate y = ex_ExpenseDate x \<and> ex_Active y = ex_Active x \<and> ex_CancelledAt y = ex_CancelledAt x \<and>
     ex_RecreatedFromExpenseID y = ex_RecreatedFromExpenseID x"

lemma applyPriceList_identity:
  "applyPriceListCalculation E x i c n s = Inr y \<Longrightarrow> same_identity x y"
  by (auto simp: applyPriceListCalculation_def tri_Inr priced_def Let_def same_identity_def)

lemma applyLegacy_identity: "applyLegacyExpenseFields E x c u a s = Inr y \<Longrightarrow> same_identity x y"
  by (auto simp: applyLegacyExpenseFields_def tri_Inr Let_def same_identity_def)

lemma applyCharge_identity: "applyCharge E q x s = Inr y \<Longrightarrow> same_identity x y"
  by (auto simp: applyCharge_def applyPriceList_identity applyLegacy_identity split: if_splits)

lemma new_expense_simps [simp]:
  "ex_ID (new_expense E i v c d ds src) = i" "ex_TenantID (new_expense E i v c d ds src) = TenantID E"
  "ex_Active (new_expense E i v c d ds src)" "ex_CancelledAt (new_expense E i v c d ds src) = None"
  "ex_RecreatedFromExpenseID (new_expense E i v c d ds src) = src"
  "ex_CollaboratorID (new_expense E i v c d ds src) = TrimSpace c"
  "ex_PersonID (new_expense E i v c d ds src) = pm_PersonID (cv_Membership v)"
  "ex_CreatedAt (new_expense E i v c d ds src) = Now E" "ex_UpdatedAt (new_expense E i v c d ds src) = Now E"
  by (simp_all add: new_expense_def zeroExpense_def)

lemma expense_defaults_id:
  "ex_CreatedAt x = Now E \<Longrightarrow> ex_UpdatedAt x = Now E \<Longrightarrow> ex_TenantID x \<noteq> [] \<Longrightarrow> ex_Active x \<Longrightarrow>
   with_expense_defaults E x = x"
  by (simp add: with_expense_defaults_def or_time_def)

section \<open>An expense with its debit\<close>

definition receipts_for :: "store \<Rightarrow> LedgerEntry \<Rightarrow> nat" where
  "receipts_for s e = count_where (\<lambda>r. lr_LedgerEntryID r = le_ID e \<and> lr_TenantID r = le_TenantID e) (Receipts s)"

lemma createExpense_ok:
  "createExpense E x0 s = (Inr x, t) \<Longrightarrow> x = with_expense_defaults E x0 \<and>
   abort_if (expense_insert_guards s x) = Inr () \<and> t = s\<lparr>Expenses := Expenses s @ [x]\<rparr>"
  by (auto simp: createExpense_def Let_def run_simps split: sum.splits)

lemma ensureReceiptObligation_ok:
  "ensureReceiptObligation (le_TenantID e) (le_ID e) s = Inr u \<longleftrightarrow> receipts_for s e = 1"
  by (simp add: ensureReceiptObligation_def receipts_for_def)

lemma createWithPosting_ok:
  assumes "createWithPosting E x0 s = (Inr x, t)"
  shows "x = with_expense_defaults E x0" and "abort_if (expense_insert_guards s x) = Inr ()"
    and "Expenses t = Expenses s @ [x]" and "Ledger t = Ledger s @ [expenseLedgerEntry x]"
    and "receipts_for t (expenseLedgerEntry x) = 1"
proof -
  from assms obtain u e where x: "createExpense E x0 s = (Inr x, u)"
    and e: "createLedgerEntry E (expenseLedgerEntry x) u = (Inr e, t)"
    and r: "receipts_for t e = 1"
    by (auto simp: createWithPosting_def run_ok ensureReceiptObligation_ok)
  note row = createExpense_ok [OF x] and entry = createLedgerEntry_ok [OF e]
  have ee: "e = expenseLedgerEntry x" using entry(1) row charge_has_defaults by metis
  show "x = with_expense_defaults E x0" "abort_if (expense_insert_guards s x) = Inr ()" using row by blast+
  show "Ledger t = Ledger s @ [expenseLedgerEntry x]" using entry(5) row by (simp add: ee)
  have "Expenses t = Expenses u" by (rule books_only_simps [OF keepsD [OF keeps_books_createLedgerEntry e]])
  then show "Expenses t = Expenses s @ [x]" using row by simp
  show "receipts_for t (expenseLedgerEntry x) = 1" using r ee by simp
qed

lemma keeps_createExpense:
  "or_default (ex_TenantID x) ''default'' = T \<Longrightarrow> keeps (accounting T) (createExpense E x)"
  using expenses.accounting_insert acc.R_refl
  by (auto simp: keeps_def createExpense_def Let_def run_simps split: sum.split)

lemma keeps_ok_createWithPosting:
  assumes "or_default (ex_TenantID x) ''default'' = T"
  shows "keeps_ok (accounting T) (createWithPosting E x)"
proof -
  have "T \<noteq> []" using assms by auto
  then show ?thesis
    unfolding createWithPosting_def using assms
    by (intro acc.keeps_ok_bnd keeps_keeps_ok [OF keeps_createExpense] keeps_ok_createLedgerEntry acc.keeps_ok_pure)
      (auto simp: results_def dest!: createExpense_ok)
qed

section \<open>The batch\<close>

lemma map_each_posting_ok:
  assumes "map_each (createWithPosting E) xs s = (Inr rows, t)"
  shows "rows = map (with_expense_defaults E) xs" and "Expenses t = Expenses s @ rows"
    and "Ledger t = Ledger s @ map expenseLedgerEntry rows"
proof -
  have "rows = map (with_expense_defaults E) xs \<and> Expenses t = Expenses s @ rows \<and>
      Ledger t = Ledger s @ map expenseLedgerEntry rows"
    using assms
  proof (induction xs arbitrary: s rows)
    case (Cons x xs)
    from Cons.prems obtain y u ys where y: "createWithPosting E x s = (Inr y, u)"
      and ys: "map_each (createWithPosting E) xs u = (Inr ys, t)" and rows: "rows = y # ys"
      by (auto simp: run_ok)
    from Cons.IH [OF ys] createWithPosting_ok [OF y] rows show ?case by simp
  qed simp
  then show "rows = map (with_expense_defaults E) xs" "Expenses t = Expenses s @ rows"
    "Ledger t = Ledger s @ map expenseLedgerEntry rows" by blast+
qed

lemma CreateBatch_ok:
  assumes "CreateBatch E xs s = (Inr rows, t)"
  shows "rows = map (with_expense_defaults E) xs" and "Expenses t = Expenses s @ rows"
    and "Ledger t = Ledger s @ map expenseLedgerEntry rows"
  using assms map_each_posting_ok [of E xs s rows t]
  by (auto simp: CreateBatch_def transaction_ok split: if_splits)

section \<open>Changes\<close>

lemma updateExpenses_ok:
  "updateExpenses guards P f s = (Inr u, t) \<Longrightarrow>
   t = s\<lparr>Expenses := update_where P f (Expenses s)\<rparr> \<and>
   (\<forall>x \<in> set (Expenses s). P x \<longrightarrow> abort_if (guards s x (f x)) = Inr ())"
  by (auto simp: updateExpenses_def expenses.guarded_update_run abort_if_ok update_where_def
      split: sum.splits)

definition reverses :: "LedgerEntry \<Rightarrow> LedgerEntry \<Rightarrow> bool" where
  "reverses r e \<longleftrightarrow> le_CorrectionType r = ''REVERSAL'' \<and> le_RelatedEntryID r = Some (le_ID e) \<and>
     le_TenantID r = le_TenantID e \<and> le_CollaboratorID r = le_CollaboratorID e \<and>
     le_PersonID r = le_PersonID e \<and> le_ValueUnitID r = le_ValueUnitID e \<and>
     le_Amount r = le_Amount e \<and> le_Direction r = expenseOppositeDirection (le_Direction e)"

lemma reversalLedgerEntry_ok:
  assumes "reversalLedgerEntry E e now reason s = (Inr r, t)"
  shows "reverses r e" and "t = s\<lparr>IdsUsed := IdsUsed s + 2\<rparr>" and "le_SourceType r = ''LEDGER_CORRECTION''"
  using assms by (auto simp: reversalLedgerEntry_def run_ok reverses_def)

lemma reverses_defaults: "reverses r e \<Longrightarrow> le_TenantID e \<noteq> [] \<Longrightarrow> reverses (with_entry_defaults E r) e"
  by (simp add: reverses_def with_entry_defaults_def)

lemma reversePrevious_ok:
  assumes "reversePrevious E (Some e) now reason s = (Inr u, t)" and "le_TenantID e \<noteq> []"
  obtains r where "reverses r e" and "Ledger t = Ledger s @ [r]" and "le_SourceType r = ''LEDGER_CORRECTION''"
    and "books_only s t" and "\<not> list_ex fst (ledger_keys_taken s r)"
proof -
  from assms(1) obtain r m x where r: "reversalLedgerEntry E e now reason s = (Inr r, m)"
    and x: "createLedgerEntry E r m = (Inr x, t)"
    by (auto simp: reversePrevious_def run_ok)
  note rev = reversalLedgerEntry_ok [OF r] and entry = createLedgerEntry_ok [OF x]
  show thesis
  proof (rule that [of x])
    show "reverses x e" using reverses_defaults [OF rev(1) assms(2)] entry(1) by simp
    show "Ledger t = Ledger s @ [x]" using entry(5) rev(2) by simp
    show "le_SourceType x = ''LEDGER_CORRECTION''" using entry(1) rev(3) by simp
    have "books_only s m" unfolding rev(2) by (rule books_only_ids)
    then show "books_only s t" using keepsD [OF keeps_books_createLedgerEntry x] by (rule books.R_trans)
    show "\<not> list_ex fst (ledger_keys_taken s x)" using entry(3) rev(2) by (simp add: ledger_keys_taken_def)
  qed
qed

lemma keeps_newID_books: "keeps books_only (newID E)"
  by (simp add: keeps_def books_only_ids)

lemma keeps_books_reversePrevious: "keeps books_only (reversePrevious E p now reason)"
  unfolding reversePrevious_def reversalLedgerEntry_def
  by (intro books.keeps_intros keeps_newID_books keeps_books_createLedgerEntry)

lemma replacement_ok:
  assumes "replacementExpenseLedgerEntry E x p now s = (Inr r, t)"
  shows "t = s\<lparr>IdsUsed := IdsUsed s + 2\<rparr>" and "le_TenantID r = ex_TenantID x"
    and "le_Amount r = ex_Amount x" and "le_Direction r = ''DEBIT''" and "le_CorrectionType r = ''REPLACEMENT''"
    and "le_RelatedEntryID r = map_option le_ID p" and "le_SourceType r = ''EXPENSE_REPLACEMENT''"
    and "\<exists>j. le_SourceID r = ex_ID x @ '':'' @ j" and "le_ValueUnitID r = ex_ValueUnitID x"
  using assms by (auto simp: replacementExpenseLedgerEntry_def run_ok)


text \<open>
  The live postings of an expense: those that no reversal undid. A change that finds one live posting
  leaves one, the replacement; a cancellation leaves none.
\<close>

definition reversed_in :: "LedgerEntry list \<Rightarrow> LedgerEntry \<Rightarrow> bool" where
  "reversed_in l e \<longleftrightarrow> list_ex (\<lambda>r. le_TenantID r = le_TenantID e \<and> le_CorrectionType r = ''REVERSAL'' \<and>
     le_RelatedEntryID r = Some (le_ID e)) l"

definition live_postings :: "string \<Rightarrow> string \<Rightarrow> store \<Rightarrow> LedgerEntry list" where
  "live_postings T i s = filter (\<lambda>e. expense_posting T i e \<and> \<not> reversed_in (Ledger s) e) (Ledger s)"

lemma latest_posting: "latestExpenseLedgerEntry T i s = Some e \<Longrightarrow> e \<in> set (Ledger s) \<and> expense_posting T i e"
  unfolding latestExpenseLedgerEntry_def by (rule first_by_Some)

lemma latest_posting_None:
  "latestExpenseLedgerEntry T i s = None \<Longrightarrow> live_postings T i s = []"
  by (auto simp: latestExpenseLedgerEntry_def first_by_None live_postings_def filter_empty_conv)

lemma reversal_not_posting: "reverses r e \<Longrightarrow> \<not> expense_posting T i r"
  by (simp add: reverses_def expense_posting_def)

text \<open>The reversal went in, so the entry it undoes was live: with one live posting it is that one.\<close>

lemma reversed_was_live:
  assumes "reverses r e" and "\<not> list_ex fst (ledger_keys_taken s r)" and "Ledger s = Ledger s0"
    and "e \<in> set (Ledger s)" and "expense_posting T i e" and "live_postings T i s0 = [x]"
  shows "e = x"
proof -
  have "\<not> reversed_in (Ledger s) e"
    using assms(1,2) by (auto simp: ledger_keys_taken_def reverses_def reversed_in_def list_ex_iff)
  then have "e \<in> set (live_postings T i s0)" using assms(3-5) by (auto simp: live_postings_def)
  then show ?thesis using assms(6) by simp
qed

lemma live_after_reversal:
  assumes l: "Ledger t = Ledger s @ [r]" and r: "reverses r e" and live: "live_postings T i s = [e]"
    and ids: "distinct (map le_ID (Ledger s))"
  shows "live_postings T i t = []"
proof -
  have e: "e \<in> set (Ledger s)" using live by (metis list.set_intros(1) live_postings_def filter_is_subset in_mono)
  have "reversed_in (Ledger t) y" if "y \<in> set (Ledger t)" "expense_posting T i y" for y
  proof (cases "reversed_in (Ledger s) y")
    case False
    have "y \<in> set (Ledger s)" using that reversal_not_posting [OF r] l by auto
    then have "y \<in> set (live_postings T i s)" using False that by (simp add: live_postings_def)
    then show ?thesis using live r l by (simp add: reversed_in_def reverses_def)
  qed (simp add: l reversed_in_def)
  then show ?thesis by (auto simp: live_postings_def filter_empty_conv)
qed

lemma live_append:
  assumes l: "Ledger t = Ledger s @ [x]" and x: "le_CorrectionType x \<noteq> ''REVERSAL''" and p: "expense_posting T i x"
    and fresh: "le_ID x \<notin> {y. \<exists>e \<in> set (Ledger s). le_RelatedEntryID e = Some y}"
  shows "live_postings T i t = live_postings T i s @ [x]"
proof -
  have "reversed_in (Ledger t) y = reversed_in (Ledger s) y" for y
    using x l by (simp add: reversed_in_def)
  moreover have "\<not> reversed_in (Ledger s) x" using fresh by (auto simp: reversed_in_def list_ex_iff)
  ultimately show ?thesis using p l by (simp add: live_postings_def)
qed

section \<open>The operations keep the accounting relation\<close>

lemmas expense_update_keeps = expenses.keeps_guarded_update [folded updateExpenses_def]

lemma keeps_ok_reversePrevious:
  assumes "\<And>e. p = Some e \<Longrightarrow> le_TenantID e = T" and "T \<noteq> []"
  shows "keeps_ok (accounting T) (reversePrevious E p now reason)"
  unfolding reversePrevious_def reversalLedgerEntry_def using assms
  by (intro acc.keeps_ok_option acc.keeps_ok_bnd acc.keeps_ok_pure keeps_keeps_ok [OF keeps_newID_acc]
      keeps_ok_createLedgerEntry)
    (auto dest!: results_bnd)

lemma keeps_ok_replacement: "keeps_ok (accounting T) (replacementExpenseLedgerEntry E x p now)"
  unfolding replacementExpenseLedgerEntry_def
  by (intro acc.keeps_ok_bnd acc.keeps_ok_pure keeps_keeps_ok [OF keeps_newID_acc])

lemma replacement_results: "r \<in> results (replacementExpenseLedgerEntry E x p now) \<Longrightarrow> le_TenantID r = ex_TenantID x"
  by (auto simp: results_def dest: replacement_ok)

lemma keeps_repoCreate:
  "or_default (ex_TenantID x) ''default'' = T \<Longrightarrow> keeps (accounting T) (repoCreate E x)"
  unfolding repoCreate_def by (intro acc.keeps_transaction keeps_ok_createWithPosting)

lemma keeps_CreateBatch:
  "(\<And>x. x \<in> set xs \<Longrightarrow> or_default (ex_TenantID x) ''default'' = T) \<Longrightarrow> keeps (accounting T) (CreateBatch E xs)"
  unfolding CreateBatch_def
  by (intro acc.keeps_intros acc.keeps_transaction acc.keeps_ok_map_each keeps_ok_createWithPosting)

lemma keeps_repoUpdate:
  assumes "ex_TenantID x = TenantID E"
  shows "keeps (accounting (TenantID E)) (repoUpdate E x)"
  unfolding repoUpdate_def Let_def using assms
  by (intro acc.keeps_transaction acc.keeps_ok_intros keeps_keeps_ok [OF expense_update_keeps]
      keeps_ok_reversePrevious keeps_ok_replacement keeps_ok_createLedgerEntry)
    (auto simp: expense_of_def updated_row_def expense_posting_def dest!: replacement_results latest_posting)

lemma keeps_cancelOpenExpenseReceipt: "keeps (accounting T) (cancelOpenExpenseReceipt T i actor reason now)"
  unfolding cancelOpenExpenseReceipt_def
  by (intro keeps_updateReceipts) (simp_all add: open_receipt_of_def cancelled_receipt_def)

lemma keeps_repoCancel:
  assumes "ex_TenantID x = TenantID E"
  shows "keeps (accounting (TenantID E)) (repoCancel E x actor reason)"
  unfolding repoCancel_def reverseCancelled_def Let_def assms
  by (intro acc.keeps_transaction acc.keeps_ok_intros keeps_keeps_ok [OF expense_update_keeps]
      keeps_ok_reversePrevious keeps_keeps_ok [OF keeps_cancelOpenExpenseReceipt])
    (auto simp: expense_of_def cancelled_row_def expense_posting_def dest!: latest_posting)

lemma keeps_CreateExpense: "keeps (accounting (TenantID E)) (CreateExpense E q)"
  unfolding CreateExpense_def
  by (intro acc.keeps_intros keeps_newID_acc keeps_repoCreate)
    (auto dest!: applyCharge_identity simp: same_identity_def)

lemma batch_item_results:
  "x \<in> results (batch_item E q v d p) \<Longrightarrow> ex_TenantID x = TenantID E \<and> ex_RecreatedFromExpenseID x = None"
  by (cases p) (auto simp: batch_item_def results_def run_ok map_error_ok same_identity_def
      dest!: applyPriceList_identity split: if_splits)

lemma map_each_results:
  "ys \<in> results (map_each f xs) \<Longrightarrow> y \<in> set ys \<Longrightarrow> \<exists>x \<in> set xs. y \<in> results (f x)"
proof (induction xs arbitrary: ys)
  case (Cons x xs)
  from Cons.prems(1) obtain z zs where "z \<in> results (f x)" "zs \<in> results (map_each f xs)" "ys = z # zs"
    by (auto dest!: results_bnd)
  then show ?case using Cons by auto
qed simp

lemma keeps_CreateCanteenBatch: "keeps (accounting (TenantID E)) (CreateCanteenBatch E q)"
  unfolding CreateCanteenBatch_def batch_item_def split_beta
  by (intro acc.keeps_intros keeps_newID_acc keeps_CreateBatch)
    (auto dest!: map_each_results batch_item_results [unfolded batch_item_def split_beta])

lemma keeps_UpdateExpense: "keeps (accounting (TenantID E)) (UpdateExpense E i q)"
  unfolding UpdateExpense_def
  by (intro acc.keeps_intros keeps_repoUpdate)
    (auto dest!: applyCharge_identity FindExpenseByID_row simp: same_identity_def clearPriceListCalculation_def)

lemma keeps_CancelExpense: "keeps (accounting (TenantID E)) (CancelExpense E i reason actor)"
  unfolding CancelExpense_def Let_def
  by (intro acc.keeps_intros keeps_repoCancel) (auto dest!: FindExpenseByID_row)

lemma keeps_DeactivateExpense: "keeps (accounting (TenantID E)) (DeactivateExpense E i)"
  unfolding DeactivateExpense_def Let_def
  by (intro acc.keeps_intros keeps_repoUpdate) (auto dest!: FindExpenseByID_row)

section \<open>Updating\<close>

lemma sql_like_literal: "sql_like ps cs \<Longrightarrow> sql_like (p @ ps) (p @ cs)"
proof (induction p)
  case (Cons c p)
  show ?case
  proof (cases "c = CHR ''%''")
    case True
    have "sql_like (CHR ''%'' # qs) ds" if "sql_like qs ds" for qs ds
      using that by (cases ds) simp_all
    then show ?thesis using True Cons by simp
  qed (use Cons in simp)
qed simp

lemma sql_like_any: "sql_like ''%'' cs"
  by (induction cs) simp_all

lemma replacement_posting:
  "le_TenantID r = T \<Longrightarrow> le_CorrectionType r = ''REPLACEMENT'' \<Longrightarrow> le_SourceType r = ''EXPENSE_REPLACEMENT'' \<Longrightarrow>
   \<exists>j. le_SourceID r = i @ '':'' @ j \<Longrightarrow> expense_posting T i r"
  using sql_like_literal [of "''%''" _ "i @ '':''"] sql_like_any by (auto simp: expense_posting_def)

lemma with_entry_defaults_CorrectionType [simp]:
  "le_CorrectionType e \<noteq> [] \<Longrightarrow> le_CorrectionType (with_entry_defaults E e) = le_CorrectionType e"
  by (simp add: with_entry_defaults_def)

lemma books_related:
  assumes "books_ok s" and "e \<in> set (Ledger s)" and "le_RelatedEntryID e = Some y"
  shows "y \<in> set (map le_ID (Ledger s))"
proof -
  have "link_ok s e" using assms(1,2) by (simp add: books_ok_def list_all_iff)
  then show ?thesis using assms(3) by (auto simp: link_ok_def entry_in_def list_ex_iff)
qed

definition updated_table :: "env \<Rightarrow> Expense \<Rightarrow> store \<Rightarrow> Expense list" where
  "updated_table E x s = update_where (expense_of E (ex_ID x)) (updated_row x) (Expenses s)"

text \<open>\<open>replaced e n s t\<close>: the ledger grew by a reversal of \<open>e\<close> and by \<open>n\<close>, a receipted replacement linked to \<open>e\<close>.\<close>

definition replaced :: "LedgerEntry \<Rightarrow> LedgerEntry \<Rightarrow> store \<Rightarrow> store \<Rightarrow> bool" where
  "replaced e n s t \<longleftrightarrow> (\<exists>r. Ledger t = Ledger s @ [r, n] \<and> reverses r e) \<and> le_Direction n = ''DEBIT'' \<and>
     le_CorrectionType n = ''REPLACEMENT'' \<and> le_RelatedEntryID n = Some (le_ID e) \<and> receipts_for t n = 1"

lemma repoUpdate_live:
  assumes run: "repoUpdate E x s = (Inr u, t)" and books: "books_ok s" and active: "ex_Active x"
    and T: "ex_TenantID x = TenantID E" and live: "live_postings (TenantID E) (ex_ID x) s = [e]"
  obtains n where "replaced e n s t" and "le_Amount n = ex_Amount x" and "le_ValueUnitID n = ex_ValueUnitID x"
    and "live_postings (TenantID E) (ex_ID x) t = [n]" and "Expenses t = updated_table E x s"
proof -
  let ?T = "TenantID E" and ?i = "ex_ID x" and ?now = "or_time (ex_UpdatedAt x) (Now E)"
  obtain e' where latest: "latestExpenseLedgerEntry ?T ?i s = Some e'"
    using live latest_posting_None by (cases "latestExpenseLedgerEntry ?T ?i s") auto
  note e' = latest_posting [OF latest]
  from run latest active T obtain u1 s1 u2 s2 n0 s3 n where
    upd: "updateExpenses (\<lambda>s old new. expense_update_guards s old new @ expense_owner_guards s new)
      (expense_of E ?i) (updated_row x) s = (Inr u1, s1)"
    and rev: "reversePrevious E (Some e') ?now ''Expense ledger correction'' s1 = (Inr u2, s2)"
    and rep: "replacementExpenseLedgerEntry E x (Some e') ?now s2 = (Inr n0, s3)"
    and new: "createLedgerEntry E n0 s3 = (Inr n, t)" and rc: "receipts_for t n = 1"
    by (auto simp: repoUpdate_def Let_def run_ok ensureReceiptObligation_ok)
  note s1 = updateExpenses_ok [OF upd] and n0 = replacement_ok [OF rep] and n = createLedgerEntry_ok [OF new]
  have "le_TenantID e' \<noteq> []" using e' by (simp add: expense_posting_def)
  then obtain r where r: "reverses r e'" "Ledger s2 = Ledger s1 @ [r]" "books_only s1 s2"
    "\<not> list_ex fst (ledger_keys_taken s1 r)"
    using reversePrevious_ok [OF rev] by blast
  have L1: "Ledger s1 = Ledger s" using s1 by simp
  have ee: "e' = e" using e' L1 by (intro reversed_was_live [OF r(1,4) L1 _ _ live]) simp_all
  have l2: "live_postings ?T ?i s2 = []"
    using live_after_reversal [of s2 s r e ?T ?i] r L1 live books ee by (simp add: books_ok_def)
  have nx: "le_TenantID n = ?T" "le_Amount n = ex_Amount x" "le_Direction n = ''DEBIT''"
    "le_CorrectionType n = ''REPLACEMENT''" "le_RelatedEntryID n = Some (le_ID e)"
    "le_SourceType n = ''EXPENSE_REPLACEMENT''" "\<exists>j. le_SourceID n = ?i @ '':'' @ j" "le_ValueUnitID n = ex_ValueUnitID x"
    using n(1) n0 T ee by auto
  have Lt: "Ledger t = Ledger s @ [r, n]" using n(5) n0(1) r(2) L1 by simp
  have ids: "le_ID n \<notin> set (map le_ID (Ledger s3))" using n(3) by (auto simp: ledger_keys_taken_def list_ex_iff)
  have eL: "e \<in> set (Ledger s)" using e' ee by simp
  have "le_ID n \<notin> {y. \<exists>z \<in> set (Ledger s2). le_RelatedEntryID z = Some y}"
  proof
    assume "le_ID n \<in> {y. \<exists>z \<in> set (Ledger s2). le_RelatedEntryID z = Some y}"
    then obtain z where z: "z \<in> set (Ledger s) \<or> z = r" "le_RelatedEntryID z = Some (le_ID n)"
      using r(2) L1 by auto
    have "le_ID n = le_ID e" if "z = r"
      using that z(2) r(1) ee by (simp add: reverses_def)
    then have "le_ID n \<in> set (map le_ID (Ledger s))"
      using z books_related [OF books _ z(2)] eL by auto
    then show False using ids n0(1) r(2) L1 by auto
  qed
  then have lt: "live_postings ?T ?i t = [n]"
    using live_append [of t s2 n ?T ?i] n(5) n0(1) nx l2 replacement_posting [of n ?T ?i] by simp
  have "Expenses t = Expenses s1"
    using books_only_simps(9) [OF r(3)] n0(1) books_only_simps(9) [OF keepsD [OF keeps_books_createLedgerEntry new]] by simp
  then have ex: "Expenses t = updated_table E x s" using s1 by (simp add: updated_table_def)
  show thesis
    by (rule that [of n]) (use Lt r(1) ee nx rc lt ex in \<open>auto simp: replaced_def\<close>)
qed

section \<open>Cancelling\<close>

text \<open>No receipt of the entry is open.\<close>

definition closed :: "string \<Rightarrow> string \<Rightarrow> store \<Rightarrow> bool" where
  "closed T i s \<longleftrightarrow> list_all (\<lambda>r. \<not> open_receipt_of T i r) (Receipts s)"

lemma updateReceipts_run:
  "updateReceipts P f s = (Inr u, t) \<Longrightarrow> t = s\<lparr>Receipts := update_where P f (Receipts s)\<rparr>"
  by (auto simp: updateReceipts_def run_simps split: sum.splits)

lemma open_after_cancelling:
  "open_receipt_of T j (if open_receipt_of T i r then cancelled_receipt actor reason now r else r) \<longleftrightarrow>
   open_receipt_of T j r \<and> \<not> open_receipt_of T i r"
  by (simp add: open_receipt_of_def cancelled_receipt_def)

lemma cancelOpen_ok:
  assumes "cancelOpenExpenseReceipt T i actor reason now s = (Inr u, t)"
  shows "closed T i t" and "\<And>j. closed T j s \<Longrightarrow> closed T j t"
    and "Ledger t = Ledger s" and "Expenses t = Expenses s"
  using updateReceipts_run [OF assms [unfolded cancelOpenExpenseReceipt_def]]
  by (simp_all add: closed_def update_where_def list.pred_map comp_def open_after_cancelling list.pred_True)
    (simp add: list_all_iff)

lemma cancelOpen_each_ok:
  assumes "for_each (\<lambda>i. if i = k then ret () else cancelOpenExpenseReceipt T i actor reason now) is s = (Inr u, t)"
    and "closed T k s"
  shows "(\<forall>i \<in> set is. closed T i t) \<and> (\<forall>j. closed T j s \<longrightarrow> closed T j t) \<and> Ledger t = Ledger s \<and> Expenses t = Expenses s"
  using assms
proof (induction "is" arbitrary: s)
  case (Cons i "is")
  from Cons.prems(1) obtain v m where m: "(if i = k then ret () else cancelOpenExpenseReceipt T i actor reason now) s = (Inr v, m)"
    and rest: "for_each (\<lambda>i. if i = k then ret () else cancelOpenExpenseReceipt T i actor reason now) is m = (Inr u, t)"
    by (auto simp: run_ok)
  have mi: "closed T i m \<and> (\<forall>j. closed T j s \<longrightarrow> closed T j m) \<and> Ledger m = Ledger s \<and> Expenses m = Expenses s"
    using m Cons.prems(2) cancelOpen_ok [of T i actor reason now s v m] by (auto split: if_splits)
  then show ?case using Cons.IH [OF rest] Cons.prems(2) by auto
qed simp

text \<open>What a cancellation does to an expense whose one live posting is \<open>e\<close>.\<close>

definition cancelled_table :: "env \<Rightarrow> Expense \<Rightarrow> string \<Rightarrow> string \<Rightarrow> store \<Rightarrow> Expense list" where
  "cancelled_table E x actor reason s =
     update_where (\<lambda>row. expense_of E (ex_ID x) row \<and> ex_Active row) (cancelled_row x actor reason) (Expenses s)"

definition expenses_same :: "store \<Rightarrow> store \<Rightarrow> bool" where
  "expenses_same s t \<longleftrightarrow> Expenses t = Expenses s"

interpretation same: state_frame expenses_same
  by unfold_locales (simp_all add: expenses_same_def)

lemma keeps_same_books: "keeps books_only m \<Longrightarrow> keeps expenses_same m"
  unfolding keeps_def expenses_same_def by (blast intro: books_only_simps(9))

lemma keeps_same_cancelOpen: "keeps expenses_same (cancelOpenExpenseReceipt T i actor reason now)"
  by (auto simp: keeps_def cancelOpenExpenseReceipt_def updateReceipts_def run_simps expenses_same_def split: sum.split)

lemma keeps_same_reverseCancelled: "keeps expenses_same (reverseCancelled E x actor reason p)"
  unfolding reverseCancelled_def Let_def
  by (intro same.keeps_intros keeps_same_books [OF keeps_books_reversePrevious] keeps_same_cancelOpen)

lemma repoCancel_table:
  assumes "repoCancel E x actor reason s = (Inr u, t)"
  shows "Expenses t = cancelled_table E x actor reason s"
proof -
  from assms obtain p u1 s1 where upd: "updateExpenses expense_update_guards (\<lambda>row. expense_of E (ex_ID x) row \<and> ex_Active row)
      (cancelled_row x actor reason) s = (Inr u1, s1)"
    and rest: "reverseCancelled E x actor reason p s1 = (Inr u, t)"
    by (auto simp: repoCancel_def Let_def run_ok split: if_split_asm)
  have "Expenses t = Expenses s1" using keepsD [OF keeps_same_reverseCancelled rest] by (simp add: expenses_same_def)
  then show ?thesis using updateExpenses_ok [OF upd] by (simp add: cancelled_table_def)
qed

lemma repoCancel_live:
  assumes run: "repoCancel E x actor reason s = (Inr u, t)" and books: "books_ok s"
    and T: "ex_TenantID x = TenantID E" and live: "live_postings (TenantID E) (ex_ID x) s = [e]"
  obtains r where "Ledger t = Ledger s @ [r]" and "reverses r e"
    and "live_postings (TenantID E) (ex_ID x) t = []"
    and "\<forall>k \<in> set (debit_postings (TenantID E) (ex_ID x) t). closed (TenantID E) k t"
    and "Expenses t = cancelled_table E x actor reason s"
proof -
  let ?T = "TenantID E" and ?i = "ex_ID x" and ?now = "or_time (ex_UpdatedAt x) (Now E)"
  obtain e' where latest: "latestExpenseLedgerEntry ?T ?i s = Some e'"
    using live latest_posting_None by (cases "latestExpenseLedgerEntry ?T ?i s") auto
  note e' = latest_posting [OF latest]
  from run latest T obtain u1 s1 u2 s2 u3 s3 u4 where
    upd: "updateExpenses expense_update_guards (\<lambda>row. expense_of E ?i row \<and> ex_Active row)
      (cancelled_row x actor reason) s = (Inr u1, s1)"
    and rev: "reversePrevious E (Some e') ?now (''Expense cancellation: '' @ TrimSpace reason) s1 = (Inr u2, s2)"
    and first: "cancelOpenExpenseReceipt ?T (le_ID e') actor reason ?now s2 = (Inr u3, s3)"
    and rest: "for_each (\<lambda>i. if i = le_ID e' then ret () else cancelOpenExpenseReceipt ?T i actor reason ?now)
      (debit_postings ?T ?i s3) s3 = (Inr u4, t)"
    by (auto simp: repoCancel_def reverseCancelled_def Let_def run_ok split: if_split_asm)
  note s1 = updateExpenses_ok [OF upd] and s3 = cancelOpen_ok [OF first]
  note closing = cancelOpen_each_ok [OF rest s3(1)]
  have "le_TenantID e' \<noteq> []" using e' by (simp add: expense_posting_def)
  then obtain r where r: "reverses r e'" "Ledger s2 = Ledger s1 @ [r]" "books_only s1 s2"
    "\<not> list_ex fst (ledger_keys_taken s1 r)"
    using reversePrevious_ok [OF rev] by blast
  have L1: "Ledger s1 = Ledger s" using s1 by simp
  have ee: "e' = e" using e' L1 by (intro reversed_was_live [OF r(1,4) L1 _ _ live]) simp_all
  have Lt: "Ledger t = Ledger s @ [r]" using closing s3(3) r(2) L1 by simp
  have "debit_postings ?T ?i t = debit_postings ?T ?i s3" using closing by (simp add: debit_postings_def)
  then have "\<forall>k \<in> set (debit_postings ?T ?i t). closed ?T k t" using closing by simp
  moreover have "live_postings ?T ?i t = []"
    using live_after_reversal [OF Lt _ live] r(1) ee books by (simp add: books_ok_def)
  moreover have "Expenses t = cancelled_table E x actor reason s"
    using closing s3(4) books_only_simps(9) [OF r(3)] s1 by (simp add: cancelled_table_def)
  ultimately show thesis using that Lt r(1) ee by blast
qed

section \<open>Recreating\<close>

text \<open>
  Expenses have their own identifiers, one that was recreated is cancelled, and no two were recreated
  from the same one.
\<close>

definition is_source :: "Expense \<Rightarrow> string \<Rightarrow> Expense \<Rightarrow> bool" where
  "is_source x r y \<longleftrightarrow> ex_ID y = r \<and> ex_TenantID y = ex_TenantID x \<and> \<not> ex_Active y \<and> ex_CancelledAt y \<noteq> None"

definition source_ok :: "Expense list \<Rightarrow> Expense \<Rightarrow> bool" where
  "source_ok xs x \<longleftrightarrow> (case ex_RecreatedFromExpenseID x of None \<Rightarrow> True | Some r \<Rightarrow> list_ex (is_source x r) xs)"

definition recreations_ok :: "store \<Rightarrow> bool" where
  "recreations_ok s \<longleftrightarrow> distinct (map ex_ID (Expenses s)) \<and> list_all (source_ok (Expenses s)) (Expenses s) \<and>
     distinct (map ex_RecreatedFromExpenseID (filter (\<lambda>x. ex_RecreatedFromExpenseID x \<noteq> None) (Expenses s)))"

definition recreations_kept :: "store \<Rightarrow> store \<Rightarrow> bool" where
  "recreations_kept s t \<longleftrightarrow> (recreations_ok s \<longrightarrow> recreations_ok t)"

interpretation recr: state_frame recreations_kept
  by unfold_locales (auto simp: recreations_kept_def)

lemma recreations_same: "Expenses t = Expenses s \<Longrightarrow> recreations_kept s t"
  by (simp add: recreations_kept_def recreations_ok_def)

lemma keeps_recr_books: "keeps books_only m \<Longrightarrow> keeps recreations_kept m"
  unfolding keeps_def by (blast intro: recreations_same books_only_simps(9))

lemma source_ok_more: "source_ok xs x \<Longrightarrow> source_ok (xs @ ys) x"
  by (auto simp: source_ok_def split: option.splits)

lemma keeps_recr_createExpense: "keeps recreations_kept (createExpense E x0)"
proof -
  let ?x = "with_expense_defaults E x0"
  have "recreations_kept s (s\<lparr>Expenses := Expenses s @ [?x]\<rparr>)"
    if g: "abort_if (expense_insert_guards s ?x) = Inr ()" for s
  proof -
    have "abort_if (expense_cancellation_guards s ?x) = Inr ()"
      using g by (auto simp: expense_insert_guards_def abort_if_ok)
    then have "source_ok (Expenses s) ?x"
      by (auto simp: expense_cancellation_guards_def abort_if_ok source_ok_def is_source_def [abs_def]
          split: option.splits)
    moreover have "ex_ID ?x \<notin> set (map ex_ID (Expenses s))"
      and "ex_RecreatedFromExpenseID ?x \<noteq> None \<Longrightarrow> ex_RecreatedFromExpenseID ?x \<notin> set (map ex_RecreatedFromExpenseID (Expenses s))"
      using g by (auto simp: expense_insert_guards_def abort_if_ok list_ex_iff)
    ultimately show ?thesis
      by (auto simp: recreations_kept_def recreations_ok_def source_ok_more list_all_iff)
  qed
  then show ?thesis using recr.R_refl
    by (auto simp: keeps_def createExpense_def Let_def run_simps split: sum.split)
qed

text \<open>An update of the table that keeps the identity of every row, under the triggers of the table.\<close>

lemma recreations_update:
  assumes f: "\<And>x. ex_ID (f x) = ex_ID x \<and> ex_TenantID (f x) = ex_TenantID x \<and>
      ex_RecreatedFromExpenseID (f x) = ex_RecreatedFromExpenseID x"
    and g: "\<And>x. x \<in> set (Expenses s) \<Longrightarrow> P x \<Longrightarrow> ex_CancelledAt x \<noteq> None \<Longrightarrow>
      ex_CancelledAt (f x) = ex_CancelledAt x \<and> ex_Active (f x) = ex_Active x"
  shows "recreations_kept s (s\<lparr>Expenses := update_where P f (Expenses s)\<rparr>)"
proof -
  let ?g = "\<lambda>x. if P x then f x else x"
  have src: "is_source (?g x) r (?g y)" if "is_source x r y" "y \<in> set (Expenses s)" for x r y
    using that f g by (auto simp: is_source_def)
  have "source_ok (map ?g (Expenses s)) (?g x)" if ok: "source_ok (Expenses s) x" for x
  proof (cases "ex_RecreatedFromExpenseID x")
    case (Some r)
    then obtain y where y: "y \<in> set (Expenses s)" "is_source x r y" using ok by (auto simp: source_ok_def list_ex_iff)
    have "list_ex (is_source (?g x) r) (map ?g (Expenses s))"
      unfolding list_ex_iff using src [OF y(2,1)] y(1) by (intro bexI [of _ "?g y"]) simp_all
    then show ?thesis using Some f by (cases "P x") (simp_all add: source_ok_def)
  qed (use f in \<open>simp add: source_ok_def\<close>)
  then have "list_all (source_ok (map ?g (Expenses s))) (map ?g (Expenses s))"
    if "list_all (source_ok (Expenses s)) (Expenses s)"
    using that by (simp add: list.pred_map list_all_length del: list_all_append)
  moreover have "map ex_ID (map ?g xs) = map ex_ID xs" for xs using f by simp
  moreover have "map ex_RecreatedFromExpenseID (filter (\<lambda>x. ex_RecreatedFromExpenseID x \<noteq> None) (map ?g xs)) =
      map ex_RecreatedFromExpenseID (filter (\<lambda>x. ex_RecreatedFromExpenseID x \<noteq> None) xs)" for xs
    using f by (induction xs) auto
  ultimately show ?thesis
    unfolding recreations_kept_def recreations_ok_def update_where_def by (simp del: map_map map_eq_conv)
qed

lemma cancellation_final:
  assumes "abort_if (expense_update_guards s x y) = Inr ()" and "ex_CancelledAt x \<noteq> None"
  shows "ex_CancelledAt y = ex_CancelledAt x \<and> ex_Active y = ex_Active x"
  using assms unfolding abort_if_ok expense_update_guards_def by simp

lemma keeps_recr_updateExpenses:
  assumes f: "\<And>x. ex_ID (f x) = ex_ID x \<and> ex_TenantID (f x) = ex_TenantID x \<and>
      ex_RecreatedFromExpenseID (f x) = ex_RecreatedFromExpenseID x"
    and guards: "\<And>s x y. set (expense_update_guards s x y) \<subseteq> set (guards s x y)"
  shows "keeps_ok recreations_kept (updateExpenses guards P f)"
  unfolding keeps_ok_def
proof (intro allI impI)
  fix s u t assume "updateExpenses guards P f s = (Inr u, t)"
  then have t: "t = s\<lparr>Expenses := update_where P f (Expenses s)\<rparr>"
    and g: "\<And>x. x \<in> set (Expenses s) \<Longrightarrow> P x \<Longrightarrow> abort_if (guards s x (f x)) = Inr ()"
    using updateExpenses_ok by blast+
  have "abort_if (expense_update_guards s x (f x)) = Inr ()" if "x \<in> set (Expenses s)" "P x" for x
    using g [OF that] guards [of s x "f x"] unfolding abort_if_ok by blast
  then show "recreations_kept s t"
    unfolding t by (intro recreations_update f cancellation_final) blast+
qed

lemma keeps_recr_createWithPosting: "keeps recreations_kept (createWithPosting E x)"
  unfolding createWithPosting_def
  by (intro recr.keeps_intros keeps_recr_createExpense keeps_recr_books keeps_books_createLedgerEntry)

lemma keeps_recr_repoUpdate: "keeps recreations_kept (repoUpdate E x)"
  unfolding repoUpdate_def replacementExpenseLedgerEntry_def Let_def
  by (intro recr.keeps_transaction recr.keeps_ok_intros keeps_recr_updateExpenses
      keeps_keeps_ok [OF keeps_recr_books] keeps_books_reversePrevious keeps_books_createLedgerEntry keeps_newID_books)
    (auto simp: updated_row_def)

lemma keeps_recr_repoCancel: "keeps recreations_kept (repoCancel E x actor reason)"
proof -
  have "keeps recreations_kept (reverseCancelled E x actor reason p)" for p
    using keeps_same_reverseCancelled recreations_same unfolding keeps_def expenses_same_def by blast
  then show ?thesis
    unfolding repoCancel_def Let_def
    by (intro recr.keeps_transaction recr.keeps_ok_intros keeps_recr_updateExpenses keeps_keeps_ok)
      (auto simp: cancelled_row_def)
qed

lemmas recr_intros = recr.keeps_intros keeps_recr_books [OF keeps_newID_books]

lemma keeps_recr_services:
  "keeps recreations_kept (CreateExpense E q)" "keeps recreations_kept (CreateCanteenBatch E b)"
  "keeps recreations_kept (UpdateExpense E i q)" "keeps recreations_kept (CancelExpense E i reason actor)"
  "keeps recreations_kept (DeactivateExpense E i)"
  unfolding CreateExpense_def repoCreate_def CreateCanteenBatch_def batch_item_def CreateBatch_def split_beta
    UpdateExpense_def CancelExpense_def DeactivateExpense_def Let_def
  by (intro recr_intros recr.keeps_transaction keeps_keeps_ok [OF keeps_recr_createWithPosting]
      recr.keeps_ok_map_each keeps_recr_repoUpdate keeps_recr_repoCancel)+

section \<open>What the service returns\<close>

lemma GetExpenseByID_found:
  assumes "x \<in> set (Expenses s)" and "expense_of E i x"
  obtains y where "y \<in> set (Expenses s)" and "expense_of E i y"
    and "FindExpenseByID E i s = Inr (expense_view s y)"
    and "GetExpenseByID E i s = Inr (expenseDTOWithPosting E (expense_view s y) s)"
proof -
  obtain y where y: "first_by ex_ID (expense_of E i) (Expenses s) = Some y"
    using assms first_by_None [of ex_ID "expense_of E i" "Expenses s"]
    by (cases "first_by ex_ID (expense_of E i) (Expenses s)") blast+
  show thesis
    by (rule that [of y]) (use first_by_Some [OF y] y in \<open>simp_all add: FindExpenseByID_def GetExpenseByID_def\<close>)
qed

lemma dto_simps [simp]:
  "xd_ID (expenseDTOWithPosting E v s) = ex_ID (xv_Expense v)"
  "xd_Amount (expenseDTOWithPosting E v s) = ex_Amount (xv_Expense v)"
  "xd_Active (expenseDTOWithPosting E v s) = ex_Active (xv_Expense v)"
  "xd_CancelledBy (expenseDTOWithPosting E v s) = ex_CancelledBy (xv_Expense v)"
  "xd_CancellationReason (expenseDTOWithPosting E v s) = ex_CancellationReason (xv_Expense v)"
  by (simp_all add: expenseDTOWithPosting_def ToDTOWithFinancialPosting_def ToExpenseDTO_def Let_def)

lemma same_tenant_DTO:
  assumes "TenantID E = TenantID E'"
  shows "FindExpenseByID E = FindExpenseByID E'" and "expenseDTOWithPosting E = expenseDTOWithPosting E'"
  using assms
  by (intro ext; simp add: FindExpenseByID_def expense_of_def [abs_def] expenseDTOWithPosting_def
      FindFinancialPostingByExpenseID_def)+

lemma updated_table_row:
  assumes "y \<in> set (updated_table E x s)" and "expense_of E (ex_ID x) y"
  shows "ex_Amount y = ex_Amount x"
  using assms by (auto simp: updated_table_def update_where_def expense_of_def updated_row_def split: if_splits)

lemma updated_table_has:
  assumes "z \<in> set (Expenses s)" and "expense_of E (ex_ID x) z"
  shows "\<exists>y \<in> set (updated_table E x s). expense_of E (ex_ID x) y"
  using assms
  by (intro bexI [of _ "updated_row x z"]) (auto simp: updated_table_def update_where_def expense_of_def updated_row_def image_iff)

lemma cancelled_table_row:
  assumes "y \<in> set (cancelled_table E x actor reason s)" and "expense_of E (ex_ID x) y"
    and "distinct (map ex_ID (Expenses s))" and "z \<in> set (Expenses s)" and "expense_of E (ex_ID x) z" and "ex_Active z"
  shows "y = cancelled_row x actor reason z"
proof -
  obtain w where w: "w \<in> set (Expenses s)"
    "y = (if expense_of E (ex_ID x) w \<and> ex_Active w then cancelled_row x actor reason w else w)"
    using assms(1) by (auto simp: cancelled_table_def update_where_def)
  then have "ex_ID w = ex_ID z" using assms(2,5) by (auto simp: expense_of_def cancelled_row_def split: if_splits)
  then have "w = z" using distinct_key [OF assms(3) w(1) assms(4)] by blast
  then show ?thesis using w assms(5,6) by simp
qed

lemma cancelled_table_has:
  assumes "z \<in> set (Expenses s)" and "expense_of E (ex_ID x) z"
  shows "\<exists>y \<in> set (cancelled_table E x actor reason s). expense_of E (ex_ID x) y"
  using assms
  by (intro bexI [of _ "if ex_Active z then cancelled_row x actor reason z else z"])
    (auto simp: cancelled_table_def update_where_def expense_of_def cancelled_row_def image_iff)

lemma reverses_signed: "reverses r e \<Longrightarrow> signed r = - signed e"
  by (simp add: reverses_def signed_def expenseOppositeDirection_def)

text \<open>The newest price is not older than any other.\<close>

lemma newest_price_max:
  assumes "newest_price ps = Some g"
  shows "g \<in> set ps" and "\<And>p. p \<in> set ps \<Longrightarrow> (gr_PriceDate p, gr_CreatedAt p) \<le> (gr_PriceDate g, gr_CreatedAt g)"
proof -
  have "g \<in> set ps \<and> (\<forall>p \<in> set ps. (gr_PriceDate p, gr_CreatedAt p) \<le> (gr_PriceDate g, gr_CreatedAt g))"
    using assms
  proof (induction ps arbitrary: g)
    case (Cons p ps)
    show ?case
    proof (cases "newest_price ps")
      case None
      then have "ps = []" by (cases ps) (auto split: option.splits)
      then show ?thesis using Cons.prems by simp
    next
      case (Some q)
      have "newer_price p q \<Longrightarrow> (gr_PriceDate q, gr_CreatedAt q) \<le> (gr_PriceDate p, gr_CreatedAt p)"
        and "\<not> newer_price p q \<Longrightarrow> (gr_PriceDate p, gr_CreatedAt p) \<le> (gr_PriceDate q, gr_CreatedAt q)"
        unfolding newer_price_def by (auto simp del: less_prod_simp less_eq_prod_simp Pair_inject simp: not_less)
      then show ?thesis using Cons.IH [OF Some] Cons.prems Some
        by (auto simp del: less_prod_simp less_eq_prod_simp split: if_splits intro: order_trans)
    qed
  qed simp
  then show "g \<in> set ps" "\<And>p. p \<in> set ps \<Longrightarrow> (gr_PriceDate p, gr_CreatedAt p) \<le> (gr_PriceDate g, gr_CreatedAt g)"
    by blast+
qed

end
