(* ===== verification/ExpenseProperties.thy ===== *)
theory ExpenseProperties
  imports ExpenseEffects
begin

text \<open>
  What the expense operations guarantee: a charge is booked once, with its receipt, at the price of the
  list; a change or a cancellation leaves at most one live posting; an expense is recreated at most once;
  a canteen batch is recorded whole or not at all; a failure writes nothing.
\<close>

section \<open>A tenant with a price list\<close>

definition demo_shop :: store where
  "demo_shop = demo_store\<lparr>
     PriceListItems := [\<lparr>pl_ID = ''item'', pl_CreatedAt = 1, pl_UpdatedAt = 1, pl_TenantID = ''t1'',
        pl_ItemType = ''CANTEEN'', pl_Code = ''LUNCH'', pl_Description = ''Lunch'', pl_UnitPriceBRL = 25,
        pl_Active = True, pl_SortOrder = 1, pl_SupersededPriceListItemID = None\<rparr>],
     GoldPrices := [\<lparr>gr_ID = ''gp1'', gr_CreatedAt = 1, gr_UpdatedAt = 1, gr_TenantID = ''t1'',
        gr_PriceDate = ''2024-01-01'', gr_BRLPerGram = 400, gr_RecordedBy = ''boss'', gr_Notes = [], gr_Active = True\<rparr>,
       \<lparr>gr_ID = ''gp2'', gr_CreatedAt = 2, gr_UpdatedAt = 2, gr_TenantID = ''t1'',
        gr_PriceDate = ''2024-02-01'', gr_BRLPerGram = 200, gr_RecordedBy = ''boss'', gr_Notes = [], gr_Active = True\<rparr>]\<rparr>"

definition demo_purchase :: "string \<Rightarrow> float64 \<Rightarrow> CreateExpenseRequest" where
  "demo_purchase currency quantity = \<lparr>eq_CollaboratorID = ''j1'', eq_ExpenseCategoryID = [], eq_ValueUnitID = [],
     eq_Amount = 0, eq_ExpenseDate = ''2024-02-03'', eq_Description = [], eq_RecreatedFromExpenseID = [],
     eq_PriceListItemID = ''item'', eq_CurrencyCode = currency, eq_Quantity = quantity\<rparr>"

definition demo_bought :: store where
  "demo_bought = snd (CreateExpense demo_env (demo_purchase ''GOLD_GRAM'' 2) demo_shop)"

lemma demo_purchase_runs: "\<not> isl (fst (CreateExpense demo_env (demo_purchase ''GOLD_GRAM'' 2) demo_shop))"
  by code_simp

lemma demo_update_runs: "\<not> isl (fst (UpdateExpense demo_env ''n'' (demo_purchase ''BRL'' 3) demo_bought))"
  by code_simp

lemma demo_cancel_runs: "\<not> isl (fst (CancelExpense demo_env ''n'' '' wrong item '' ''boss'' demo_bought))"
  by code_simp

lemma demo_bought_live: "map le_ID (live_postings ''t1'' ''n'' demo_bought) = [''ledger-expense-n'']"
  by code_simp

lemma demo_bought_books: "books_ok demo_bought"
  by code_simp

lemma demo_tenant: "TenantID demo_env = ''t1''"
  by code_simp

section \<open>Charges\<close>



text \<open>
  C27. A price-list expense costs what the list says. The item is an active one of the tenant. In BRL the
  unit price is the item's; in grams of gold it is the item's price divided by the BRL per gram of the
  newest active gold price, none of the tenant's active prices being newer. The amount is the unit price
  times the quantity, each operation rounded as a double, and the row keeps the audit: the item, the prices,
  the quantity, the gold price used, the method and the total, which is the amount.
\<close>

theorem price_list_expense_costs:
  assumes "applyPriceListCalculation E x itemID currency quantity s = Inr y"
  shows "\<exists>item gold. item \<in> set (PriceListItems s) \<and> pl_ID item = TrimSpace itemID \<and> pl_TenantID item = TenantID E \<and>
    pl_Active item \<and>
    (if normalizeCurrencyCode currency = ''GOLD_GRAM''
     then \<exists>g. gold = Some g \<and> g \<in> set (GoldPrices s) \<and> gr_TenantID g = TenantID E \<and> gr_Active g \<and>
       (\<forall>p \<in> set (GoldPrices s). gr_TenantID p = TenantID E \<and> gr_Active p \<longrightarrow>
          (gr_PriceDate p, gr_CreatedAt p) \<le> (gr_PriceDate g, gr_CreatedAt g)) \<and>
       ex_Amount y = fmul (fdiv (pl_UnitPriceBRL item) (gr_BRLPerGram g)) quantity \<and>
       ex_CalculationMethod y = ''BRL_TO_GOLD_GRAM_LATEST_PRICE''
     else gold = None \<and> ex_Amount y = fmul (pl_UnitPriceBRL item) quantity \<and>
       ex_CalculationMethod y = ''BRL_PRICE_LIST'') \<and>
    ex_PriceListItemID y = Some (pl_ID item) \<and> ex_UnitPriceBRL y = Some (pl_UnitPriceBRL item) \<and>
    ex_Quantity y = Some quantity \<and> ex_TotalAmount y = Some (ex_Amount y) \<and>
    ex_GoldPriceID y = map_option gr_ID gold \<and> ex_GoldBRLPerGram y = map_option gr_BRLPerGram gold"
proof -
  from assms obtain item category unit gold where
    item: "FindActivePriceListItemByID E (TrimSpace itemID) s = Inr item"
    and gold: "conversion E (normalizeCurrencyCode currency) s = Inr gold"
    and y: "y = priced E x item category unit (normalizeCurrencyCode currency) quantity gold"
    by (auto simp: applyPriceListCalculation_def tri_Inr not_found_as_def split: sum.splits)
  have i: "item \<in> set (PriceListItems s)" "pl_ID item = TrimSpace itemID" "pl_TenantID item = TenantID E" "pl_Active item"
    using item by (auto simp: FindActivePriceListItemByID_def found_Inr dest!: first_by_Some)
  show ?thesis
  proof (cases "normalizeCurrencyCode currency = ''GOLD_GRAM''")
    case False
    then have "gold = None" using gold by (simp add: conversion_def)
    then show ?thesis using i False y by (intro exI [of _ item] exI [of _ gold]) (simp add: priced_def Let_def unit_price_def)
  next
    case True
    then obtain g where g: "gold = Some g"
      "newest_price (filter (\<lambda>p. gr_TenantID p = TenantID E \<and> gr_Active p) (GoldPrices s)) = Some g"
      using gold
      by (cases "newest_price (filter (\<lambda>p. gr_TenantID p = TenantID E \<and> gr_Active p) (GoldPrices s))")
        (auto simp: conversion_def not_found_as_def FindLatestActiveGoldPrice_def)
    note newest = newest_price_max [OF g(2)]
    have "\<forall>p \<in> set (GoldPrices s). gr_TenantID p = TenantID E \<and> gr_Active p \<longrightarrow>
        (gr_PriceDate p, gr_CreatedAt p) \<le> (gr_PriceDate g, gr_CreatedAt g)"
      using newest(2) by simp
    then show ?thesis using i True y g(1) newest(1)
      by (intro exI [of _ item] exI [of _ gold]) (simp add: priced_def Let_def unit_price_def del: less_eq_prod_simp)
  qed
qed

lemma demo_price_runs: "\<not> isl (applyPriceListCalculation demo_env zeroExpense ''item'' ''gold_gram'' 2 demo_shop)"
  by code_simp

lemma price_list_expense_costs_witness: "\<exists>y. applyPriceListCalculation demo_env zeroExpense ''item'' ''gold_gram'' 2 demo_shop = Inr y \<and>
    ex_TotalAmount y = Some (ex_Amount y)"
proof -
  obtain y where run: "applyPriceListCalculation demo_env zeroExpense ''item'' ''gold_gram'' 2 demo_shop = Inr y"
    using demo_price_runs by (cases "applyPriceListCalculation demo_env zeroExpense ''item'' ''gold_gram'' 2 demo_shop") auto
  then show ?thesis using price_list_expense_costs [OF run] by blast
qed

section \<open>Changes and cancellations\<close>

text \<open>
  C28. A changed expense is corrected in the ledger. When one posting of the expense is live (not
  reversed), a successful update appends exactly two entries: a reversal of that posting, which cancels it
  to the cent, and a receipted debit of the new amount linked to it. The new posting is then the one live
  posting of the expense, and the caller is shown its amount.
\<close>

theorem update_replaces_posting:
  assumes "UpdateExpense E i q s = (Inr d, t)" and "books_ok s" and "live_postings (TenantID E) i s = [e]"
  shows "\<exists>r n. Ledger t = Ledger s @ [r, n] \<and> reverses r e \<and> signed r = - signed e \<and>
    le_Direction n = ''DEBIT'' \<and> le_CorrectionType n = ''REPLACEMENT'' \<and> le_RelatedEntryID n = Some (le_ID e) \<and>
    le_Amount n = xd_Amount d \<and> receipts_for t n = 1 \<and> live_postings (TenantID E) i t = [n]"
proof -
  from assms(1) obtain v c x u where v: "FindExpenseByID E i s = Inr v" "ex_Active (xv_Expense v)"
    and x: "applyCharge E q c s = Inr x" "ex_ID c = ex_ID (xv_Expense v)" "ex_TenantID c = ex_TenantID (xv_Expense v)"
      "ex_Active c = ex_Active (xv_Expense v)"
    and upd: "repoUpdate E x s = (Inr u, t)" and d: "GetExpenseByID E (ex_ID x) t = Inr d"
    by (auto simp: UpdateExpense_def run_ok clearPriceListCalculation_def split: if_splits)
  note row = FindExpenseByID_row [OF v(1)] and keep = applyCharge_identity [OF x(1), unfolded same_identity_def]
  have k: "ex_ID x = i" "ex_TenantID x = TenantID E" "ex_Active x" using keep x row v by simp_all
  obtain n where n: "replaced e n s t" "le_Amount n = ex_Amount x" "live_postings (TenantID E) i t = [n]"
    "Expenses t = updated_table E x s"
    using repoUpdate_live [OF upd assms(2) k(3,2)] assms(3) k(1) by metis
  have "\<exists>y \<in> set (Expenses t). expense_of E (ex_ID x) y"
    using updated_table_has [of "xv_Expense v" s E x] row k n(4) by (simp add: expense_of_def)
  then obtain y where y: "y \<in> set (Expenses t)" "expense_of E (ex_ID x) y"
    "GetExpenseByID E (ex_ID x) t = Inr (expenseDTOWithPosting E (expense_view t y) t)"
    using GetExpenseByID_found by metis
  have "xd_Amount d = ex_Amount x"
    using y(3) d updated_table_row [of y E x s] y(1,2) n(4) by simp
  moreover obtain r where "Ledger t = Ledger s @ [r, n]" "reverses r e" using n(1) by (auto simp: replaced_def)
  ultimately show ?thesis using n reverses_signed by (auto simp: replaced_def)
qed

lemma update_replaces_posting_witness: "\<exists>d t n. UpdateExpense demo_env ''n'' (demo_purchase ''BRL'' 3) demo_bought = (Inr d, t) \<and>
    live_postings ''t1'' ''n'' t = [n] \<and> le_Amount n = xd_Amount d"
proof -
  obtain d t where run: "UpdateExpense demo_env ''n'' (demo_purchase ''BRL'' 3) demo_bought = (Inr d, t)"
    using succeeded [OF demo_update_runs] by blast
  obtain e where "live_postings (TenantID demo_env) ''n'' demo_bought = [e]"
    using demo_bought_live demo_tenant by (auto simp: map_eq_Cons_conv)
  then show ?thesis using update_replaces_posting [OF run demo_bought_books] run demo_tenant by auto
qed

text \<open>
  C29. A cancellation settles an expense. When the expense is active and one posting of it is live, a successful
  cancellation appends one entry to the ledger, the reversal of that posting, of the opposite sign and the same
  amount; no posting of the expense is live afterwards and no receipt of any of its debits is open (each is
  returned or cancelled). The expense is inactive and names who cancelled it and why.
\<close>

theorem cancellation_settles:
  assumes "CancelExpense E i reason actor s = (Inr d, t)" and "books_ok s"
    and "FindExpenseByID E i s = Inr v" and "ex_Active (xv_Expense v)" and "distinct (map ex_ID (Expenses s))"
    and "live_postings (TenantID E) i s = [e]"
  shows "(\<exists>r. Ledger t = Ledger s @ [r] \<and> reverses r e \<and> signed r = - signed e) \<and>
    live_postings (TenantID E) i t = [] \<and>
    (\<forall>k \<in> set (debit_postings (TenantID E) i t). \<forall>r \<in> set (Receipts t).
       lr_TenantID r = TenantID E \<and> lr_LedgerEntryID r = k \<longrightarrow> lr_Status r \<in> {''RETURNED'', ''CANCELLED''}) \<and>
    \<not> xd_Active d \<and> xd_CancelledBy d = TrimSpace actor \<and> xd_CancellationReason d = TrimSpace reason"
proof -
  note row = FindExpenseByID_row [OF assms(3)]
  define x where "x = (xv_Expense v)\<lparr>ex_Active := False, ex_CancelledAt := Some (Now E),
    ex_CancelledBy := TrimSpace actor, ex_CancellationReason := TrimSpace reason, ex_UpdatedAt := Now E\<rparr>"
  have k: "ex_ID x = i" "ex_TenantID x = TenantID E" using row by (simp_all add: x_def)
  from assms(1,3,4) row obtain u where c: "repoCancel E x actor (TrimSpace reason) s = (Inr u, t)"
    and d: "GetExpenseByID E i t = Inr d"
    by (auto simp: CancelExpense_def Let_def run_ok x_def split: if_splits)
  obtain r where r: "Ledger t = Ledger s @ [r]" "reverses r e" "live_postings (TenantID E) i t = []"
    "\<forall>k \<in> set (debit_postings (TenantID E) i t). closed (TenantID E) k t"
    "Expenses t = cancelled_table E x actor (TrimSpace reason) s"
    using repoCancel_live [OF c assms(2) k(2)] assms(6) k(1) by metis
  have z: "expense_of E (ex_ID x) (xv_Expense v)" using row k by (simp add: expense_of_def)
  then have "\<exists>y \<in> set (Expenses t). expense_of E i y"
    using cancelled_table_has [of "xv_Expense v" s E x] row k(1) r(5) by simp
  then obtain y where y: "y \<in> set (Expenses t)" "expense_of E i y"
    "GetExpenseByID E i t = Inr (expenseDTOWithPosting E (expense_view t y) t)"
    using GetExpenseByID_found by metis
  have "y = cancelled_row x actor (TrimSpace reason) (xv_Expense v)"
    using cancelled_table_row [of y E x actor _ s "xv_Expense v"] y(1,2) k(1) r(5) assms(4,5) row z by simp
  then have "\<not> xd_Active d \<and> xd_CancelledBy d = TrimSpace actor \<and> xd_CancellationReason d = TrimSpace reason"
    using y(3) d by (auto simp: cancelled_row_def)
  moreover have "\<forall>k \<in> set (debit_postings (TenantID E) i t). \<forall>r \<in> set (Receipts t).
      lr_TenantID r = TenantID E \<and> lr_LedgerEntryID r = k \<longrightarrow> lr_Status r \<in> {''RETURNED'', ''CANCELLED''}"
    using r(4) unfolding closed_def list_all_iff open_receipt_of_def by fastforce
  ultimately show ?thesis using r reverses_signed by blast
qed

lemma demo_bought_found: "\<not> isl (FindExpenseByID demo_env ''n'' demo_bought) \<and>
    ex_Active (xv_Expense (projr (FindExpenseByID demo_env ''n'' demo_bought))) \<and> distinct (map ex_ID (Expenses demo_bought))"
  by code_simp

lemma cancellation_settles_witness: "\<exists>d t. CancelExpense demo_env ''n'' '' wrong item '' ''boss'' demo_bought = (Inr d, t) \<and>
    live_postings ''t1'' ''n'' t = [] \<and> \<not> xd_Active d"
proof -
  obtain d t where run: "CancelExpense demo_env ''n'' '' wrong item '' ''boss'' demo_bought = (Inr d, t)"
    using succeeded [OF demo_cancel_runs] by blast
  obtain v where v: "FindExpenseByID demo_env ''n'' demo_bought = Inr v" "ex_Active (xv_Expense v)"
    using demo_bought_found by (cases "FindExpenseByID demo_env ''n'' demo_bought") auto
  obtain e where e: "live_postings (TenantID demo_env) ''n'' demo_bought = [e]"
    using demo_bought_live demo_tenant by (auto simp: map_eq_Cons_conv)
  show ?thesis
    using cancellation_settles [OF run demo_bought_books v _ e] demo_bought_found run demo_tenant by auto
qed

text \<open>
  Cancelling again changes nothing. After a successful cancellation, another request to cancel the same
  expense, by anyone in the tenant, with any reason and at any time, succeeds with the same answer and leaves
  the store as it is: no second reversal is posted.
\<close>

theorem cancellation_idempotent:
  assumes "CancelExpense E i reason actor s = (Inr d, t)" and "distinct (map ex_ID (Expenses s))"
    and "TenantID E' = TenantID E" and "TrimSpace reason' \<noteq> []"
  shows "CancelExpense E' i reason' actor' t = (Inr d, t)"
proof -
  note tenant = same_tenant_DTO [OF assms(3)]
  have again: "CancelExpense E' i reason' actor' t = (Inr d, t)"
    if "FindExpenseByID E i t = Inr w" "\<not> ex_Active (xv_Expense w)" "ex_CancelledAt (xv_Expense w) \<noteq> None"
      "d = expenseDTOWithPosting E w t" for w
    using that assms(4) tenant by (simp add: CancelExpense_def Let_def run_simps)
  from assms(1) obtain v where v: "FindExpenseByID E i s = Inr v"
    by (auto simp: CancelExpense_def Let_def run_ok split: if_splits)
  note row = FindExpenseByID_row [OF v]
  show ?thesis
  proof (cases "ex_Active (xv_Expense v)")
    case False
    then show ?thesis using assms(1) v again by (auto simp: CancelExpense_def Let_def run_simps split: if_splits)
  next
    case True
    define x where "x = (xv_Expense v)\<lparr>ex_Active := False, ex_CancelledAt := Some (Now E),
      ex_CancelledBy := TrimSpace actor, ex_CancellationReason := TrimSpace reason, ex_UpdatedAt := Now E\<rparr>"
    from assms(1) v True row obtain u where c: "repoCancel E x actor (TrimSpace reason) s = (Inr u, t)"
      and d: "GetExpenseByID E i t = Inr d"
      by (auto simp: CancelExpense_def Let_def run_ok x_def split: if_splits)
    have k: "ex_ID x = i" "ex_CancelledAt x \<noteq> None" using row by (simp_all add: x_def)
    note table = repoCancel_table [OF c]
    have z: "expense_of E (ex_ID x) (xv_Expense v)" using row k by (simp add: expense_of_def)
    then have "\<exists>y \<in> set (Expenses t). expense_of E i y"
      using cancelled_table_has [of "xv_Expense v" s E x] row k(1) table by simp
    then obtain y where y: "y \<in> set (Expenses t)" "expense_of E i y" "FindExpenseByID E i t = Inr (expense_view t y)"
      "GetExpenseByID E i t = Inr (expenseDTOWithPosting E (expense_view t y) t)"
      using GetExpenseByID_found by metis
    have "y = cancelled_row x actor (TrimSpace reason) (xv_Expense v)"
      using cancelled_table_row [of y E x actor _ s "xv_Expense v"] y(1,2) k(1) table True assms(2) row z by simp
    then show ?thesis using y(3,4) d k(2) by (intro again [of "expense_view t y"]) (auto simp: cancelled_row_def)
  qed
qed

lemma cancellation_idempotent_witness:
  "\<exists>d t. CancelExpense demo_env ''n'' '' wrong item '' ''boss'' demo_bought = (Inr d, t) \<and>
    CancelExpense (demo_env\<lparr>Now := 1\<rparr>) ''n'' ''again'' ''ana'' t = (Inr d, t)"
proof -
  obtain d t where run: "CancelExpense demo_env ''n'' '' wrong item '' ''boss'' demo_bought = (Inr d, t)"
    using succeeded [OF demo_cancel_runs] by blast
  have tenant: "TenantID (demo_env\<lparr>Now := 1\<rparr>) = TenantID demo_env" by code_simp
  have reason: "TrimSpace ''again'' \<noteq> []" by code_simp
  have ids: "distinct (map ex_ID (Expenses demo_bought))" using demo_bought_found by blast
  show ?thesis using cancellation_idempotent [OF run ids tenant reason] run by blast
qed

section \<open>Recreation\<close>

text \<open>
  C30. An expense is recreated at most once, and only after it was cancelled. The invariant that expenses have
  distinct identifiers, that the source of every recreated expense is a cancelled expense of the same tenant
  and that no two expenses share a source is kept by every operation of the expense service, whatever it returns.
\<close>

theorem recreated_once:
  assumes "recreations_ok s"
  shows "recreations_ok (snd (CreateExpense E q s)) \<and> recreations_ok (snd (CreateCanteenBatch E b s)) \<and>
    recreations_ok (snd (UpdateExpense E i q s)) \<and> recreations_ok (snd (CancelExpense E i reason actor s)) \<and>
    recreations_ok (snd (DeactivateExpense E i s))"
  using assms keeps_recr_services unfolding keeps_def recreations_kept_def by blast

lemma recreated_once_witness: "recreations_ok demo_bought \<and>
    recreations_ok (snd (CancelExpense demo_env ''n'' '' wrong item '' ''boss'' demo_bought))"
proof -
  have "recreations_ok demo_bought" by code_simp
  then show ?thesis using recreated_once by blast
qed

section \<open>The canteen batch and failures\<close>

lemma priced_Quantity: "applyPriceListCalculation E x i c n s = Inr y \<Longrightarrow> ex_Quantity y = Some n"
  by (auto simp: applyPriceListCalculation_def tri_Inr priced_def Let_def)

lemma batch_item_ok:
  assumes "batch_item E q v d (k, item) s = (Inr x, t)"
  shows "ex_Quantity x = Some (bi_Quantity item)" and "ex_ItemType x = ''CANTEEN''" and "ex_TenantID x = TenantID E"
    and "ex_CollaboratorID x = TrimSpace (bq_CollaboratorID q)" and "with_expense_defaults E x = x"
proof -
  from assms obtain i u where x: "applyPriceListCalculation E (new_expense E i v (bq_CollaboratorID q) d (bq_Description q) None)
      (bi_PriceListItemID item) (bi_CurrencyCode item) (bi_Quantity item) u = Inr x" and c: "ex_ItemType x = ''CANTEEN''"
    by (auto simp: batch_item_def run_ok map_error_ok split: if_split_asm)
  show "ex_ItemType x = ''CANTEEN''" by (rule c)
  show "ex_Quantity x = Some (bi_Quantity item)" using x by (rule priced_Quantity)
  show "ex_TenantID x = TenantID E" "ex_CollaboratorID x = TrimSpace (bq_CollaboratorID q)" "with_expense_defaults E x = x"
    using applyPriceList_identity [OF x] by (simp_all add: same_identity_def expense_defaults_id)
qed

definition canteen_row :: "env \<Rightarrow> CreateCanteenExpenseBatchRequest \<Rightarrow> Expense \<Rightarrow> bool" where
  "canteen_row E q x \<longleftrightarrow> ex_ItemType x = ''CANTEEN'' \<and> ex_TenantID x = TenantID E \<and>
     ex_CollaboratorID x = TrimSpace (bq_CollaboratorID q)"

lemma batch_items_ok:
  assumes "map_each (batch_item E q v d) (enumerate k items) s = (Inr xs, t)"
  shows "map ex_Quantity xs = map (Some \<circ> bi_Quantity) items \<and> list_all (canteen_row E q) xs \<and>
    map (with_expense_defaults E) xs = xs"
  using assms
proof (induction items arbitrary: k s xs)
  case (Cons item items)
  from Cons.prems obtain x u ys where x: "batch_item E q v d (k, item) s = (Inr x, u)"
    and ys: "map_each (batch_item E q v d) (enumerate (Suc k) items) u = (Inr ys, t)" and xs: "xs = x # ys"
    by (auto simp: run_ok)
  show ?case using Cons.IH [OF ys] batch_item_ok [OF x] xs by (simp add: canteen_row_def)
qed simp

lemma bare_amount [simp]: "xd_Amount (ToExpenseDTO (bare_view x)) = ex_Amount x"
  by (simp add: ToExpenseDTO_def bare_view_def Let_def)

text \<open>
  C31. A canteen batch is recorded whole or not at all. If it succeeds it had between one and a hundred items,
  one expense is appended for each, all of them canteen items of the request's collaborator, with the quantities
  of the request in its order, and one debit is appended to the ledger for each expense; if it fails, nothing
  but the use of identifiers has changed.
\<close>

theorem canteen_batch_all_or_nothing:
  "case CreateCanteenBatch E q s of
     (Inl e, t) \<Rightarrow> ids_only s t
   | (Inr ds, t) \<Rightarrow> \<exists>xs. Expenses t = Expenses s @ xs \<and> Ledger t = Ledger s @ map expenseLedgerEntry xs \<and>
       length (bq_Items q) \<in> {1..100} \<and> map ex_Quantity xs = map (Some \<circ> bi_Quantity) (bq_Items q) \<and>
       list_all (canteen_row E q) xs \<and> map xd_Amount ds = map ex_Amount xs"
proof -
  have ids: "keeps ids_only (map_each (batch_item E q v d) xs)" for v d xs
    unfolding batch_item_def split_beta by (intro ids.keeps_intros ids.keeps_ids)
  obtain r t where run: "CreateCanteenBatch E q s = (r, t)" by (cases "CreateCanteenBatch E q s")
  show ?thesis
  proof (cases r)
    case (Inl e)
    have "keeps_err ids_only (CreateBatch E xs)" for xs
      unfolding CreateBatch_def
      by (intro ids.keeps_err_if keeps_keeps_err [OF ids.keeps_pure(1)] ids.keeps_err_transaction)
    then have "keeps_err ids_only (CreateCanteenBatch E q)"
      unfolding CreateCanteenBatch_def
      by (intro ids.keeps_err_bnd ids.keeps_pure ids ids.keeps_err_commit) simp_all
    then show ?thesis using run Inl by (simp add: keeps_errD)
  next
    case (Inr ds)
    from run Inr obtain v date xs m rows where ok: "batch_errors q = []"
      and xs: "map_each (batch_item E q v date) (enumerate 0 (bq_Items q)) s = (Inr xs, m)"
      and rows: "CreateBatch E xs m = (Inr rows, t)" and ds: "map xd_Amount ds = map ex_Amount rows"
      by (auto simp: CreateCanteenBatch_def run_ok)
    note made = batch_items_ok [OF xs] and new = CreateBatch_ok [OF rows]
    have r: "rows = xs" using new(1) made by simp
    obtain n where m: "m = s\<lparr>IdsUsed := n\<rparr>" using keepsD [OF ids xs] by (auto simp: ids_only_def)
    have "length (bq_Items q) \<in> {1..100}" using ok by (auto simp: batch_errors_def Suc_le_eq)
    then show ?thesis
      unfolding run Inr prod.case sum.case using made new(2,3) ds r m by (intro exI [of _ xs]) simp
  qed
qed

lemma repoUpdate_table:
  assumes "repoUpdate E x s = (Inr u, t)"
  shows "Expenses t = updated_table E x s"
proof -
  have rest: "keeps expenses_same (bnd (reversePrevious E p (or_time (ex_UpdatedAt x) (Now E)) ''Expense ledger correction'')
    (\<lambda>_. if ex_Active x then bnd (replacementExpenseLedgerEntry E x p (or_time (ex_UpdatedAt x) (Now E)))
      (\<lambda>y. bnd (createLedgerEntry E y) (\<lambda>z. query (ensureReceiptObligation (le_TenantID z) (le_ID z)))) else ret ()))" for p
    unfolding replacementExpenseLedgerEntry_def
    by (intro same.keeps_intros keeps_same_books keeps_books_reversePrevious keeps_books_createLedgerEntry keeps_newID_books)
  from assms obtain v m where upd: "updateExpenses (\<lambda>s old new. expense_update_guards s old new @ expense_owner_guards s new)
      (expense_of E (ex_ID x)) (updated_row x) s = (Inr v, m)"
    and t: "expenses_same m t"
    unfolding repoUpdate_def Let_def transaction_ok bnd_query sum.case bnd_ok [of "updateExpenses _ _ _"]
    using keepsD [OF rest] by blast
  then show ?thesis using updateExpenses_ok [OF upd] by (simp add: updated_table_def expenses_same_def)
qed

lemma read_back: "x \<in> set (Expenses s) \<Longrightarrow> expense_of E i x \<Longrightarrow> GetExpenseByID E i s \<noteq> Inl e"
  by (metis GetExpenseByID_found sum.distinct(2))

text \<open>A change that was committed is read back: the row it changed is still there.\<close>

lemma committed_update:
  assumes "bnd (repoUpdate E x) (\<lambda>_. query (GetExpenseByID E i)) s = (Inl e, t)"
    and "ex_ID x = i" and "z \<in> set (Expenses s)" and "ex_ID z = i" and "ex_TenantID z = TenantID E"
  shows "t = s"
proof -
  have "expense_of E (ex_ID x) z" using assms(2,4,5) by (simp add: expense_of_def)
  then have "GetExpenseByID E i m \<noteq> Inl e" if "repoUpdate E x s = (Inr u, m)" for u m
    using repoUpdate_table [OF that] updated_table_has [OF assms(3)] read_back assms(2) by metis
  then show ?thesis using assms(1) by (auto simp: bnd_err repoUpdate_def Let_def dest: transaction_err)
qed

lemma committed_cancel:
  assumes "bnd (repoCancel E x actor reason) (\<lambda>_. query (GetExpenseByID E i)) s = (Inl e, t)"
    and "ex_ID x = i" and "z \<in> set (Expenses s)" and "ex_ID z = i" and "ex_TenantID z = TenantID E"
  shows "t = s"
proof -
  have "expense_of E (ex_ID x) z" using assms(2,4,5) by (simp add: expense_of_def)
  then have "GetExpenseByID E i m \<noteq> Inl e" if "repoCancel E x actor reason s = (Inr u, m)" for u m
    using repoCancel_table [OF that] cancelled_table_has [OF assms(3)] read_back assms(2) by metis
  then show ?thesis using assms(1) by (auto simp: bnd_err repoCancel_def Let_def dest: transaction_err)
qed

lemma committed_create:
  assumes "x \<in> results (query (applyCharge E q (new_expense E i v c d ds src)))"
  shows "keeps_err ids_only (bnd (repoCreate E x) (\<lambda>_. query (GetExpenseByID E i)))"
proof (rule ids.keeps_err_commit)
  show "keeps_err ids_only (repoCreate E x)" unfolding repoCreate_def by (rule ids.keeps_err_transaction)
  fix s y t e w assume "repoCreate E x s = (Inr y, t)"
  then have c: "createWithPosting E x s = (Inr y, t)" by (simp add: repoCreate_def transaction_ok)
  have "y \<in> set (Expenses t)" "expense_of E i y"
    using createWithPosting_ok [OF c] assms by (auto simp: expense_of_def same_identity_def dest!: applyCharge_identity)
  then show "query (GetExpenseByID E i) t \<noteq> (Inl e, w)" using read_back by simp
qed

text \<open>
  A failed expense operation writes nothing: whenever creating, changing, cancelling or deactivating
  returns an error, whether from the validation, a lookup, a constraint of the database or a missing receipt
  obligation, only identifiers have been consumed, and what was committed is always shown to the caller.
\<close>

theorem expense_failure_writes_nothing:
  "(\<forall>e t. CreateExpense E q s = (Inl e, t) \<longrightarrow> ids_only s t) \<and>
   (\<forall>e t. UpdateExpense E i q s = (Inl e, t) \<longrightarrow> ids_only s t) \<and>
   (\<forall>e t. CancelExpense E i reason actor s = (Inl e, t) \<longrightarrow> ids_only s t) \<and>
   (\<forall>e t. DeactivateExpense E i s = (Inl e, t) \<longrightarrow> ids_only s t)"
proof (intro conjI allI impI)
  fix e t
  have "keeps_err ids_only (CreateExpense E q)"
    unfolding CreateExpense_def
    by (intro committed_create ids.keeps_err_bnd ids.keeps_pure ids.keeps_ids) assumption
  then show "CreateExpense E q s = (Inl e, t) \<Longrightarrow> ids_only s t" by (rule keeps_errD)
  have "t = s" if "UpdateExpense E i q s = (Inl e, t)"
    using that
    by (auto simp: UpdateExpense_def run_simps same_identity_def clearPriceListCalculation_def
        split: sum.splits if_split_asm dest!: applyCharge_identity FindExpenseByID_row intro: committed_update)
  then show "UpdateExpense E i q s = (Inl e, t) \<Longrightarrow> ids_only s t" by (simp add: ids.R_refl)
  have "t = s" if "CancelExpense E i reason actor s = (Inl e, t)"
    using that
    by (auto simp: CancelExpense_def Let_def run_simps split: sum.splits if_split_asm
        dest!: FindExpenseByID_row intro: committed_cancel)
  then show "CancelExpense E i reason actor s = (Inl e, t) \<Longrightarrow> ids_only s t" by (simp add: ids.R_refl)
  have "t = s" if "DeactivateExpense E i s = (Inl e, t)"
    using that
    by (auto simp: DeactivateExpense_def Let_def run_simps split: sum.splits if_split_asm
        dest!: FindExpenseByID_row intro: committed_update)
  then show "DeactivateExpense E i s = (Inl e, t) \<Longrightarrow> ids_only s t" by (simp add: ids.R_refl)
qed

lemma demo_failing_calls:
  "isl (fst (CreateExpense demo_env (demo_purchase ''BRL'' 3) demo_store))"
  "isl (fst (UpdateExpense demo_env ''unknown'' (demo_purchase ''BRL'' 3) demo_bought))"
  "isl (fst (CancelExpense demo_env ''n'' [] ''boss'' demo_bought))"
  "isl (fst (DeactivateExpense demo_env ''unknown'' demo_bought))"
  by code_simp+

theorem expense_failure_writes_nothing_witness:
  "(\<exists>e t. CreateExpense demo_env (demo_purchase ''BRL'' 3) demo_store = (Inl e, t) \<and> ids_only demo_store t) \<and>
   (\<exists>e t. UpdateExpense demo_env ''unknown'' (demo_purchase ''BRL'' 3) demo_bought = (Inl e, t) \<and> ids_only demo_bought t) \<and>
   (\<exists>e t. CancelExpense demo_env ''n'' [] ''boss'' demo_bought = (Inl e, t) \<and> ids_only demo_bought t) \<and>
   (\<exists>e t. DeactivateExpense demo_env ''unknown'' demo_bought = (Inl e, t) \<and> ids_only demo_bought t)"
  using demo_failing_calls [THEN failed] expense_failure_writes_nothing by meson

end
