(* ===== verification/Timestamps.thy ===== *)
theory Timestamps
  imports Dates "HOL-Library.Monad_Syntax"
begin

text \<open>
  \<open>time.Parse(time.RFC3339, strings.TrimSpace(value))\<close>, which the planning services use for the start and
  the end of a work period: the parser of Go's \<open>time\<close> package for this layout, which is more liberal than
  RFC 3339 (an hour of one digit, a fraction after a comma, an offset of 24 hours or 60 minutes). An
  instant that the API printed is read back as the same second.
\<close>

section \<open>The pieces of a timestamp\<close>

text \<open>\<open>getnum\<close>: one or two digits, or two when the width is fixed.\<close>

fun getnum :: "bool \<Rightarrow> string \<Rightarrow> (int \<times> string) option" where
  "getnum fixed [] = None"
| "getnum fixed [c] = (if is_digit c \<and> \<not> fixed then Some (digit_val c, []) else None)"
| "getnum fixed (c # d # v) = (if \<not> is_digit c then None
     else if is_digit d then Some (10 * digit_val c + digit_val d, v)
     else if fixed then None else Some (digit_val c, d # v))"

definition number :: "string \<Rightarrow> int" where
  "number ds = foldl (\<lambda>n c. 10 * n + digit_val c) 0 ds"

definition getyear :: "string \<Rightarrow> (int \<times> string) option" where
  "getyear v = (if 4 \<le> length v \<and> list_all is_digit (take 4 v)
     then Some (number (take 4 v), drop 4 v) else None)"

definition skip_char :: "char \<Rightarrow> string \<Rightarrow> string option" where
  "skip_char c v = (case v of [] \<Rightarrow> None | x # r \<Rightarrow> if x = c then Some r else None)"

definition in_range :: "int \<Rightarrow> int \<Rightarrow> int \<Rightarrow> unit option" where
  "in_range lo hi k = (if lo \<le> k \<and> k \<le> hi then Some () else None)"

text \<open>An optional fraction, cut off after nine digits.\<close>

definition getfraction :: "string \<Rightarrow> int \<times> string" where
  "getfraction v = (case v of c # d # r \<Rightarrow>
       if (c = CHR ''.'' \<or> c = CHR '','') \<and> is_digit d
       then let ds = take 9 (takeWhile is_digit (d # r))
            in (number ds * 10 ^ (9 - length ds), dropWhile is_digit (d # r))
       else (0, v)
     | _ \<Rightarrow> (0, v))"

text \<open>\<open>Z\<close>, or a sign, hours, a colon and minutes; in seconds east of UTC.\<close>

definition getzone :: "string \<Rightarrow> (int \<times> string) option" where
  "getzone v = (case v of [] \<Rightarrow> None | z # r \<Rightarrow>
     if z = CHR ''Z'' then Some (0, r)
     else if length v < 6 \<or> v ! 3 \<noteq> CHR '':'' then None
     else do {
       (hr, _) \<leftarrow> getnum True [v ! 1, v ! 2];
       (mm, _) \<leftarrow> getnum True [v ! 4, v ! 5];
       in_range 0 24 hr;
       in_range 0 60 mm;
       if z = CHR ''+'' then Some ((hr * 60 + mm) * 60, drop 6 v)
       else if z = CHR ''-'' then Some (- ((hr * 60 + mm) * 60), drop 6 v)
       else None
     })"

definition parseTimestamp :: "string \<Rightarrow> time option" where
  "parseTimestamp value = do {
     (y, v) \<leftarrow> getyear (TrimSpace value);
     v \<leftarrow> skip_char (CHR ''-'') v;
     (m, v) \<leftarrow> getnum True v;
     in_range 1 12 m;
     v \<leftarrow> skip_char (CHR ''-'') v;
     (d, v) \<leftarrow> getnum True v;
     v \<leftarrow> skip_char (CHR ''T'') v;
     (hh, v) \<leftarrow> getnum False v;
     in_range 0 23 hh;
     v \<leftarrow> skip_char (CHR '':'') v;
     (mi, v) \<leftarrow> getnum True v;
     in_range 0 59 mi;
     v \<leftarrow> skip_char (CHR '':'') v;
     (ss, v) \<leftarrow> getnum True v;
     in_range 0 59 ss;
     let (ns, v) = getfraction v;
     (offset, v) \<leftarrow> getzone v;
     in_range 1 (days_in_month y m) d;
     if v = [] then Some (days_of_civil y m d * day_ns + (((hh * 60 + mi) * 60 + ss) - offset) * 1000000000 + ns)
     else None
   }"

section \<open>Every day is the day of its civil date\<close>

lemma year_of_bounds: "days_before_year (year_of n) \<le> n \<and> n < days_before_year (year_of n + 1)"
proof -
  define e where "e = 400 * n div 146097 + 1"
  have e: "146097 * (e - 1) \<le> 400 * n" "400 * n < 146097 * e"
    using div_scaled [of 146097 "400 * n"] by (simp_all add: e_def)
  have "days_before_year e \<le> n" and "n < days_before_year (e + 1 + 1)"
    using e days_before_year_bounds(1) [of e] days_before_year_bounds(2) [of "e + 1 + 1"]
    by (simp_all add: algebra_simps)
  then show ?thesis by (simp add: year_of_def Let_def e_def [symmetric])
qed

lemma month_of_sound:
  assumes "1 \<le> m" "m \<le> 12" "0 \<le> r" "r < days_from_month y m 13"
  shows "\<exists>k d. month_of y m r = (k, d) \<and> m \<le> k \<and> k \<le> 12 \<and> 1 \<le> d \<and> d \<le> days_in_month y k \<and>
    r = days_from_month y m k + (d - 1)"
  using assms
proof (induction y m r rule: month_of.induct)
  case (1 y m r)
  show ?case
  proof (cases "12 \<le> m \<or> r < days_in_month y m")
    case True
    then have "r < days_in_month y m"
      using 1(3-5) days_from_month_step [of m 13 y] days_from_month.simps [of y 13 13] by (cases "m = 12") auto
    then show ?thesis
      using True 1(3-5) by (auto simp: month_of.simps [of y m r] days_from_month.simps [of y m m])
  next
    case False
    then obtain k d where "month_of y (m + 1) (r - days_in_month y m) = (k, d) \<and> m + 1 \<le> k \<and> k \<le> 12 \<and>
        1 \<le> d \<and> d \<le> days_in_month y k \<and> r - days_in_month y m = days_from_month y (m + 1) k + (d - 1)"
      using 1 days_from_month_step [of m 13 y] by auto
    then show ?thesis
      using False days_from_month_step [of m k y] by (auto simp: month_of.simps [of y m r])
  qed
qed

lemma civil_of_days_sound:
  assumes "civil_of_days n = (y, m, d)"
  shows "y = year_of n \<and> 1 \<le> m \<and> m \<le> 12 \<and> 1 \<le> d \<and> d \<le> days_in_month y m \<and> days_of_civil y m d = n"
proof -
  have y: "y = year_of n" and md: "month_of y 1 (n - days_before_year y) = (m, d)"
    using assms by (auto simp: civil_of_days_def Let_def)
  have "\<exists>k e. month_of y 1 (n - days_before_year y) = (k, e) \<and> 1 \<le> k \<and> k \<le> 12 \<and> 1 \<le> e \<and>
      e \<le> days_in_month y k \<and> n - days_before_year y = days_from_month y 1 k + (e - 1)"
    using year_of_bounds [of n] leap_year_length [of y]
    by (intro month_of_sound) (auto simp: y days_from_month_13)
  then show ?thesis using md y by (auto simp: days_of_civil_def)
qed

section \<open>Printed instants are read back\<close>

lemma digit_char_is_digit: "is_digit (digit_char k)" and digit_val_char: "digit_val (digit_char k) = k mod 10"
proof -
  have "nat (48 + k mod 10) < 256" by (simp add: nat_less_iff)
  then have "of_char (digit_char k) = nat (48 + k mod 10)"
    by (simp add: digit_char_def of_char_of)
  moreover have "0 \<le> k mod 10" "k mod 10 < 10" by simp_all
  ultimately show "is_digit (digit_char k)" "digit_val (digit_char k) = k mod 10"
    by (auto simp: is_digit_def digit_val_def Let_def nat_le_iff)
qed

lemma getnum_two_digits: "0 \<le> k \<Longrightarrow> k < 100 \<Longrightarrow> getnum fixed (two_digits k @ v) = Some (k, v)"
  using div_mult_mod_eq [of k 10]
  by (simp add: two_digits_def digit_char_is_digit digit_val_char mult.commute mod_pos_pos_trivial)

lemma horner: "a * 10 + b = p \<Longrightarrow> p * 10 + c = q \<Longrightarrow> q * 10 + d = y \<Longrightarrow> 1000 * a + 100 * b + 10 * c + d = (y::int)"
  by linarith

lemma four_digits:
  assumes "0 \<le> y" and "y < (10000::int)"
  shows "1000 * (y div 1000 mod 10) + 100 * (y div 100 mod 10) + 10 * (y div 10 mod 10) + y mod 10 = y"
proof (rule horner)
  have d: "y div 100 = y div 10 div 10" "y div 1000 = y div 100 div 10"
    using zdiv_zmult2_eq [of 10 y 10] zdiv_zmult2_eq [of 10 y 100] by simp_all
  have "y div 1000 mod 10 = y div 1000" using assms by (intro mod_pos_pos_trivial) auto
  then show "y div 1000 mod 10 * 10 + y div 100 mod 10 = y div 100" by (simp only: d(2) div_mult_mod_eq)
  show "y div 100 * 10 + y div 10 mod 10 = y div 10" by (simp only: d(1) div_mult_mod_eq)
  show "y div 10 * 10 + y mod 10 = y" by (rule div_mult_mod_eq)
qed

lemma number_four: "number [a, b, c, d] =
  1000 * digit_val a + 100 * digit_val b + 10 * digit_val c + digit_val d"
  by (simp add: number_def)

lemma getyear_printed:
  assumes "0 \<le> y" and "y < 10000"
  shows "getyear (digit_char (y div 1000) # digit_char (y div 100) # digit_char (y div 10) # digit_char y # v) = Some (y, v)"
proof -
  have "number [digit_char (y div 1000), digit_char (y div 100), digit_char (y div 10), digit_char y] = y"
    unfolding number_four digit_val_char using assms by (rule four_digits)
  then show ?thesis by (simp add: getyear_def digit_char_is_digit)
qed

lemma skip_char_Cons [simp]: "skip_char c (c # v) = Some v"
  by (simp add: skip_char_def)

lemma in_range_Some [simp]: "lo \<le> k \<Longrightarrow> k \<le> hi \<Longrightarrow> in_range lo hi k = Some ()"
  by (simp add: in_range_def)

lemma Trim_fix: "v \<noteq> [] \<Longrightarrow> \<not> is_space (hd v) \<Longrightarrow> \<not> is_space (last v) \<Longrightarrow> TrimSpace v = v"
  using dropWhile_fix [of v is_space] dropWhile_fix [of "rev v" is_space]
  by (simp add: TrimSpace_def hd_rev)

lemma digit_not_space: "is_digit c \<Longrightarrow> \<not> is_space c"
  by (auto simp: is_digit_def is_space_def Let_def)

lemma parseTimestamp_printed:
  assumes "0 \<le> y" "y < 10000" and date: "1 \<le> m" "m \<le> 12" "1 \<le> d" "d \<le> days_in_month y m"
    and clock: "0 \<le> hh" "hh < 24" "0 \<le> mi" "mi < 60" "0 \<le> ss" "ss < 60"
  shows "parseTimestamp (format_civil (y, m, d) @ ''T'' @
      (two_digits hh @ '':'' @ two_digits mi @ '':'' @ two_digits ss) @ ''Z'') =
    Some (days_of_civil y m d * day_ns + ((hh * 60 + mi) * 60 + ss) * 1000000000)" (is "parseTimestamp ?v = _")
proof -
  have "d < 100" using date(4) by (simp add: days_in_month_def split: if_splits)
  have v: "?v = digit_char (y div 1000) # digit_char (y div 100) # digit_char (y div 10) # digit_char y #
      CHR ''-'' # (two_digits m @ CHR ''-'' # (two_digits d @ CHR ''T'' # (two_digits hh @ CHR '':'' #
      (two_digits mi @ CHR '':'' # (two_digits ss @ ''Z'')))))"
    by (simp add: format_civil_def two_digits_def)
  have trim: "TrimSpace ?v = ?v"
    by (rule Trim_fix) (simp_all add: format_civil_def digit_not_space digit_char_is_digit, simp add: is_space_def)
  have frac: "getfraction ''Z'' = (0, ''Z'')" and zone: "getzone ''Z'' = Some (0, [])"
    by (simp_all add: getfraction_def getzone_def)
  show ?thesis
    unfolding parseTimestamp_def trim
    unfolding v
    using assms \<open>d < 100\<close>
    by (simp add: getyear_printed getnum_two_digits frac zone)
qed

definition whole_second :: "time \<Rightarrow> time" where
  "whole_second t = t - t mod 1000000000"

lemma clock_parts:
  assumes "s = t mod day_ns div 1000000000"
  shows "0 \<le> s div 3600" "s div 3600 < 24" "0 \<le> s div 60 mod 60" "s div 60 mod 60 < 60" "0 \<le> s mod 60" "s mod 60 < 60"
    and "(s div 3600 * 60 + s div 60 mod 60) * 60 + s mod 60 = s"
    and "t div day_ns * day_ns + s * 1000000000 = whole_second t"
proof -
  have s: "0 \<le> s" "s < 86400"
    using pos_mod_bound [of day_ns t] pos_mod_sign [of day_ns t] by (simp_all add: assms day_ns_def)
  then show "0 \<le> s div 3600" "s div 3600 < 24" "0 \<le> s div 60 mod 60" "s div 60 mod 60 < 60" "0 \<le> s mod 60" "s mod 60 < 60"
    by (auto intro: div_int_pos_iff [THEN iffD2])
  have "s div 3600 = s div 60 div 60" using zdiv_zmult2_eq [of 60 s 60] by simp
  then show "(s div 3600 * 60 + s div 60 mod 60) * 60 + s mod 60 = s"
    by (simp only: div_mult_mod_eq)
  have "t mod day_ns mod 1000000000 = t mod 1000000000" by (simp add: day_ns_def mod_mod_cancel)
  then show "t div day_ns * day_ns + s * 1000000000 = whole_second t"
    using div_mult_mod_eq [of t day_ns] div_mult_mod_eq [of "t mod day_ns" 1000000000]
    unfolding assms whole_second_def by linarith
qed

lemma parse_formatRFC3339:
  assumes "civil_of_time t = (y, m, d)" and "0 \<le> y" and "y < 10000"
  shows "parseTimestamp (formatRFC3339 t) = Some (whole_second t)"
proof -
  define s where "s = t mod day_ns div 1000000000"
  note c = clock_parts [OF s_def]
  have date: "1 \<le> m" "m \<le> 12" "1 \<le> d" "d \<le> days_in_month y m" "days_of_civil y m d = t div day_ns"
    using civil_of_days_sound [OF assms(1) [unfolded civil_of_time_def]] by blast+
  have "formatRFC3339 t = format_civil (y, m, d) @ ''T'' @
      (two_digits (s div 3600) @ '':'' @ two_digits (s div 60 mod 60) @ '':'' @ two_digits (s mod 60)) @ ''Z''"
    by (simp add: formatRFC3339_def assms(1) formatClock_def Let_def s_def)
  then show ?thesis
    using parseTimestamp_printed [OF assms(2,3) date(1-4) c(1-6)] c(7,8) by (simp add: date(5))
qed

lemma parseDate_formatDate:
  assumes "t \<noteq> 0" and "1 \<le> fst (civil_of_time t)" and "fst (civil_of_time t) \<le> 9999" and "dateOnlyUTC t = t"
  shows "parseDate (formatDate t) = Some t"
proof -
  obtain y m d where c: "civil_of_time t = (y, m, d)" by (cases "civil_of_time t")
  have s: "1 \<le> m" "m \<le> 12" "1 \<le> d" "d \<le> days_in_month y m" "days_of_civil y m d = t div day_ns"
    using civil_of_days_sound [OF c [unfolded civil_of_time_def]] by blast+
  have two: "10 * (k div 10 mod 10) + k mod 10 = k" if "0 \<le> k" "k < 100" for k :: int
  proof -
    have "k div 10 mod 10 = k div 10" using that by (intro mod_pos_pos_trivial) auto
    then show ?thesis using mult_div_mod_eq [of 10 k] by simp
  qed
  have "d \<le> 31" using s(4) by (simp add: days_in_month_def split: if_splits)
  then have b: "0 \<le> m" "m < 100" "0 \<le> d" "d < 100" using s(1-3) by linarith+
  have y: "0 \<le> y" "y < 10000" using assms(2,3) by (simp_all add: c)
  have parts: "10 * (m div 10 mod 10) + m mod 10 = m" "10 * (d div 10 mod 10) + d mod 10 = d"
    "1000 * (y div 1000 mod 10) + 100 * (y div 100 mod 10) + 10 * (y div 10 mod 10) + y mod 10 = y"
    by (rule two [OF b(1,2)], rule two [OF b(3,4)], rule four_digits [OF y])
  have trim: "TrimSpace (format_civil (y, m, d)) = format_civil (y, m, d)"
    by (rule Trim_fix) (simp_all add: format_civil_def digit_not_space digit_char_is_digit)
  have "days_of_civil y m d * day_ns = t" using s assms(4) by (simp add: dateOnlyUTC_def)
  then show ?thesis
    using assms(1)
    by (simp add: formatDate_def c parseDate_def trim Let_def)
      (simp add: format_civil_def digit_char_is_digit digit_val_char parts s(1-4))
qed

end
