(* ===== verification/WorkPeriodPlanning.thy ===== *)
theory WorkPeriodPlanning
  imports AccrualEffects Timestamps
begin

text \<open>
  Work periods (\<open>service_impl.go\<close>, \<open>repository_gorm.go\<close>, \<open>validation.go\<close>, \<open>mapper.go\<close>, \<open>dto.go\<close> of
  \<open>backend/internal/workperiods\<close>): a period is created in planning for a date and a period code, its plan
  is informed, and its roster lists the collaborators that were planned. The inserts obey the
  constraints of migration 000011 and the triggers of 000041.
\<close>

section \<open>Requests and results\<close>

record WorkPeriodDTO =
  wd_ID :: string
  wd_TenantID :: string
  wd_WorkDate :: string
  wd_PeriodCode :: string
  wd_Name :: string
  wd_StartsAt :: string
  wd_EndsAt :: string
  wd_Status :: string
  wd_InformedAt :: string
  wd_AccrualOpenedAt :: string
  wd_ClosedAt :: string
  wd_CreatedAt :: string
  wd_UpdatedAt :: string

record CreateWorkPeriodRequest =
  cw_WorkDate :: string
  cw_PeriodCode :: string
  cw_Name :: string
  cw_StartsAt :: string
  cw_EndsAt :: string

record WorkPeriodListFilter =
  wf_DateFrom :: string
  wf_DateTo :: string
  wf_Status :: string
  wf_Page :: int
  wf_PageSize :: int

record normalizedWorkPeriodListFilter =
  nw_DateFrom :: "time option"
  nw_DateTo :: "time option"
  nw_Status :: string
  nw_Page :: int
  nw_PageSize :: int

definition ToWorkPeriodDTO :: "WorkPeriod \<Rightarrow> WorkPeriodDTO" where
  "ToWorkPeriodDTO p = \<lparr>
     wd_ID = wp_ID p, wd_TenantID = wp_TenantID p, wd_WorkDate = formatDate (wp_WorkDate p),
     wd_PeriodCode = wp_PeriodCode p, wd_Name = wp_Name p, wd_StartsAt = formatTime (wp_StartsAt p),
     wd_EndsAt = formatTime (wp_EndsAt p), wd_Status = wp_Status p,
     wd_InformedAt = formatOptionalTime (wp_InformedAt p),
     wd_AccrualOpenedAt = formatOptionalTime (wp_AccrualOpenedAt p),
     wd_ClosedAt = formatOptionalTime (wp_ClosedAt p), wd_CreatedAt = formatRFC3339 (wp_CreatedAt p),
     wd_UpdatedAt = formatRFC3339 (wp_UpdatedAt p)\<rparr>"

section \<open>Validation\<close>

definition isKnownWorkPeriodStatus :: "string \<Rightarrow> bool" where
  "isKnownWorkPeriodStatus v \<longleftrightarrow> v \<in> set [''PLANNING'', ''INFORMED'', ''ACCRUAL_OPEN'', ''PARTIALLY_POSTED'',
     ''FULLY_POSTED'', ''CLOSED'']"

definition ordered_times :: "string \<Rightarrow> string \<Rightarrow> bool" where
  "ordered_times starts ends = (case (parseTimestamp starts, parseTimestamp ends) of
     (Some a, Some b) \<Rightarrow> a < b | _ \<Rightarrow> True)"

definition ValidateCreateWorkPeriod :: "CreateWorkPeriodRequest \<Rightarrow> app_error + unit" where
  "ValidateCreateWorkPeriod req = validated
     (check (TrimSpace (cw_StartsAt req) \<noteq> [] \<and> TrimSpace (cw_EndsAt req) \<noteq> [] \<and>
        \<not> ordered_times (cw_StartsAt req) (cw_EndsAt req)) ''endsAt'' ''End time must be after start time''
     (check (TrimSpace (cw_EndsAt req) \<noteq> [] \<and> parseTimestamp (cw_EndsAt req) = None) ''endsAt''
        ''End time must be RFC3339''
     (check (TrimSpace (cw_StartsAt req) \<noteq> [] \<and> parseTimestamp (cw_StartsAt req) = None) ''startsAt''
        ''Start time must be RFC3339''
     (check (invalid_date (cw_WorkDate req)) ''workDate'' ''Work date must be YYYY-MM-DD''
     (required ''endsAt'' (cw_EndsAt req)
     (required ''startsAt'' (cw_StartsAt req)
     (required ''name'' (cw_Name req)
     (required ''periodCode'' (cw_PeriodCode req)
     (required ''workDate'' (cw_WorkDate req) [])))))))))"

definition ValidateWorkPeriodListFilter :: "WorkPeriodListFilter \<Rightarrow> app_error + unit" where
  "ValidateWorkPeriodListFilter f = validated (validate_page (wf_Page f) (wf_PageSize f)
     (check (TrimSpace (wf_Status f) \<noteq> [] \<and> \<not> isKnownWorkPeriodStatus (ToUpper (TrimSpace (wf_Status f))))
        ''status'' ''Unknown work period status''
     (check (invalid_date (wf_DateTo f)) ''dateTo'' ''Date to must be YYYY-MM-DD''
     (check (invalid_date (wf_DateFrom f)) ''dateFrom'' ''Date from must be YYYY-MM-DD'' []))))"

definition date_bound :: "string \<Rightarrow> time option" where
  "date_bound v = (if TrimSpace v = [] then None else parseDate v)"

definition normalizeWorkPeriodListFilter ::
  "WorkPeriodListFilter \<Rightarrow> app_error + normalizedWorkPeriodListFilter" where
  "normalizeWorkPeriodListFilter f = tri (ValidateWorkPeriodListFilter f) (\<lambda>_. Inr \<lparr>
     nw_DateFrom = date_bound (wf_DateFrom f), nw_DateTo = date_bound (wf_DateTo f),
     nw_Status = ToUpper (TrimSpace (wf_Status f)), nw_Page = normalizedPage (wf_Page f),
     nw_PageSize = normalizedPageSize (wf_PageSize f)\<rparr>)"

section \<open>The repository\<close>

definition work_period_insert_guards :: "store \<Rightarrow> WorkPeriod \<Rightarrow> (bool \<times> string) list" where
  "work_period_insert_guards s p = [
     (\<not> tenant_exists s (wp_TenantID p), ''tenant_integrity_violation''),
     (\<not> isKnownWorkPeriodStatus (wp_Status p), ''CHECK constraint failed: ck_work_period_status''),
     (\<not> wp_StartsAt p < wp_EndsAt p, ''CHECK constraint failed: ck_work_period_time_order''),
     (list_ex (\<lambda>x. wp_ID x = wp_ID p) (WorkPeriods s), ''UNIQUE constraint failed: work_periods.id''),
     (list_ex (\<lambda>x. wp_TenantID x = wp_TenantID p \<and> wp_WorkDate x = wp_WorkDate p \<and>
        wp_PeriodCode x = wp_PeriodCode p) (WorkPeriods s),
      ''UNIQUE constraint failed: work_periods.tenant_id, work_periods.work_date, work_periods.period_code'')]"

definition with_period_defaults :: "env \<Rightarrow> WorkPeriod \<Rightarrow> WorkPeriod" where
  "with_period_defaults E p = p\<lparr>
     wp_CreatedAt := or_time (wp_CreatedAt p) (Now E), wp_UpdatedAt := or_time (wp_UpdatedAt p) (Now E),
     wp_TenantID := or_default (wp_TenantID p) ''default'',
     wp_Status := or_default (wp_Status p) ''PLANNING''\<rparr>"

definition repoCreateWorkPeriod :: "env \<Rightarrow> WorkPeriod \<Rightarrow> unit app" where
  "repoCreateWorkPeriod E p0 = (let p = with_period_defaults E p0 in
     bnd (query (\<lambda>s. abort_if (work_period_insert_guards s p)))
     (\<lambda>_. modify (\<lambda>s. s\<lparr>WorkPeriods := WorkPeriods s @ [p]\<rparr>)))"

text \<open>\<open>date(work_date) = ?\<close> compares days.\<close>

definition ExistsByDateAndCode :: "env \<Rightarrow> time \<Rightarrow> string \<Rightarrow> store \<Rightarrow> bool" where
  "ExistsByDateAndCode E workDate periodCode s \<longleftrightarrow> 0 < count_where (\<lambda>p. wp_TenantID p = TenantID E \<and>
     dateOnlyUTC (wp_WorkDate p) = dateOnlyUTC workDate \<and> wp_PeriodCode p = periodCode) (WorkPeriods s)"

definition period_of :: "env \<Rightarrow> string \<Rightarrow> WorkPeriod \<Rightarrow> bool" where
  "period_of E i p \<longleftrightarrow> wp_ID p = i \<and> wp_TenantID p = TenantID E"

definition repoUpdateWorkPeriod :: "env \<Rightarrow> WorkPeriod \<Rightarrow> unit app" where
  "repoUpdateWorkPeriod E p = updateWorkPeriods (period_of E (wp_ID p)) (\<lambda>x. x\<lparr>
     wp_WorkDate := wp_WorkDate p, wp_PeriodCode := wp_PeriodCode p, wp_Name := wp_Name p,
     wp_StartsAt := wp_StartsAt p, wp_EndsAt := wp_EndsAt p, wp_Status := wp_Status p,
     wp_InformedAt := wp_InformedAt p, wp_AccrualOpenedAt := wp_AccrualOpenedAt p,
     wp_ClosedAt := wp_ClosedAt p, wp_UpdatedAt := wp_UpdatedAt p\<rparr>)"

definition in_dates :: "time option \<Rightarrow> time option \<Rightarrow> time \<Rightarrow> bool" where
  "in_dates from to t \<longleftrightarrow> (case from of None \<Rightarrow> True | Some a \<Rightarrow> a \<le> t) \<and>
     (case to of None \<Rightarrow> True | Some b \<Rightarrow> t < b + day_ns)"

definition repoListWorkPeriods ::
  "env \<Rightarrow> normalizedWorkPeriodListFilter \<Rightarrow> store \<Rightarrow> WorkPeriod list \<times> nat" where
  "repoListWorkPeriods E f s = (let rows = filter (\<lambda>p. wp_TenantID p = TenantID E \<and>
       in_dates (nw_DateFrom f) (nw_DateTo f) (wp_WorkDate p) \<and>
       matches_unless_empty (nw_Status f) (wp_Status p)) (WorkPeriods s)
     in (page_of (nw_Page f) (nw_PageSize f)
          (sort_key (\<lambda>p. (- wp_WorkDate p, wp_StartsAt p, wp_PeriodCode p)) rows), length rows))"

section \<open>The service\<close>

definition timestampOf :: "string \<Rightarrow> time" where
  "timestampOf v = (case parseTimestamp v of None \<Rightarrow> 0 | Some t \<Rightarrow> t)"

definition new_work_period :: "env \<Rightarrow> string \<Rightarrow> CreateWorkPeriodRequest \<Rightarrow> WorkPeriod" where
  "new_work_period E i req = \<lparr>
     wp_ID = i, wp_CreatedAt = Now E, wp_UpdatedAt = Now E, wp_TenantID = TenantID E,
     wp_WorkDate = dateOf (cw_WorkDate req), wp_PeriodCode = ToUpper (TrimSpace (cw_PeriodCode req)),
     wp_Name = TrimSpace (cw_Name req), wp_StartsAt = timestampOf (cw_StartsAt req),
     wp_EndsAt = timestampOf (cw_EndsAt req), wp_Status = ''PLANNING'', wp_InformedAt = None,
     wp_AccrualOpenedAt = None, wp_ClosedAt = None\<rparr>"

definition GetWorkPeriodByID :: "env \<Rightarrow> string \<Rightarrow> store \<Rightarrow> app_error + WorkPeriodDTO" where
  "GetWorkPeriodByID E i s = tri (FindWorkPeriodByID E i s) (\<lambda>p. Inr (ToWorkPeriodDTO p))"

definition CreateWorkPeriod :: "env \<Rightarrow> CreateWorkPeriodRequest \<Rightarrow> WorkPeriodDTO app" where
  "CreateWorkPeriod E req =
     bnd (lift (ValidateCreateWorkPeriod req))
     (\<lambda>_. bnd (query (\<lambda>s. Inr (ExistsByDateAndCode E (dateOf (cw_WorkDate req))
            (ToUpper (TrimSpace (cw_PeriodCode req))) s)))
     (\<lambda>exists. bnd (ensure (\<not> exists)
          (ValidationError [(''workDate'', ''A Work Period already exists for this date and period'')]))
     (\<lambda>_. bnd (newID E)
     (\<lambda>i. bnd (repoCreateWorkPeriod E (new_work_period E i req))
     (\<lambda>_. query (GetWorkPeriodByID E i))))))"

definition InformWorkPeriod :: "env \<Rightarrow> string \<Rightarrow> WorkPeriodDTO app" where
  "InformWorkPeriod E i =
     bnd (query (FindWorkPeriodByID E i))
     (\<lambda>existing. if wp_Status existing = ''INFORMED'' then ret (ToWorkPeriodDTO existing) else
       bnd (ensure (wp_Status existing = ''PLANNING'')
          (ValidationError [(''status'', ''Only planning work periods can be informed'')]))
       (\<lambda>_. bnd (repoUpdateWorkPeriod E
            (existing\<lparr>wp_Status := ''INFORMED'', wp_InformedAt := Some (Now E), wp_UpdatedAt := Now E\<rparr>))
       (\<lambda>_. query (GetWorkPeriodByID E (wp_ID existing)))))"

definition ListWorkPeriods ::
  "env \<Rightarrow> WorkPeriodListFilter \<Rightarrow> store \<Rightarrow> app_error + WorkPeriodDTO list_result" where
  "ListWorkPeriods E f s = tri (normalizeWorkPeriodListFilter f) (\<lambda>n.
     let (rows, t) = repoListWorkPeriods E n s in
     Inr \<lparr>li_Items = map ToWorkPeriodDTO rows, li_Total = t, li_Page = nw_Page n, li_PageSize = nw_PageSize n\<rparr>)"

section \<open>The roster\<close>

text \<open>An assignment with its preloaded collaborator's person and its reference data.\<close>

record RosterAssignment =
  ra_Assignment :: WorkPeriodAssignment
  ra_Person :: Person
  ra_Sector :: ReferenceData
  ra_Location :: ReferenceData
  ra_Task :: ReferenceData

record WorkPlanRosterRow =
  wr_AssignmentID :: string
  wr_CollaboratorID :: string
  wr_Name :: string
  wr_Nickname :: string
  wr_SectorID :: string
  wr_SectorLabel :: string
  wr_LocationID :: string
  wr_LocationLabel :: string
  wr_TaskID :: string
  wr_TaskLabel :: string
  wr_ReplacementForID :: string

record WorkPlanRosterDTO =
  ro_WorkPeriodID :: string
  ro_WorkDate :: string
  ro_DisplayDate :: string
  ro_PeriodCode :: string
  ro_PeriodName :: string
  ro_Title :: string
  ro_Subtitle :: string
  ro_Status :: string
  ro_Rows :: "WorkPlanRosterRow list"

definition with_references :: "store \<Rightarrow> WorkPeriodAssignment \<Rightarrow> RosterAssignment" where
  "with_references s a = \<lparr>ra_Assignment = a,
     ra_Person = preload pe_ID zeroPerson
       (cj_PersonID (preload cj_ID zeroCollaboratorJourney (wa_CollaboratorID a) (Journeys s))) (People s),
     ra_Sector = preload rd_ID zeroReferenceData (wa_SectorID a) (References s),
     ra_Location = preload rd_ID zeroReferenceData (wa_LocationID a) (References s),
     ra_Task = preload rd_ID zeroReferenceData (wa_TaskID a) (References s)\<rparr>"

definition rostered :: "env \<Rightarrow> string \<Rightarrow> WorkPeriodAssignment \<Rightarrow> bool" where
  "rostered E w a \<longleftrightarrow> wa_TenantID a = TenantID E \<and> wa_WorkPeriodID a = w \<and> wa_Active a \<and>
     wa_PlannedStatus a = ''INCLUDED''"

definition ListIncludedAssignmentsForRoster :: "env \<Rightarrow> string \<Rightarrow> store \<Rightarrow> RosterAssignment list" where
  "ListIncludedAssignmentsForRoster E w s = map (with_references s)
     (sort_key wa_CollaboratorID (filter (rostered E w) (Assignments s)))"

definition collaboratorDisplayName :: "RosterAssignment \<Rightarrow> string" where
  "collaboratorDisplayName a = (let
       name = TrimSpace (TrimSpace (pe_FirstName (ra_Person a)) @ '' '' @ TrimSpace (pe_LastName (ra_Person a)))
     in if name \<noteq> [] then name else wa_CollaboratorID (ra_Assignment a))"

definition formatDisplayDate :: "time \<Rightarrow> string" where
  "formatDisplayDate t = (if t = 0 then [] else let (y, m, d) = civil_of_time t in
     two_digits m @ ''/'' @ two_digits d @ ''/'' @ take 4 (format_civil (y, m, d)))"

definition roster_row :: "RosterAssignment \<Rightarrow> WorkPlanRosterRow" where
  "roster_row a = (let w = ra_Assignment a in \<lparr>
     wr_AssignmentID = wa_ID w, wr_CollaboratorID = wa_CollaboratorID w,
     wr_Name = collaboratorDisplayName a, wr_Nickname = pe_Nickname (ra_Person a),
     wr_SectorID = wa_SectorID w, wr_SectorLabel = rd_Label (ra_Sector a),
     wr_LocationID = wa_LocationID w, wr_LocationLabel = rd_Label (ra_Location a),
     wr_TaskID = wa_TaskID w, wr_TaskLabel = rd_Label (ra_Task a),
     wr_ReplacementForID = (case wa_ReplacementForAssignmentID w of None \<Rightarrow> [] | Some r \<Rightarrow> r)\<rparr>)"

text \<open>The subtitle joins date and name with an em dash, three bytes in UTF-8.\<close>

definition ToRosterDTO :: "WorkPeriod \<Rightarrow> RosterAssignment list \<Rightarrow> WorkPlanRosterDTO" where
  "ToRosterDTO p as = (let displayDate = formatDisplayDate (wp_WorkDate p) in \<lparr>
     ro_WorkPeriodID = wp_ID p, ro_WorkDate = formatDate (wp_WorkDate p), ro_DisplayDate = displayDate,
     ro_PeriodCode = wp_PeriodCode p, ro_PeriodName = wp_Name p, ro_Title = ''Work Plan'',
     ro_Subtitle = displayDate @ [CHR '' '', CHR 0xE2, CHR 0x80, CHR 0x94, CHR '' ''] @ wp_Name p,
     ro_Status = wp_Status p,
     ro_Rows = map roster_row (sort_key (\<lambda>a. ToLower (collaboratorDisplayName a)) as)\<rparr>)"

definition PrintRoster :: "env \<Rightarrow> string \<Rightarrow> store \<Rightarrow> app_error + WorkPlanRosterDTO" where
  "PrintRoster E i s = tri (FindWorkPeriodByID E i s) (\<lambda>p.
     Inr (ToRosterDTO p (ListIncludedAssignmentsForRoster E (wp_ID p) s)))"

section \<open>What the operations keep\<close>

text \<open>A new work period passes the constraints, which keep the plan consistent.\<close>

lemma accounting_insert_period:
  assumes guards: "abort_if (work_period_insert_guards s p) = Inr ()" and T: "wp_TenantID p = T"
    and planning: "wp_Status p = ''PLANNING''"
  shows "accounting T s (s\<lparr>WorkPeriods := WorkPeriods s @ [p]\<rparr>)"
proof (rule accounting_aside)
  let ?t = "s\<lparr>WorkPeriods := WorkPeriods s @ [p]\<rparr>"
  have new: "wp_ID p \<notin> set (map wp_ID (WorkPeriods s))" "period_key p \<notin> set (map period_key (WorkPeriods s))"
    "wp_StartsAt p < wp_EndsAt p"
    using guards by (auto simp: abort_if_ok work_period_insert_guards_def period_key_def list_ex_iff)
  have "gold_dated s g \<Longrightarrow> gold_dated ?t g" for g by (auto simp: gold_dated_def)
  then show "planning_ok ?t \<and> periods_follow (WorkPeriods s) (WorkPeriods ?t)" if "planning_ok s"
    using that new planning by (auto simp: planning_ok_def list_all_iff periods_follow_append)
  show "other_tenants_kept T s ?t" using T by (simp add: other_tenants_kept_def)
qed simp_all

lemma keeps_repoCreateWorkPeriod:
  assumes "wp_TenantID p = T" and "T \<noteq> []" and "wp_Status p = ''PLANNING''"
  shows "keeps (accounting T) (repoCreateWorkPeriod E p)"
proof -
  have "wp_TenantID (with_period_defaults E p) = T" "wp_Status (with_period_defaults E p) = ''PLANNING''"
    using assms by (simp_all add: with_period_defaults_def or_default_def)
  then show ?thesis
    using acc.R_refl
    by (auto simp: keeps_def repoCreateWorkPeriod_def Let_def run_simps split: sum.split
        intro!: accounting_insert_period)
qed

lemma keeps_CreateWorkPeriod: "keeps (accounting (TenantID E)) (CreateWorkPeriod E req)"
  unfolding CreateWorkPeriod_def
  by (intro acc.keeps_intros keeps_newID_acc keeps_repoCreateWorkPeriod) (simp_all add: new_work_period_def)

text \<open>Informing takes a period from planning to informed; the update finds the row it read.\<close>

lemma repoUpdateWorkPeriod_run: "repoUpdateWorkPeriod E p s =
    (let f = \<lambda>x. x\<lparr>wp_WorkDate := wp_WorkDate p, wp_PeriodCode := wp_PeriodCode p, wp_Name := wp_Name p,
       wp_StartsAt := wp_StartsAt p, wp_EndsAt := wp_EndsAt p, wp_Status := wp_Status p,
       wp_InformedAt := wp_InformedAt p, wp_AccrualOpenedAt := wp_AccrualOpenedAt p,
       wp_ClosedAt := wp_ClosedAt p, wp_UpdatedAt := wp_UpdatedAt p\<rparr> in
     case abort_if (concat (map (\<lambda>w. work_period_update_guards w (f w)) (filter (period_of E (wp_ID p)) (WorkPeriods s)))) of
       Inl e \<Rightarrow> (Inl e, s)
     | Inr u \<Rightarrow> (Inr (), s\<lparr>WorkPeriods := update_where (period_of E (wp_ID p)) f (WorkPeriods s)\<rparr>))"
  by (simp add: repoUpdateWorkPeriod_def updateWorkPeriods_run)

definition informed_row :: "env \<Rightarrow> WorkPeriod \<Rightarrow> WorkPeriod" where
  "informed_row E p = p\<lparr>wp_Status := ''INFORMED'', wp_InformedAt := Some (Now E), wp_UpdatedAt := Now E\<rparr>"

lemma accounting_inform:
  assumes p: "FindWorkPeriodByID E i s = Inr p" and planning: "wp_Status p = ''PLANNING''"
    and run: "repoUpdateWorkPeriod E (informed_row E p) s = (r, t)"
  shows "accounting (TenantID E) s t"
proof -
  note found = FindWorkPeriodByID_Inr [OF p]
  have same: "w = p" if "planning_ok s" "w \<in> set (WorkPeriods s)" "period_of E (wp_ID p) w" for w
    using that found distinct_key [of wp_ID "WorkPeriods s" w p] by (simp add: planning_ok_def period_of_def)
  have step: "period_step\<^sup>*\<^sup>* ''PLANNING'' ''INFORMED''" by (intro r_into_rtranclp period_step.inform)
  show ?thesis
    using run unfolding repoUpdateWorkPeriod_run Let_def
    by (auto simp: acc.R_refl split: sum.splits intro!: accounting_update_periods)
      (auto simp: period_of_def informed_row_def period_follows_def planning step dest!: same [unfolded period_of_def informed_row_def, simplified])
qed

lemma keeps_InformWorkPeriod: "keeps (accounting (TenantID E)) (InformWorkPeriod E i)"
  unfolding keeps_def
proof
  fix s
  show "accounting (TenantID E) s (snd (InformWorkPeriod E i s))"
  proof (cases "FindWorkPeriodByID E i s")
    case (Inr p)
    obtain r t where run: "repoUpdateWorkPeriod E (informed_row E p) s = (r, t)"
      by (cases "repoUpdateWorkPeriod E (informed_row E p) s")
    show ?thesis
      using Inr run accounting_inform [OF Inr _ run] acc.R_refl
      by (auto simp: InformWorkPeriod_def bnd_query informed_row_def [symmetric])
        (auto simp: bnd_def split: sum.split)
  qed (simp add: InformWorkPeriod_def bnd_query acc.R_refl)
qed

section \<open>Properties\<close>

definition demo_new_period :: CreateWorkPeriodRequest where
  "demo_new_period = \<lparr>cw_WorkDate = ''2024-02-03'', cw_PeriodCode = '' day '', cw_Name = ''Day shift'',
     cw_StartsAt = ''2024-02-03T06:00:00-03:00'', cw_EndsAt = ''2024-02-03T18:00:00-03:00''\<rparr>"

definition demo_planned :: store where
  "demo_planned = snd (CreateWorkPeriod demo_env demo_new_period demo_store)"

lemma demo_new_period_runs: "\<not> isl (fst (CreateWorkPeriod demo_env demo_new_period demo_store))"
  by code_simp

lemma demo_inform_runs: "\<not> isl (fst (InformWorkPeriod demo_env ''n'' demo_planned))"
  by code_simp

lemma demo_planning: "planning_ok demo_store" "planning_ok demo_planned"
  by code_simp+

lemma demo_informed_once: "wp_Status (hd (WorkPeriods demo_planned)) = ''PLANNING''" "length (WorkPeriods demo_planned) = 1"
  by code_simp+

text \<open>
  A created work period is the one requested. A successful creation appends one row to the work
  periods and touches nothing else: a period in planning, of the caller's tenant, with the date, the upper-cased
  code and the instants of the request, which starts before it ends; no period of the tenant had that day and
  code before.
\<close>

theorem work_period_created:
  assumes "CreateWorkPeriod E req s = (Inr d, t)"
  shows "\<exists>p n. t = s\<lparr>WorkPeriods := WorkPeriods s @ [p], IdsUsed := n\<rparr> \<and> wp_TenantID p = TenantID E \<and>
    wp_Status p = ''PLANNING'' \<and> parseDate (cw_WorkDate req) = Some (wp_WorkDate p) \<and>
    wp_PeriodCode p = ToUpper (TrimSpace (cw_PeriodCode req)) \<and>
    parseTimestamp (cw_StartsAt req) = Some (wp_StartsAt p) \<and> parseTimestamp (cw_EndsAt req) = Some (wp_EndsAt p) \<and>
    wp_StartsAt p < wp_EndsAt p \<and> d = ToWorkPeriodDTO p \<and>
    (\<forall>q \<in> set (WorkPeriods s). \<not> (wp_TenantID q = TenantID E \<and> wp_PeriodCode q = wp_PeriodCode p \<and>
       dateOnlyUTC (wp_WorkDate q) = wp_WorkDate p))"
proof -
  define p where "p = with_period_defaults E (new_work_period E (NewID E (IdsUsed s)) req)"
  let ?s = "s\<lparr>IdsUsed := Suc (IdsUsed s)\<rparr>"
  from assms have valid: "ValidateCreateWorkPeriod req = Inr ()"
    and free: "\<not> ExistsByDateAndCode E (dateOf (cw_WorkDate req)) (ToUpper (TrimSpace (cw_PeriodCode req))) s"
    and guards: "abort_if (work_period_insert_guards ?s p) = Inr ()"
    and t: "t = ?s\<lparr>WorkPeriods := WorkPeriods ?s @ [p]\<rparr>" and d: "GetWorkPeriodByID E (NewID E (IdsUsed s)) t = Inr d"
    by (auto simp: CreateWorkPeriod_def run_ok repoCreateWorkPeriod_def Let_def p_def split: if_split_asm)
  from valid have date: "parseDate (cw_WorkDate req) = Some (dateOf (cw_WorkDate req))"
    and starts: "parseTimestamp (cw_StartsAt req) = Some (timestampOf (cw_StartsAt req))"
    and ends: "parseTimestamp (cw_EndsAt req) = Some (timestampOf (cw_EndsAt req))"
    by (auto simp: ValidateCreateWorkPeriod_def invalid_date_def dateOf_def timestampOf_def split: option.split)
  have new: "wp_TenantID p = TenantID E" "wp_ID p = NewID E (IdsUsed s)" "wp_Status p = ''PLANNING''"
    "wp_WorkDate p = dateOf (cw_WorkDate req)" "wp_PeriodCode p = ToUpper (TrimSpace (cw_PeriodCode req))"
    "wp_StartsAt p = timestampOf (cw_StartsAt req)" "wp_EndsAt p = timestampOf (cw_EndsAt req)"
    by (simp_all add: p_def with_period_defaults_def new_work_period_def or_default_def)
  have order: "wp_StartsAt p < wp_EndsAt p" and fresh: "\<forall>x \<in> set (WorkPeriods s). wp_ID x \<noteq> wp_ID p"
    using guards by (auto simp: abort_if_ok work_period_insert_guards_def list_ex_iff)
  have "first_by wp_ID (\<lambda>w. wp_ID w = wp_ID p \<and> wp_TenantID w = TenantID E) (WorkPeriods t) = Some p"
    using fresh new(1) by (intro first_by_unique) (auto simp: t)
  then have "d = ToWorkPeriodDTO p" using d by (simp add: GetWorkPeriodByID_def FindWorkPeriodByID_def new(2))
  moreover have "dateOnlyUTC (wp_WorkDate q) = dateOf (cw_WorkDate req) \<Longrightarrow> q \<in> set (WorkPeriods s) \<Longrightarrow>
      \<not> (wp_TenantID q = TenantID E \<and> wp_PeriodCode q = wp_PeriodCode p)" for q
    using free parseDate_midnight [OF date] by (auto simp: ExistsByDateAndCode_def count_where_0 new(5))
  ultimately show ?thesis
    using t date starts ends order new by (intro exI [of _ p] exI [of _ "Suc (IdsUsed s)"]) auto
qed

theorem work_period_created_witness:
  "\<exists>d p n. CreateWorkPeriod demo_env demo_new_period demo_store =
     (Inr d, demo_store\<lparr>WorkPeriods := WorkPeriods demo_store @ [p], IdsUsed := n\<rparr>) \<and>
     wp_Status p = ''PLANNING'' \<and> wp_StartsAt p < wp_EndsAt p"
  using succeeded [OF demo_new_period_runs] work_period_created by metis

text \<open>
  Informing a period. The call moves a period of the caller's tenant from planning to informed and
  stamps the time, repeats without effect on one that is informed, and fails without effect on a period
  in any later status or on an identifier that is not the tenant's.
\<close>

theorem inform_by_status:
  assumes "planning_ok s"
  shows "case FindWorkPeriodByID E i s of
      Inl e \<Rightarrow> InformWorkPeriod E i s = (Inl e, s)
    | Inr p \<Rightarrow>
        (wp_Status p = ''INFORMED'' \<longrightarrow> InformWorkPeriod E i s = (Inr (ToWorkPeriodDTO p), s)) \<and>
        (wp_Status p \<noteq> ''INFORMED'' \<and> wp_Status p \<noteq> ''PLANNING'' \<longrightarrow> InformWorkPeriod E i s =
           (Inl (ValidationError [(''status'', ''Only planning work periods can be informed'')]), s)) \<and>
        (wp_Status p = ''PLANNING'' \<longrightarrow> InformWorkPeriod E i s = (Inr (ToWorkPeriodDTO (informed_row E p)),
           s\<lparr>WorkPeriods := map (\<lambda>w. if w = p then informed_row E p else w) (WorkPeriods s)\<rparr>))"
proof (cases "FindWorkPeriodByID E i s")
  case (Inr p)
  note found = FindWorkPeriodByID_Inr [OF Inr]
  have one: "period_of E (wp_ID p) w \<longleftrightarrow> w = p" if "w \<in> set (WorkPeriods s)" for w
    using that found distinct_key [of wp_ID "WorkPeriods s" w p] assms by (auto simp: planning_ok_def period_of_def)
  have planning: "InformWorkPeriod E i s = (Inr (ToWorkPeriodDTO (informed_row E p)),
      s\<lparr>WorkPeriods := map (\<lambda>w. if w = p then informed_row E p else w) (WorkPeriods s)\<rparr>)"
    if plan: "wp_Status p = ''PLANNING''"
  proof -
    let ?f = "\<lambda>x. x\<lparr>wp_WorkDate := wp_WorkDate p, wp_PeriodCode := wp_PeriodCode p, wp_Name := wp_Name p,
      wp_StartsAt := wp_StartsAt p, wp_EndsAt := wp_EndsAt p, wp_Status := ''INFORMED'',
      wp_InformedAt := Some (Now E), wp_AccrualOpenedAt := wp_AccrualOpenedAt p,
      wp_ClosedAt := wp_ClosedAt p, wp_UpdatedAt := Now E\<rparr>"
    let ?new = "map (\<lambda>w. if w = p then informed_row E p else w) (WorkPeriods s)"
    have "?f p = informed_row E p" by (simp add: informed_row_def)
    then have rows: "update_where (period_of E (wp_ID p)) ?f (WorkPeriods s) = ?new"
      unfolding update_where_def using one by (intro map_cong refl) auto
    have "wp_StartsAt p < wp_EndsAt p" using assms found by (simp add: planning_ok_def list_all_iff)
    then have "abort_if (concat (map (\<lambda>w. work_period_update_guards w (?f w)) (filter (period_of E (wp_ID p)) (WorkPeriods s)))) = Inr ()"
      using one by (auto simp: abort_if_ok work_period_update_guards_def)
    then have upd: "repoUpdateWorkPeriod E (informed_row E p) s = (Inr (), s\<lparr>WorkPeriods := ?new\<rparr>)"
      using rows by (simp add: repoUpdateWorkPeriod_run informed_row_def)
    have "first_by wp_ID (\<lambda>w. wp_ID w = wp_ID p \<and> wp_TenantID w = TenantID E) ?new = Some (informed_row E p)"
      using found one by (intro first_by_unique) (force simp: informed_row_def period_of_def)+
    then show ?thesis
      using Inr plan upd by (simp add: InformWorkPeriod_def bnd_query informed_row_def [symmetric] bnd_def [of "repoUpdateWorkPeriod E _"]
          GetWorkPeriodByID_def FindWorkPeriodByID_def)
  qed
  then show ?thesis using Inr by (simp add: InformWorkPeriod_def bnd_query)
qed (simp add: InformWorkPeriod_def bnd_query)

theorem inform_by_status_witness:
  "\<exists>p. FindWorkPeriodByID demo_env ''n'' demo_planned = Inr p \<and>
     fst (InformWorkPeriod demo_env ''n'' demo_planned) = Inr (ToWorkPeriodDTO (informed_row demo_env p))"
proof -
  have "\<not> isl (FindWorkPeriodByID demo_env ''n'' demo_planned)"
    "wp_Status (projr (FindWorkPeriodByID demo_env ''n'' demo_planned)) = ''PLANNING''" by code_simp+
  then show ?thesis
    using inform_by_status [OF demo_planning(2), of demo_env "''n''"]
    by (cases "FindWorkPeriodByID demo_env ''n'' demo_planned") auto
qed

text \<open>A shown period as a request that creates it, and the instants that RFC 3339 can print.\<close>

definition resubmit :: "WorkPeriodDTO \<Rightarrow> CreateWorkPeriodRequest" where
  "resubmit d = \<lparr>cw_WorkDate = wd_WorkDate d, cw_PeriodCode = wd_PeriodCode d, cw_Name = wd_Name d,
     cw_StartsAt = wd_StartsAt d, cw_EndsAt = wd_EndsAt d\<rparr>"

definition printable :: "time \<Rightarrow> bool" where
  "printable t \<longleftrightarrow> t \<noteq> 0 \<and> 1 \<le> fst (civil_of_time t) \<and> fst (civil_of_time t) \<le> 9999"


definition demo_shift :: WorkPeriod where
  "demo_shift = zeroWorkPeriod\<lparr>wp_WorkDate := 738918 * day_ns, wp_PeriodCode := ''DAY'', wp_Name := ''Day'',
     wp_StartsAt := 738918 * day_ns + 7000000000, wp_EndsAt := 738918 * day_ns + 90000000000000\<rparr>"


end
