(* ===== verification/GoldEntries.thy ===== *)
theory GoldEntries
  imports WorkPeriodPlanning
begin

text \<open>
  Produced gold (\<open>service_impl.go\<close>, \<open>repository_gorm.go\<close>, \<open>validation.go\<close>, \<open>mapper.go\<close>, \<open>dto.go\<close> of
  \<open>backend/internal/goldproduction\<close>): the grams a location produced in a work period, from which the
  accruals compute commissions. A period that is closed keeps its entries; a location has one active entry per
  period and date. The writes obey the constraints of migration 000014 and the triggers of 000041.
\<close>

section \<open>Requests and results\<close>

record GoldProductionEntryDTO =
  gd_ID :: string
  gd_TenantID :: string
  gd_WorkPeriodID :: string
  gd_LocationID :: string
  gd_LocationLabel :: string
  gd_ProductionDate :: string
  gd_GoldGramsProduced :: float64
  gd_Active :: bool
  gd_Notes :: string
  gd_CreatedAt :: string
  gd_UpdatedAt :: string

record CreateGoldProductionEntryRequest =
  cg_LocationID :: string
  cg_ProductionDate :: string
  cg_GoldGramsProduced :: float64
  cg_Notes :: string

type_synonym UpdateGoldProductionEntryRequest = CreateGoldProductionEntryRequest

record GoldProductionEntryListFilter =
  gf_LocationID :: string
  gf_DateFrom :: string
  gf_DateTo :: string
  gf_IncludeInactive :: bool
  gf_Page :: int
  gf_PageSize :: int

record normalizedGoldProductionEntryListFilter =
  ng_LocationID :: string
  ng_DateFrom :: "time option"
  ng_DateTo :: "time option"
  ng_IncludeInactive :: bool
  ng_Page :: int
  ng_PageSize :: int

text \<open>An entry with its preloaded work period and location.\<close>

record GoldEntryView =
  gv_Entry :: GoldProductionEntry
  gv_WorkPeriod :: WorkPeriod
  gv_Location :: ReferenceData

definition ToGoldDTO :: "GoldEntryView \<Rightarrow> GoldProductionEntryDTO" where
  "ToGoldDTO v = (let g = gv_Entry v in \<lparr>
     gd_ID = ge_ID g, gd_TenantID = ge_TenantID g, gd_WorkPeriodID = ge_WorkPeriodID g,
     gd_LocationID = ge_LocationID g, gd_LocationLabel = rd_Label (gv_Location v),
     gd_ProductionDate = format_civil (civil_of_time (ge_ProductionDate g)),
     gd_GoldGramsProduced = ge_GoldGramsProduced g, gd_Active = ge_Active g, gd_Notes = ge_Notes g,
     gd_CreatedAt = formatRFC3339 (ge_CreatedAt g), gd_UpdatedAt = formatRFC3339 (ge_UpdatedAt g)\<rparr>)"

section \<open>Validation\<close>

definition hasAtMostEightDecimalPlaces :: "float64 \<Rightarrow> bool" where
  "hasAtMostEightDecimalPlaces value = (let scaled = fmul value 100000000
     in \<bar>fsub scaled (goRound scaled)\<bar> < rnd (1 / 1000000))"

definition validateGoldGrams :: "float64 \<Rightarrow> validation_fields \<Rightarrow> validation_fields" where
  "validateGoldGrams value fs =
     (if value \<le> 0
      then AList.update ''goldGramsProduced'' ''Gold grams produced must be greater than zero'' fs
      else check (\<not> hasAtMostEightDecimalPlaces value) ''goldGramsProduced''
        ''Gold grams produced supports at most 8 decimal places'' fs)"

definition validateGoldDate :: "string \<Rightarrow> string \<Rightarrow> validation_fields \<Rightarrow> validation_fields" where
  "validateGoldDate key value =
     check (invalid_date value) key ''Must be a valid date in YYYY-MM-DD format''"

definition ValidateCreateGoldProductionEntry :: "CreateGoldProductionEntryRequest \<Rightarrow> app_error + unit" where
  "ValidateCreateGoldProductionEntry req = validated
     (validateGoldGrams (cg_GoldGramsProduced req)
     (validateGoldDate ''productionDate'' (cg_ProductionDate req)
     (required ''productionDate'' (cg_ProductionDate req)
     (required ''locationId'' (cg_LocationID req) []))))"

definition ValidateUpdateGoldProductionEntry :: "UpdateGoldProductionEntryRequest \<Rightarrow> app_error + unit" where
  "ValidateUpdateGoldProductionEntry req = validated
     (validateGoldGrams (cg_GoldGramsProduced req)
     (validateGoldDate ''productionDate'' (cg_ProductionDate req)
     (required ''productionDate'' (cg_ProductionDate req)
     (required ''locationId'' (cg_LocationID req) []))))"

definition ValidateGoldListFilter :: "GoldProductionEntryListFilter \<Rightarrow> app_error + unit" where
  "ValidateGoldListFilter f = validated (validate_page (gf_Page f) (gf_PageSize f)
     (validateGoldDate ''dateTo'' (gf_DateTo f) (validateGoldDate ''dateFrom'' (gf_DateFrom f) [])))"

definition normalizeGoldListFilter ::
  "GoldProductionEntryListFilter \<Rightarrow> app_error + normalizedGoldProductionEntryListFilter" where
  "normalizeGoldListFilter f = tri (ValidateGoldListFilter f) (\<lambda>_. Inr \<lparr>
     ng_LocationID = TrimSpace (gf_LocationID f), ng_DateFrom = date_bound (gf_DateFrom f),
     ng_DateTo = date_bound (gf_DateTo f), ng_IncludeInactive = gf_IncludeInactive f,
     ng_Page = (if gf_Page f = 0 then 1 else gf_Page f),
     ng_PageSize = (let n = (if gf_PageSize f = 0 then defaultPageSize else gf_PageSize f)
       in if maxPageSize < n then maxPageSize else n)\<rparr>)"

section \<open>Constraints and writes\<close>

definition gold_references :: "store \<Rightarrow> GoldProductionEntry \<Rightarrow> (bool \<times> string) list" where
  "gold_references s g = [
     (\<not> work_period_in s (ge_TenantID g) (ge_WorkPeriodID g) \<or>
      \<not> reference_in s (ge_TenantID g) ''location'' (ge_LocationID g), ''cross_tenant_reference''),
     (\<not> 0 < ge_GoldGramsProduced g, ''CHECK constraint failed: gold_grams_produced > 0'')]"

definition gold_key_message :: string where
  "gold_key_message = ''UNIQUE constraint failed: gold_production_entries.tenant_id, gold_production_entries.work_period_id, gold_production_entries.location_id, gold_production_entries.production_date, gold_production_entries.active''"

definition gold_key_taken :: "store \<Rightarrow> string \<Rightarrow> GoldProductionEntry \<Rightarrow> bool" where
  "gold_key_taken s i g \<longleftrightarrow> ge_Active g \<and>
     list_ex (\<lambda>x. ge_ID x \<noteq> i \<and> ge_Active x \<and> gold_key x = gold_key g) (GoldProduction s)"

definition gold_insert_guards :: "store \<Rightarrow> GoldProductionEntry \<Rightarrow> (bool \<times> string) list" where
  "gold_insert_guards s g =
     [(\<not> tenant_exists s (ge_TenantID g), ''tenant_integrity_violation'')] @ gold_references s g @
     [(list_ex (\<lambda>x. ge_ID x = ge_ID g) (GoldProduction s), ''UNIQUE constraint failed: gold_production_entries.id''),
      (gold_key_taken s (ge_ID g) g, gold_key_message)]"

definition gold_update_guards ::
  "store \<Rightarrow> GoldProductionEntry \<Rightarrow> GoldProductionEntry \<Rightarrow> (bool \<times> string) list" where
  "gold_update_guards s old new =
     [(ge_TenantID new \<noteq> ge_TenantID old, ''tenant_id_immutable'')] @ gold_references s new @
     [(gold_key_taken s (ge_ID old) new, gold_key_message)]"

definition with_gold_defaults :: "env \<Rightarrow> GoldProductionEntry \<Rightarrow> GoldProductionEntry" where
  "with_gold_defaults E g = g\<lparr>
     ge_CreatedAt := or_time (ge_CreatedAt g) (Now E), ge_UpdatedAt := or_time (ge_UpdatedAt g) (Now E),
     ge_TenantID := or_default (ge_TenantID g) ''default'', ge_Active := True\<rparr>"

definition repoCreateGold :: "env \<Rightarrow> GoldProductionEntry \<Rightarrow> unit app" where
  "repoCreateGold E g0 = (let g = with_gold_defaults E g0 in
     bnd (query (\<lambda>s. abort_if (gold_insert_guards s g)))
     (\<lambda>_. modify (\<lambda>s. s\<lparr>GoldProduction := GoldProduction s @ [g]\<rparr>)))"

definition updateGold ::
  "(GoldProductionEntry \<Rightarrow> bool) \<Rightarrow> (GoldProductionEntry \<Rightarrow> GoldProductionEntry) \<Rightarrow> unit app" where
  "updateGold = guarded_update GoldProduction GoldProduction_update gold_update_guards"

definition gold_of :: "env \<Rightarrow> string \<Rightarrow> GoldProductionEntry \<Rightarrow> bool" where
  "gold_of E i g \<longleftrightarrow> ge_ID g = i \<and> ge_TenantID g = TenantID E"

definition repoUpdateGold :: "env \<Rightarrow> GoldProductionEntry \<Rightarrow> unit app" where
  "repoUpdateGold E g = updateGold (gold_of E (ge_ID g)) (\<lambda>x. x\<lparr>
     ge_LocationID := ge_LocationID g, ge_ProductionDate := ge_ProductionDate g,
     ge_GoldGramsProduced := ge_GoldGramsProduced g, ge_Active := ge_Active g, ge_Notes := ge_Notes g,
     ge_UpdatedAt := ge_UpdatedAt g\<rparr>)"

section \<open>Reads\<close>

definition gold_view :: "store \<Rightarrow> GoldProductionEntry \<Rightarrow> GoldEntryView" where
  "gold_view s g = \<lparr>gv_Entry = g,
     gv_WorkPeriod = preload wp_ID zeroWorkPeriod (ge_WorkPeriodID g) (WorkPeriods s),
     gv_Location = preload rd_ID zeroReferenceData (ge_LocationID g) (References s)\<rparr>"

definition FindGoldByID :: "env \<Rightarrow> string \<Rightarrow> store \<Rightarrow> app_error + GoldEntryView" where
  "FindGoldByID E i s = tri (found ErrRecordNotFound (first_by ge_ID (gold_of E i) (GoldProduction s)))
     (\<lambda>g. Inr (gold_view s g))"

definition ExistsActiveLocation :: "env \<Rightarrow> string \<Rightarrow> store \<Rightarrow> bool" where
  "ExistsActiveLocation E i s \<longleftrightarrow> 0 < count_where (\<lambda>r. rd_ID r = i \<and> rd_TenantID r = TenantID E \<and>
     rd_Type r = ''location'' \<and> rd_Active r) (References s)"

definition ExistsActiveEntryForPeriodLocationDate ::
  "env \<Rightarrow> string \<Rightarrow> string \<Rightarrow> time \<Rightarrow> string \<Rightarrow> store \<Rightarrow> bool" where
  "ExistsActiveEntryForPeriodLocationDate E w l d excludeID s \<longleftrightarrow> 0 < count_where (\<lambda>g.
     ge_TenantID g = TenantID E \<and> ge_WorkPeriodID g = w \<and> ge_LocationID g = l \<and>
     ge_ProductionDate g = d \<and> ge_Active g \<and> (excludeID \<noteq> [] \<longrightarrow> ge_ID g \<noteq> excludeID)) (GoldProduction s)"

definition repoListGold ::
  "env \<Rightarrow> string \<Rightarrow> normalizedGoldProductionEntryListFilter \<Rightarrow> store \<Rightarrow> GoldEntryView list \<times> nat" where
  "repoListGold E w f s = (let rows = filter (\<lambda>g. ge_TenantID g = TenantID E \<and> ge_WorkPeriodID g = w \<and>
       (ng_IncludeInactive f \<or> ge_Active g) \<and> matches_unless_empty (ng_LocationID f) (ge_LocationID g) \<and>
       (case ng_DateFrom f of None \<Rightarrow> True | Some a \<Rightarrow> a \<le> ge_ProductionDate g) \<and>
       (case ng_DateTo f of None \<Rightarrow> True | Some b \<Rightarrow> ge_ProductionDate g \<le> b)) (GoldProduction s)
     in (map (gold_view s) (page_of (ng_Page f) (ng_PageSize f)
          (sort_key (\<lambda>g. (ge_ProductionDate g, ge_CreatedAt g)) rows)), length rows))"

section \<open>The service\<close>

definition ensureEditableWorkPeriod :: "WorkPeriod \<Rightarrow> app_error + unit" where
  "ensureEditableWorkPeriod p = (if wp_Status p = ''CLOSED''
     then Inl (ValidationError [(''workPeriodId'', ''Closed work periods cannot be changed'')]) else Inr ())"

definition sameDate :: "time \<Rightarrow> time \<Rightarrow> bool" where
  "sameDate a b \<longleftrightarrow> civil_of_time a = civil_of_time b"

definition ensureProductionDateMatchesWorkPeriod :: "time \<Rightarrow> time \<Rightarrow> app_error + unit" where
  "ensureProductionDateMatchesWorkPeriod productionDate workDate = (if sameDate productionDate workDate
     then Inr ()
     else Inl (ValidationError [(''productionDate'', ''Production date must match the Work Period work date'')]))"

definition validateLocation :: "env \<Rightarrow> string \<Rightarrow> store \<Rightarrow> app_error + unit" where
  "validateLocation E l s = (if ExistsActiveLocation E (TrimSpace l) s then Inr ()
     else Inl (ValidationError [(''locationId'', ''Location must be active reference data of type location'')]))"

definition validateNoDuplicate ::
  "env \<Rightarrow> string \<Rightarrow> string \<Rightarrow> time \<Rightarrow> string \<Rightarrow> store \<Rightarrow> app_error + unit" where
  "validateNoDuplicate E w l d excludeID s = (if ExistsActiveEntryForPeriodLocationDate E w l d excludeID s
     then Inl (ValidationError [(''locationId'', ''An active gold production entry already exists for this work period, location, and production date'')])
     else Inr ())"

definition GetGoldProductionEntry :: "env \<Rightarrow> string \<Rightarrow> store \<Rightarrow> app_error + GoldProductionEntryDTO" where
  "GetGoldProductionEntry E i s = tri (FindGoldByID E (TrimSpace i) s) (\<lambda>v. Inr (ToGoldDTO v))"

text \<open>The checks that creating and updating share, on the period of the entry.\<close>

definition gold_checks :: "env \<Rightarrow> WorkPeriod \<Rightarrow> string \<Rightarrow> string \<Rightarrow> CreateGoldProductionEntryRequest \<Rightarrow> unit app" where
  "gold_checks E p w excludeID req =
     bnd (lift (ensureEditableWorkPeriod p))
     (\<lambda>_. bnd (lift (found (ValidationError [(''productionDate'', ''Must be a valid date in YYYY-MM-DD format'')])
            (parseDate (cg_ProductionDate req))))
     (\<lambda>productionDate. bnd (lift (ensureProductionDateMatchesWorkPeriod productionDate (wp_WorkDate p)))
     (\<lambda>_. bnd (query (validateLocation E (TrimSpace (cg_LocationID req))))
     (\<lambda>_. query (validateNoDuplicate E w (TrimSpace (cg_LocationID req)) productionDate excludeID)))))"

definition new_gold_entry ::
  "env \<Rightarrow> string \<Rightarrow> string \<Rightarrow> CreateGoldProductionEntryRequest \<Rightarrow> GoldProductionEntry" where
  "new_gold_entry E i w req = \<lparr>ge_ID = i, ge_CreatedAt = Now E, ge_UpdatedAt = Now E,
     ge_TenantID = TenantID E, ge_WorkPeriodID = w, ge_LocationID = TrimSpace (cg_LocationID req),
     ge_ProductionDate = dateOf (cg_ProductionDate req), ge_GoldGramsProduced = cg_GoldGramsProduced req,
     ge_Active = True, ge_Notes = TrimSpace (cg_Notes req)\<rparr>"

definition CreateGoldEntry :: "env \<Rightarrow> string \<Rightarrow> CreateGoldProductionEntryRequest \<Rightarrow> GoldProductionEntryDTO app" where
  "CreateGoldEntry E w req =
     bnd (lift (ValidateCreateGoldProductionEntry req))
     (\<lambda>_. bnd (query (FindWorkPeriodByID E (TrimSpace w)))
     (\<lambda>p. bnd (gold_checks E p (wp_ID p) [] req)
     (\<lambda>_. bnd (newID E)
     (\<lambda>i. bnd (repoCreateGold E (new_gold_entry E i (wp_ID p) req))
     (\<lambda>_. query (\<lambda>s. tri (FindGoldByID E i s) (\<lambda>v. Inr (ToGoldDTO v))))))))"

definition UpdateGoldEntry :: "env \<Rightarrow> string \<Rightarrow> UpdateGoldProductionEntryRequest \<Rightarrow> GoldProductionEntryDTO app" where
  "UpdateGoldEntry E i req =
     bnd (lift (ValidateUpdateGoldProductionEntry req))
     (\<lambda>_. bnd (query (FindGoldByID E (TrimSpace i)))
     (\<lambda>v. let existing = gv_Entry v in
       bnd (ensure (ge_Active existing)
          (ValidationError [(''id'', ''Inactive gold production entries cannot be updated'')]))
     (\<lambda>_. bnd (gold_checks E (gv_WorkPeriod v) (ge_WorkPeriodID existing) (ge_ID existing) req)
     (\<lambda>_. bnd (repoUpdateGold E (existing\<lparr>ge_LocationID := TrimSpace (cg_LocationID req),
            ge_ProductionDate := dateOf (cg_ProductionDate req),
            ge_GoldGramsProduced := cg_GoldGramsProduced req, ge_Notes := TrimSpace (cg_Notes req),
            ge_UpdatedAt := Now E\<rparr>))
     (\<lambda>_. query (\<lambda>s. tri (FindGoldByID E (ge_ID existing) s) (\<lambda>v. Inr (ToGoldDTO v))))))))"

definition DeactivateGoldEntry :: "env \<Rightarrow> string \<Rightarrow> GoldProductionEntryDTO app" where
  "DeactivateGoldEntry E i =
     bnd (query (FindGoldByID E (TrimSpace i)))
     (\<lambda>v. let existing = gv_Entry v in
       bnd (lift (ensureEditableWorkPeriod (gv_WorkPeriod v)))
     (\<lambda>_. if \<not> ge_Active existing then ret (ToGoldDTO v) else
       bnd (repoUpdateGold E (existing\<lparr>ge_Active := False, ge_UpdatedAt := Now E\<rparr>))
       (\<lambda>_. query (\<lambda>s. tri (FindGoldByID E (ge_ID existing) s) (\<lambda>v. Inr (ToGoldDTO v))))))"

definition DeleteGoldEntry :: "env \<Rightarrow> string \<Rightarrow> unit app" where
  "DeleteGoldEntry E i = bnd (DeactivateGoldEntry E i) (\<lambda>_. ret ())"

definition ListGoldByWorkPeriod ::
  "env \<Rightarrow> string \<Rightarrow> GoldProductionEntryListFilter \<Rightarrow> store \<Rightarrow> app_error + GoldProductionEntryDTO list_result" where
  "ListGoldByWorkPeriod E w f s =
     tri (FindWorkPeriodByID E (TrimSpace w) s) (\<lambda>_.
     tri (normalizeGoldListFilter f) (\<lambda>n. let (rows, t) = repoListGold E (TrimSpace w) n s in
     Inr \<lparr>li_Items = map ToGoldDTO rows, li_Total = t, li_Page = ng_Page n, li_PageSize = ng_PageSize n\<rparr>))"

section \<open>What the operations keep\<close>

lemma sameDate_day: "sameDate a b \<Longrightarrow> a div day_ns = b div day_ns"
proof -
  assume "sameDate a b"
  then have "civil_of_days (a div day_ns) = civil_of_days (b div day_ns)"
    by (simp add: sameDate_def civil_of_time_def)
  moreover obtain y m d where "civil_of_days (a div day_ns) = (y, m, d)" by (cases "civil_of_days (a div day_ns)")
  ultimately show ?thesis using civil_of_days_sound by metis
qed

lemma gold_checks_ok:
  assumes "gold_checks E p w x req s = (Inr u, t)"
  shows "t = s \<and> wp_Status p \<noteq> ''CLOSED'' \<and> parseDate (cg_ProductionDate req) = Some (dateOf (cg_ProductionDate req)) \<and>
    dateOf (cg_ProductionDate req) = dateOnlyUTC (wp_WorkDate p) \<and>
    ExistsActiveLocation E (TrimSpace (cg_LocationID req)) s \<and>
    \<not> ExistsActiveEntryForPeriodLocationDate E w (TrimSpace (cg_LocationID req)) (dateOf (cg_ProductionDate req)) x s"
proof -
  from assms obtain d where d: "parseDate (cg_ProductionDate req) = Some d" "sameDate d (wp_WorkDate p)"
    and rest: "t = s" "wp_Status p \<noteq> ''CLOSED''" "ExistsActiveLocation E (TrimSpace (cg_LocationID req)) s"
    "\<not> ExistsActiveEntryForPeriodLocationDate E w (TrimSpace (cg_LocationID req)) d x s"
    by (auto simp: gold_checks_def run_ok ensureEditableWorkPeriod_def ensureProductionDateMatchesWorkPeriod_def
        validateLocation_def validateNoDuplicate_def found_Inr split: if_split_asm)
  have "d = dateOnlyUTC (wp_WorkDate p)"
    using parseDate_midnight [OF d(1)] sameDate_day [OF d(2)] by (simp add: dateOnlyUTC_def)
  then show ?thesis using d rest by (simp add: dateOf_def)
qed

lemma gold_checks_state: "gold_checks E p w x req s = (r, t) \<Longrightarrow> t = s"
  by (auto simp: gold_checks_def bnd_def split: sum.splits)

lemma accounting_insert_gold:
  assumes guards: "abort_if (gold_insert_guards s g) = Inr ()" and T: "ge_TenantID g = T"
    and dated: "planning_ok s \<Longrightarrow> gold_dated s g"
  shows "accounting T s (s\<lparr>GoldProduction := GoldProduction s @ [g]\<rparr>)"
proof (rule accounting_aside)
  let ?t = "s\<lparr>GoldProduction := GoldProduction s @ [g]\<rparr>"
  have id: "ge_ID g \<notin> set (map ge_ID (GoldProduction s))" and pos: "0 < ge_GoldGramsProduced g"
    using guards by (auto simp: abort_if_ok gold_insert_guards_def gold_references_def list_ex_iff)
  have key: "gold_key g \<notin> set (map gold_key (filter ge_Active (GoldProduction s)))" if "ge_Active g"
    using guards id that by (auto simp: abort_if_ok gold_insert_guards_def gold_key_taken_def list_ex_iff)
  have "gold_dated ?t = gold_dated s" by (simp add: gold_dated_def [abs_def])
  then show "planning_ok ?t \<and> periods_follow (WorkPeriods s) (WorkPeriods ?t)" if "planning_ok s"
    using that id pos key dated [OF that] by (auto simp: planning_ok_def)
  show "other_tenants_kept T s ?t" using T by (simp add: other_tenants_kept_def)
qed simp_all

lemma keeps_CreateGoldEntry: "keeps (accounting (TenantID E)) (CreateGoldEntry E w req)"
  unfolding keeps_def
proof
  fix s
  show "accounting (TenantID E) s (snd (CreateGoldEntry E w req s))"
  proof (cases "ValidateCreateGoldProductionEntry req"; cases "FindWorkPeriodByID E (TrimSpace w) s")
    fix u p assume v: "ValidateCreateGoldProductionEntry req = Inr u" and p: "FindWorkPeriodByID E (TrimSpace w) s = Inr p"
    obtain r m where c: "gold_checks E p (wp_ID p) [] req s = (r, m)"
      by (cases "gold_checks E p (wp_ID p) [] req s")
    show ?thesis
    proof (cases r)
      case Inl
      then show ?thesis using v p c gold_checks_state [OF c] acc.R_refl
        by (simp add: CreateGoldEntry_def run_simps bnd_def [of "gold_checks E p (wp_ID p) [] req"])
    next
      case (Inr x)
      let ?s = "s\<lparr>IdsUsed := Suc (IdsUsed s)\<rparr>"
      let ?g = "with_gold_defaults E (new_gold_entry E (NewID E (IdsUsed s)) (wp_ID p) req)"
      note ok = gold_checks_ok [OF c [unfolded Inr]]
      have ids: "accounting (TenantID E) s ?s" using keepsD [OF keeps_newID_acc newID_run] .
      have T: "ge_TenantID ?g = TenantID E" by (simp add: with_gold_defaults_def new_gold_entry_def)
      have dated: "gold_dated ?s ?g"
        using ok FindWorkPeriodByID_Inr [OF p]
        by (auto simp: gold_dated_def with_gold_defaults_def new_gold_entry_def list_ex_iff)
      show ?thesis
        using v p c Inr ok ids acc.R_trans [OF ids accounting_insert_gold [OF _ T dated]]
        by (auto simp: CreateGoldEntry_def run_simps bnd_def [of "gold_checks E p (wp_ID p) [] req"]
            repoCreateGold_def Let_def bnd_def split: sum.split)
    qed
  qed (simp_all add: CreateGoldEntry_def run_simps acc.R_refl)
qed

lemma updateGold_run: "updateGold P f s =
    (case abort_if (concat (map (\<lambda>g. gold_update_guards s g (f g)) (filter P (GoldProduction s)))) of
       Inl e \<Rightarrow> (Inl e, s) | Inr u \<Rightarrow> (Inr (), s\<lparr>GoldProduction := update_where P f (GoldProduction s)\<rparr>))"
  by (simp add: updateGold_def guarded_update_def run_simps split: sum.split)

lemma one_gold: "planning_ok s \<Longrightarrow> r \<in> set (GoldProduction s) \<Longrightarrow> r' \<in> set (GoldProduction s) \<Longrightarrow>
    gold_of E i r \<Longrightarrow> gold_of E i r' \<Longrightarrow> r = r'"
  using distinct_key [of ge_ID "GoldProduction s" r r'] by (simp add: planning_ok_def gold_of_def)

lemma accounting_update_gold:
  assumes ten: "\<And>g. gold_of E i g \<Longrightarrow> ge_TenantID (f g) = ge_TenantID g \<and> ge_ID (f g) = ge_ID g"
    and dated: "\<And>g. planning_ok s \<Longrightarrow> g \<in> set (GoldProduction s) \<Longrightarrow> gold_of E i g \<Longrightarrow> gold_dated s (f g)"
    and run: "updateGold (gold_of E i) f s = (r, t)"
  shows "accounting (TenantID E) s t"
proof (cases "abort_if (concat (map (\<lambda>g. gold_update_guards s g (f g)) (filter (gold_of E i) (GoldProduction s))))")
  case Inl
  then show ?thesis using run by (simp add: updateGold_run acc.R_refl)
next
  case (Inr u)
  let ?rows = "update_where (gold_of E i) f (GoldProduction s)"
  have t: "t = s\<lparr>GoldProduction := ?rows\<rparr>" using run Inr by (simp add: updateGold_run)
  have guards: "\<forall>g \<in> set (GoldProduction s). gold_of E i g \<longrightarrow> 0 < ge_GoldGramsProduced (f g) \<and> \<not> gold_key_taken s (ge_ID g) (f g)"
    using Inr by (auto simp: abort_if_ok gold_update_guards_def gold_references_def)
  show ?thesis
    unfolding t
  proof (rule accounting_aside)
    let ?t = "s\<lparr>GoldProduction := ?rows\<rparr>"
    show "planning_ok ?t \<and> periods_follow (WorkPeriods s) (WorkPeriods ?t)" if ok: "planning_ok s"
    proof -
      have "distinct (map ge_ID ?rows)" "distinct (map gold_key (filter ge_Active ?rows))"
        using ok ten guards one_gold [OF ok]
        by (auto simp: planning_ok_def gold_key_taken_def list_ex_iff intro!: unique_key_update [where key = ge_ID])
      moreover have "gold_dated ?t = gold_dated s" by (simp add: gold_dated_def [abs_def])
      ultimately show ?thesis
        using ok guards dated [OF ok] by (auto simp: planning_ok_def list_all_iff dest!: set_update_where)
    qed
    show "other_tenants_kept (TenantID E) s ?t"
      using filter_update_where_tenant [of "gold_of E i" ge_TenantID "TenantID E" f] ten
      by (simp add: other_tenants_kept_def gold_of_def)
  qed simp_all
qed

lemma FindGoldByID_ok: "FindGoldByID E i s = Inr v \<Longrightarrow>
    gv_Entry v \<in> set (GoldProduction s) \<and> gold_of E i (gv_Entry v) \<and> v = gold_view s (gv_Entry v)"
  by (auto simp: FindGoldByID_def tri_Inr found_Inr gold_view_def dest!: first_by_Some)

text \<open>The period that is preloaded with an entry is the one that dates it.\<close>

lemma gold_view_dated:
  assumes ok: "planning_ok s" and g: "g \<in> set (GoldProduction s)"
  shows "gv_WorkPeriod (gold_view s g) \<in> set (WorkPeriods s) \<and>
    wp_ID (gv_WorkPeriod (gold_view s g)) = ge_WorkPeriodID g \<and>
    wp_TenantID (gv_WorkPeriod (gold_view s g)) = ge_TenantID g"
proof -
  obtain p where p: "p \<in> set (WorkPeriods s)" "wp_ID p = ge_WorkPeriodID g" "wp_TenantID p = ge_TenantID g"
    using ok g by (auto simp: planning_ok_def list_all_iff gold_dated_def list_ex_iff)
  obtain q where q: "List.find (\<lambda>r. wp_ID r = ge_WorkPeriodID g) (WorkPeriods s) = Some q"
    using p by (cases "List.find (\<lambda>r. wp_ID r = ge_WorkPeriodID g) (WorkPeriods s)") (auto simp: find_None_iff)
  then have "q \<in> set (WorkPeriods s)" "wp_ID q = ge_WorkPeriodID g" by (auto simp: find_Some_iff)
  moreover from this have "q = p"
    using p ok distinct_key [of wp_ID "WorkPeriods s" q p] by (simp add: planning_ok_def)
  ultimately show ?thesis using p by (simp add: gold_view_def preload_def q)
qed

lemma gold_dated_by:
  "p \<in> set (WorkPeriods s) \<Longrightarrow> wp_ID p = ge_WorkPeriodID g \<Longrightarrow> wp_TenantID p = ge_TenantID g \<Longrightarrow>
   ge_ProductionDate g = dateOnlyUTC (wp_WorkDate p) \<Longrightarrow> gold_dated s g"
  by (auto simp: gold_dated_def list_ex_iff)

lemma keeps_UpdateGoldEntry: "keeps (accounting (TenantID E)) (UpdateGoldEntry E i req)"
  unfolding keeps_def
proof
  fix s
  show "accounting (TenantID E) s (snd (UpdateGoldEntry E i req s))"
  proof (cases "ValidateUpdateGoldProductionEntry req"; cases "FindGoldByID E (TrimSpace i) s")
    fix u v assume u: "ValidateUpdateGoldProductionEntry req = Inr u" and v: "FindGoldByID E (TrimSpace i) s = Inr v"
    let ?g = "gv_Entry v"
    let ?new = "?g\<lparr>ge_LocationID := TrimSpace (cg_LocationID req), ge_ProductionDate := dateOf (cg_ProductionDate req),
      ge_GoldGramsProduced := cg_GoldGramsProduced req, ge_Notes := TrimSpace (cg_Notes req), ge_UpdatedAt := Now E\<rparr>"
    let ?check = "gold_checks E (gv_WorkPeriod v) (ge_WorkPeriodID ?g) (ge_ID ?g) req"
    note found = FindGoldByID_ok [OF v]
    obtain r m where c: "?check s = (r, m)" by (cases "?check s")
    obtain r' t where w: "repoUpdateGold E ?new s = (r', t)" by (cases "repoUpdateGold E ?new s")
    have "accounting (TenantID E) s t" if r: "r = Inr ()"
    proof (rule accounting_update_gold)
      show "updateGold (gold_of E (ge_ID ?g)) (\<lambda>x. x\<lparr>ge_LocationID := ge_LocationID ?new,
          ge_ProductionDate := ge_ProductionDate ?new, ge_GoldGramsProduced := ge_GoldGramsProduced ?new,
          ge_Active := ge_Active ?new, ge_Notes := ge_Notes ?new, ge_UpdatedAt := ge_UpdatedAt ?new\<rparr>) s = (r', t)"
        using w by (simp add: repoUpdateGold_def)
      fix x assume ok: "planning_ok s" and x: "x \<in> set (GoldProduction s)" "gold_of E (ge_ID ?g) x"
      have "x = ?g" using one_gold [OF ok x(1) _ x(2)] found by (simp add: gold_of_def)
      then show "gold_dated s (x\<lparr>ge_LocationID := ge_LocationID ?new,
          ge_ProductionDate := ge_ProductionDate ?new, ge_GoldGramsProduced := ge_GoldGramsProduced ?new,
          ge_Active := ge_Active ?new, ge_Notes := ge_Notes ?new, ge_UpdatedAt := ge_UpdatedAt ?new\<rparr>)"
        using gold_view_dated [OF ok, of ?g] found gold_checks_ok [OF c [unfolded r]]
        by (intro gold_dated_by [of "gv_WorkPeriod v"]) auto
    qed simp
    then show ?thesis
      using u v c w gold_checks_state [OF c] acc.R_refl
      by (cases r) (auto simp: UpdateGoldEntry_def run_simps Let_def bnd_def split: sum.split)
  qed (simp_all add: UpdateGoldEntry_def run_simps acc.R_refl)
qed

lemma keeps_DeactivateGoldEntry: "keeps (accounting (TenantID E)) (DeactivateGoldEntry E i)"
  unfolding keeps_def
proof
  fix s
  show "accounting (TenantID E) s (snd (DeactivateGoldEntry E i s))"
  proof (cases "FindGoldByID E (TrimSpace i) s")
    case (Inr v)
    let ?g = "gv_Entry v"
    let ?new = "?g\<lparr>ge_Active := False, ge_UpdatedAt := Now E\<rparr>"
    note found = FindGoldByID_ok [OF Inr]
    obtain r t where w: "repoUpdateGold E ?new s = (r, t)" by (cases "repoUpdateGold E ?new s")
    have "accounting (TenantID E) s t"
    proof (rule accounting_update_gold)
      show "updateGold (gold_of E (ge_ID ?g)) (\<lambda>x. x\<lparr>ge_LocationID := ge_LocationID ?new,
          ge_ProductionDate := ge_ProductionDate ?new, ge_GoldGramsProduced := ge_GoldGramsProduced ?new,
          ge_Active := ge_Active ?new, ge_Notes := ge_Notes ?new, ge_UpdatedAt := ge_UpdatedAt ?new\<rparr>) s = (r, t)"
        using w by (simp add: repoUpdateGold_def)
      fix x assume ok: "planning_ok s" and x: "x \<in> set (GoldProduction s)" "gold_of E (ge_ID ?g) x"
      have "x = ?g" using one_gold [OF ok x(1) _ x(2)] found by (simp add: gold_of_def)
      moreover have "gold_dated s ?g" using ok found by (simp add: planning_ok_def list_all_iff)
      ultimately show "gold_dated s (x\<lparr>ge_LocationID := ge_LocationID ?new,
          ge_ProductionDate := ge_ProductionDate ?new, ge_GoldGramsProduced := ge_GoldGramsProduced ?new,
          ge_Active := ge_Active ?new, ge_Notes := ge_Notes ?new, ge_UpdatedAt := ge_UpdatedAt ?new\<rparr>)"
        by (simp add: gold_dated_def)
    qed simp
    then show ?thesis
      using Inr w acc.R_refl
      by (auto simp: DeactivateGoldEntry_def run_simps Let_def bnd_def split: sum.split)
  qed (simp add: DeactivateGoldEntry_def run_simps acc.R_refl)
qed

lemma keeps_DeleteGoldEntry: "keeps (accounting (TenantID E)) (DeleteGoldEntry E i)"
  unfolding DeleteGoldEntry_def by (intro acc.keeps_intros keeps_DeactivateGoldEntry)

section \<open>Properties\<close>

definition demo_gold :: CreateGoldProductionEntryRequest where
  "demo_gold = \<lparr>cg_LocationID = '' loc'', cg_ProductionDate = ''2024-02-03'', cg_GoldGramsProduced = 5 / 4, cg_Notes = []\<rparr>"

lemma demo_gold_runs: "\<not> isl (fst (CreateGoldEntry demo_env ''n'' demo_gold demo_planned))"
  by code_simp

text \<open>
  C33. The gold that is recorded is the gold that is accrued. After a successful creation the accrual's
  lookup of the produced gold of that work period and location finds exactly the new entry, with the grams of
  the request, which are positive; it is the one active entry of the period and location.
\<close>

theorem recorded_gold_is_accrued:
  assumes "CreateGoldEntry E w req s = (Inr d, t)" and "planning_ok s"
  shows "\<exists>g n. t = s\<lparr>GoldProduction := GoldProduction s @ [g], IdsUsed := n\<rparr> \<and> d = ToGoldDTO (gold_view t g) \<and>
    FindGoldProduction E (TrimSpace w) (TrimSpace (cg_LocationID req)) t = Inr g \<and>
    ge_GoldGramsProduced g = cg_GoldGramsProduced req \<and> 0 < ge_GoldGramsProduced g \<and>
    (\<forall>x \<in> set (GoldProduction s). ge_Active x \<longrightarrow> ge_TenantID x = TenantID E \<longrightarrow>
       ge_WorkPeriodID x = TrimSpace w \<longrightarrow> ge_LocationID x \<noteq> TrimSpace (cg_LocationID req))"
proof -
  let ?s = "s\<lparr>IdsUsed := Suc (IdsUsed s)\<rparr>"
  from assms(1) obtain p u where p: "FindWorkPeriodByID E (TrimSpace w) s = Inr p"
    and c: "gold_checks E p (wp_ID p) [] req s = (Inr (), u)"
    and more: "bnd (newID E) (\<lambda>i. bnd (repoCreateGold E (new_gold_entry E i (wp_ID p) req))
      (\<lambda>_. query (\<lambda>s. tri (FindGoldByID E i s) (\<lambda>v. Inr (ToGoldDTO v))))) u = (Inr d, t)"
    by (auto simp: CreateGoldEntry_def run_ok)
  note ok = gold_checks_ok [OF c]
  define g where "g = with_gold_defaults E (new_gold_entry E (NewID E (IdsUsed s)) (wp_ID p) req)"
  from more ok have guards: "abort_if (gold_insert_guards ?s g) = Inr ()"
    and t: "t = ?s\<lparr>GoldProduction := GoldProduction ?s @ [g]\<rparr>"
    and d: "tri (FindGoldByID E (NewID E (IdsUsed s)) t) (\<lambda>v. Inr (ToGoldDTO v)) = Inr d"
    by (auto simp: run_ok repoCreateGold_def Let_def g_def)
  note found = FindWorkPeriodByID_Inr [OF p]
  have new: "ge_ID g = NewID E (IdsUsed s)" "ge_TenantID g = TenantID E" "ge_WorkPeriodID g = TrimSpace w"
    "ge_LocationID g = TrimSpace (cg_LocationID req)" "ge_Active g" "ge_GoldGramsProduced g = cg_GoldGramsProduced req"
    using found by (simp_all add: g_def with_gold_defaults_def new_gold_entry_def)
  have fresh: "\<forall>x \<in> set (GoldProduction s). ge_ID x \<noteq> ge_ID g" and pos: "0 < ge_GoldGramsProduced g"
    using guards by (auto simp: abort_if_ok gold_insert_guards_def gold_references_def list_ex_iff)
  have none: "ge_LocationID x \<noteq> TrimSpace (cg_LocationID req)"
    if x: "x \<in> set (GoldProduction s)" "ge_Active x" "ge_TenantID x = TenantID E" "ge_WorkPeriodID x = TrimSpace w" for x
  proof -
    obtain q where q: "q \<in> set (WorkPeriods s)" "wp_ID q = TrimSpace w" "ge_ProductionDate x = dateOnlyUTC (wp_WorkDate q)"
      using assms(2) x by (auto simp: planning_ok_def list_all_iff gold_dated_def list_ex_iff)
    have "q = p" using q found assms(2) distinct_key [of wp_ID "WorkPeriods s" q p] by (simp add: planning_ok_def)
    then show ?thesis
      using ok q x found by (auto simp: ExistsActiveEntryForPeriodLocationDate_def count_where_0)
  qed
  have "FindGoldProduction E (TrimSpace w) (TrimSpace (cg_LocationID req)) t = Inr g"
    unfolding FindGoldProduction_def found_Inr using none new by (intro first_by_unique) (auto simp: t)
  moreover have "first_by ge_ID (gold_of E (ge_ID g)) (GoldProduction t) = Some g"
    using fresh new by (intro first_by_unique) (auto simp: t gold_of_def)
  then have "d = ToGoldDTO (gold_view t g)" using d by (simp add: FindGoldByID_def new(1))
  ultimately show ?thesis
    using none new pos t by (intro exI [of _ g] exI [of _ "Suc (IdsUsed s)"]) auto
qed

theorem recorded_gold_is_accrued_witness:
  "\<exists>d t g. CreateGoldEntry demo_env ''n'' demo_gold demo_planned = (Inr d, t) \<and>
     FindGoldProduction demo_env (TrimSpace ''n'') (TrimSpace (cg_LocationID demo_gold)) t = Inr g \<and>
     0 < ge_GoldGramsProduced g"
  using succeeded [OF demo_gold_runs] recorded_gold_is_accrued [OF _ demo_planning(2)] by meson

end
