(* ===== verification/PlanAssignments.thy ===== *)
theory PlanAssignments
  imports GoldEntries Expenses
begin

text \<open>
  Work period assignments (\<open>service_impl.go\<close>, \<open>repository_gorm.go\<close>, \<open>validation.go\<close>, \<open>mapper.go\<close>,
  \<open>dto.go\<close> of \<open>backend/internal/workperiodassignments\<close>): who is planned for a period, where and for which
  task, who substitutes whom, and what actually happened. The plan of a period is saved one assignment at a
  time or in bulk from a template; the accruals read the outcomes. The writes obey the constraints of migrations
  000012 and 000038 and the triggers of 000041. The audit record of a replacement belongs to the
  authorization store, which is not modelled.
\<close>

section \<open>Requests and results\<close>

record WorkPeriodAssignmentDTO =
  ad_ID :: string
  ad_TenantID :: string
  ad_WorkPeriodID :: string
  ad_CollaboratorID :: string
  ad_CollaboratorName :: string
  ad_CollaboratorNickname :: string
  ad_PlannedStatus :: string
  ad_PlanningAvailability :: string
  ad_ActualStatus :: string
  ad_ReplacementForAssignmentID :: string
  ad_SectorID :: string
  ad_SectorLabel :: string
  ad_LocationID :: string
  ad_LocationLabel :: string
  ad_TaskID :: string
  ad_TaskLabel :: string
  ad_Active :: bool
  ad_CreatedAt :: string
  ad_UpdatedAt :: string

record CreateWorkPeriodAssignmentRequest =
  ca_CollaboratorID :: string
  ca_PlannedStatus :: string
  ca_PlanningAvailability :: string
  ca_ReplacementForAssignmentID :: string
  ca_SectorID :: string
  ca_LocationID :: string
  ca_TaskID :: string

type_synonym UpdateWorkPeriodAssignmentRequest = CreateWorkPeriodAssignmentRequest

record BulkPlanWorkPeriodAssignmentRow =
  bw_CollaboratorID :: string
  bw_Selected :: bool
  bw_SectorID :: string
  bw_LocationID :: string
  bw_TaskID :: string
  bw_PlanningAvailability :: string
  bw_AvailabilityChanged :: bool
  bw_ReplacementForAssignmentID :: string
  bw_TemporaryReplacementForCollaboratorID :: string

record BulkPlanWorkPeriodAssignmentsRequest =
  bu_Rows :: "BulkPlanWorkPeriodAssignmentRow list"

record BulkPlanWorkPeriodAssignmentsResult =
  bz_Assignments :: "WorkPeriodAssignmentDTO list"
  bz_SelectedCount :: nat

record PlanAssignmentRefinementRequest =
  nf_CollaboratorID :: string
  nf_SectorID :: string
  nf_LocationID :: string
  nf_TaskID :: string
  nf_ApplyToFutureDefaults :: bool

record PlanAssignmentRefinementResult =
  nz_CollaboratorID :: string
  nz_SectorID :: string
  nz_SectorLabel :: string
  nz_LocationID :: string
  nz_LocationLabel :: string
  nz_TaskID :: string
  nz_TaskLabel :: string
  nz_ApplyToFutureDefaults :: bool
  nz_FutureDefaultsUpdated :: bool

record WorkPeriodPlanningTemplateRow =
  tr_AssignmentID :: string
  tr_TemplateAssignmentID :: string
  tr_ReplacementForAssignmentID :: string
  tr_TemporaryReplacementForCollaboratorID :: string
  tr_CollaboratorID :: string
  tr_CollaboratorName :: string
  tr_CollaboratorNickname :: string
  tr_ProjectedEndDate :: string
  tr_PlanningAvailability :: string
  tr_Selected :: bool
  tr_SectorID :: string
  tr_SectorLabel :: string
  tr_LocationID :: string
  tr_LocationLabel :: string
  tr_TaskID :: string
  tr_TaskLabel :: string

record WorkPeriodPlanningTemplateDTO =
  tt_WorkPeriodID :: string
  tt_SourceWorkPeriodID :: string
  tt_SourceWorkDate :: string
  tt_SourcePeriodName :: string
  tt_Rows :: "WorkPeriodPlanningTemplateRow list"

record MarkActualOutcomeRequest =
  mo_ActualStatus :: string

record WorkPeriodAssignmentListFilter =
  af_PlannedStatus :: string
  af_ActualStatus :: string
  af_CollaboratorID :: string
  af_IncludeInactive :: bool
  af_Page :: int
  af_PageSize :: int

type_synonym normalizedWorkPeriodAssignmentListFilter = WorkPeriodAssignmentListFilter

text \<open>An assignment with its preloaded work period, collaborator's person and reference data.\<close>

record PlannedAssignment =
  pn_View :: RosterAssignment
  pn_WorkPeriod :: WorkPeriod

section \<open>Validation\<close>

definition isKnownPlannedStatus :: "string \<Rightarrow> bool" where
  "isKnownPlannedStatus v \<longleftrightarrow> v \<in> set [''INCLUDED'', ''EXCLUDED'']"

definition isKnownPlanningAvailability :: "string \<Rightarrow> bool" where
  "isKnownPlanningAvailability v \<longleftrightarrow> v \<in> set [''ACTIVE'', ''DAY_OFF'', ''LEAVE_OF_ABSENCE'']"

definition isKnownActualStatus :: "string \<Rightarrow> bool" where
  "isKnownActualStatus v \<longleftrightarrow> v \<in> set [''WORKED'', ''ABSENT'', ''SICK_DAY_OFF'', ''TIME_OFF'', ''REPLACED'', ''CANCELLED'']"

definition normalizePlanningAvailability :: "string \<Rightarrow> string" where
  "normalizePlanningAvailability value = (let v = ToUpper (TrimSpace value) in
     if isKnownPlanningAvailability v then v else ''ACTIVE'')"

definition validatePlannedStatus :: "string \<Rightarrow> validation_fields \<Rightarrow> validation_fields" where
  "validatePlannedStatus value = check (TrimSpace value \<noteq> [] \<and> \<not> isKnownPlannedStatus (ToUpper (TrimSpace value)))
     ''plannedStatus'' ''Planned status must be INCLUDED or EXCLUDED''"

definition validatePlanningAvailability :: "string \<Rightarrow> string \<Rightarrow> validation_fields \<Rightarrow> validation_fields" where
  "validatePlanningAvailability key value =
     check (TrimSpace value \<noteq> [] \<and> \<not> isKnownPlanningAvailability (ToUpper (TrimSpace value)))
       key ''Planning availability must be ACTIVE, DAY_OFF, or LEAVE_OF_ABSENCE''"

definition validateActualStatus :: "string \<Rightarrow> validation_fields \<Rightarrow> validation_fields" where
  "validateActualStatus value = check (TrimSpace value \<noteq> [] \<and> \<not> isKnownActualStatus (ToUpper (TrimSpace value)))
     ''actualStatus'' ''Actual status must be WORKED, ABSENT, SICK_DAY_OFF, TIME_OFF, REPLACED, or CANCELLED''"

definition ValidateCreateWorkPeriodAssignment :: "CreateWorkPeriodAssignmentRequest \<Rightarrow> app_error + unit" where
  "ValidateCreateWorkPeriodAssignment req = validated
     (validatePlanningAvailability ''planningAvailability'' (ca_PlanningAvailability req)
     (validatePlannedStatus (ca_PlannedStatus req)
     (required ''taskId'' (ca_TaskID req)
     (required ''locationId'' (ca_LocationID req)
     (required ''sectorId'' (ca_SectorID req)
     (required ''plannedStatus'' (ca_PlannedStatus req)
     (required ''collaboratorId'' (ca_CollaboratorID req) [])))))))"

definition ValidateUpdateWorkPeriodAssignment :: "UpdateWorkPeriodAssignmentRequest \<Rightarrow> app_error + unit" where
  "ValidateUpdateWorkPeriodAssignment req = validated
     (validatePlanningAvailability ''planningAvailability'' (ca_PlanningAvailability req)
     (validatePlannedStatus (ca_PlannedStatus req)
     (required ''taskId'' (ca_TaskID req)
     (required ''locationId'' (ca_LocationID req)
     (required ''sectorId'' (ca_SectorID req)
     (required ''plannedStatus'' (ca_PlannedStatus req)
     (required ''collaboratorId'' (ca_CollaboratorID req) [])))))))"

definition ValidatePlanAssignmentRefinement :: "PlanAssignmentRefinementRequest \<Rightarrow> app_error + unit" where
  "ValidatePlanAssignmentRefinement req = validated
     (required ''taskId'' (nf_TaskID req)
     (required ''locationId'' (nf_LocationID req)
     (required ''sectorId'' (nf_SectorID req)
     (required ''collaboratorId'' (nf_CollaboratorID req) []))))"

definition row_field :: "nat \<Rightarrow> string \<Rightarrow> string" where
  "row_field index field = ''rows['' @ itoa index @ ''].'' @ field"

fun bulk_row_errors ::
  "nat \<Rightarrow> string list \<Rightarrow> BulkPlanWorkPeriodAssignmentRow list \<Rightarrow> validation_fields \<Rightarrow> validation_fields" where
  "bulk_row_errors index seen [] fs = fs"
| "bulk_row_errors index seen (row # rows) fs = (let c = TrimSpace (bw_CollaboratorID row) in
     bulk_row_errors (Suc index) (c # seen) rows
       (validatePlanningAvailability (row_field index ''planningAvailability'') (bw_PlanningAvailability row)
         (if c = [] then AList.update (row_field index ''collaboratorId'') ''Required'' fs
          else check (c \<in> set seen) (row_field index ''collaboratorId'') ''Collaborator can only appear once'' fs)))"

definition ValidateBulkPlanWorkPeriodAssignments :: "BulkPlanWorkPeriodAssignmentsRequest \<Rightarrow> app_error + unit" where
  "ValidateBulkPlanWorkPeriodAssignments req = validated (bulk_row_errors 0 [] (bu_Rows req) [])"

definition ValidateMarkActualOutcome :: "MarkActualOutcomeRequest \<Rightarrow> app_error + unit" where
  "ValidateMarkActualOutcome req = validated
     (validateActualStatus (mo_ActualStatus req) (required ''actualStatus'' (mo_ActualStatus req) []))"

definition ValidateAssignmentListFilter :: "WorkPeriodAssignmentListFilter \<Rightarrow> app_error + unit" where
  "ValidateAssignmentListFilter f = validated (validate_page (af_Page f) (af_PageSize f)
     (validateActualStatus (af_ActualStatus f) (validatePlannedStatus (af_PlannedStatus f) [])))"

definition normalizeAssignmentListFilter ::
  "WorkPeriodAssignmentListFilter \<Rightarrow> app_error + normalizedWorkPeriodAssignmentListFilter" where
  "normalizeAssignmentListFilter f = tri (ValidateAssignmentListFilter f) (\<lambda>_. Inr \<lparr>
     af_PlannedStatus = ToUpper (TrimSpace (af_PlannedStatus f)),
     af_ActualStatus = ToUpper (TrimSpace (af_ActualStatus f)),
     af_CollaboratorID = TrimSpace (af_CollaboratorID f), af_IncludeInactive = af_IncludeInactive f,
     af_Page = normalizedPage (af_Page f), af_PageSize = normalizedPageSize (af_PageSize f)\<rparr>)"

section \<open>What is shown\<close>

definition assignmentCollaboratorName :: "Person \<Rightarrow> string" where
  "assignmentCollaboratorName p = (
     if pe_FirstName p = [] \<and> pe_LastName p = [] then []
     else if pe_LastName p = [] then pe_FirstName p
     else if pe_FirstName p = [] then pe_LastName p
     else pe_FirstName p @ '' '' @ pe_LastName p)"

definition ToAssignmentDTO :: "RosterAssignment \<Rightarrow> WorkPeriodAssignmentDTO" where
  "ToAssignmentDTO v = (let a = ra_Assignment v in \<lparr>
     ad_ID = wa_ID a, ad_TenantID = wa_TenantID a, ad_WorkPeriodID = wa_WorkPeriodID a,
     ad_CollaboratorID = wa_CollaboratorID a,
     ad_CollaboratorName = assignmentCollaboratorName (ra_Person v),
     ad_CollaboratorNickname = pe_Nickname (ra_Person v), ad_PlannedStatus = wa_PlannedStatus a,
     ad_PlanningAvailability = normalizePlanningAvailability (wa_PlanningAvailability a),
     ad_ActualStatus = stringValue (wa_ActualStatus a),
     ad_ReplacementForAssignmentID = stringValue (wa_ReplacementForAssignmentID a),
     ad_SectorID = wa_SectorID a, ad_SectorLabel = rd_Label (ra_Sector v),
     ad_LocationID = wa_LocationID a, ad_LocationLabel = rd_Label (ra_Location v),
     ad_TaskID = wa_TaskID a, ad_TaskLabel = rd_Label (ra_Task v), ad_Active = wa_Active a,
     ad_CreatedAt = formatTime (wa_CreatedAt a), ad_UpdatedAt = formatTime (wa_UpdatedAt a)\<rparr>)"

section \<open>Constraints and writes\<close>

definition assignment_references :: "store \<Rightarrow> WorkPeriodAssignment \<Rightarrow> (bool \<times> string) list" where
  "assignment_references s a = (let T = wa_TenantID a in [
     (\<not> work_period_in s T (wa_WorkPeriodID a) \<or> \<not> journey_in s T (wa_CollaboratorID a) \<or>
      \<not> reference_in s T ''sector'' (wa_SectorID a) \<or> \<not> reference_in s T ''location'' (wa_LocationID a) \<or>
      \<not> reference_in s T ''task'' (wa_TaskID a) \<or>
      (case wa_ReplacementForAssignmentID a of None \<Rightarrow> False | Some r \<Rightarrow> \<not> assignment_in s T r),
      ''cross_tenant_reference'')])"

definition assignment_checks :: "WorkPeriodAssignment \<Rightarrow> (bool \<times> string) list" where
  "assignment_checks a = [
     (\<not> isKnownPlannedStatus (wa_PlannedStatus a), ''CHECK constraint failed: ck_work_period_assignments_planned_status''),
     (case wa_ActualStatus a of None \<Rightarrow> False | Some v \<Rightarrow> \<not> isKnownActualStatus v,
      ''CHECK constraint failed: ck_work_period_assignments_actual_status''),
     (wa_ReplacementForAssignmentID a = Some (wa_ID a),
      ''CHECK constraint failed: ck_work_period_assignments_not_self_replacement'')]"

definition assignment_key_taken :: "store \<Rightarrow> string \<Rightarrow> WorkPeriodAssignment \<Rightarrow> bool" where
  "assignment_key_taken s i a \<longleftrightarrow> wa_Active a \<and>
     list_ex (\<lambda>x. wa_ID x \<noteq> i \<and> wa_Active x \<and> assignment_key x = assignment_key a) (Assignments s)"

definition assignment_key_message :: string where
  "assignment_key_message = ''UNIQUE constraint failed: work_period_assignments.tenant_id, work_period_assignments.work_period_id, work_period_assignments.collaborator_id''"

definition assignment_insert_guards :: "store \<Rightarrow> WorkPeriodAssignment \<Rightarrow> (bool \<times> string) list" where
  "assignment_insert_guards s a =
     [(\<not> tenant_exists s (wa_TenantID a), ''tenant_integrity_violation'')] @
     assignment_references s a @ assignment_checks a @
     [(list_ex (\<lambda>x. wa_ID x = wa_ID a) (Assignments s), ''UNIQUE constraint failed: work_period_assignments.id''),
      (assignment_key_taken s (wa_ID a) a, assignment_key_message)]"

definition assignment_update_guards ::
  "store \<Rightarrow> WorkPeriodAssignment \<Rightarrow> WorkPeriodAssignment \<Rightarrow> (bool \<times> string) list" where
  "assignment_update_guards s old new =
     [(wa_TenantID new \<noteq> wa_TenantID old, ''tenant_id_immutable'')] @
     assignment_references s new @ assignment_checks new @
     [(assignment_key_taken s (wa_ID old) new, assignment_key_message)]"

definition with_assignment_defaults :: "env \<Rightarrow> WorkPeriodAssignment \<Rightarrow> WorkPeriodAssignment" where
  "with_assignment_defaults E a = a\<lparr>
     wa_CreatedAt := or_time (wa_CreatedAt a) (Now E), wa_UpdatedAt := or_time (wa_UpdatedAt a) (Now E),
     wa_TenantID := or_default (wa_TenantID a) ''default'',
     wa_PlanningAvailability := or_default (wa_PlanningAvailability a) ''ACTIVE'', wa_Active := True\<rparr>"

definition repoCreateAssignment :: "env \<Rightarrow> WorkPeriodAssignment \<Rightarrow> WorkPeriodAssignment app" where
  "repoCreateAssignment E a0 = (let a = with_assignment_defaults E a0 in
     bnd (query (\<lambda>s. abort_if (assignment_insert_guards s a)))
     (\<lambda>_. bnd (modify (\<lambda>s. s\<lparr>Assignments := Assignments s @ [a]\<rparr>))
     (\<lambda>_. ret a)))"

definition updateAssignments ::
  "(WorkPeriodAssignment \<Rightarrow> bool) \<Rightarrow> (WorkPeriodAssignment \<Rightarrow> WorkPeriodAssignment) \<Rightarrow> unit app" where
  "updateAssignments = guarded_update Assignments Assignments_update assignment_update_guards"

definition assignment_of :: "env \<Rightarrow> string \<Rightarrow> WorkPeriodAssignment \<Rightarrow> bool" where
  "assignment_of E i a \<longleftrightarrow> wa_ID a = i \<and> wa_TenantID a = TenantID E"

definition assignment_row :: "WorkPeriodAssignment \<Rightarrow> WorkPeriodAssignment \<Rightarrow> WorkPeriodAssignment" where
  "assignment_row a x = x\<lparr>
     wa_CollaboratorID := wa_CollaboratorID a, wa_PlannedStatus := wa_PlannedStatus a,
     wa_PlanningAvailability := normalizePlanningAvailability (wa_PlanningAvailability a),
     wa_ActualStatus := wa_ActualStatus a,
     wa_ReplacementForAssignmentID := wa_ReplacementForAssignmentID a, wa_SectorID := wa_SectorID a,
     wa_LocationID := wa_LocationID a, wa_TaskID := wa_TaskID a, wa_Active := wa_Active a,
     wa_UpdatedAt := wa_UpdatedAt a\<rparr>"

definition repoUpdateAssignment :: "env \<Rightarrow> WorkPeriodAssignment \<Rightarrow> unit app" where
  "repoUpdateAssignment E a = updateAssignments (assignment_of E (wa_ID a)) (assignment_row a)"

definition UpdateCollaboratorPlanningDefaults :: "env \<Rightarrow> string \<Rightarrow> string \<Rightarrow> string \<Rightarrow> string \<Rightarrow> unit app" where
  "UpdateCollaboratorPlanningDefaults E c sector location task =
     bnd (updateJourneys E (\<lambda>j. cj_ID j = c \<and> cj_TenantID j = TenantID E) (\<lambda>j. j\<lparr>cj_SectorID := sector,
       cj_LocationID := location, cj_TaskID := task, cj_UpdatedAt := whole_second (Now E)\<rparr>))
     (\<lambda>_. ret ())"

section \<open>Reads\<close>

definition FindAssignmentByID :: "env \<Rightarrow> string \<Rightarrow> store \<Rightarrow> app_error + PlannedAssignment" where
  "FindAssignmentByID E i s = tri (found ErrRecordNotFound (first_by wa_ID (assignment_of E i) (Assignments s)))
     (\<lambda>a. Inr \<lparr>pn_View = with_references s a,
        pn_WorkPeriod = preload wp_ID zeroWorkPeriod (wa_WorkPeriodID a) (WorkPeriods s)\<rparr>)"

definition FindReplacementAssignmentByID :: "env \<Rightarrow> string \<Rightarrow> store \<Rightarrow> app_error + WorkPeriodAssignment" where
  "FindReplacementAssignmentByID E i s = found ErrRecordNotFound
     (first_by wa_ID (\<lambda>a. assignment_of E i a \<and> wa_Active a) (Assignments s))"

definition ExistsActiveReference :: "env \<Rightarrow> string \<Rightarrow> string \<Rightarrow> store \<Rightarrow> bool" where
  "ExistsActiveReference E i typ s \<longleftrightarrow> 0 < count_where (\<lambda>r. rd_ID r = i \<and> rd_TenantID r = TenantID E \<and>
     rd_Type r = typ \<and> rd_Active r) (References s)"

definition FindReferenceByID :: "env \<Rightarrow> string \<Rightarrow> store \<Rightarrow> app_error + ReferenceData" where
  "FindReferenceByID E i s = found ErrRecordNotFound
     (first_by rd_ID (\<lambda>r. rd_ID r = i \<and> rd_TenantID r = TenantID E) (References s))"

definition ExistsActiveAssignmentForCollaborator ::
  "env \<Rightarrow> string \<Rightarrow> string \<Rightarrow> string \<Rightarrow> store \<Rightarrow> bool" where
  "ExistsActiveAssignmentForCollaborator E w c excludeID s \<longleftrightarrow> 0 < count_where (\<lambda>a.
     wa_TenantID a = TenantID E \<and> wa_WorkPeriodID a = w \<and> wa_CollaboratorID a = c \<and> wa_Active a \<and>
     (excludeID \<noteq> [] \<longrightarrow> wa_ID a \<noteq> excludeID)) (Assignments s)"

definition ListActiveAssignmentsForWorkPeriod :: "env \<Rightarrow> string \<Rightarrow> store \<Rightarrow> RosterAssignment list" where
  "ListActiveAssignmentsForWorkPeriod E w s = map (with_references s) (sort_key wa_CreatedAt
     (filter (\<lambda>a. wa_TenantID a = TenantID E \<and> wa_WorkPeriodID a = w \<and> wa_Active a) (Assignments s)))"

definition repoListAssignments ::
  "env \<Rightarrow> string \<Rightarrow> normalizedWorkPeriodAssignmentListFilter \<Rightarrow> store \<Rightarrow> RosterAssignment list \<times> nat" where
  "repoListAssignments E w f s = (let rows = filter (\<lambda>a. wa_TenantID a = TenantID E \<and> wa_WorkPeriodID a = w \<and>
       (af_IncludeInactive f \<or> wa_Active a) \<and> matches_unless_empty (af_PlannedStatus f) (wa_PlannedStatus a) \<and>
       (af_ActualStatus f \<noteq> [] \<longrightarrow> wa_ActualStatus a = Some (af_ActualStatus f)) \<and>
       matches_unless_empty (af_CollaboratorID f) (wa_CollaboratorID a)) (Assignments s)
     in (map (with_references s) (page_of (af_Page f) (af_PageSize f)
          (sort_key (\<lambda>a. (wa_PlannedStatus a, wa_CreatedAt a)) rows)), length rows))"

text \<open>
  The journeys that can be planned on a date: open, under way on it and of active status; the inner joins
  drop a journey without its person or status.
\<close>

definition plannable :: "env \<Rightarrow> time \<Rightarrow> store \<Rightarrow> CollaboratorJourney \<Rightarrow> bool" where
  "plannable E workDate s j \<longleftrightarrow> list_ex (\<lambda>p. pe_ID p = cj_PersonID j) (People s) \<and>
     list_ex (\<lambda>r. rd_ID r = cj_StatusID j \<and> rd_TenantID r = TenantID E \<and> rd_Type r = ''collaborator_status'' \<and>
       rd_Code r = ''ACTIVE'' \<and> rd_Active r) (References s) \<and>
     cj_TenantID j = TenantID E \<and> cj_ClosedAt j = None \<and>
     dateOnlyUTC (cj_JourneyStartDate j) \<le> dateOnlyUTC workDate \<and>
     dateOnlyUTC workDate \<le> dateOnlyUTC (cj_ProjectedEndDate j)"

definition journey_person :: "store \<Rightarrow> CollaboratorJourney \<Rightarrow> Person" where
  "journey_person s j = preload pe_ID zeroPerson (cj_PersonID j) (People s)"

definition ListActiveCollaboratorsForPlanning :: "env \<Rightarrow> time \<Rightarrow> store \<Rightarrow> CollaboratorJourney list" where
  "ListActiveCollaboratorsForPlanning E workDate s = sort_key (\<lambda>j. let p = journey_person s j in
     (ToLower (pe_Nickname p), ToLower (pe_FirstName p), ToLower (pe_LastName p)))
     (filter (plannable E workDate s) (Journeys s))"

definition FindMostRecentPriorWorkPeriodByCode :: "env \<Rightarrow> WorkPeriod \<Rightarrow> store \<Rightarrow> WorkPeriod option" where
  "FindMostRecentPriorWorkPeriodByCode E p s = first_by
     (\<lambda>w. (- wp_WorkDate w, - wp_StartsAt w, - wp_CreatedAt w, wp_ID w))
     (\<lambda>w. wp_TenantID w = TenantID E \<and> wp_ID w \<noteq> wp_ID p \<and> wp_PeriodCode w = wp_PeriodCode p \<and>
        wp_WorkDate w < wp_WorkDate p) (WorkPeriods s)"

section \<open>The checks of the service\<close>

definition ve :: "string \<Rightarrow> string \<Rightarrow> app_error" where
  "ve key message = ValidationError [(key, message)]"

text \<open>\<open>isActiveCollaborator\<close>, on a journey of the caller's tenant with its preloaded status.\<close>

definition isActivePlannedCollaborator :: "env \<Rightarrow> store \<Rightarrow> CollaboratorJourney \<Rightarrow> bool" where
  "isActivePlannedCollaborator E s j = (let st = preload rd_ID zeroReferenceData (cj_StatusID j) (References s) in
     cj_ClosedAt j = None \<and> cj_TenantID j = TenantID E \<and> rd_Type st = ''collaborator_status'' \<and>
     rd_Code st = ''ACTIVE'' \<and> rd_Active st)"

definition FindPlanningCollaboratorByID :: "env \<Rightarrow> string \<Rightarrow> store \<Rightarrow> app_error + CollaboratorJourney" where
  "FindPlanningCollaboratorByID E c s = found ErrRecordNotFound
     (first_by cj_ID (\<lambda>j. cj_ID j = c \<and> cj_TenantID j = TenantID E) (Journeys s))"

definition validatePlannedCollaborator :: "env \<Rightarrow> string \<Rightarrow> store \<Rightarrow> app_error + unit" where
  "validatePlannedCollaborator E c s = tri (FindPlanningCollaboratorByID E (TrimSpace c) s) (\<lambda>j.
     if isActivePlannedCollaborator E s j then Inr ()
     else Inl (ve ''collaboratorId'' ''Collaborator must be active and open''))"

definition loadActiveCollaborator :: "env \<Rightarrow> string \<Rightarrow> store \<Rightarrow> app_error + CollaboratorJourney" where
  "loadActiveCollaborator E c s = tri (FindPlanningCollaboratorByID E c s) (\<lambda>j.
     if isActivePlannedCollaborator E s j then Inr j else Inl (ve ''collaboratorId'' ''Collaborator must be active''))"

definition validateAvailableForWorkPeriod ::
  "env \<Rightarrow> string \<Rightarrow> string \<Rightarrow> string \<Rightarrow> store \<Rightarrow> app_error + unit" where
  "validateAvailableForWorkPeriod E w c excludeID s = (if ExistsActiveAssignmentForCollaborator E w c excludeID s
     then Inl (ve ''collaboratorId'' ''Collaborator already has an active assignment for this work period'')
     else Inr ())"

definition validateReplacementAssignment :: "env \<Rightarrow> string \<Rightarrow> string \<Rightarrow> store \<Rightarrow> app_error + unit" where
  "validateReplacementAssignment E r current s = (
     if TrimSpace r = [] then Inr ()
     else if r = current then Inl (ve ''replacementForAssignmentId'' ''Assignment cannot replace itself'')
     else tri (FindReplacementAssignmentByID E (TrimSpace r) s) (\<lambda>_. Inr ()))"

definition validateReference :: "env \<Rightarrow> string \<Rightarrow> string \<Rightarrow> string \<Rightarrow> string \<Rightarrow> store \<Rightarrow> app_error + unit" where
  "validateReference E field i typ message s =
     (if ExistsActiveReference E (TrimSpace i) typ s then Inr () else Inl (ve field message))"

text \<open>The three references of an assignment, checked in the order of the code.\<close>

definition validateReferences :: "env \<Rightarrow> string \<Rightarrow> string \<Rightarrow> string \<Rightarrow> store \<Rightarrow> app_error + unit" where
  "validateReferences E sector location task s =
     tri (validateReference E ''sectorId'' sector ''sector'' ''Sector must be active reference data of type sector'' s)
     (\<lambda>_. tri (validateReference E ''locationId'' location ''location''
        ''Location must be active reference data of type location'' s)
     (\<lambda>_. validateReference E ''taskId'' task ''task'' ''Task must be active reference data of type task'' s))"

definition validateAndLoadReference ::
  "env \<Rightarrow> string \<Rightarrow> string \<Rightarrow> string \<Rightarrow> string \<Rightarrow> store \<Rightarrow> app_error + ReferenceData" where
  "validateAndLoadReference E field i typ message s =
     tri (validateReference E field i typ message s) (\<lambda>_. FindReferenceByID E (TrimSpace i) s)"

definition effectivePlanningReferenceID :: "string \<Rightarrow> string \<Rightarrow> string \<Rightarrow> string" where
  "effectivePlanningReferenceID requested existing fallback = (
     if TrimSpace requested \<noteq> [] then TrimSpace requested
     else if TrimSpace existing \<noteq> [] then TrimSpace existing
     else TrimSpace fallback)"

definition requirePlanningReferenceFallbacks :: "string \<Rightarrow> string \<Rightarrow> string \<Rightarrow> app_error + unit" where
  "requirePlanningReferenceFallbacks sector location task = validated
     (required ''taskId'' task (required ''locationId'' location (required ''sectorId'' sector [])))"

definition isTemporaryReplacementTargetAvailability :: "string \<Rightarrow> bool" where
  "isTemporaryReplacementTargetAvailability v \<longleftrightarrow>
     normalizePlanningAvailability v \<in> set [''DAY_OFF'', ''LEAVE_OF_ABSENCE'']"

definition stringPtrOrNil :: "string \<Rightarrow> string option" where
  "stringPtrOrNil v = (if TrimSpace v = [] then None else Some (TrimSpace v))"

section \<open>One assignment\<close>

definition GetAssignmentByID :: "env \<Rightarrow> string \<Rightarrow> store \<Rightarrow> app_error + WorkPeriodAssignmentDTO" where
  "GetAssignmentByID E i s = tri (FindAssignmentByID E (TrimSpace i) s) (\<lambda>v. Inr (ToAssignmentDTO (pn_View v)))"

text \<open>The assignment after a write, read again.\<close>

definition reloaded :: "env \<Rightarrow> string \<Rightarrow> WorkPeriodAssignmentDTO app" where
  "reloaded E i = query (\<lambda>s. tri (FindAssignmentByID E i s) (\<lambda>v. Inr (ToAssignmentDTO (pn_View v))))"

definition assignment_checked ::
  "env \<Rightarrow> string \<Rightarrow> string \<Rightarrow> CreateWorkPeriodAssignmentRequest \<Rightarrow> unit app" where
  "assignment_checked E w current req =
     bnd (query (validatePlannedCollaborator E (TrimSpace (ca_CollaboratorID req))))
     (\<lambda>_. bnd (query (validateAvailableForWorkPeriod E w (TrimSpace (ca_CollaboratorID req)) current))
     (\<lambda>_. bnd (query (validateReplacementAssignment E (TrimSpace (ca_ReplacementForAssignmentID req)) current))
     (\<lambda>_. query (validateReferences E (ca_SectorID req) (ca_LocationID req) (ca_TaskID req)))))"

definition new_assignment ::
  "env \<Rightarrow> string \<Rightarrow> string \<Rightarrow> CreateWorkPeriodAssignmentRequest \<Rightarrow> WorkPeriodAssignment" where
  "new_assignment E i w req = \<lparr>wa_ID = i, wa_CreatedAt = Now E, wa_UpdatedAt = Now E,
     wa_TenantID = TenantID E, wa_WorkPeriodID = w, wa_CollaboratorID = TrimSpace (ca_CollaboratorID req),
     wa_PlannedStatus = ToUpper (TrimSpace (ca_PlannedStatus req)),
     wa_PlanningAvailability = normalizePlanningAvailability (ca_PlanningAvailability req),
     wa_ActualStatus = None,
     wa_ReplacementForAssignmentID = stringPtrOrNil (ca_ReplacementForAssignmentID req),
     wa_SectorID = TrimSpace (ca_SectorID req), wa_LocationID = TrimSpace (ca_LocationID req),
     wa_TaskID = TrimSpace (ca_TaskID req), wa_Active = True\<rparr>"

definition CreateAssignment ::
  "env \<Rightarrow> string \<Rightarrow> CreateWorkPeriodAssignmentRequest \<Rightarrow> WorkPeriodAssignmentDTO app" where
  "CreateAssignment E w req =
     bnd (lift (ValidateCreateWorkPeriodAssignment req))
     (\<lambda>_. bnd (query (FindWorkPeriodByID E (TrimSpace w)))
     (\<lambda>p. bnd (lift (ensureEditableWorkPeriod p))
     (\<lambda>_. bnd (assignment_checked E (wp_ID p) [] req)
     (\<lambda>_. bnd (newID E)
     (\<lambda>i. bnd (repoCreateAssignment E (new_assignment E i (wp_ID p) req))
     (\<lambda>_. reloaded E i))))))"

definition changed_assignment ::
  "env \<Rightarrow> UpdateWorkPeriodAssignmentRequest \<Rightarrow> WorkPeriodAssignment \<Rightarrow> WorkPeriodAssignment" where
  "changed_assignment E req a = a\<lparr>wa_CollaboratorID := TrimSpace (ca_CollaboratorID req),
     wa_PlannedStatus := ToUpper (TrimSpace (ca_PlannedStatus req)),
     wa_PlanningAvailability := (if TrimSpace (ca_PlanningAvailability req) = []
       then normalizePlanningAvailability (wa_PlanningAvailability a)
       else normalizePlanningAvailability (ca_PlanningAvailability req)),
     wa_ReplacementForAssignmentID := stringPtrOrNil (ca_ReplacementForAssignmentID req),
     wa_SectorID := TrimSpace (ca_SectorID req), wa_LocationID := TrimSpace (ca_LocationID req),
     wa_TaskID := TrimSpace (ca_TaskID req), wa_UpdatedAt := Now E\<rparr>"

definition UpdateAssignment ::
  "env \<Rightarrow> string \<Rightarrow> UpdateWorkPeriodAssignmentRequest \<Rightarrow> WorkPeriodAssignmentDTO app" where
  "UpdateAssignment E i req =
     bnd (lift (ValidateUpdateWorkPeriodAssignment req))
     (\<lambda>_. bnd (query (FindAssignmentByID E (TrimSpace i)))
     (\<lambda>v. let existing = ra_Assignment (pn_View v) in
       bnd (ensure (wa_Active existing) (ve ''id'' ''Inactive work period assignments cannot be updated''))
     (\<lambda>_. bnd (lift (ensureEditableWorkPeriod (pn_WorkPeriod v)))
     (\<lambda>_. bnd (assignment_checked E (wa_WorkPeriodID existing) (wa_ID existing) req)
     (\<lambda>_. bnd (repoUpdateAssignment E (changed_assignment E req existing))
     (\<lambda>_. reloaded E (wa_ID existing)))))))"

definition MarkActualOutcome :: "env \<Rightarrow> string \<Rightarrow> MarkActualOutcomeRequest \<Rightarrow> WorkPeriodAssignmentDTO app" where
  "MarkActualOutcome E i req =
     bnd (lift (ValidateMarkActualOutcome req))
     (\<lambda>_. bnd (query (FindAssignmentByID E (TrimSpace i)))
     (\<lambda>v. let existing = ra_Assignment (pn_View v) in
       bnd (ensure (wa_Active existing) (ve ''id'' ''Inactive work period assignments cannot be updated''))
     (\<lambda>_. bnd (ensure (wa_PlannedStatus existing = ''INCLUDED'')
          (ve ''plannedStatus'' ''Only included assignments can receive actual outcomes''))
     (\<lambda>_. bnd (lift (ensureEditableWorkPeriod (pn_WorkPeriod v)))
     (\<lambda>_. bnd (repoUpdateAssignment E (existing\<lparr>
            wa_ActualStatus := Some (ToUpper (TrimSpace (mo_ActualStatus req))), wa_UpdatedAt := Now E\<rparr>))
     (\<lambda>_. reloaded E (wa_ID existing)))))))"

definition DeactivateAssignment :: "env \<Rightarrow> string \<Rightarrow> WorkPeriodAssignmentDTO app" where
  "DeactivateAssignment E i =
     bnd (query (FindAssignmentByID E (TrimSpace i)))
     (\<lambda>v. let existing = ra_Assignment (pn_View v) in
       bnd (lift (ensureEditableWorkPeriod (pn_WorkPeriod v)))
     (\<lambda>_. if \<not> wa_Active existing then ret (ToAssignmentDTO (pn_View v)) else
       bnd (repoUpdateAssignment E (existing\<lparr>wa_Active := False, wa_UpdatedAt := Now E\<rparr>))
     (\<lambda>_. reloaded E (wa_ID existing))))"

definition DeleteAssignment :: "env \<Rightarrow> string \<Rightarrow> unit app" where
  "DeleteAssignment E i = bnd (DeactivateAssignment E i) (\<lambda>_. ret ())"

definition ListAssignmentsByWorkPeriod ::
  "env \<Rightarrow> string \<Rightarrow> WorkPeriodAssignmentListFilter \<Rightarrow> store \<Rightarrow> app_error + WorkPeriodAssignmentDTO list_result" where
  "ListAssignmentsByWorkPeriod E w f s =
     tri (FindWorkPeriodByID E (TrimSpace w) s) (\<lambda>_.
     tri (normalizeAssignmentListFilter f) (\<lambda>n. let (rows, t) = repoListAssignments E (TrimSpace w) n s in
     Inr \<lparr>li_Items = map ToAssignmentDTO rows, li_Total = t, li_Page = af_Page n, li_PageSize = af_PageSize n\<rparr>))"

text \<open>A refinement of one row; the plan itself is saved in bulk.\<close>

definition RefinePlanAssignment ::
  "env \<Rightarrow> string \<Rightarrow> PlanAssignmentRefinementRequest \<Rightarrow> PlanAssignmentRefinementResult app" where
  "RefinePlanAssignment E w req = (let c = TrimSpace (nf_CollaboratorID req) in
     bnd (lift (ValidatePlanAssignmentRefinement req))
     (\<lambda>_. bnd (query (FindWorkPeriodByID E (TrimSpace w)))
     (\<lambda>p. bnd (lift (ensureEditableWorkPeriod p))
     (\<lambda>_. bnd (query (validatePlannedCollaborator E c))
     (\<lambda>_. bnd (query (validateAndLoadReference E ''sectorId'' (nf_SectorID req) ''sector''
            ''Sector must be active reference data of type sector''))
     (\<lambda>sector. bnd (query (validateAndLoadReference E ''locationId'' (nf_LocationID req) ''location''
            ''Location must be active reference data of type location''))
     (\<lambda>location. bnd (query (validateAndLoadReference E ''taskId'' (nf_TaskID req) ''task''
            ''Task must be active reference data of type task''))
     (\<lambda>task. bnd (if nf_ApplyToFutureDefaults req
          then UpdateCollaboratorPlanningDefaults E c (TrimSpace (nf_SectorID req))
            (TrimSpace (nf_LocationID req)) (TrimSpace (nf_TaskID req))
          else ret ())
     (\<lambda>_. ret \<lparr>nz_CollaboratorID = c, nz_SectorID = TrimSpace (nf_SectorID req), nz_SectorLabel = rd_Label sector,
          nz_LocationID = TrimSpace (nf_LocationID req), nz_LocationLabel = rd_Label location,
          nz_TaskID = TrimSpace (nf_TaskID req), nz_TaskLabel = rd_Label task,
          nz_ApplyToFutureDefaults = nf_ApplyToFutureDefaults req,
          nz_FutureDefaultsUpdated = nf_ApplyToFutureDefaults req\<rparr>)))))))))"

section \<open>The template of a plan\<close>

text \<open>A Go map built from rows in order: a later row of the same key replaces an earlier one.\<close>

definition keyed :: "('r \<Rightarrow> string) \<Rightarrow> 'r list \<Rightarrow> string \<Rightarrow> 'r option" where
  "keyed key rows k = List.find (\<lambda>r. key r = k) (rev rows)"

definition assigned_to :: "RosterAssignment \<Rightarrow> string" where
  "assigned_to v = wa_CollaboratorID (ra_Assignment v)"

definition assigned_id :: "RosterAssignment \<Rightarrow> string" where
  "assigned_id v = wa_ID (ra_Assignment v)"

definition collaboratorIDForAssignmentID :: "RosterAssignment list \<Rightarrow> string option \<Rightarrow> string" where
  "collaboratorIDForAssignmentID rows i = (case i of None \<Rightarrow> [] | Some a \<Rightarrow>
     (case keyed assigned_id rows (TrimSpace a) of None \<Rightarrow> [] | Some v \<Rightarrow> assigned_to v))"

text \<open>A row of the template: the defaults of the journey, and what an assignment overrides.\<close>

definition default_row :: "store \<Rightarrow> CollaboratorJourney \<Rightarrow> WorkPeriodPlanningTemplateRow" where
  "default_row s j = \<lparr>tr_AssignmentID = [], tr_TemplateAssignmentID = [], tr_ReplacementForAssignmentID = [],
     tr_TemporaryReplacementForCollaboratorID = [], tr_CollaboratorID = cj_ID j,
     tr_CollaboratorName = assignmentCollaboratorName (journey_person s j),
     tr_CollaboratorNickname = pe_Nickname (journey_person s j),
     tr_ProjectedEndDate = formatDate (cj_ProjectedEndDate j),
     tr_PlanningAvailability = normalizePlanningAvailability (cj_PlanningAvailability j), tr_Selected = False,
     tr_SectorID = cj_SectorID j, tr_SectorLabel = rd_Label (preload rd_ID zeroReferenceData (cj_SectorID j) (References s)),
     tr_LocationID = cj_LocationID j,
     tr_LocationLabel = rd_Label (preload rd_ID zeroReferenceData (cj_LocationID j) (References s)),
     tr_TaskID = cj_TaskID j, tr_TaskLabel = rd_Label (preload rd_ID zeroReferenceData (cj_TaskID j) (References s))\<rparr>"

definition with_assignment ::
  "RosterAssignment list \<Rightarrow> RosterAssignment \<Rightarrow> WorkPeriodPlanningTemplateRow \<Rightarrow> WorkPeriodPlanningTemplateRow" where
  "with_assignment rows v row = (let a = ra_Assignment v in row\<lparr>
     tr_ReplacementForAssignmentID := stringValue (wa_ReplacementForAssignmentID a),
     tr_TemporaryReplacementForCollaboratorID := collaboratorIDForAssignmentID rows (wa_ReplacementForAssignmentID a),
     tr_Selected := (wa_PlannedStatus a = ''INCLUDED''),
     tr_SectorID := wa_SectorID a, tr_SectorLabel := rd_Label (ra_Sector v),
     tr_LocationID := wa_LocationID a, tr_LocationLabel := rd_Label (ra_Location v),
     tr_TaskID := wa_TaskID a, tr_TaskLabel := rd_Label (ra_Task v)\<rparr>)"

definition template_row ::
  "store \<Rightarrow> RosterAssignment list \<Rightarrow> RosterAssignment list \<Rightarrow> CollaboratorJourney \<Rightarrow> WorkPeriodPlanningTemplateRow" where
  "template_row s currents templates j = (let row = default_row s j in
     case keyed assigned_to currents (cj_ID j) of
       Some v \<Rightarrow> (with_assignment currents v row)\<lparr>tr_AssignmentID := assigned_id v,
         tr_PlanningAvailability := normalizePlanningAvailability (wa_PlanningAvailability (ra_Assignment v))\<rparr>
     | None \<Rightarrow> (case keyed assigned_to templates (cj_ID j) of
         Some v \<Rightarrow> (with_assignment templates v row)\<lparr>tr_TemplateAssignmentID := assigned_id v,
           tr_PlanningAvailability := (if wa_PlannedStatus (ra_Assignment v) = ''INCLUDED''
             then tr_PlanningAvailability row
             else normalizePlanningAvailability (wa_PlanningAvailability (ra_Assignment v)))\<rparr>
       | None \<Rightarrow> row))"

definition GetPlanningTemplate :: "env \<Rightarrow> string \<Rightarrow> store \<Rightarrow> app_error + WorkPeriodPlanningTemplateDTO" where
  "GetPlanningTemplate E w s = tri (FindWorkPeriodByID E (TrimSpace w) s) (\<lambda>p.
     let collaborators = ListActiveCollaboratorsForPlanning E (wp_WorkDate p) s;
         currents = ListActiveAssignmentsForWorkPeriod E (wp_ID p) s;
         source = (if currents = [] then FindMostRecentPriorWorkPeriodByCode E p s else None);
         templates = (case source of None \<Rightarrow> [] | Some q \<Rightarrow> ListActiveAssignmentsForWorkPeriod E (wp_ID q) s)
     in Inr \<lparr>tt_WorkPeriodID = wp_ID p,
       tt_SourceWorkPeriodID = (case source of None \<Rightarrow> [] | Some q \<Rightarrow> wp_ID q),
       tt_SourceWorkDate = (case source of None \<Rightarrow> [] | Some q \<Rightarrow> formatDate (wp_WorkDate q)),
       tt_SourcePeriodName = (case source of None \<Rightarrow> [] | Some q \<Rightarrow> wp_Name q),
       tt_Rows = map (template_row s currents templates) collaborators\<rparr>)"

section \<open>The bulk plan\<close>

text \<open>
  What the first pass over the rows has saved: the assignments in order, the same by collaborator, and
  the number of selected rows. A created assignment carries no associations.
\<close>

record BulkSaved =
  bs_Saved :: "RosterAssignment list"
  bs_ByCollaborator :: "(string \<times> RosterAssignment) list"
  bs_Selected :: nat

definition bare_assignment :: "WorkPeriodAssignment \<Rightarrow> RosterAssignment" where
  "bare_assignment a = \<lparr>ra_Assignment = a, ra_Person = zeroPerson, ra_Sector = zeroReferenceData,
     ra_Location = zeroReferenceData, ra_Task = zeroReferenceData\<rparr>"

definition with_saved :: "string \<Rightarrow> RosterAssignment \<Rightarrow> BulkSaved \<Rightarrow> BulkSaved" where
  "with_saved c v acc = acc\<lparr>bs_Saved := bs_Saved acc @ [v],
     bs_ByCollaborator := AList.update c v (bs_ByCollaborator acc)\<rparr>"

definition should_save :: "BulkPlanWorkPeriodAssignmentRow \<Rightarrow> bool" where
  "should_save row \<longleftrightarrow> bw_Selected row \<or> bw_AvailabilityChanged row \<or>
     TrimSpace (bw_TemporaryReplacementForCollaboratorID row) \<noteq> [] \<or>
     TrimSpace (bw_ReplacementForAssignmentID row) \<noteq> []"

definition planned_assignment ::
  "env \<Rightarrow> BulkPlanWorkPeriodAssignmentRow \<Rightarrow> string \<Rightarrow> string \<Rightarrow> string \<Rightarrow> WorkPeriodAssignment \<Rightarrow> WorkPeriodAssignment" where
  "planned_assignment E row sector location task a = a\<lparr>
     wa_PlannedStatus := (if bw_Selected row then ''INCLUDED'' else ''EXCLUDED''),
     wa_PlanningAvailability := normalizePlanningAvailability (bw_PlanningAvailability row),
     wa_ReplacementForAssignmentID := stringPtrOrNil (bw_ReplacementForAssignmentID row),
     wa_SectorID := sector, wa_LocationID := location, wa_TaskID := task, wa_Active := True,
     wa_UpdatedAt := Now E\<rparr>"

definition blank_assignment :: "env \<Rightarrow> string \<Rightarrow> string \<Rightarrow> string \<Rightarrow> WorkPeriodAssignment" where
  "blank_assignment E i w c = \<lparr>wa_ID = i, wa_CreatedAt = Now E, wa_UpdatedAt = Now E,
     wa_TenantID = TenantID E, wa_WorkPeriodID = w, wa_CollaboratorID = c, wa_PlannedStatus = [],
     wa_PlanningAvailability = [], wa_ActualStatus = None, wa_ReplacementForAssignmentID = None,
     wa_SectorID = [], wa_LocationID = [], wa_TaskID = [], wa_Active = True\<rparr>"

definition save_row ::
  "env \<Rightarrow> WorkPeriod \<Rightarrow> RosterAssignment list \<Rightarrow> BulkPlanWorkPeriodAssignmentRow \<Rightarrow> BulkSaved \<Rightarrow> BulkSaved app" where
  "save_row E p currents row acc = (let c = TrimSpace (bw_CollaboratorID row);
       target = TrimSpace (bw_TemporaryReplacementForCollaboratorID row);
       existing = keyed assigned_to currents c;
       old = (\<lambda>f. case existing of None \<Rightarrow> [] | Some v \<Rightarrow> f (ra_Assignment v)) in
     if \<not> should_save row then ret acc else
     bnd (ensure (\<not> (target \<noteq> [] \<and> target = c))
        (ve ''temporaryReplacementForCollaboratorId'' ''Replacement collaborator cannot replace themselves''))
     (\<lambda>_. bnd (query (loadActiveCollaborator E c))
     (\<lambda>j. bnd (query (validateReplacementAssignment E (TrimSpace (bw_ReplacementForAssignmentID row)) []))
     (\<lambda>_. let sector = effectivePlanningReferenceID (bw_SectorID row) (old wa_SectorID) (cj_SectorID j);
           location = effectivePlanningReferenceID (bw_LocationID row) (old wa_LocationID) (cj_LocationID j);
           task = effectivePlanningReferenceID (bw_TaskID row) (old wa_TaskID) (cj_TaskID j);
           acc = (if bw_Selected row then acc\<lparr>bs_Selected := Suc (bs_Selected acc)\<rparr> else acc) in
       bnd (if bw_Selected row then query (validateReferences E sector location task)
            else lift (requirePlanningReferenceFallbacks sector location task))
     (\<lambda>_. case existing of
         Some v \<Rightarrow> let a = planned_assignment E row sector location task (ra_Assignment v) in
           bnd (repoUpdateAssignment E a) (\<lambda>_. ret (with_saved c (v\<lparr>ra_Assignment := a\<rparr>) acc))
       | None \<Rightarrow> bnd (newID E)
           (\<lambda>i. bnd (repoCreateAssignment E
              (planned_assignment E row sector location task (blank_assignment E i (wp_ID p) c)))
           (\<lambda>a. ret (with_saved c (bare_assignment a) acc))))))))"

text \<open>
  Who replaces whom after the first pass, by the identifier of the replaced assignment. The map is filled by
  ranging over a Go map, in the order of the environment.
\<close>

definition replacement_target :: "RosterAssignment \<Rightarrow> string" where
  "replacement_target v = TrimSpace (stringValue (wa_ReplacementForAssignmentID (ra_Assignment v)))"

definition effective_assignments :: "RosterAssignment list \<Rightarrow> BulkSaved \<Rightarrow> (string \<times> RosterAssignment) list" where
  "effective_assignments currents acc =
     foldl (\<lambda>m v. AList.update (assigned_id v) v m) [] (currents @ map snd (bs_ByCollaborator acc))"

definition replacement_owners :: "env \<Rightarrow> (string \<times> RosterAssignment) list \<Rightarrow> (string \<times> string) list" where
  "replacement_owners E effective = foldl (\<lambda>m i. case map_of effective i of
       None \<Rightarrow> m
     | Some v \<Rightarrow> if replacement_target v = [] then m else AList.update (replacement_target v) (assigned_to v) m)
     [] (MapOrder E (map fst effective))"

fun set_first :: "('r \<Rightarrow> bool) \<Rightarrow> 'r \<Rightarrow> 'r list \<Rightarrow> 'r list" where
  "set_first P x [] = []"
| "set_first P x (r # rs) = (if P r then x # rs else r # set_first P x rs)"

text \<open>The checks of the second pass on a replacement and the assignment it replaces, in the order of the code.\<close>

definition replacement_error ::
  "WorkPeriod \<Rightarrow> string \<Rightarrow> (string \<times> string) list \<Rightarrow> WorkPeriodAssignment \<Rightarrow> WorkPeriodAssignment \<Rightarrow> string option" where
  "replacement_error p c owners a replaced = (
     if wa_ID a = wa_ID replaced then Some ''Replacement assignment cannot replace itself''
     else if wa_WorkPeriodID a \<noteq> wp_ID p \<or> wa_WorkPeriodID replaced \<noteq> wp_ID p
     then Some ''Temporary replacements must stay within this Work Period''
     else if \<not> isTemporaryReplacementTargetAvailability (wa_PlanningAvailability replaced)
     then Some ''Replacement target collaborator must have DAY_OFF or LEAVE_OF_ABSENCE availability''
     else if TrimSpace (stringValue (wa_ReplacementForAssignmentID replaced)) \<noteq> []
     then Some ''Replacement target collaborator cannot also be a replacement''
     else (case map_of owners (wa_ID replaced) of
         Some owner \<Rightarrow> if owner \<noteq> c then Some ''Replacement target collaborator already has a replacement'' else None
       | None \<Rightarrow> None))"

definition link_row ::
  "env \<Rightarrow> WorkPeriod \<Rightarrow> RosterAssignment list \<Rightarrow> BulkPlanWorkPeriodAssignmentRow \<Rightarrow>
   BulkSaved \<times> (string \<times> string) list \<Rightarrow> (BulkSaved \<times> (string \<times> string) list) app" where
  "link_row E p currents row = (\<lambda>(acc, owners). let c = TrimSpace (bw_CollaboratorID row);
       target = TrimSpace (bw_TemporaryReplacementForCollaboratorID row);
       refuse = (\<lambda>message. throw (ve ''temporaryReplacementForCollaboratorId'' message)) in
     if target = [] then ret (acc, owners) else
     case map_of (bs_ByCollaborator acc) c of
       None \<Rightarrow> throw (ve ''collaboratorId'' ''Replacement collaborator must be saved in this Work Period plan'')
     | Some v \<Rightarrow> let a = ra_Assignment v in
       if wa_PlannedStatus a \<noteq> ''INCLUDED''
       then refuse ''Replacement collaborator must be selected in this Work Period plan''
       else if normalizePlanningAvailability (wa_PlanningAvailability a) \<noteq> ''ACTIVE''
       then refuse ''Replacement collaborator must be available to work''
       else case (case map_of (bs_ByCollaborator acc) target of Some r \<Rightarrow> Some r | None \<Rightarrow> keyed assigned_to currents target) of
         None \<Rightarrow> refuse ''Replacement target collaborator must be part of this Work Period plan''
       | Some r \<Rightarrow> let replaced = ra_Assignment r;
           owners' = (case wa_ReplacementForAssignmentID a of None \<Rightarrow> owners
             | Some x \<Rightarrow> AList.delete (TrimSpace x) owners) in
         (case replacement_error p c owners' a replaced of
            Some message \<Rightarrow> refuse message
          | None \<Rightarrow> let a' = a\<lparr>wa_ReplacementForAssignmentID := Some (wa_ID replaced), wa_UpdatedAt := Now E\<rparr>;
              v' = v\<lparr>ra_Assignment := a'\<rparr> in
            bnd (repoUpdateAssignment E a')
            (\<lambda>_. ret (acc\<lparr>bs_ByCollaborator := AList.update c v' (bs_ByCollaborator acc),
                 bs_Saved := set_first (\<lambda>x. assigned_id x = wa_ID a) v' (bs_Saved acc)\<rparr>,
               AList.update (wa_ID replaced) c owners'))))"

definition BulkPlan ::
  "env \<Rightarrow> string \<Rightarrow> BulkPlanWorkPeriodAssignmentsRequest \<Rightarrow> BulkPlanWorkPeriodAssignmentsResult app" where
  "BulkPlan E w req =
     bnd (lift (ValidateBulkPlanWorkPeriodAssignments req))
     (\<lambda>_. bnd (query (FindWorkPeriodByID E (TrimSpace w)))
     (\<lambda>p. bnd (lift (ensureEditableWorkPeriod p))
     (\<lambda>_. bnd (query (\<lambda>s. Inr (ListActiveAssignmentsForWorkPeriod E (wp_ID p) s)))
     (\<lambda>currents. bnd (fold_each (save_row E p currents) (bu_Rows req)
          \<lparr>bs_Saved = [], bs_ByCollaborator = [], bs_Selected = 0\<rparr>)
     (\<lambda>acc. bnd (fold_each (link_row E p currents) (bu_Rows req)
          (acc, replacement_owners E (effective_assignments currents acc)))
     (\<lambda>(acc, owners). ret \<lparr>bz_Assignments = map ToAssignmentDTO (bs_Saved acc),
          bz_SelectedCount = bs_Selected acc\<rparr>))))))"

end
