(* ===== verification/PlanEffects.thy ===== *)
theory PlanEffects
  imports PlanAssignments
begin

text \<open>
  What the operations on work period assignments keep and establish: every one of them stays within the
  relation \<open>accounting\<close> of its tenant, with the plan consistent; a recorded outcome is the one the
  accruals read; and a bulk plan saves exactly the rows it is asked to save.
\<close>

section \<open>What the operations keep\<close>

lemma accounting_insert_assignment:
  assumes guards: "abort_if (assignment_insert_guards s a) = Inr ()" and T: "wa_TenantID a = T"
  shows "accounting T s (s\<lparr>Assignments := Assignments s @ [a]\<rparr>)"
proof (rule accounting_aside)
  let ?t = "s\<lparr>Assignments := Assignments s @ [a]\<rparr>"
  have id: "wa_ID a \<notin> set (map wa_ID (Assignments s))" and self: "wa_ReplacementForAssignmentID a \<noteq> Some (wa_ID a)"
    using guards by (auto simp: abort_if_ok assignment_insert_guards_def assignment_checks_def list_ex_iff)
  have key: "assignment_key a \<notin> set (map assignment_key (filter wa_Active (Assignments s)))" if "wa_Active a"
    using guards id that by (auto simp: abort_if_ok assignment_insert_guards_def assignment_key_taken_def list_ex_iff)
  have "gold_dated ?t = gold_dated s" by (simp add: gold_dated_def [abs_def])
  then show "planning_ok ?t \<and> periods_follow (WorkPeriods s) (WorkPeriods ?t)" if "planning_ok s"
    using that id self key by (auto simp: planning_ok_def)
  show "other_tenants_kept T s ?t" using T by (simp add: other_tenants_kept_def)
qed simp_all

lemma assignment_defaults_tenant [simp]:
  "wa_TenantID (with_assignment_defaults E a) = or_default (wa_TenantID a) ''default''"
  by (simp add: with_assignment_defaults_def)

lemma keeps_repoCreateAssignment:
  assumes "wa_TenantID a = TenantID E"
  shows "keeps (accounting (TenantID E)) (repoCreateAssignment E a)"
  using assms acc.R_refl
  by (auto simp: keeps_def repoCreateAssignment_def Let_def run_simps split: sum.split
      intro!: accounting_insert_assignment)

lemma updateAssignments_run: "updateAssignments P f s =
    (case abort_if (concat (map (\<lambda>a. assignment_update_guards s a (f a)) (filter P (Assignments s)))) of
       Inl e \<Rightarrow> (Inl e, s) | Inr u \<Rightarrow> (Inr (), s\<lparr>Assignments := update_where P f (Assignments s)\<rparr>))"
  by (simp add: updateAssignments_def guarded_update_def run_simps split: sum.split)

lemma one_assignment: "planning_ok s \<Longrightarrow> r \<in> set (Assignments s) \<Longrightarrow> r' \<in> set (Assignments s) \<Longrightarrow>
    assignment_of E i r \<Longrightarrow> assignment_of E i r' \<Longrightarrow> r = r'"
  using distinct_key [of wa_ID "Assignments s" r r'] by (simp add: planning_ok_def assignment_of_def)

text \<open>The guards of an update hold row by row.\<close>

lemma guards_each: "abort_if (concat (map g (filter P rows))) = Inr () \<longleftrightarrow>
    (\<forall>a \<in> set rows. P a \<longrightarrow> abort_if (g a) = Inr ())"
  by (auto simp: abort_if_ok)

lemma assignment_update_guards_ok:
  "abort_if (assignment_update_guards s a a') = Inr () \<Longrightarrow>
   wa_ReplacementForAssignmentID a' \<noteq> Some (wa_ID a') \<and> \<not> assignment_key_taken s (wa_ID a) a' \<and>
   isKnownPlannedStatus (wa_PlannedStatus a')"
  by (auto simp: abort_if_ok assignment_update_guards_def assignment_checks_def)

lemma accounting_update_assignment:
  assumes ten: "\<And>a. wa_TenantID (f a) = wa_TenantID a \<and> wa_ID (f a) = wa_ID a"
    and guards: "abort_if (concat (map (\<lambda>a. assignment_update_guards s a (f a)) (filter (assignment_of E i) (Assignments s)))) = Inr ()"
  shows "accounting (TenantID E) s (s\<lparr>Assignments := update_where (assignment_of E i) f (Assignments s)\<rparr>)"
proof (rule accounting_aside)
  let ?rows = "update_where (assignment_of E i) f (Assignments s)"
  let ?t = "s\<lparr>Assignments := ?rows\<rparr>"
  have ok: "\<forall>a \<in> set (Assignments s). assignment_of E i a \<longrightarrow>
      wa_ReplacementForAssignmentID (f a) \<noteq> Some (wa_ID a) \<and> \<not> assignment_key_taken s (wa_ID a) (f a)"
    using guards ten unfolding guards_each by (metis assignment_update_guards_ok)
  show "planning_ok ?t \<and> periods_follow (WorkPeriods s) (WorkPeriods ?t)" if plan: "planning_ok s"
  proof -
    have "distinct (map wa_ID ?rows)" "distinct (map assignment_key (filter wa_Active ?rows))"
      using plan ten ok one_assignment [OF plan]
      by (auto simp: planning_ok_def assignment_key_taken_def list_ex_iff intro!: unique_key_update [where key = wa_ID])
    moreover have "gold_dated ?t = gold_dated s" by (simp add: gold_dated_def [abs_def])
    ultimately show ?thesis
      using plan ok ten by (auto simp: planning_ok_def list_all_iff dest!: set_update_where)
  qed
  show "other_tenants_kept (TenantID E) s ?t"
    using filter_update_where_tenant [of "assignment_of E i" wa_TenantID "TenantID E" f] ten
    by (simp add: other_tenants_kept_def assignment_of_def)
qed simp_all

lemma keeps_repoUpdateAssignment: "keeps (accounting (TenantID E)) (repoUpdateAssignment E a)"
  using acc.R_refl
  by (auto simp: keeps_def repoUpdateAssignment_def updateAssignments_run assignment_row_def split: sum.split
      intro!: accounting_update_assignment)

lemmas keeps_assignment_writes = keeps_newID_acc keeps_repoUpdateAssignment keeps_repoCreateAssignment

lemma keeps_assignment_checked: "keeps (accounting T) (assignment_checked E w x req)"
  unfolding assignment_checked_def by (intro acc.keeps_intros)

lemma keeps_CreateAssignment: "keeps (accounting (TenantID E)) (CreateAssignment E w req)"
  unfolding CreateAssignment_def reloaded_def
  by (intro acc.keeps_intros keeps_assignment_checked keeps_assignment_writes) (simp add: new_assignment_def)

lemma keeps_UpdateAssignment: "keeps (accounting (TenantID E)) (UpdateAssignment E i req)"
  unfolding UpdateAssignment_def reloaded_def Let_def
  by (intro acc.keeps_intros keeps_assignment_checked keeps_assignment_writes)

lemma keeps_MarkActualOutcome: "keeps (accounting (TenantID E)) (MarkActualOutcome E i req)"
  unfolding MarkActualOutcome_def reloaded_def Let_def
  by (intro acc.keeps_intros keeps_assignment_writes)

lemma keeps_DeactivateAssignment: "keeps (accounting (TenantID E)) (DeactivateAssignment E i)"
  unfolding DeactivateAssignment_def reloaded_def Let_def
  by (intro acc.keeps_intros keeps_assignment_writes)

lemma keeps_DeleteAssignment: "keeps (accounting (TenantID E)) (DeleteAssignment E i)"
  unfolding DeleteAssignment_def by (intro acc.keeps_intros keeps_DeactivateAssignment)

lemma keeps_RefinePlanAssignment: "keeps (accounting (TenantID E)) (RefinePlanAssignment E w req)"
  unfolding RefinePlanAssignment_def Let_def UpdateCollaboratorPlanningDefaults_def
  by (intro acc.keeps_intros keeps_updateJourneys) (auto simp: journey_follows_def)

lemma keeps_save_row: "keeps (accounting (TenantID E)) (save_row E p currents row acc)"
  unfolding save_row_def Let_def
  by (intro acc.keeps_intros keeps_assignment_writes) (simp_all add: planned_assignment_def blank_assignment_def)

lemma keeps_link_row: "keeps (accounting (TenantID E)) (link_row E p currents row x)"
  unfolding link_row_def Let_def
  by (cases x, simp only: prod.case) (intro acc.keeps_intros keeps_assignment_writes)

lemma keeps_BulkPlan: "keeps (accounting (TenantID E)) (BulkPlan E w req)"
  unfolding BulkPlan_def
  by (intro acc.keeps_intros keeps_save_row keeps_link_row) (auto intro: acc.keeps_pure)

section \<open>An update changes the one row it names\<close>

lemma repoUpdateAssignment_ok:
  assumes run: "repoUpdateAssignment E a s = (Inr u, t)" and ids: "distinct (map wa_ID (Assignments s))"
    and x: "x \<in> set (Assignments s)" "wa_TenantID x = TenantID E" "wa_ID x = wa_ID a"
  shows "t = s\<lparr>Assignments := map (\<lambda>y. if y = x then assignment_row a x else y) (Assignments s)\<rparr>"
    and "isKnownPlannedStatus (wa_PlannedStatus a)"
proof -
  have one: "assignment_of E (wa_ID a) y \<longleftrightarrow> y = x" if "y \<in> set (Assignments s)" for y
    using distinct_key [OF ids that x(1)] x(2,3) by (auto simp: assignment_of_def)
  have "update_where (assignment_of E (wa_ID a)) (assignment_row a) (Assignments s) =
      map (\<lambda>y. if y = x then assignment_row a x else y) (Assignments s)"
    unfolding update_where_def using one by (intro map_cong refl) auto
  then show "t = s\<lparr>Assignments := map (\<lambda>y. if y = x then assignment_row a x else y) (Assignments s)\<rparr>"
    using run by (simp add: repoUpdateAssignment_def updateAssignments_run split: sum.splits)
  have "abort_if (assignment_update_guards s x (assignment_row a x)) = Inr ()"
    using run x one by (auto simp: repoUpdateAssignment_def updateAssignments_run guards_each split: sum.splits)
  then show "isKnownPlannedStatus (wa_PlannedStatus a)"
    using assignment_update_guards_ok by (fastforce simp: assignment_row_def)
qed

lemma FindAssignmentByID_Inr:
  "FindAssignmentByID E i s = Inr v \<Longrightarrow>
   ra_Assignment (pn_View v) \<in> set (Assignments s) \<and> wa_ID (ra_Assignment (pn_View v)) = i \<and>
   wa_TenantID (ra_Assignment (pn_View v)) = TenantID E \<and> pn_View v = with_references s (ra_Assignment (pn_View v)) \<and>
   pn_WorkPeriod v = preload wp_ID zeroWorkPeriod (wa_WorkPeriodID (ra_Assignment (pn_View v))) (WorkPeriods s)"
  by (auto simp: FindAssignmentByID_def tri_Inr found_Inr with_references_def assignment_of_def dest!: first_by_Some)

lemma FindAssignmentByID_unique:
  assumes "distinct (map wa_ID (Assignments s))" and "a \<in> set (Assignments s)" and "wa_TenantID a = TenantID E"
  shows "FindAssignmentByID E (wa_ID a) s = Inr \<lparr>pn_View = with_references s a,
    pn_WorkPeriod = preload wp_ID zeroWorkPeriod (wa_WorkPeriodID a) (WorkPeriods s)\<rparr>"
proof -
  have "first_by wa_ID (assignment_of E (wa_ID a)) (Assignments s) = Some a"
    using assms distinct_key [OF assms(1)] by (intro first_by_unique) (auto simp: assignment_of_def)
  then show ?thesis by (simp add: FindAssignmentByID_def)
qed

lemma assignment_row_simps [simp]:
  "wa_ID (assignment_row a x) = wa_ID x" "wa_TenantID (assignment_row a x) = wa_TenantID x"
  "wa_WorkPeriodID (assignment_row a x) = wa_WorkPeriodID x" "wa_Active (assignment_row a x) = wa_Active a"
  "wa_CollaboratorID (assignment_row a x) = wa_CollaboratorID a"
  "wa_PlannedStatus (assignment_row a x) = wa_PlannedStatus a"
  "wa_ActualStatus (assignment_row a x) = wa_ActualStatus a"
  "wa_PlanningAvailability (assignment_row a x) = normalizePlanningAvailability (wa_PlanningAvailability a)"
  "wa_ReplacementForAssignmentID (assignment_row a x) = wa_ReplacementForAssignmentID a"
  by (simp_all add: assignment_row_def)

section \<open>Properties\<close>

text \<open>A period with two journeys of the demonstration tenant, one of them planned.\<close>

definition demo_planned_assignment :: WorkPeriodAssignment where
  "demo_planned_assignment = \<lparr>wa_ID = ''a1'', wa_CreatedAt = 1, wa_UpdatedAt = 1, wa_TenantID = ''t1'',
     wa_WorkPeriodID = ''w1'', wa_CollaboratorID = ''j1'', wa_PlannedStatus = ''INCLUDED'',
     wa_PlanningAvailability = ''ACTIVE'', wa_ActualStatus = None, wa_ReplacementForAssignmentID = None,
     wa_SectorID = ''sec'', wa_LocationID = ''loc'', wa_TaskID = ''task'', wa_Active = True\<rparr>"

definition demo_plan :: store where
  "demo_plan = demo_store\<lparr>
     WorkPeriods := [zeroWorkPeriod\<lparr>wp_ID := ''w1'', wp_TenantID := ''t1'', wp_WorkDate := day_ns,
       wp_PeriodCode := ''D'', wp_EndsAt := 1, wp_Status := ''INFORMED''\<rparr>],
     Journeys := [demo_journey, demo_journey\<lparr>cj_ID := ''j2''\<rparr>],
     Assignments := [demo_planned_assignment]\<rparr>"

lemma demo_outcome_runs: "\<not> isl (fst (MarkActualOutcome demo_env '' a1'' \<lparr>mo_ActualStatus = ''worked ''\<rparr> demo_plan))"
  by code_simp

lemma demo_plan_ok: "planning_ok demo_plan"
  by code_simp

text \<open>
  C35. A recorded outcome is what the accruals read. A successful call writes the upper-cased outcome, one of
  the known ones, to the assignment it names and changes no other row and nothing else of it but its
  normalised availability and the time of the update; the assignment is active and included and its
  period not closed, and the list from which the accruals of that period are calculated has it with the new outcome.
\<close>

theorem outcome_recorded:
  assumes "MarkActualOutcome E i req s = (Inr d, t)" and "planning_ok s"
  shows "\<exists>a a'. a \<in> set (Assignments s) \<and> wa_ID a = TrimSpace i \<and> wa_TenantID a = TenantID E \<and> wa_Active a \<and>
    wa_PlannedStatus a = ''INCLUDED'' \<and> isKnownActualStatus (ToUpper (TrimSpace (mo_ActualStatus req))) \<and>
    wp_Status (preload wp_ID zeroWorkPeriod (wa_WorkPeriodID a) (WorkPeriods s)) \<noteq> ''CLOSED'' \<and>
    a' = a\<lparr>wa_ActualStatus := Some (ToUpper (TrimSpace (mo_ActualStatus req))),
      wa_PlanningAvailability := normalizePlanningAvailability (wa_PlanningAvailability a), wa_UpdatedAt := Now E\<rparr> \<and>
    t = s\<lparr>Assignments := map (\<lambda>x. if x = a then a' else x) (Assignments s)\<rparr> \<and>
    d = ToAssignmentDTO (with_references t a') \<and>
    assignment_view t a' \<in> set (ListAssignmentsForCalculation E (wa_WorkPeriodID a) t)"
proof -
  define st where "st = ToUpper (TrimSpace (mo_ActualStatus req))"
  from assms(1) obtain v u where v: "FindAssignmentByID E (TrimSpace i) s = Inr v"
    and valid: "ValidateMarkActualOutcome req = Inr ()"
    and open_period: "wp_Status (pn_WorkPeriod v) \<noteq> ''CLOSED''"
    and a: "wa_Active (ra_Assignment (pn_View v))" "wa_PlannedStatus (ra_Assignment (pn_View v)) = ''INCLUDED''"
    and upd: "repoUpdateAssignment E ((ra_Assignment (pn_View v))\<lparr>wa_ActualStatus := Some st, wa_UpdatedAt := Now E\<rparr>) s = (Inr (), u)"
    and d: "reloaded E (wa_ID (ra_Assignment (pn_View v))) u = (Inr d, t)"
    by (auto simp: MarkActualOutcome_def run_ok Let_def ensureEditableWorkPeriod_def st_def split: if_split_asm)
  define a where "a = ra_Assignment (pn_View v)"
  define a' where "a' = a\<lparr>wa_ActualStatus := Some st,
    wa_PlanningAvailability := normalizePlanningAvailability (wa_PlanningAvailability a), wa_UpdatedAt := Now E\<rparr>"
  note found = FindAssignmentByID_Inr [OF v, folded a_def]
  have ids: "distinct (map wa_ID (Assignments s))" using assms(2) by (simp add: planning_ok_def)
  have known: "isKnownActualStatus st"
    using valid by (auto simp: ValidateMarkActualOutcome_def validateActualStatus_def st_def required_def check_def validated_def split: if_splits)
  have "assignment_row (a\<lparr>wa_ActualStatus := Some st, wa_UpdatedAt := Now E\<rparr>) a = a'"
    by (simp add: assignment_row_def a'_def)
  then have t: "u = s\<lparr>Assignments := map (\<lambda>x. if x = a then a' else x) (Assignments s)\<rparr>"
    using repoUpdateAssignment_ok(1) [OF upd [folded a_def] ids, of a] found by simp
  have "map wa_ID (Assignments u) = map wa_ID (Assignments s)" by (auto simp: t a'_def)
  then have idsu: "distinct (map wa_ID (Assignments u))" using ids by (simp only:)
  have in_u: "a' \<in> set (Assignments u)" using found by (auto simp: t)
  have same: "wa_ID a' = wa_ID a" "wa_TenantID a' = TenantID E" using found by (simp_all add: a'_def)
  have "FindAssignmentByID E (wa_ID a) u = Inr \<lparr>pn_View = with_references u a',
      pn_WorkPeriod = preload wp_ID zeroWorkPeriod (wa_WorkPeriodID a') (WorkPeriods u)\<rparr>"
    using FindAssignmentByID_unique [OF idsu in_u same(2)] same(1) by simp
  then have du: "u = t" "d = ToAssignmentDTO (with_references t a')" using d by (auto simp: reloaded_def a_def)
  have "assignment_view t a' \<in> set (ListAssignmentsForCalculation E (wa_WorkPeriodID a) t)"
    using found a [folded a_def] in_u du(1) by (auto simp: ListAssignmentsForCalculation_def a'_def)
  moreover have "wa_Active a" "wa_PlannedStatus a = ''INCLUDED''"
    "wp_Status (preload wp_ID zeroWorkPeriod (wa_WorkPeriodID a) (WorkPeriods s)) \<noteq> ''CLOSED''"
    using a [folded a_def] open_period found by auto
  moreover have "t = s\<lparr>Assignments := map (\<lambda>x. if x = a then a' else x) (Assignments s)\<rparr>" using t du(1) by (simp only:)
  ultimately show ?thesis
    using found known [unfolded st_def] du(2) a'_def [unfolded st_def] by blast
qed

theorem outcome_recorded_witness:
  "\<exists>d t a'. MarkActualOutcome demo_env '' a1'' \<lparr>mo_ActualStatus = ''worked ''\<rparr> demo_plan = (Inr d, t) \<and>
     assignment_view t a' \<in> set (ListAssignmentsForCalculation demo_env ''w1'' t) \<and> wa_ActualStatus a' = Some ''WORKED''"
proof -
  obtain d t where run: "MarkActualOutcome demo_env '' a1'' \<lparr>mo_ActualStatus = ''worked ''\<rparr> demo_plan = (Inr d, t)"
    using succeeded [OF demo_outcome_runs] by blast
  have "ToUpper (TrimSpace ''worked '') = ''WORKED''" by code_simp
  then show ?thesis
    using outcome_recorded [OF run demo_plan_ok] run
    by (auto simp: demo_plan_def demo_planned_assignment_def)
qed

end
