(* ===== verification/SystemRuns.thy ===== *)
theory SystemRuns
  imports JourneyClosing AccrualEffects ExpenseEffects PlanEffects
begin

text \<open>
  The services of the accounting core and of planning together: a request is a call of one operation that writes,
  serving it is running that operation, and a run is a sequence of served requests of any tenants in any
  order. What every operation keeps is lifted from the single operations to every run, so that the
  properties of the root theory hold in every state the services can reach.
\<close>

section \<open>Requests\<close>

datatype request =
    ReverseRequest string string ReverseLedgerEntryRequest
  | ReplaceRequest string string ReplaceLedgerEntryRequest
  | ZeroGoldCall string string ZeroGoldRequest
  | PartialPayoutCall string string PartialPayoutRequest
  | TenantPaymentCall string string FinalSettlementRequest
  | CollaboratorPaymentCall string string FinalSettlementRequest
  | CloseCall string string CloseJourneyRequest
  | BackfillCall string bool ReceiptBackfillRequest
  | PrintCall string string
  | ReturnCall string string ReturnReceiptRequest
  | AcceptCall string string string AcceptReceiptRequest
  | CreateRunCall string CreateAccrualRunRequest
  | RecalculateCall string
  | PostRunCall string
  | CreateExpenseCall CreateExpenseRequest
  | CreateBatchCall CreateCanteenExpenseBatchRequest
  | UpdateExpenseCall string UpdateExpenseRequest
  | CancelExpenseCall string string string
  | DeactivateExpenseCall string
  | PolicyCall string string bool
  | CreatePeriodCall CreateWorkPeriodRequest
  | InformCall string
  | CreateGoldCall string CreateGoldProductionEntryRequest
  | UpdateGoldCall string UpdateGoldProductionEntryRequest
  | DeactivateGoldCall string
  | BulkPlanCall string BulkPlanWorkPeriodAssignmentsRequest
  | RefineCall string PlanAssignmentRefinementRequest
  | CreateAssignmentCall string CreateWorkPeriodAssignmentRequest
  | UpdateAssignmentCall string UpdateWorkPeriodAssignmentRequest
  | OutcomeCall string MarkActualOutcomeRequest
  | DeactivateAssignmentCall string

text \<open>The outcome of a request: what went wrong, if anything, and the state it leaves behind.\<close>

definition outcome :: "'a app \<Rightarrow> unit app" where
  "outcome m = bnd m (\<lambda>_. ret ())"

fun serve :: "env \<Rightarrow> request \<Rightarrow> unit app" where
  "serve E (ReverseRequest i a q) = outcome (ReverseEntry E i a q)"
| "serve E (ReplaceRequest i a q) = outcome (ReplaceEntry E i a q)"
| "serve E (ZeroGoldCall c a q) = outcome (ZeroGold E c a q)"
| "serve E (PartialPayoutCall c a q) = outcome (PartialPayout E c a q)"
| "serve E (TenantPaymentCall c a q) = outcome (FinalTenantPayment E c a q)"
| "serve E (CollaboratorPaymentCall c a q) = outcome (FinalCollaboratorPayment E c a q)"
| "serve E (CloseCall c a q) = outcome (CloseJourney E c a q)"
| "serve E (BackfillCall a dry q) = outcome (BackfillDebitLedgerReceipts E a dry q)"
| "serve E (PrintCall i a) = outcome (PrintReceipt E i a)"
| "serve E (ReturnCall i a q) = outcome (ReturnReceipt E i a q)"
| "serve E (AcceptCall i a party q) = outcome (AcceptReceipt E i a party q)"
| "serve E (CreateRunCall w q) = outcome (CreateRun E w q)"
| "serve E (RecalculateCall i) = outcome (RecalculateRun E i)"
| "serve E (PostRunCall i) = outcome (PostRun E i)"
| "serve E (CreateExpenseCall q) = outcome (CreateExpense E q)"
| "serve E (CreateBatchCall q) = outcome (CreateCanteenBatch E q)"
| "serve E (UpdateExpenseCall i q) = outcome (UpdateExpense E i q)"
| "serve E (CancelExpenseCall i reason a) = outcome (CancelExpense E i reason a)"
| "serve E (DeactivateExpenseCall i) = outcome (DeactivateExpense E i)"
| "serve E (PolicyCall T a b) = outcome (UpdateSecondPersonApprovalPolicy E T a b)"
| "serve E (CreatePeriodCall q) = outcome (CreateWorkPeriod E q)"
| "serve E (InformCall w) = outcome (InformWorkPeriod E w)"
| "serve E (CreateGoldCall w q) = outcome (CreateGoldEntry E w q)"
| "serve E (UpdateGoldCall i q) = outcome (UpdateGoldEntry E i q)"
| "serve E (DeactivateGoldCall i) = outcome (DeactivateGoldEntry E i)"
| "serve E (BulkPlanCall w q) = outcome (BulkPlan E w q)"
| "serve E (RefineCall w q) = outcome (RefinePlanAssignment E w q)"
| "serve E (CreateAssignmentCall w q) = outcome (CreateAssignment E w q)"
| "serve E (UpdateAssignmentCall i q) = outcome (UpdateAssignment E i q)"
| "serve E (OutcomeCall i q) = outcome (MarkActualOutcome E i q)"
| "serve E (DeactivateAssignmentCall i) = outcome (DeactivateAssignment E i)"

text \<open>The tenant a request acts on, and whether it updates the approval policy.\<close>

fun acts_on :: "env \<Rightarrow> request \<Rightarrow> string" where
  "acts_on E (PolicyCall T a b) = normalizedTenantID E T"
| "acts_on E _ = TenantID E"

fun sets_policy :: "request \<Rightarrow> bool" where
  "sets_policy (PolicyCall T a b) = True"
| "sets_policy _ = False"

text \<open>A run: each request finds the state the one before it left.\<close>

inductive run :: "store \<Rightarrow> (env \<times> request) list \<Rightarrow> store \<Rightarrow> bool" where
  idle: "run s [] s"
| served: "run s qs t \<Longrightarrow> serve E q t = (r, u) \<Longrightarrow> run s (qs @ [(E, q)]) u"

section \<open>One request\<close>

lemma outcome_run: "outcome m s = (r, t) \<longleftrightarrow> (\<exists>v. m s = (v, t) \<and> r = map_sum id (\<lambda>_. ()) v)"
  by (auto simp: outcome_def bnd_def split: prod.splits sum.splits)

lemma keeps_outcome: "keeps R m \<Longrightarrow> keeps R (outcome m)"
  by (auto simp: keeps_def outcome_def bnd_def split: prod.splits sum.splits) (metis snd_conv)+

lemma keeps_serve: "\<not> sets_policy q \<Longrightarrow> keeps (accounting (TenantID E)) (serve E q)"
  by (cases q) (simp_all add: keeps_outcome FinalTenantPayment_def FinalCollaboratorPayment_def
      keeps_ReverseEntry keeps_ReplaceEntry keeps_ZeroGold keeps_PartialPayout keeps_postFinalSettlement
      keeps_CloseJourney keeps_Backfill keeps_PrintReceipt keeps_ReturnReceipt keeps_AcceptReceipt
      keeps_CreateRun keeps_RecalculateRun keeps_PostRun keeps_CreateExpense keeps_CreateCanteenBatch
      keeps_UpdateExpense keeps_CancelExpense keeps_DeactivateExpense
      keeps_CreateWorkPeriod keeps_InformWorkPeriod keeps_CreateGoldEntry keeps_UpdateGoldEntry
      keeps_DeactivateGoldEntry keeps_BulkPlan keeps_RefinePlanAssignment keeps_CreateAssignment
      keeps_UpdateAssignment keeps_MarkActualOutcome keeps_DeactivateAssignment)

text \<open>The policy is a setting: an update of it touches the settings of its tenant only.\<close>

definition settings_only :: "string \<Rightarrow> store \<Rightarrow> store \<Rightarrow> bool" where
  "settings_only T s t \<longleftrightarrow>
     filter (\<lambda>r. ts_TenantID r \<noteq> T) (TenantSettings t) = filter (\<lambda>r. ts_TenantID r \<noteq> T) (TenantSettings s) \<and>
     (\<exists>x n. t = s\<lparr>TenantSettings := x, IdsUsed := n\<rparr>)"

lemma settings_only_write:
  "filter (\<lambda>r. ts_TenantID r \<noteq> T) x = filter (\<lambda>r. ts_TenantID r \<noteq> T) (TenantSettings s) \<Longrightarrow>
   settings_only T s (s\<lparr>TenantSettings := x\<rparr>)"
  "settings_only T s (s\<lparr>IdsUsed := n\<rparr>)"
  unfolding settings_only_def
  by (simp, intro exI [of _ x] exI [of _ "IdsUsed s"], simp)
    (simp, intro exI [of _ "TenantSettings s"] exI [of _ n], simp)

interpretation setting: state_frame "settings_only T" for T
proof
  show "settings_only T s s" for s using settings_only_write(2) [of T s "IdsUsed s"] by simp
  show "settings_only T s u" if st: "settings_only T s t" and tu: "settings_only T t u" for s t u
  proof -
    obtain x n where t: "t = s\<lparr>TenantSettings := x, IdsUsed := n\<rparr>"
      using st unfolding settings_only_def by blast
    obtain y m where u: "u = t\<lparr>TenantSettings := y, IdsUsed := m\<rparr>"
      using tu unfolding settings_only_def by blast
    have "u = s\<lparr>TenantSettings := y, IdsUsed := m\<rparr>" by (simp add: t u)
    then show ?thesis using st tu unfolding settings_only_def by auto
  qed
qed

lemma keeps_UpsertTenantSetting: "keeps (settings_only (normalizedTenantID E T)) (UpsertTenantSetting E T k v d by)"
  unfolding UpsertTenantSetting_def Let_def
  by (intro setting.keeps_transaction keeps_keeps_ok setting.keeps_intros)
    (auto simp: keeps_def settings_only_write found_Inr dest!: first_by_Some
      intro!: settings_only_write filter_update_where_tenant)

lemma TrimSpace_TenantID [simp]: "TrimSpace (TenantID E) = TenantID E"
proof -
  have "TrimSpace ''default'' = ''default''" by code_simp
  then show ?thesis by (simp add: TenantID_def split: option.split)
qed

lemma normalizedTenantID_idem [simp]: "normalizedTenantID E (normalizedTenantID E T) = normalizedTenantID E T"
  by (simp add: normalizedTenantID_def Let_def)

lemma keeps_policy: "keeps (settings_only (normalizedTenantID E T)) (serve E (PolicyCall T a b))"
  unfolding serve.simps UpdateSecondPersonApprovalPolicy_def Let_def
  using keeps_UpsertTenantSetting [of E "normalizedTenantID E T"]
  by (intro keeps_outcome setting.keeps_intros) simp_all

section \<open>What every request keeps\<close>

lemma settings_evolve: "settings_only T s t \<Longrightarrow> evolves s t \<and> receipted s t"
  using value_unit_in_cong [of t s] link_ok_cong [of t s]
  by (auto simp: settings_only_def evolves_def receipted_def receipts_evolve_refl books_ok_def)

lemma serve_evolves:
  assumes "serve E q s = (r, t)"
  shows "evolves s t \<and> receipted s t"
proof (cases "sets_policy q")
  case True
  then obtain T a b where "q = PolicyCall T a b" by (cases q) simp_all
  then show ?thesis using assms keepsD [OF keeps_policy] settings_evolve by blast
next
  case False
  then show ?thesis
    using keepsD [OF keeps_serve assms] by (simp add: accounting_def grows_def)
qed

lemma run_evolves: "run s qs t \<Longrightarrow> evolves s t \<and> receipted s t"
proof (induction rule: run.induct)
  case (idle s)
  then show ?case by (simp add: evolves_refl receipted_def)
next
  case (served s qs t E q r u)
  then show ?case using serve_evolves evolves_trans receipted_trans by blast
qed

text \<open>What a tenant sees of the store: its rows of every table, and the tables no operation writes.\<close>

definition tenant_view where
  "tenant_view T s = (
     (Tenants s, References s, GlobalPeople s, Memberships s, People s, PriceListItems s, GoldPrices s),
     filter (\<lambda>x. ts_TenantID x = T) (TenantSettings s), filter (\<lambda>x. cj_TenantID x = T) (Journeys s),
     filter (\<lambda>x. ex_TenantID x = T) (Expenses s), filter (\<lambda>x. js_TenantID x = T) (Settlements s),
     filter (\<lambda>x. lr_TenantID x = T) (Receipts s), filter (\<lambda>x. wp_TenantID x = T) (WorkPeriods s),
     filter (\<lambda>x. wa_TenantID x = T) (Assignments s), filter (\<lambda>x. ge_TenantID x = T) (GoldProduction s),
     filter (\<lambda>x. ar_TenantID x = T) (AccrualRuns s), filter (\<lambda>x. ai_TenantID x = T) (AccrualItems s),
     filter (\<lambda>x. le_TenantID x = T) (Ledger s))"

lemma filter_view:
  assumes "filter (\<lambda>x. f x \<noteq> T') xs = filter (\<lambda>x. f x \<noteq> T') ys" and "T' \<noteq> T"
  shows "filter (\<lambda>x. f x = T) xs = filter (\<lambda>x. f x = T) ys"
proof -
  have "filter (\<lambda>x. f x = T) zs = filter (\<lambda>x. f x = T) (filter (\<lambda>x. f x \<noteq> T') zs)" for zs
    using assms(2) by (induction zs) auto
  then show ?thesis using assms(1) by metis
qed

lemma kept_view: "other_tenants_kept T' s t \<Longrightarrow> T' \<noteq> T \<Longrightarrow> tenant_view T t = tenant_view T s"
  unfolding other_tenants_kept_def tenant_view_def prod.inject
  by (elim conjE, (intro conjI; (assumption | (rule filter_view, assumption, assumption) | (rule arg_cong [of "TenantSettings t"], assumption))))

lemma setting_view:
  assumes "settings_only T' s t" and "T' \<noteq> T"
  shows "tenant_view T t = tenant_view T s"
proof -
  have "filter (\<lambda>x. ts_TenantID x = T) (TenantSettings t) = filter (\<lambda>x. ts_TenantID x = T) (TenantSettings s)"
    using assms by (intro filter_view [of _ T']) (simp_all add: settings_only_def)
  then show ?thesis using assms by (auto simp: settings_only_def tenant_view_def)
qed

lemma serve_view:
  assumes "serve E q s = (r, t)" and "acts_on E q \<noteq> T"
  shows "tenant_view T t = tenant_view T s"
proof (cases "sets_policy q")
  case True
  then obtain T' a b where q: "q = PolicyCall T' a b" by (cases q) simp_all
  show ?thesis
    using setting_view [OF keepsD [OF keeps_policy assms(1) [unfolded q]]] assms(2) by (simp add: q)
next
  case False
  then have "acts_on E q = TenantID E" by (cases q) simp_all
  moreover have "other_tenants_kept (TenantID E) s t"
    using keepsD [OF keeps_serve [OF False] assms(1)] by (simp add: accounting_def grows_def)
  ultimately show ?thesis using assms(2) by (intro kept_view) simp_all
qed

section \<open>The approval policy\<close>

text \<open>The reason and the actor of a request for which the policy can require a second person.\<close>

fun reason_of :: "request \<Rightarrow> (CorrectionReasonRequest \<times> string) option" where
  "reason_of (ReverseRequest i a q) = Some (rv_Reason q, a)"
| "reason_of (ReplaceRequest i a q) = Some (rp_Reason q, a)"
| "reason_of (ZeroGoldCall c a q) = Some (zg_Reason q, a)"
| "reason_of (PartialPayoutCall c a q) = Some (pp_Reason q, a)"
| "reason_of (TenantPaymentCall c a q) = Some (fs_Reason q, a)"
| "reason_of (CollaboratorPaymentCall c a q) = Some (fs_Reason q, a)"
| "reason_of (CloseCall c a q) = Some (cl_Reason q, a)"
| "reason_of (BackfillCall a dry q) = Some (bf_Reason q, TrimSpace a)"
| "reason_of _ = None"

lemma served_sensitive:
  assumes "serve E q s = (Inr u, t)" and "reason_of q = Some (reason, a)"
  shows "requireSecondApprovalWhenConfigured E reason a s = Inr ()"
  using assms
  by (cases q)
    (auto simp: outcome_def bnd_ok ReverseEntry_def ReplaceEntry_def ZeroGold_def PartialPayout_def FinalTenantPayment_def
      FinalCollaboratorPayment_def postFinalSettlement_def CloseJourney_def BackfillDebitLedgerReceipts_def Let_def
      bnd_query bnd_lift split: sum.splits)

definition policy_on :: "string \<Rightarrow> store \<Rightarrow> bool" where
  "policy_on T s \<longleftrightarrow> (\<exists>row. first_by ts_ID
     (\<lambda>r. ts_TenantID r = T \<and> ts_Key r = SecondPersonApprovalPolicyKey) (TenantSettings s) = Some row \<and>
     parseBoolSetting (ts_Value row))"

lemma policy_key: "TrimSpace SecondPersonApprovalPolicyKey = SecondPersonApprovalPolicyKey"
  by code_simp

lemma normalizedTenantID_TenantID [simp]: "normalizedTenantID E (TenantID E) = TenantID E"
  by (simp add: normalizedTenantID_def Let_def)

lemma policy_required:
  "policy_on (TenantID E) s \<Longrightarrow> sensitiveOperationsRequireSecondApproval E (TenantID E) s = Inr True"
  by (auto simp: policy_on_def sensitiveOperationsRequireSecondApproval_def GetTenantSettingRow_def policy_key)

lemma first_by_view:
  "filter Q xs = filter Q ys \<Longrightarrow> (\<And>r. P r \<Longrightarrow> Q r) \<Longrightarrow> first_by key P xs = first_by key P ys"
proof -
  assume eq: "filter Q xs = filter Q ys" and PQ: "\<And>r. P r \<Longrightarrow> Q r"
  have "filter P zs = filter P (filter Q zs)" for zs using PQ by (induction zs) auto
  then show ?thesis unfolding first_by_def using eq by metis
qed

lemma policy_view: "tenant_view T t = tenant_view T s \<Longrightarrow> policy_on T t = policy_on T s"
  unfolding policy_on_def tenant_view_def
  by (subst first_by_view [of "\<lambda>x. ts_TenantID x = T" "TenantSettings t" "TenantSettings s"]) simp_all

lemma policy_kept:
  assumes "run s qs t" and "\<And>E q. (E, q) \<in> set qs \<Longrightarrow> \<not> (sets_policy q \<and> acts_on E q = T)"
  shows "policy_on T t = policy_on T s"
  using assms
proof (induction rule: run.induct)
  case (served s qs t E q r u)
  have "policy_on T u = policy_on T t"
  proof (cases "acts_on E q = T")
    case True
    then have "\<not> sets_policy q" using served.prems [of E q] by simp
    then have "TenantSettings u = TenantSettings t"
      using keepsD [OF keeps_serve served.hyps(2)] by (simp add: accounting_def grows_def other_tenants_kept_def)
    then show ?thesis by (simp add: policy_on_def)
  qed (rule policy_view [OF serve_view [OF served.hyps(2)]])
  then show ?case using served by simp
qed simp

lemma first_by_min: "first_by key P rows = Some r \<Longrightarrow> x \<in> set rows \<Longrightarrow> P x \<Longrightarrow> key r \<le> key x"
proof -
  assume a: "first_by key P rows = Some r" and x: "x \<in> set rows" "P x"
  then obtain y ys where f: "filter P rows = y # ys" and r: "r = arg_min_list key (y # ys)"
    by (auto simp: first_by_def split: list.splits)
  have "x \<in> set (y # ys)" using x unfolding f [symmetric] by simp
  then show ?thesis unfolding r f_arg_min_list_f [of "y # ys" key, simplified] by (intro Min_le) auto
qed

lemma first_by_update:
  assumes "first_by key P rows = Some row" and "key row' = key row" and "P row'" and "Q row" and "\<And>r. P r \<Longrightarrow> Q r"
  shows "first_by key P (update_where (\<lambda>r. key r = key row \<and> Q r) (\<lambda>_. row') rows) = Some row'" (is "first_by key P ?new = _")
proof -
  have old: "row \<in> set rows" "P row" using first_by_Some [OF assms(1)] by simp_all
  then have new: "row' \<in> set ?new" using assms(4) by (force simp: update_where_def)
  then obtain z where z: "first_by key P ?new = Some z" using first_by_None [of key P ?new] assms(3) by fastforce
  have "z \<in> set ?new" "P z" "key z \<le> key row'" using first_by_Some [OF z] first_by_min [OF z new assms(3)] by simp_all
  moreover have "key row \<le> key x" if "x \<in> set rows" "P x" for x using first_by_min [OF assms(1) that] .
  ultimately have "z = row'"
    using assms(2,5) by (auto simp: update_where_def split: if_splits) (metis order.antisym)
  then show ?thesis using z by simp
qed

lemma upsert_row:
  assumes "UpsertTenantSetting E T k v d a s = (Inr row, t)"
  shows "first_by ts_ID (\<lambda>r. ts_TenantID r = normalizedTenantID E T \<and> ts_Key r = TrimSpace k) (TenantSettings t) = Some row \<and>
    ts_Value row = TrimSpace v"
proof -
  let ?P = "\<lambda>r. ts_TenantID r = normalizedTenantID E T \<and> ts_Key r = TrimSpace k"
  show ?thesis
  proof (cases "first_by ts_ID ?P (TenantSettings s)")
    case None
    then have new: "first_by ts_ID ?P (TenantSettings s @ [x]) = Some x" if "?P x" for x
      using first_by_append_None [of "TenantSettings s" ?P ts_ID "[x]"] that
      by (simp add: first_by_None first_by_single)
    show ?thesis
      using assms None
      by (auto simp: UpsertTenantSetting_def Let_def transaction_ok attempt_query bnd_ok new)
  next
    case (Some old)
    define new where "new = old\<lparr>ts_Value := TrimSpace v, ts_Description := TrimSpace d,
      ts_UpdatedBy := TrimSpace a, ts_UpdatedAt := Now E\<rparr>"
    have "first_by ts_ID ?P (update_where (\<lambda>r. ts_ID r = ts_ID old \<and> ts_TenantID r = normalizedTenantID E T)
        (\<lambda>_. new) (TenantSettings s)) = Some new"
      using first_by_Some [OF Some] by (intro first_by_update [OF Some]) (simp_all add: new_def)
    moreover have "row = new \<and> TenantSettings t = update_where (\<lambda>r. ts_ID r = ts_ID old \<and>
        ts_TenantID r = normalizedTenantID E T) (\<lambda>_. new) (TenantSettings s)"
      using assms Some by (auto simp: UpsertTenantSetting_def Let_def transaction_ok attempt_query new_def)
    ultimately show ?thesis by (simp add: new_def)
  qed
qed

lemma policy_switched_on:
  assumes "UpdateSecondPersonApprovalPolicy E T a True s = (Inr p, t)"
  shows "policy_on (normalizedTenantID E T) t"
proof -
  from assms obtain row where "UpsertTenantSetting E (normalizedTenantID E T) SecondPersonApprovalPolicyKey
      (formatBoolSetting True)
      ''Require second-person approval for sensitive current-account operations'' a s = (Inr row, t)"
    by (auto simp: UpdateSecondPersonApprovalPolicy_def Let_def bnd_ok)
  from upsert_row [OF this] have "first_by ts_ID (\<lambda>r. ts_TenantID r = normalizedTenantID E T \<and>
      ts_Key r = SecondPersonApprovalPolicyKey) (TenantSettings t) = Some row"
    and "ts_Value row = TrimSpace (formatBoolSetting True)" by (simp_all add: policy_key)
  moreover have "parseBoolSetting (TrimSpace (formatBoolSetting True))" by code_simp
  ultimately show ?thesis by (auto simp: policy_on_def)
qed

end
