(* ===== verification/PeriodLife.thy ===== *)
theory PeriodLife
  imports SystemRuns
begin

text \<open>
  The life of the work periods as an abstract machine, and the services as a refinement of it. The
  machine knows a plan only as a list of periods with the phase each one is in: a new period starts planned, a
  planned one is informed, and any one is posted. Whatever requests are served, the periods of the store go
  through steps of this machine.
\<close>

section \<open>The machine\<close>

datatype phase = Planned | Informed | Posted | Other

definition phase_of :: "string \<Rightarrow> phase" where
  "phase_of st = (if st = ''PLANNING'' then Planned else if st = ''INFORMED'' then Informed
     else if st \<in> {''PARTIALLY_POSTED'', ''FULLY_POSTED''} then Posted else Other)"

type_synonym plan = "(string \<times> phase) list"

inductive plan_step :: "plan \<Rightarrow> plan \<Rightarrow> bool" where
  create: "i \<notin> fst ` set m \<Longrightarrow> plan_step m (m @ [(i, Planned)])"
| inform: "plan_step (m @ (i, Planned) # n) (m @ (i, Informed) # n)"
| post: "plan_step (m @ (i, ph) # n) (m @ (i, Posted) # n)"

text \<open>What the machine sees of the store.\<close>

definition plan_of :: "WorkPeriod list \<Rightarrow> plan" where
  "plan_of ps = map (\<lambda>p. (wp_ID p, phase_of (wp_Status p))) ps"

section \<open>The machine keeps its promises\<close>

text \<open>A posted period stays posted and an informed one is never planned again; periods do not vanish.\<close>

fun rank :: "phase \<Rightarrow> nat" where
  "rank Other = 0"
| "rank Planned = 0"
| "rank Informed = 1"
| "rank Posted = 2"

lemma plan_step_keeps:
  "plan_step m n \<Longrightarrow> j < length m \<Longrightarrow>
   j < length n \<and> fst (n ! j) = fst (m ! j) \<and> rank (snd (m ! j)) \<le> rank (snd (n ! j)) \<and>
   (snd (n ! j) = Other \<longrightarrow> snd (m ! j) = Other)"
proof (induction rule: plan_step.induct)
  case (post m i ph n)
  then show ?case by (cases ph) (auto simp: nth_append nth_Cons split: nat.split)
qed (auto simp: nth_append nth_Cons split: nat.split)

lemma plan_steps_keep:
  "plan_step\<^sup>*\<^sup>* m n \<Longrightarrow> j < length m \<Longrightarrow>
   j < length n \<and> fst (n ! j) = fst (m ! j) \<and> rank (snd (m ! j)) \<le> rank (snd (n ! j)) \<and>
   (snd (n ! j) = Other \<longrightarrow> snd (m ! j) = Other)"
proof (induction rule: rtranclp_induct)
  case (step n n')
  then show ?case using plan_step_keeps [OF step.hyps(2), of j] by auto
qed simp

section \<open>The store follows it\<close>

lemma period_step_phase: "period_step a b \<Longrightarrow> plan_step (m @ (i, phase_of a) # n) (m @ (i, phase_of b) # n)"
proof (induction rule: period_step.induct)
  case inform
  then show ?case using plan_step.inform by (simp add: phase_of_def)
qed (simp_all add: phase_of_def [of "''PARTIALLY_POSTED''"] phase_of_def [of "''FULLY_POSTED''"] plan_step.post)

lemma period_steps_phase:
  "period_step\<^sup>*\<^sup>* a b \<Longrightarrow> plan_step\<^sup>*\<^sup>* (m @ (i, phase_of a) # n) (m @ (i, phase_of b) # n)"
  by (induction rule: rtranclp_induct) (auto intro: rtranclp.rtrancl_into_rtrancl period_step_phase)

lemma rows_advance:
  "list_all2 period_follows ps ps' \<Longrightarrow> plan_step\<^sup>*\<^sup>* (m @ plan_of ps) (m @ plan_of ps')"
proof (induction arbitrary: m rule: list_all2_induct)
  case (Cons p ps p' ps')
  have "plan_step\<^sup>*\<^sup>* (m @ plan_of (p # ps)) (m @ plan_of (p' # ps))"
    using Cons.hyps(1) period_steps_phase [of "wp_Status p" "wp_Status p'" m "wp_ID p"]
    by (simp add: plan_of_def period_follows_def)
  also have "plan_step\<^sup>*\<^sup>* (m @ plan_of (p' # ps)) (m @ plan_of (p' # ps'))"
    using Cons.IH [of "m @ plan_of [p']"] by (simp add: plan_of_def)
  finally show ?case .
qed (simp add: plan_of_def)

lemma rows_created:
  assumes "distinct (map wp_ID (ps @ qs))" and "list_all (\<lambda>p. period_step\<^sup>*\<^sup>* ''PLANNING'' (wp_Status p)) qs"
  shows "plan_step\<^sup>*\<^sup>* (plan_of ps) (plan_of (ps @ qs))"
  using assms
proof (induction qs rule: rev_induct)
  case (snoc q qs)
  have "plan_step\<^sup>*\<^sup>* (plan_of ps) (plan_of (ps @ qs))" using snoc by simp
  also have "plan_step (plan_of (ps @ qs)) (plan_of (ps @ qs) @ [(wp_ID q, Planned)])"
    using snoc.prems(1) by (intro plan_step.create) (auto simp: plan_of_def)
  also have "plan_step\<^sup>*\<^sup>* (plan_of (ps @ qs) @ [(wp_ID q, Planned)]) (plan_of (ps @ qs @ [q]))"
    using snoc.prems(2) period_steps_phase [of "''PLANNING''" "wp_Status q" "plan_of (ps @ qs)" "wp_ID q" "[]"]
    by (simp add: plan_of_def phase_of_def)
  finally show ?case .
qed simp

lemma periods_follow_plan:
  assumes "periods_follow ps ps'" and "distinct (map wp_ID ps')"
  shows "plan_step\<^sup>*\<^sup>* (plan_of ps) (plan_of ps')"
proof -
  let ?old = "take (length ps) ps'" and ?new = "drop (length ps) ps'"
  have "plan_step\<^sup>*\<^sup>* (plan_of ps) (plan_of ?old)"
    using assms(1) rows_advance [of ps ?old "[]"] by (simp add: periods_follow_def rows_follow_def)
  also have "plan_step\<^sup>*\<^sup>* (plan_of ?old) (plan_of (?old @ ?new))"
    using assms by (intro rows_created) (simp_all add: periods_follow_def)
  finally show ?thesis by simp
qed

text \<open>A day in the life of a period: created and informed.\<close>

lemma demo_created: "serve demo_env (CreatePeriodCall demo_new_period) demo_store = (Inr (), demo_planned)"
  using succeeded [OF demo_new_period_runs] by (auto simp: outcome_run demo_planned_def)

text \<open>
  C5. The services refine the abstract machine of the work periods. However the requests of all tenants
  interleave, from a consistent plan the periods of the store move only by steps of the machine: new periods start
  planned, planned ones are informed, any can be posted. So no period vanishes or changes its place, and none
  goes back to an earlier phase.
\<close>

theorem services_refine_period_machine:
  assumes "run s qs t" and "planning_ok s"
  shows "plan_step\<^sup>*\<^sup>* (plan_of (WorkPeriods s)) (plan_of (WorkPeriods t)) \<and>
    (\<forall>j < length (WorkPeriods s). j < length (WorkPeriods t) \<and>
       wp_ID (WorkPeriods t ! j) = wp_ID (WorkPeriods s ! j) \<and>
       rank (phase_of (wp_Status (WorkPeriods s ! j))) \<le> rank (phase_of (wp_Status (WorkPeriods t ! j))))"
proof -
  have "planning_ok t" "periods_follow (WorkPeriods s) (WorkPeriods t)"
    using run_evolves [OF assms(1)] assms(2) by (simp_all add: evolves_def)
  then have steps: "plan_step\<^sup>*\<^sup>* (plan_of (WorkPeriods s)) (plan_of (WorkPeriods t))"
    by (intro periods_follow_plan) (simp_all add: planning_ok_def)
  moreover have "length (plan_of ps) = length ps" for ps by (simp add: plan_of_def)
  ultimately show ?thesis
    using plan_steps_keep [OF steps] by (fastforce simp: plan_of_def)
qed

theorem services_refine_period_machine_witness:
  "plan_step\<^sup>*\<^sup>* [] (plan_of (WorkPeriods (snd (serve demo_env (InformCall ''n'') demo_planned))))"
proof -
  obtain r t where inform: "serve demo_env (InformCall ''n'') demo_planned = (r, t)" by (cases "serve demo_env (InformCall ''n'') demo_planned")
  have "run demo_store ([] @ [(demo_env, CreatePeriodCall demo_new_period)]) demo_planned"
    by (rule run.served [OF run.idle demo_created])
  from services_refine_period_machine [OF run.served [OF this inform] demo_planning(1)]
  moreover have "plan_of (WorkPeriods demo_store) = []" by (simp add: plan_of_def demo_store_def)
  ultimately show ?thesis by (simp only: inform snd_conv)
qed

end
