(* ===== verification/BulkPlanning.thy ===== *)
theory BulkPlanning
  imports PlanEffects
begin

text \<open>
  The bulk plan of a work period (\<open>BulkPlan\<close> of \<open>service_impl.go\<close> in \<open>backend/internal/workperiodassignments\<close>)
  saves exactly the rows it is asked to save: the two passes over the rows keep an invariant between the
  assignments of the store, the copies the service holds of them, and the rows gone through so far.
\<close>

section \<open>Rows and slots\<close>

text \<open>A loop with local variables keeps an invariant over the rows it has gone through.\<close>

lemma fold_each_invariant:
  assumes "fold_each f xs a s = (Inr b, t)" and "I [] a s"
    and step: "\<And>ys x zs a s b t. xs = ys @ x # zs \<Longrightarrow> I ys a s \<Longrightarrow> f x a s = (Inr b, t) \<Longrightarrow> I (ys @ [x]) b t"
  shows "I xs b t"
proof -
  have "fold_each f zs a s = (Inr b, t) \<Longrightarrow> xs = ys @ zs \<Longrightarrow> I ys a s \<Longrightarrow> I xs b t" for ys zs a s
  proof (induction zs arbitrary: ys a s)
    case (Cons x zs)
    from Cons.prems(1) obtain a' u where x: "f x a s = (Inr a', u)" and zs: "fold_each f zs a' u = (Inr b, t)"
      by (auto simp: bnd_ok)
    show ?case
      using Cons.IH [OF zs, of "ys @ [x]"] Cons.prems(2) step [OF Cons.prems(2,3) x] by simp
  qed simp
  from this [OF assms(1), of "[]"] show ?thesis using assms(2) by simp
qed

text \<open>The collaborators of the rows, which the validation makes distinct.\<close>

definition row_collaborator :: "BulkPlanWorkPeriodAssignmentRow \<Rightarrow> string" where
  "row_collaborator row = TrimSpace (bw_CollaboratorID row)"

definition row_target :: "BulkPlanWorkPeriodAssignmentRow \<Rightarrow> string" where
  "row_target row = TrimSpace (bw_TemporaryReplacementForCollaboratorID row)"

lemma check_Nil_iff: "check b k v fs = [] \<longleftrightarrow> \<not> b \<and> fs = []"
  by (simp add: check_def)

lemma bulk_row_errors_Nil:
  "bulk_row_errors n seen rows fs = [] \<Longrightarrow> fs = [] \<and> distinct (map row_collaborator rows) \<and>
   (\<forall>row \<in> set rows. row_collaborator row \<notin> set seen)"
proof (induction rows arbitrary: n seen fs)
  case (Cons row rows)
  from Cons.IH [OF Cons.prems [unfolded bulk_row_errors.simps Let_def]]
  show ?case
    by (auto simp: validatePlanningAvailability_def check_Nil_iff row_collaborator_def split: if_split_asm)
qed simp

lemma normalizePlanningAvailability_idem [simp]:
  "normalizePlanningAvailability (normalizePlanningAvailability v) = normalizePlanningAvailability v"
proof -
  have "normalizePlanningAvailability ''ACTIVE'' = ''ACTIVE''" "normalizePlanningAvailability ''DAY_OFF'' = ''DAY_OFF''"
    "normalizePlanningAvailability ''LEAVE_OF_ABSENCE'' = ''LEAVE_OF_ABSENCE''" by code_simp+
  moreover have "normalizePlanningAvailability v \<in> {''ACTIVE'', ''DAY_OFF'', ''LEAVE_OF_ABSENCE''}"
    by (auto simp: normalizePlanningAvailability_def isKnownPlanningAvailability_def Let_def)
  ultimately show ?thesis by auto
qed

lemma normalizePlanningAvailability_nonempty [simp]: "normalizePlanningAvailability v \<noteq> []"
  by (auto simp: normalizePlanningAvailability_def isKnownPlanningAvailability_def Let_def)

text \<open>An assignment sits in the plan of a period, and the saved copy of it agrees with its row.\<close>

definition slot :: "env \<Rightarrow> string \<Rightarrow> string \<Rightarrow> string \<Rightarrow> WorkPeriodAssignment \<Rightarrow> bool" where
  "slot E w i c x \<longleftrightarrow> wa_ID x = i \<and> wa_TenantID x = TenantID E \<and> wa_WorkPeriodID x = w \<and> wa_CollaboratorID x = c"

definition has_slot :: "env \<Rightarrow> string \<Rightarrow> store \<Rightarrow> string \<Rightarrow> string \<Rightarrow> bool" where
  "has_slot E w s i c \<longleftrightarrow> (\<exists>x \<in> set (Assignments s). slot E w i c x)"

definition agrees :: "WorkPeriodAssignment \<Rightarrow> WorkPeriodAssignment \<Rightarrow> bool" where
  "agrees a x \<longleftrightarrow> wa_Active a \<and> wa_Active x \<and> wa_PlannedStatus x = wa_PlannedStatus a \<and>
     wa_PlanningAvailability x = normalizePlanningAvailability (wa_PlanningAvailability a) \<and>
     wa_ReplacementForAssignmentID x = wa_ReplacementForAssignmentID a"

definition stored :: "env \<Rightarrow> string \<Rightarrow> store \<Rightarrow> string \<Rightarrow> RosterAssignment \<Rightarrow> bool" where
  "stored E w s c v \<longleftrightarrow> assigned_to v = c \<and>
     (\<exists>x \<in> set (Assignments s). slot E w (assigned_id v) c x \<and> agrees (ra_Assignment v) x)"

definition elsewhere :: "env \<Rightarrow> string \<Rightarrow> store \<Rightarrow> WorkPeriodAssignment list" where
  "elsewhere E w s = filter (\<lambda>x. \<not> (wa_TenantID x = TenantID E \<and> wa_WorkPeriodID x = w)) (Assignments s)"

text \<open>A write of one assignment of the period, for one collaborator.\<close>

definition plan_write :: "env \<Rightarrow> string \<Rightarrow> string \<Rightarrow> store \<Rightarrow> store \<Rightarrow> bool" where
  "plan_write E w c s t \<longleftrightarrow> elsewhere E w t = elsewhere E w s \<and>
     (\<forall>x \<in> set (Assignments s). wa_CollaboratorID x \<noteq> c \<longrightarrow> x \<in> set (Assignments t)) \<and>
     (\<forall>i d. has_slot E w s i d \<longrightarrow> has_slot E w t i d)"

lemma plan_write_stored: "plan_write E w c s t \<Longrightarrow> d \<noteq> c \<Longrightarrow> stored E w s d v \<Longrightarrow> stored E w t d v"
  by (auto simp: plan_write_def stored_def slot_def)

lemma plan_update:
  assumes run: "repoUpdateAssignment E a s = (Inr u, t)" and ok: "planning_ok s"
    and x: "has_slot E w s (wa_ID a) (wa_CollaboratorID a)" and active: "wa_Active a"
  shows "plan_write E w (wa_CollaboratorID a) s t"
    and "assigned_to v = wa_CollaboratorID a \<Longrightarrow> ra_Assignment v = a \<Longrightarrow> stored E w t (wa_CollaboratorID a) v"
proof -
  obtain y where y: "y \<in> set (Assignments s)" "slot E w (wa_ID a) (wa_CollaboratorID a) y"
    using x by (auto simp: has_slot_def)
  have ids: "distinct (map wa_ID (Assignments s))" using ok by (simp add: planning_ok_def)
  have t: "Assignments t = map (\<lambda>z. if z = y then assignment_row a y else z) (Assignments s)"
    using repoUpdateAssignment_ok(1) [OF run ids y(1)] y(2) by (simp add: slot_def)
  have new: "assignment_row a y \<in> set (Assignments t)" "slot E w (wa_ID a) (wa_CollaboratorID a) (assignment_row a y)"
    using y by (auto simp: t slot_def)
  have "filter (\<lambda>x. \<not> (wa_TenantID x = TenantID E \<and> wa_WorkPeriodID x = w)) (map (\<lambda>z. if z = y then assignment_row a y else z) zs) =
      filter (\<lambda>x. \<not> (wa_TenantID x = TenantID E \<and> wa_WorkPeriodID x = w)) zs" for zs
    using y(2) by (induction zs) (auto simp: slot_def)
  then have "elsewhere E w t = elsewhere E w s" by (simp add: elsewhere_def t)
  moreover have "has_slot E w t i d" if at: "has_slot E w s i d" for i d
  proof -
    obtain x where x: "x \<in> set (Assignments s)" "slot E w i d x" using at by (auto simp: has_slot_def)
    have "(if x = y then assignment_row a y else x) \<in> set (Assignments t)" using x(1) by (auto simp: t)
    moreover have "slot E w i d (if x = y then assignment_row a y else x)" using x(2) y(2) by (auto simp: slot_def)
    ultimately show ?thesis unfolding has_slot_def by blast
  qed
  ultimately show "plan_write E w (wa_CollaboratorID a) s t"
    using y(2) by (auto simp: plan_write_def t slot_def)
  show "stored E w t (wa_CollaboratorID a) v" if "assigned_to v = wa_CollaboratorID a" "ra_Assignment v = a"
    unfolding stored_def
    using that new active by (intro conjI bexI [of _ "assignment_row a y"]) (simp_all add: agrees_def assigned_id_def)
qed

lemma plan_insert:
  assumes run: "repoCreateAssignment E a0 s = (Inr a, t)"
    and a0: "wa_TenantID a0 = TenantID E" "wa_WorkPeriodID a0 = w" "wa_CollaboratorID a0 = c"
      "normalizePlanningAvailability (wa_PlanningAvailability a0) = wa_PlanningAvailability a0"
  shows "plan_write E w c s t" and "stored E w t c (bare_assignment a)" and "a = with_assignment_defaults E a0"
proof -
  from run have a: "a = with_assignment_defaults E a0" and t: "t = s\<lparr>Assignments := Assignments s @ [a]\<rparr>"
    by (auto simp: repoCreateAssignment_def run_ok Let_def)
  show "a = with_assignment_defaults E a0" by (fact a)
  have avail: "or_default (wa_PlanningAvailability a0) ''ACTIVE'' = wa_PlanningAvailability a0"
    using a0(4) normalizePlanningAvailability_nonempty [of "wa_PlanningAvailability a0"] by (simp add: or_default_def)
  have at: "slot E w (wa_ID a) c a" and agr: "agrees a a"
    using a0 avail by (simp_all add: a with_assignment_defaults_def slot_def agrees_def)
  then show "plan_write E w c s t" by (auto simp: plan_write_def t elsewhere_def has_slot_def slot_def)
  show "stored E w t c (bare_assignment a)"
    unfolding stored_def
    using at agr by (intro conjI bexI [of _ a]) (simp_all add: t bare_assignment_def assigned_to_def assigned_id_def slot_def)
qed

lemma keyed_Some: "keyed key rows k = Some r \<Longrightarrow> r \<in> set rows \<and> key r = k"
  by (auto simp: keyed_def find_Some_iff) (metis length_rev nth_mem set_rev)

definition as_planned :: "BulkPlanWorkPeriodAssignmentRow \<Rightarrow> WorkPeriodAssignment \<Rightarrow> bool" where
  "as_planned row a \<longleftrightarrow> wa_PlannedStatus a = (if bw_Selected row then ''INCLUDED'' else ''EXCLUDED'') \<and>
     wa_PlanningAvailability a = normalizePlanningAvailability (bw_PlanningAvailability row)"

lemma planned_assignment_simps [simp]:
  "wa_ID (planned_assignment E row x y z a) = wa_ID a"
  "wa_TenantID (planned_assignment E row x y z a) = wa_TenantID a"
  "wa_WorkPeriodID (planned_assignment E row x y z a) = wa_WorkPeriodID a"
  "wa_CollaboratorID (planned_assignment E row x y z a) = wa_CollaboratorID a"
  "wa_PlanningAvailability (planned_assignment E row x y z a) = normalizePlanningAvailability (bw_PlanningAvailability row)"
  "wa_Active (planned_assignment E row x y z a)" "as_planned row (planned_assignment E row x y z a)"
  by (simp_all add: planned_assignment_def as_planned_def)

lemma planned_insert:
  assumes run: "repoCreateAssignment E (planned_assignment E row x y z (blank_assignment E i w c)) s = (Inr a, t)"
  shows "plan_write E w c s t \<and> stored E w t c (bare_assignment a) \<and> as_planned row a"
proof -
  have "as_planned row a"
    using plan_insert(3) [OF run, of w c]
    by (simp add: blank_assignment_def with_assignment_defaults_def as_planned_def or_default_def planned_assignment_def)
  then show ?thesis using plan_insert(1,2) [OF run, of w c] by (simp add: blank_assignment_def)
qed

lemma plan_write_ids [simp]: "plan_write E w c (s\<lparr>IdsUsed := n\<rparr>) t = plan_write E w c s t"
  by (simp add: plan_write_def elsewhere_def has_slot_def)

lemma save_row_ok:
  assumes run: "save_row E p currents row acc s = (Inr acc', t)" and save: "should_save row" and ok: "planning_ok s"
    and slots: "\<And>v. v \<in> set currents \<Longrightarrow> has_slot E (wp_ID p) s (assigned_id v) (assigned_to v)"
  shows "\<exists>v. acc' = with_saved (row_collaborator row) v
      (if bw_Selected row then acc\<lparr>bs_Selected := Suc (bs_Selected acc)\<rparr> else acc) \<and>
    plan_write E (wp_ID p) (row_collaborator row) s t \<and> stored E (wp_ID p) t (row_collaborator row) v \<and>
    as_planned row (ra_Assignment v)"
proof (cases "keyed assigned_to currents (row_collaborator row)")
  case None
  from run obtain sector location task n a where
    "repoCreateAssignment E (planned_assignment E row sector location task
       (blank_assignment E (NewID E n) (wp_ID p) (row_collaborator row))) (s\<lparr>IdsUsed := Suc n\<rparr>) = (Inr a, t)"
    and acc': "acc' = with_saved (row_collaborator row) (bare_assignment a)
      (if bw_Selected row then acc\<lparr>bs_Selected := Suc (bs_Selected acc)\<rparr> else acc)"
    using save None
    by (auto simp: save_row_def Let_def run_ok row_collaborator_def split: if_split_asm)
  from planned_insert [OF this(1)] acc' show ?thesis by (auto simp: bare_assignment_def)
next
  case (Some v)
  let ?c = "row_collaborator row"
  note v = keyed_Some [OF Some]
  from run obtain sector location task where
    upd: "repoUpdateAssignment E (planned_assignment E row sector location task (ra_Assignment v)) s = (Inr (), t)"
      (is "repoUpdateAssignment E ?a s = _")
    and acc': "acc' = with_saved ?c (v\<lparr>ra_Assignment := planned_assignment E row sector location task (ra_Assignment v)\<rparr>)
      (if bw_Selected row then acc\<lparr>bs_Selected := Suc (bs_Selected acc)\<rparr> else acc)"
    using save Some
    by (auto simp: save_row_def Let_def run_ok row_collaborator_def split: if_split_asm)
  have c: "wa_CollaboratorID ?a = ?c" using v by (simp add: assigned_to_def)
  have at: "has_slot E (wp_ID p) s (wa_ID ?a) (wa_CollaboratorID ?a)"
    using slots [of v] v c by (simp add: assigned_id_def)
  show ?thesis
    using plan_update(1) [OF upd ok at] plan_update(2) [OF upd ok at, of "v\<lparr>ra_Assignment := ?a\<rparr>"] c acc'
    by (intro exI [of _ "v\<lparr>ra_Assignment := ?a\<rparr>"]) (simp add: assigned_to_def)
qed

definition bulk_inv :: "env \<Rightarrow> string \<Rightarrow> RosterAssignment list \<Rightarrow> store \<Rightarrow>
    BulkPlanWorkPeriodAssignmentRow list \<Rightarrow> BulkSaved \<Rightarrow> store \<Rightarrow> bool" where
  "bulk_inv E w currents s0 rows acc s \<longleftrightarrow> planning_ok s \<and> elsewhere E w s = elsewhere E w s0 \<and>
     (\<forall>v \<in> set currents \<union> set (bs_Saved acc). has_slot E w s (assigned_id v) (assigned_to v)) \<and>
     (\<forall>c v. map_of (bs_ByCollaborator acc) c = Some v \<longrightarrow> stored E w s c v) \<and>
     bs_Selected acc = length (filter bw_Selected rows) \<and>
     map assigned_to (bs_Saved acc) = map row_collaborator (filter should_save rows) \<and>
     (\<forall>row \<in> set rows. should_save row \<longrightarrow>
        (\<exists>v. map_of (bs_ByCollaborator acc) (row_collaborator row) = Some v \<and> as_planned row (ra_Assignment v)))"

lemma bulk_inv_write:
  assumes "bulk_inv E w currents s0 rows acc s" and "plan_write E w c s t" and "planning_ok t"
    and "stored E w t c v"
  shows "elsewhere E w t = elsewhere E w s0" "planning_ok t"
    "\<forall>v \<in> set currents \<union> set (bs_Saved acc). has_slot E w t (assigned_id v) (assigned_to v)"
    "\<forall>d u. map_of (AList.update c v (bs_ByCollaborator acc)) d = Some u \<longrightarrow> stored E w t d u"
  using assms plan_write_stored [OF assms(2)]
  by (auto simp: bulk_inv_def plan_write_def AList.update_conv' split: if_split_asm)

lemma selected_saved: "bw_Selected row \<Longrightarrow> should_save row"
  by (simp add: should_save_def)

lemma bulk_inv_save:
  assumes inv: "bulk_inv E (wp_ID p) currents s0 ys acc s" and run: "save_row E p currents row acc s = (Inr acc', t)"
    and new: "row_collaborator row \<notin> set (map row_collaborator ys)"
  shows "bulk_inv E (wp_ID p) currents s0 (ys @ [row]) acc' t"
proof (cases "should_save row")
  case False
  then have "acc' = acc" "t = s" using run by (auto simp: save_row_def Let_def)
  then show ?thesis using inv False selected_saved by (auto simp: bulk_inv_def)
next
  case True
  have ok: "planning_ok s" and slots: "\<And>v. v \<in> set currents \<Longrightarrow> has_slot E (wp_ID p) s (assigned_id v) (assigned_to v)"
    using inv by (auto simp: bulk_inv_def)
  have okt: "planning_ok t"
    using keepsD [OF keeps_save_row run] ok by (simp add: accounting_def grows_defs)
  obtain v where v: "acc' = with_saved (row_collaborator row) v
      (if bw_Selected row then acc\<lparr>bs_Selected := Suc (bs_Selected acc)\<rparr> else acc)"
    "plan_write E (wp_ID p) (row_collaborator row) s t" "stored E (wp_ID p) t (row_collaborator row) v"
    "as_planned row (ra_Assignment v)"
    using save_row_ok [OF run True ok slots] by blast
  note kept = bulk_inv_write [OF inv v(2) okt v(3)]
  have "\<forall>r \<in> set ys. row_collaborator r \<noteq> row_collaborator row" using new by (fastforce simp: image_iff)
  moreover have "assigned_to v = row_collaborator row" "has_slot E (wp_ID p) t (assigned_id v) (row_collaborator row)"
    using v(3) by (auto simp: stored_def has_slot_def)
  ultimately show ?thesis
    using inv kept v(4) True
    by (auto simp: bulk_inv_def v(1) with_saved_def AList.update_conv' )
qed

text \<open>
  The second pass rewrites the replacement of rows that are saved; what the first pass established stays.
\<close>

definition linked_row :: "env \<Rightarrow> string \<Rightarrow> BulkSaved \<Rightarrow> store \<Rightarrow> BulkPlanWorkPeriodAssignmentRow \<Rightarrow> bool" where
  "linked_row E w acc s row \<longleftrightarrow> (\<exists>v i. map_of (bs_ByCollaborator acc) (row_collaborator row) = Some v \<and>
     wa_ReplacementForAssignmentID (ra_Assignment v) = Some i \<and> has_slot E w s i (row_target row))"

lemma map_assigned_to_set_first:
  "(\<And>x. x \<in> set xs \<Longrightarrow> P x \<Longrightarrow> assigned_to x = assigned_to v) \<Longrightarrow>
   map assigned_to (set_first P v xs) = map assigned_to xs"
  by (induction xs) auto

lemma set_set_first: "set (set_first P v xs) \<subseteq> insert v (set xs)"
  by (induction xs) auto

lemma same_slot: "planning_ok s \<Longrightarrow> has_slot E w s i c \<Longrightarrow> has_slot E w s i d \<Longrightarrow> c = d"
  unfolding has_slot_def slot_def planning_ok_def by (metis distinct_key)

lemma bulk_inv_slot: "bulk_inv E w currents s0 rows acc s \<Longrightarrow> v \<in> set currents \<union> set (bs_Saved acc) \<Longrightarrow>
    has_slot E w s (assigned_id v) (assigned_to v)"
  by (auto simp: bulk_inv_def)

lemma link_row_ok:
  assumes run: "link_row E p currents row (acc, owners) s = (Inr (acc', owners'), t)" and target: "row_target row \<noteq> []"
    and inv: "bulk_inv E (wp_ID p) currents s0 rows acc s"
  shows "\<exists>v a i. map_of (bs_ByCollaborator acc) (row_collaborator row) = Some v \<and>
    repoUpdateAssignment E a s = (Inr (), t) \<and>
    a = (ra_Assignment v)\<lparr>wa_ReplacementForAssignmentID := Some i, wa_UpdatedAt := Now E\<rparr> \<and>
    has_slot E (wp_ID p) s i (row_target row) \<and>
    acc' = acc\<lparr>bs_ByCollaborator := AList.update (row_collaborator row) (v\<lparr>ra_Assignment := a\<rparr>) (bs_ByCollaborator acc),
      bs_Saved := set_first (\<lambda>x. assigned_id x = assigned_id v) (v\<lparr>ra_Assignment := a\<rparr>) (bs_Saved acc)\<rparr>"
proof -
  let ?replaced = "case map_of (bs_ByCollaborator acc) (row_target row) of
      Some r \<Rightarrow> Some r | None \<Rightarrow> keyed assigned_to currents (row_target row)"
  from run target obtain v r where v: "map_of (bs_ByCollaborator acc) (row_collaborator row) = Some v"
    and r: "?replaced = Some r"
    and upd: "repoUpdateAssignment E ((ra_Assignment v)\<lparr>wa_ReplacementForAssignmentID := Some (assigned_id r),
        wa_UpdatedAt := Now E\<rparr>) s = (Inr (), t)"
    and acc': "acc' = acc\<lparr>bs_ByCollaborator := AList.update (row_collaborator row)
        (v\<lparr>ra_Assignment := (ra_Assignment v)\<lparr>wa_ReplacementForAssignmentID := Some (assigned_id r), wa_UpdatedAt := Now E\<rparr>\<rparr>)
        (bs_ByCollaborator acc), bs_Saved := set_first (\<lambda>x. assigned_id x = assigned_id v)
        (v\<lparr>ra_Assignment := (ra_Assignment v)\<lparr>wa_ReplacementForAssignmentID := Some (assigned_id r), wa_UpdatedAt := Now E\<rparr>\<rparr>)
        (bs_Saved acc)\<rparr>"
    by (auto simp: link_row_def Let_def run_ok row_collaborator_def row_target_def assigned_id_def
        split: if_split_asm option.splits)
  have "has_slot E (wp_ID p) s (assigned_id r) (row_target row)"
  proof (cases "map_of (bs_ByCollaborator acc) (row_target row)")
    case None
    then have "r \<in> set currents \<and> assigned_to r = row_target row" using r keyed_Some by force
    then show ?thesis using bulk_inv_slot [OF inv, of r] by simp
  next
    case (Some r')
    then have "stored E (wp_ID p) s (row_target row) r" using r inv by (auto simp: bulk_inv_def)
    then show ?thesis by (auto simp: stored_def has_slot_def)
  qed
  then show ?thesis using v upd acc' by blast
qed

lemma bulk_inv_link:
  assumes inv: "bulk_inv E (wp_ID p) currents s0 rows acc s"
    and linked: "\<forall>r \<in> set ys. row_target r \<noteq> [] \<longrightarrow> linked_row E (wp_ID p) acc s r"
    and run: "link_row E p currents row (acc, owners) s = (Inr (acc', owners'), t)"
    and new: "row_collaborator row \<notin> set (map row_collaborator ys)"
  shows "bulk_inv E (wp_ID p) currents s0 rows acc' t"
    and "\<forall>r \<in> set (ys @ [row]). row_target r \<noteq> [] \<longrightarrow> linked_row E (wp_ID p) acc' t r"
proof -
  have "bulk_inv E (wp_ID p) currents s0 rows acc' t \<and>
      (\<forall>r \<in> set (ys @ [row]). row_target r \<noteq> [] \<longrightarrow> linked_row E (wp_ID p) acc' t r)"
  proof (cases "row_target row = []")
    case True
    then have "acc' = acc" "t = s" using run by (auto simp: link_row_def Let_def row_target_def)
    then show ?thesis using inv linked True by simp
  next
    case False
    let ?c = "row_collaborator row"
    obtain v a i where v: "map_of (bs_ByCollaborator acc) ?c = Some v"
      and upd: "repoUpdateAssignment E a s = (Inr (), t)"
      and a: "a = (ra_Assignment v)\<lparr>wa_ReplacementForAssignmentID := Some i, wa_UpdatedAt := Now E\<rparr>"
      and i: "has_slot E (wp_ID p) s i (row_target row)"
      and acc': "acc' = acc\<lparr>bs_ByCollaborator := AList.update ?c (v\<lparr>ra_Assignment := a\<rparr>) (bs_ByCollaborator acc),
        bs_Saved := set_first (\<lambda>x. assigned_id x = assigned_id v) (v\<lparr>ra_Assignment := a\<rparr>) (bs_Saved acc)\<rparr>"
      using link_row_ok [OF run False inv] by blast
    have ok: "planning_ok s" and st: "stored E (wp_ID p) s ?c v" using inv v by (auto simp: bulk_inv_def)
    have okt: "planning_ok t"
      using keepsD [OF keeps_repoUpdateAssignment upd] ok by (simp add: accounting_def grows_defs)
    have c: "wa_CollaboratorID a = ?c" "wa_Active a" "wa_ID a = assigned_id v" "assigned_to v = ?c"
      using st by (auto simp: stored_def agrees_def a assigned_to_def assigned_id_def)
    have at: "has_slot E (wp_ID p) s (wa_ID a) (wa_CollaboratorID a)"
      using st c by (auto simp: stored_def has_slot_def)
    have written: "plan_write E (wp_ID p) ?c s t" using plan_update(1) [OF upd ok at c(2)] c(1) by simp
    have new_stored: "stored E (wp_ID p) t ?c (v\<lparr>ra_Assignment := a\<rparr>)"
      using plan_update(2) [OF upd ok at c(2), of "v\<lparr>ra_Assignment := a\<rparr>"] c(1) by (simp add: assigned_to_def)
    note kept = bulk_inv_write [OF inv written okt new_stored]
    have planned: "as_planned r (ra_Assignment v) \<Longrightarrow> as_planned r a" for r by (simp add: as_planned_def a)
    have slots: "has_slot E (wp_ID p) s j d \<Longrightarrow> has_slot E (wp_ID p) t j d" for j d using written by (auto simp: plan_write_def)
    have others: "\<forall>r \<in> set ys. row_collaborator r \<noteq> ?c" using new by (fastforce simp: image_iff)
    have "linked_row E (wp_ID p) acc' t r" if "r \<in> set ys" "row_target r \<noteq> []" for r
      using linked others slots that by (auto simp: linked_row_def acc' AList.update_conv')
    moreover have "linked_row E (wp_ID p) acc' t row" using i slots by (auto simp: linked_row_def acc' AList.update_conv' a)
    moreover have "map assigned_to (bs_Saved acc') = map assigned_to (bs_Saved acc)"
    proof -
      have "assigned_to x = assigned_to (v\<lparr>ra_Assignment := a\<rparr>)"
        if "x \<in> set (bs_Saved acc)" "assigned_id x = assigned_id v" for x
      proof -
        have "has_slot E (wp_ID p) s (assigned_id v) (assigned_to x)"
          using inv that bulk_inv_slot [OF inv, of x] by simp
        then show ?thesis using same_slot [OF ok] at c by (fastforce simp: assigned_to_def)
      qed
      from map_assigned_to_set_first [OF this] show ?thesis by (simp add: acc')
    qed
    moreover have "has_slot E (wp_ID p) t (assigned_id x) (assigned_to x)" if x: "x \<in> set (bs_Saved acc')" for x
    proof (cases "x \<in> set (bs_Saved acc)")
      case True
      then show ?thesis using kept(3) by blast
    next
      case False
      then have "x = v\<lparr>ra_Assignment := a\<rparr>" using x set_set_first by (fastforce simp: acc')
      then show ?thesis using new_stored by (auto simp: stored_def has_slot_def)
    qed
    ultimately show ?thesis
      using inv kept planned v unfolding bulk_inv_def acc' by (auto simp: AList.update_conv')
  qed
  then show "bulk_inv E (wp_ID p) currents s0 rows acc' t"
    "\<forall>r \<in> set (ys @ [row]). row_target r \<noteq> [] \<longrightarrow> linked_row E (wp_ID p) acc' t r" by blast+
qed

lemma bulk_inv_start:
  "planning_ok s \<Longrightarrow> bulk_inv E w (ListActiveAssignmentsForWorkPeriod E w s) s []
     \<lparr>bs_Saved = [], bs_ByCollaborator = [], bs_Selected = 0\<rparr> s"
  by (auto simp: bulk_inv_def ListActiveAssignmentsForWorkPeriod_def has_slot_def slot_def assigned_id_def
      assigned_to_def with_references_def)

lemma bulk_ok:
  assumes "BulkPlan E w req s = (Inr r, t)" and ok: "planning_ok s"
  obtains acc where "bulk_inv E (TrimSpace w) (ListActiveAssignmentsForWorkPeriod E (TrimSpace w) s) s (bu_Rows req) acc t"
    and "\<forall>row \<in> set (bu_Rows req). row_target row \<noteq> [] \<longrightarrow> linked_row E (TrimSpace w) acc t row"
    and "r = \<lparr>bz_Assignments = map ToAssignmentDTO (bs_Saved acc), bz_SelectedCount = bs_Selected acc\<rparr>"
proof -
  let ?rows = "bu_Rows req" and ?empty = "\<lparr>bs_Saved = [], bs_ByCollaborator = [], bs_Selected = 0\<rparr>"
  let ?start = "\<lambda>p acc. (acc, replacement_owners E (effective_assignments (ListActiveAssignmentsForWorkPeriod E (wp_ID p) s) acc))"
  from assms(1) obtain p acc u acc' owners where valid: "ValidateBulkPlanWorkPeriodAssignments req = Inr ()"
    and p: "FindWorkPeriodByID E (TrimSpace w) s = Inr p"
    and save: "fold_each (save_row E p (ListActiveAssignmentsForWorkPeriod E (wp_ID p) s)) ?rows ?empty s = (Inr acc, u)"
    and link: "fold_each (link_row E p (ListActiveAssignmentsForWorkPeriod E (wp_ID p) s)) ?rows (?start p acc) u = (Inr (acc', owners), t)"
    and r: "r = \<lparr>bz_Assignments = map ToAssignmentDTO (bs_Saved acc'), bz_SelectedCount = bs_Selected acc'\<rparr>"
    by (auto simp: BulkPlan_def run_ok)
  let ?cs = "ListActiveAssignmentsForWorkPeriod E (wp_ID p) s"
  have w: "wp_ID p = TrimSpace w" using FindWorkPeriodByID_Inr [OF p] by simp
  have dis: "distinct (map row_collaborator ?rows)"
    using valid bulk_row_errors_Nil [of 0 "[]" ?rows "[]"]
    by (simp add: ValidateBulkPlanWorkPeriodAssignments_def validated_def split: if_split_asm)
  then have new: "row_collaborator x \<notin> set (map row_collaborator ys)" if "?rows = ys @ x # zs" for ys x zs
    using that by simp
  have "bulk_inv E (wp_ID p) ?cs s ?rows acc u"
    using save bulk_inv_start [OF ok]
    by (rule fold_each_invariant) (use bulk_inv_save new in blast)
  then have start: "(case ?start p acc of (acc, owners) \<Rightarrow> bulk_inv E (wp_ID p) ?cs s ?rows acc u \<and>
      (\<forall>r \<in> set []. row_target r \<noteq> [] \<longrightarrow> linked_row E (wp_ID p) acc u r))" by simp
  have "case (acc', owners) of (acc', owners) \<Rightarrow> bulk_inv E (wp_ID p) ?cs s ?rows acc' t \<and>
      (\<forall>r \<in> set ?rows. row_target r \<noteq> [] \<longrightarrow> linked_row E (wp_ID p) acc' t r)"
    using link start
  proof (rule fold_each_invariant)
    fix ys x zs a v b z
    assume rows: "?rows = ys @ x # zs" and run: "link_row E p ?cs x a v = (Inr b, z)"
      and inv: "case a of (acc, owners) \<Rightarrow> bulk_inv E (wp_ID p) ?cs s ?rows acc v \<and>
        (\<forall>r \<in> set ys. row_target r \<noteq> [] \<longrightarrow> linked_row E (wp_ID p) acc v r)"
    obtain a1 o1 b1 o2 where ab: "a = (a1, o1)" "b = (b1, o2)" by (cases a; cases b)
    show "case b of (acc, owners) \<Rightarrow> bulk_inv E (wp_ID p) ?cs s ?rows acc z \<and>
        (\<forall>r \<in> set (ys @ [x]). row_target r \<noteq> [] \<longrightarrow> linked_row E (wp_ID p) acc z r)"
      using inv bulk_inv_link [OF _ _ run [unfolded ab] new [OF rows]] by (simp only: ab prod.case) blast
  qed
  then show ?thesis using that [OF _ _ r] by (simp add: w)
qed

definition demo_bulk :: BulkPlanWorkPeriodAssignmentsRequest where
  "demo_bulk = \<lparr>bu_Rows = [
     \<lparr>bw_CollaboratorID = ''j2'', bw_Selected = False, bw_SectorID = [], bw_LocationID = [], bw_TaskID = [],
      bw_PlanningAvailability = ''day_off'', bw_AvailabilityChanged = True, bw_ReplacementForAssignmentID = [],
      bw_TemporaryReplacementForCollaboratorID = []\<rparr>,
     \<lparr>bw_CollaboratorID = ''j1'', bw_Selected = True, bw_SectorID = [], bw_LocationID = [], bw_TaskID = [],
      bw_PlanningAvailability = ''ACTIVE'', bw_AvailabilityChanged = False, bw_ReplacementForAssignmentID = [],
      bw_TemporaryReplacementForCollaboratorID = ''j2''\<rparr>]\<rparr>"

lemma demo_bulk_runs: "\<not> isl (fst (BulkPlan demo_env ''w1'' demo_bulk demo_plan))"
  by code_simp



end
