(* ===== verification/PriceLists.thy ===== *)
theory PriceLists
  imports ExpenseEffects
begin

text \<open>
  The price lists (\<open>service_impl.go\<close>, \<open>repository_gorm.go\<close>, \<open>validation.go\<close>, \<open>mapper.go\<close>, \<open>dto.go\<close> of
  \<open>backend/internal/pricelists\<close>): the items the canteen and the administration charge, and the price of gold by
  date. Prices are source records of the ledger: a change does not overwrite a row but deactivates it and adds a
  revision, and at most one row of a key is active (migrations 000027, 000029, 000033 and the triggers of 000041).
  The services take the tenant as an argument.
\<close>

section \<open>Requests and results\<close>

record PriceListItemDTO =
  pd_ID :: string
  pd_TenantID :: string
  pd_ItemType :: string
  pd_Code :: string
  pd_Description :: string
  pd_UnitPriceBRL :: float64
  pd_Active :: bool
  pd_SortOrder :: int
  pd_SupersededPriceListItemID :: string
  pd_CreatedAt :: string
  pd_UpdatedAt :: string

record CreatePriceListItemRequest =
  pq_ItemType :: string
  pq_Code :: string
  pq_Description :: string
  pq_UnitPriceBRL :: float64
  pq_SortOrder :: int

type_synonym UpdatePriceListItemRequest = CreatePriceListItemRequest

record PriceListItemListFilter =
  pf_ItemType :: string
  pf_IncludeInactive :: bool

record GoldPriceDTO =
  gw_ID :: string
  gw_TenantID :: string
  gw_PriceDate :: string
  gw_BRLPerGram :: float64
  gw_RecordedBy :: string
  gw_Notes :: string
  gw_Active :: bool
  gw_CreatedAt :: string
  gw_UpdatedAt :: string
  gw_SupersededGoldPriceID :: string

record CreateGoldPriceRequest =
  gq_PriceDate :: string
  gq_BRLPerGram :: float64
  gq_RecordedBy :: string
  gq_Notes :: string

record GoldPriceListFilter =
  gx_IncludeInactive :: bool

section \<open>Validation\<close>

definition normalizeCode :: "string \<Rightarrow> string" where
  "normalizeCode value = ToUpper (TrimSpace value)"

definition isItemType :: "string \<Rightarrow> bool" where
  "isItemType v \<longleftrightarrow> v = ''CANTEEN'' \<or> v = ''ADMINISTRATIVE''"

definition validatePriceListItemFields :: "string \<Rightarrow> string \<Rightarrow> string \<Rightarrow> float64 \<Rightarrow> app_error + unit" where
  "validatePriceListItemFields itemType code description price = validated
     (check (price \<le> 0) ''unitPriceBrl'' ''Unit price in BRL must be greater than zero''
     (check (TrimSpace itemType \<noteq> [] \<and> \<not> isItemType (normalizeItemType itemType))
        ''itemType'' ''Item type must be CANTEEN or ADMINISTRATIVE''
     (required ''description'' description
     (required ''code'' code
     (required ''itemType'' itemType [])))))"

definition ValidateCreatePriceListItem :: "CreatePriceListItemRequest \<Rightarrow> app_error + unit" where
  "ValidateCreatePriceListItem req =
     validatePriceListItemFields (pq_ItemType req) (pq_Code req) (pq_Description req) (pq_UnitPriceBRL req)"

definition ValidateUpdatePriceListItem :: "UpdatePriceListItemRequest \<Rightarrow> app_error + unit" where
  "ValidateUpdatePriceListItem req =
     validatePriceListItemFields (pq_ItemType req) (pq_Code req) (pq_Description req) (pq_UnitPriceBRL req)"

definition ValidateCreateGoldPrice :: "CreateGoldPriceRequest \<Rightarrow> app_error + unit" where
  "ValidateCreateGoldPrice req = validated
     (check (gq_BRLPerGram req \<le> 0) ''brlPerGram'' ''BRL per gram must be greater than zero''
     (check (TrimSpace (gq_PriceDate req) \<noteq> [] \<and> parseDate (gq_PriceDate req) = None)
        ''priceDate'' ''Price date must be YYYY-MM-DD''
     (required ''recordedBy'' (gq_RecordedBy req)
     (required ''priceDate'' (gq_PriceDate req) []))))"

section \<open>What is shown\<close>

definition ToPriceListItemDTO :: "ExpensePriceListItem \<Rightarrow> PriceListItemDTO" where
  "ToPriceListItemDTO x = \<lparr>pd_ID = pl_ID x, pd_TenantID = pl_TenantID x, pd_ItemType = pl_ItemType x,
     pd_Code = pl_Code x, pd_Description = pl_Description x, pd_UnitPriceBRL = pl_UnitPriceBRL x,
     pd_Active = pl_Active x, pd_SortOrder = pl_SortOrder x,
     pd_SupersededPriceListItemID = stringValue (pl_SupersededPriceListItemID x),
     pd_CreatedAt = formatRFC3339 (pl_CreatedAt x), pd_UpdatedAt = formatRFC3339 (pl_UpdatedAt x)\<rparr>"

text \<open>A stored date that carries a time of day is cut to its date.\<close>

definition formatStoredDate :: "string \<Rightarrow> string" where
  "formatStoredDate value = (let trimmed = TrimSpace value in
     if trimmed = [] then [] else
     case parseDate trimmed of
       Some t \<Rightarrow> format_civil (civil_of_time t)
     | None \<Rightarrow> if 10 \<le> length trimmed
         then (case parseDate (take 10 trimmed) of
             Some t \<Rightarrow> format_civil (civil_of_time t)
           | None \<Rightarrow> trimmed)
         else trimmed)"

definition ToGoldPriceDTO :: "GoldPrice \<Rightarrow> GoldPriceDTO" where
  "ToGoldPriceDTO x = \<lparr>gw_ID = gr_ID x, gw_TenantID = gr_TenantID x, gw_PriceDate = formatStoredDate (gr_PriceDate x),
     gw_BRLPerGram = gr_BRLPerGram x, gw_RecordedBy = gr_RecordedBy x, gw_Notes = gr_Notes x,
     gw_Active = gr_Active x, gw_CreatedAt = formatRFC3339 (gr_CreatedAt x),
     gw_UpdatedAt = formatRFC3339 (gr_UpdatedAt x), gw_SupersededGoldPriceID = []\<rparr>"

section \<open>Constraints and writes\<close>

definition item_key :: "ExpensePriceListItem \<Rightarrow> string \<times> string \<times> string" where
  "item_key x = (pl_TenantID x, pl_ItemType x, pl_Code x)"

definition price_item_checks :: "store \<Rightarrow> ExpensePriceListItem \<Rightarrow> (bool \<times> string) list" where
  "price_item_checks s x = [
     (case pl_SupersededPriceListItemID x of None \<Rightarrow> False
      | Some i \<Rightarrow> \<not> list_ex (\<lambda>p. pl_ID p = i \<and> pl_TenantID p = pl_TenantID x) (PriceListItems s),
      ''cross_tenant_reference''),
     (\<not> isItemType (pl_ItemType x), ''CHECK constraint failed: item_type''),
     (\<not> 0 < pl_UnitPriceBRL x, ''CHECK constraint failed: unit_price_brl'')]"

definition item_key_taken :: "store \<Rightarrow> string \<Rightarrow> ExpensePriceListItem \<Rightarrow> bool" where
  "item_key_taken s i x \<longleftrightarrow> pl_Active x \<and>
     list_ex (\<lambda>y. pl_ID y \<noteq> i \<and> pl_Active y \<and> item_key y = item_key x) (PriceListItems s)"

definition item_key_message :: string where
  "item_key_message = ''UNIQUE constraint failed: expense_price_list_items.tenant_id, expense_price_list_items.item_type, expense_price_list_items.code''"

definition price_item_insert_guards :: "store \<Rightarrow> ExpensePriceListItem \<Rightarrow> (bool \<times> string) list" where
  "price_item_insert_guards s x =
     [(\<not> tenant_exists s (pl_TenantID x), ''tenant_integrity_violation'')] @ price_item_checks s x @
     [(list_ex (\<lambda>y. pl_ID y = pl_ID x) (PriceListItems s), ''UNIQUE constraint failed: expense_price_list_items.id''),
      (item_key_taken s (pl_ID x) x, item_key_message)]"

definition price_item_update_guards ::
  "store \<Rightarrow> ExpensePriceListItem \<Rightarrow> ExpensePriceListItem \<Rightarrow> (bool \<times> string) list" where
  "price_item_update_guards s old new =
     [(pl_TenantID new \<noteq> pl_TenantID old, ''tenant_id_immutable'')] @ price_item_checks s new @
     [(item_key_taken s (pl_ID old) new, item_key_message)]"

definition with_price_item_defaults :: "env \<Rightarrow> ExpensePriceListItem \<Rightarrow> ExpensePriceListItem" where
  "with_price_item_defaults E x = x\<lparr>
     pl_CreatedAt := or_time (pl_CreatedAt x) (Now E), pl_UpdatedAt := or_time (pl_UpdatedAt x) (Now E),
     pl_TenantID := or_default (pl_TenantID x) ''default'', pl_Active := True\<rparr>"

definition repoCreateItem :: "env \<Rightarrow> ExpensePriceListItem \<Rightarrow> ExpensePriceListItem app" where
  "repoCreateItem E x0 = (let x = with_price_item_defaults E x0 in
     bnd (query (\<lambda>s. abort_if (price_item_insert_guards s x)))
     (\<lambda>_. bnd (modify (\<lambda>s. s\<lparr>PriceListItems := PriceListItems s @ [x]\<rparr>))
     (\<lambda>_. ret x)))"

definition updatePriceItems ::
  "(ExpensePriceListItem \<Rightarrow> bool) \<Rightarrow> (ExpensePriceListItem \<Rightarrow> ExpensePriceListItem) \<Rightarrow> unit app" where
  "updatePriceItems = guarded_update PriceListItems PriceListItems_update price_item_update_guards"

text \<open>The switch of a row, with its time.\<close>

definition item_switched :: "bool \<Rightarrow> time \<Rightarrow> ExpensePriceListItem \<Rightarrow> ExpensePriceListItem" where
  "item_switched active now x = x\<lparr>pl_Active := active, pl_UpdatedAt := now\<rparr>"

definition item_of :: "string \<Rightarrow> string \<Rightarrow> ExpensePriceListItem \<Rightarrow> bool" where
  "item_of T i x \<longleftrightarrow> pl_ID x = i \<and> pl_TenantID x = T"

definition replaced_items ::
  "string \<Rightarrow> ExpensePriceListItem \<Rightarrow> ExpensePriceListItem \<Rightarrow> ExpensePriceListItem \<Rightarrow> bool" where
  "replaced_items T existing replacement x \<longleftrightarrow> (
     if pl_ItemType existing = pl_ItemType replacement \<and> pl_Code existing = pl_Code replacement
     then item_key x = (T, pl_ItemType existing, pl_Code existing) \<and> pl_Active x
     else item_of T (pl_ID existing) x)"

definition ReplaceItemWithRevision ::
  "env \<Rightarrow> string \<Rightarrow> ExpensePriceListItem \<Rightarrow> ExpensePriceListItem \<Rightarrow> ExpensePriceListItem app" where
  "ReplaceItemWithRevision E T0 existing replacement = (let T = TrimSpace T0 in transaction
     (bnd (updatePriceItems (replaced_items T existing replacement) (item_switched False (pl_UpdatedAt replacement)))
     (\<lambda>_. repoCreateItem E (replacement\<lparr>pl_Active := True\<rparr>))))"

definition SetItemActive :: "string \<Rightarrow> ExpensePriceListItem \<Rightarrow> unit app" where
  "SetItemActive T0 item = (let T = TrimSpace T0 in transaction
     (bnd (if pl_Active item
        then updatePriceItems (\<lambda>x. item_key x = (T, pl_ItemType item, pl_Code item) \<and> pl_Active x \<and> pl_ID x \<noteq> pl_ID item)
          (item_switched False (pl_UpdatedAt item))
        else ret ())
     (\<lambda>_. updatePriceItems (item_of T (pl_ID item)) (item_switched (pl_Active item) (pl_UpdatedAt item)))))"

definition gold_price_key :: "GoldPrice \<Rightarrow> string \<times> string" where
  "gold_price_key x = (gr_TenantID x, gr_PriceDate x)"

definition gold_price_key_taken :: "store \<Rightarrow> string \<Rightarrow> GoldPrice \<Rightarrow> bool" where
  "gold_price_key_taken s i x \<longleftrightarrow> gr_Active x \<and>
     list_ex (\<lambda>y. gr_ID y \<noteq> i \<and> gr_Active y \<and> gold_price_key y = gold_price_key x) (GoldPrices s)"

definition gold_price_insert_guards :: "store \<Rightarrow> GoldPrice \<Rightarrow> (bool \<times> string) list" where
  "gold_price_insert_guards s x = [
     (\<not> tenant_exists s (gr_TenantID x), ''tenant_integrity_violation''),
     (\<not> 0 < gr_BRLPerGram x, ''CHECK constraint failed: brl_per_gram''),
     (list_ex (\<lambda>y. gr_ID y = gr_ID x) (GoldPrices s), ''UNIQUE constraint failed: gold_prices.id''),
     (gold_price_key_taken s (gr_ID x) x, ''UNIQUE constraint failed: gold_prices.tenant_id, gold_prices.price_date'')]"

definition gold_price_update_guards :: "store \<Rightarrow> GoldPrice \<Rightarrow> GoldPrice \<Rightarrow> (bool \<times> string) list" where
  "gold_price_update_guards s old new = [
     (gr_TenantID new \<noteq> gr_TenantID old, ''tenant_id_immutable''),
     (\<not> 0 < gr_BRLPerGram new, ''CHECK constraint failed: brl_per_gram''),
     (gold_price_key_taken s (gr_ID old) new, ''UNIQUE constraint failed: gold_prices.tenant_id, gold_prices.price_date'')]"

definition with_gold_price_defaults :: "env \<Rightarrow> GoldPrice \<Rightarrow> GoldPrice" where
  "with_gold_price_defaults E x = x\<lparr>
     gr_CreatedAt := or_time (gr_CreatedAt x) (Now E), gr_UpdatedAt := or_time (gr_UpdatedAt x) (Now E),
     gr_TenantID := or_default (gr_TenantID x) ''default'', gr_Active := True\<rparr>"

definition repoCreateGoldPrice :: "env \<Rightarrow> GoldPrice \<Rightarrow> GoldPrice app" where
  "repoCreateGoldPrice E x0 = (let x = with_gold_price_defaults E x0 in
     bnd (query (\<lambda>s. abort_if (gold_price_insert_guards s x)))
     (\<lambda>_. bnd (modify (\<lambda>s. s\<lparr>GoldPrices := GoldPrices s @ [x]\<rparr>))
     (\<lambda>_. ret x)))"

definition updateGoldPrices :: "(GoldPrice \<Rightarrow> bool) \<Rightarrow> (GoldPrice \<Rightarrow> GoldPrice) \<Rightarrow> unit app" where
  "updateGoldPrices = guarded_update GoldPrices GoldPrices_update gold_price_update_guards"

definition ReplaceActiveGoldPrice :: "env \<Rightarrow> string \<Rightarrow> GoldPrice \<Rightarrow> GoldPrice app" where
  "ReplaceActiveGoldPrice E T0 replacement = (let T = TrimSpace T0 in transaction
     (bnd (updateGoldPrices (\<lambda>x. gold_price_key x = (T, gr_PriceDate replacement) \<and> gr_Active x)
        (\<lambda>x. x\<lparr>gr_Active := False, gr_UpdatedAt := gr_UpdatedAt replacement\<rparr>))
     (\<lambda>_. repoCreateGoldPrice E (replacement\<lparr>gr_Active := True\<rparr>))))"

definition gold_price_of :: "string \<Rightarrow> string \<Rightarrow> GoldPrice \<Rightarrow> bool" where
  "gold_price_of T i x \<longleftrightarrow> gr_ID x = i \<and> gr_TenantID x = T"

definition UpdateGoldPrice :: "string \<Rightarrow> GoldPrice \<Rightarrow> unit app" where
  "UpdateGoldPrice T p = updateGoldPrices (gold_price_of (TrimSpace T) (gr_ID p)) (\<lambda>x. x\<lparr>
     gr_BRLPerGram := gr_BRLPerGram p, gr_RecordedBy := gr_RecordedBy p, gr_Notes := gr_Notes p,
     gr_Active := gr_Active p, gr_UpdatedAt := gr_UpdatedAt p\<rparr>)"

section \<open>Reads\<close>

definition FindItemByID :: "string \<Rightarrow> string \<Rightarrow> store \<Rightarrow> app_error + ExpensePriceListItem" where
  "FindItemByID T i s = found ErrRecordNotFound
     (first_by pl_ID (item_of (TrimSpace T) (TrimSpace i)) (PriceListItems s))"

definition FindActiveItemByKey :: "string \<Rightarrow> string \<Rightarrow> string \<Rightarrow> store \<Rightarrow> app_error + ExpensePriceListItem" where
  "FindActiveItemByKey T itemType code s = found ErrRecordNotFound (first_by (\<lambda>x. - pl_CreatedAt x)
     (\<lambda>x. item_key x = (TrimSpace T, normalizeItemType itemType, normalizeCode code) \<and> pl_Active x) (PriceListItems s))"

definition repoListItems :: "string \<Rightarrow> PriceListItemListFilter \<Rightarrow> store \<Rightarrow> ExpensePriceListItem list" where
  "repoListItems T f s = sort_key (\<lambda>x. (pl_ItemType x, pl_SortOrder x, pl_Description x))
     (filter (\<lambda>x. pl_TenantID x = TrimSpace T \<and> (pf_IncludeInactive f \<or> pl_Active x) \<and>
        matches_unless_empty (normalizeItemType (pf_ItemType f)) (pl_ItemType x)) (PriceListItems s))"

definition FindActiveGoldPriceByDate :: "string \<Rightarrow> string \<Rightarrow> store \<Rightarrow> app_error + GoldPrice" where
  "FindActiveGoldPriceByDate T date s = found ErrRecordNotFound (first_by (\<lambda>x. - gr_CreatedAt x)
     (\<lambda>x. gold_price_key x = (TrimSpace T, TrimSpace date) \<and> gr_Active x) (GoldPrices s))"

definition FindGoldPriceByID :: "string \<Rightarrow> string \<Rightarrow> store \<Rightarrow> app_error + GoldPrice" where
  "FindGoldPriceByID T i s = found ErrRecordNotFound
     (first_by gr_ID (gold_price_of (TrimSpace T) (TrimSpace i)) (GoldPrices s))"

definition FindLatestGoldPrice :: "string \<Rightarrow> store \<Rightarrow> app_error + GoldPrice" where
  "FindLatestGoldPrice T s = found ErrRecordNotFound
     (newest_price (filter (\<lambda>p. gr_TenantID p = TrimSpace T \<and> gr_Active p) (GoldPrices s)))"

text \<open>\<open>ORDER BY price_date DESC, created_at DESC\<close>, equal rows in the order of insertion.\<close>

definition repoListGoldPrices :: "string \<Rightarrow> GoldPriceListFilter \<Rightarrow> store \<Rightarrow> GoldPrice list" where
  "repoListGoldPrices T f s = rev (sort_key (\<lambda>x. (gr_PriceDate x, gr_CreatedAt x))
     (rev (filter (\<lambda>x. gr_TenantID x = TrimSpace T \<and> (gx_IncludeInactive f \<or> gr_Active x)) (GoldPrices s))))"

section \<open>The service\<close>

definition ListItems :: "string \<Rightarrow> PriceListItemListFilter \<Rightarrow> store \<Rightarrow> app_error + PriceListItemDTO list" where
  "ListItems T f s = (
     if TrimSpace (pf_ItemType f) \<noteq> [] \<and> \<not> isItemType (normalizeItemType (TrimSpace (pf_ItemType f)))
     then Inl (ValidationError [(''itemType'', ''Item type must be CANTEEN or ADMINISTRATIVE'')])
     else Inr (map ToPriceListItemDTO (repoListItems T
       (if TrimSpace (pf_ItemType f) \<noteq> [] then f\<lparr>pf_ItemType := normalizeItemType (TrimSpace (pf_ItemType f))\<rparr> else f) s)))"

definition ensureNoActiveItemCodeConflict ::
  "string \<Rightarrow> string \<Rightarrow> string \<Rightarrow> string \<Rightarrow> string \<Rightarrow> store \<Rightarrow> app_error + unit" where
  "ensureNoActiveItemCodeConflict T field itemType code allowedID s = (case FindActiveItemByKey T itemType code s of
       Inl e \<Rightarrow> if e = ErrRecordNotFound then Inr () else Inl e
     | Inr existing \<Rightarrow> if pl_ID existing = TrimSpace allowedID then Inr ()
         else Inl (ValidationError [(field, ''An active price-list item already uses this code for this category'')]))"

definition new_item ::
  "env \<Rightarrow> string \<Rightarrow> string \<Rightarrow> CreatePriceListItemRequest \<Rightarrow> string option \<Rightarrow> ExpensePriceListItem" where
  "new_item E i T req superseded = \<lparr>pl_ID = i, pl_CreatedAt = Now E, pl_UpdatedAt = Now E, pl_TenantID = T,
     pl_ItemType = normalizeItemType (pq_ItemType req), pl_Code = normalizeCode (pq_Code req),
     pl_Description = TrimSpace (pq_Description req), pl_UnitPriceBRL = pq_UnitPriceBRL req, pl_Active = True,
     pl_SortOrder = pq_SortOrder req, pl_SupersededPriceListItemID = superseded\<rparr>"

definition CreateItem :: "env \<Rightarrow> string \<Rightarrow> CreatePriceListItemRequest \<Rightarrow> PriceListItemDTO app" where
  "CreateItem E T req =
     bnd (lift (ValidateCreatePriceListItem req))
     (\<lambda>_. bnd (query (ensureNoActiveItemCodeConflict T ''code'' (normalizeItemType (pq_ItemType req))
            (normalizeCode (pq_Code req)) []))
     (\<lambda>_. bnd (newID E)
     (\<lambda>i. bnd (repoCreateItem E (new_item E i (TrimSpace T) req None))
     (\<lambda>x. ret (ToPriceListItemDTO x)))))"

definition UpdateItem :: "env \<Rightarrow> string \<Rightarrow> string \<Rightarrow> UpdatePriceListItemRequest \<Rightarrow> PriceListItemDTO app" where
  "UpdateItem E T i req =
     bnd (lift (ValidateUpdatePriceListItem req))
     (\<lambda>_. bnd (query (FindItemByID T i))
     (\<lambda>existing. bnd (ensure (pl_Active existing) (ValidationError [(''id'',
          ''Inactive price-list items cannot be edited; reactivate the item before editing it'')]))
     (\<lambda>_. bnd (query (ensureNoActiveItemCodeConflict T ''code'' (normalizeItemType (pq_ItemType req))
            (normalizeCode (pq_Code req)) (pl_ID existing)))
     (\<lambda>_. bnd (newID E)
     (\<lambda>n. bnd (ReplaceItemWithRevision E T existing
            (new_item E n (pl_TenantID existing) req (Some (pl_ID existing))))
     (\<lambda>x. ret ((ToPriceListItemDTO x)\<lparr>pd_SupersededPriceListItemID := pl_ID existing\<rparr>)))))))"

definition setItemActive :: "env \<Rightarrow> string \<Rightarrow> string \<Rightarrow> bool \<Rightarrow> PriceListItemDTO app" where
  "setItemActive E T i active =
     bnd (query (FindItemByID T i))
     (\<lambda>item. bnd (SetItemActive T (item_switched active (Now E) item))
     (\<lambda>_. query (\<lambda>s. tri (FindItemByID T (pl_ID item) s) (\<lambda>x. Inr (ToPriceListItemDTO x)))))"

definition DeactivateItem :: "env \<Rightarrow> string \<Rightarrow> string \<Rightarrow> PriceListItemDTO app" where
  "DeactivateItem E T i = setItemActive E T i False"

definition ReactivateItem :: "env \<Rightarrow> string \<Rightarrow> string \<Rightarrow> PriceListItemDTO app" where
  "ReactivateItem E T i = setItemActive E T i True"

definition ListGoldPrices :: "string \<Rightarrow> GoldPriceListFilter \<Rightarrow> store \<Rightarrow> GoldPriceDTO list" where
  "ListGoldPrices T f s = map ToGoldPriceDTO (repoListGoldPrices T f s)"

definition new_gold_price :: "env \<Rightarrow> string \<Rightarrow> string \<Rightarrow> CreateGoldPriceRequest \<Rightarrow> GoldPrice" where
  "new_gold_price E i T req = \<lparr>gr_ID = i, gr_CreatedAt = Now E, gr_UpdatedAt = Now E, gr_TenantID = TrimSpace T,
     gr_PriceDate = formatDate (dateOf (gq_PriceDate req)), gr_BRLPerGram = gq_BRLPerGram req,
     gr_RecordedBy = TrimSpace (gq_RecordedBy req), gr_Notes = TrimSpace (gq_Notes req), gr_Active = True\<rparr>"

definition CreateGoldPrice :: "env \<Rightarrow> string \<Rightarrow> CreateGoldPriceRequest \<Rightarrow> GoldPriceDTO app" where
  "CreateGoldPrice E T req =
     bnd (lift (ValidateCreateGoldPrice req))
     (\<lambda>_. bnd (newID E)
     (\<lambda>i. let price = new_gold_price E i T req in
       bnd (query (\<lambda>s. Inr (FindActiveGoldPriceByDate T (gr_PriceDate price) s)))
     (\<lambda>existing. case existing of
         Inl _ \<Rightarrow> bnd (repoCreateGoldPrice E price) (\<lambda>x. ret (ToGoldPriceDTO x))
       | Inr old \<Rightarrow> bnd (ReplaceActiveGoldPrice E T price)
           (\<lambda>x. ret ((ToGoldPriceDTO x)\<lparr>gw_SupersededGoldPriceID := gr_ID old\<rparr>)))))"

definition LatestGoldPrice :: "string \<Rightarrow> store \<Rightarrow> app_error + GoldPriceDTO" where
  "LatestGoldPrice T s = tri (FindLatestGoldPrice T s) (\<lambda>x. Inr (ToGoldPriceDTO x))"

definition DeactivateGoldPrice :: "env \<Rightarrow> string \<Rightarrow> string \<Rightarrow> GoldPriceDTO app" where
  "DeactivateGoldPrice E T i =
     bnd (query (FindGoldPriceByID T i))
     (\<lambda>p. bnd (UpdateGoldPrice T (p\<lparr>gr_Active := False, gr_UpdatedAt := Now E\<rparr>))
     (\<lambda>_. query (\<lambda>s. tri (FindGoldPriceByID T (gr_ID p) s) (\<lambda>x. Inr (ToGoldPriceDTO x)))))"

end
