(* ===== verification/PriceHistory.thy ===== *)
theory PriceHistory
  imports PriceLists PlanEffects
begin

text \<open>
  What the price lists guarantee (\<open>backend/internal/pricelists\<close>): prices are a history, in which no row ever
  changes but in being active, and at most one row of a key is active; a changed item is a new revision beside the
  old one; and the newest price of gold is the one expenses are converted at.
\<close>

section \<open>Consistent prices and their history\<close>

definition prices_ok :: "store \<Rightarrow> bool" where
  "prices_ok s \<longleftrightarrow> distinct (map pl_ID (PriceListItems s)) \<and>
     distinct (map item_key (filter pl_Active (PriceListItems s))) \<and>
     distinct (map gr_ID (GoldPrices s)) \<and> distinct (map gold_price_key (filter gr_Active (GoldPrices s)))"

definition item_revised :: "ExpensePriceListItem \<Rightarrow> ExpensePriceListItem \<Rightarrow> bool" where
  "item_revised x y \<longleftrightarrow> y = x\<lparr>pl_Active := pl_Active y, pl_UpdatedAt := pl_UpdatedAt y\<rparr>"

definition price_revised :: "GoldPrice \<Rightarrow> GoldPrice \<Rightarrow> bool" where
  "price_revised x y \<longleftrightarrow> y = x\<lparr>gr_Active := gr_Active y, gr_UpdatedAt := gr_UpdatedAt y\<rparr>"

interpretation item_rows: row_frame item_revised
proof
  show "item_revised a c" if "item_revised a b" "item_revised b c" for a b c
    using that by (cases a; cases b; cases c) (simp add: item_revised_def)
qed (simp add: item_revised_def)

interpretation price_rows: row_frame price_revised
proof
  show "price_revised a c" if "price_revised a b" "price_revised b c" for a b c
    using that by (cases a; cases b; cases c) (simp add: price_revised_def)
qed (simp add: price_revised_def)

definition price_history :: "store \<Rightarrow> store \<Rightarrow> bool" where
  "price_history s t \<longleftrightarrow> rows_follow item_revised (PriceListItems s) (PriceListItems t) \<and>
     rows_follow price_revised (GoldPrices s) (GoldPrices t) \<and>
     (\<exists>x y n. t = s\<lparr>PriceListItems := x, GoldPrices := y, IdsUsed := n\<rparr>)"

lemma price_history_writes:
  "rows_follow item_revised (PriceListItems s) x \<Longrightarrow> price_history s (s\<lparr>PriceListItems := x\<rparr>)"
  "rows_follow price_revised (GoldPrices s) y \<Longrightarrow> price_history s (s\<lparr>GoldPrices := y\<rparr>)"
  "price_history s (s\<lparr>IdsUsed := n\<rparr>)"
  unfolding price_history_def
  by (simp add: price_rows.follow_refl, intro exI [of _ x] exI [of _ "GoldPrices s"] exI [of _ "IdsUsed s"], simp)
    (simp add: item_rows.follow_refl, intro exI [of _ "PriceListItems s"] exI [of _ y] exI [of _ "IdsUsed s"], simp,
     simp add: item_rows.follow_refl price_rows.follow_refl,
     intro exI [of _ "PriceListItems s"] exI [of _ "GoldPrices s"] exI [of _ n], simp)

lemma price_history_refl: "price_history s s"
  using price_history_writes(3) [of s "IdsUsed s"] by simp

lemma price_history_trans: "price_history s t \<Longrightarrow> price_history t u \<Longrightarrow> price_history s u"
proof -
  assume st: "price_history s t" and tu: "price_history t u"
  obtain x y n where t: "t = s\<lparr>PriceListItems := x, GoldPrices := y, IdsUsed := n\<rparr>"
    using st unfolding price_history_def by blast
  obtain x' y' m where u: "u = t\<lparr>PriceListItems := x', GoldPrices := y', IdsUsed := m\<rparr>"
    using tu unfolding price_history_def by blast
  have "u = s\<lparr>PriceListItems := x', GoldPrices := y', IdsUsed := m\<rparr>" by (simp add: t u)
  then show "price_history s u"
    using st tu item_rows.follow_trans price_rows.follow_trans unfolding price_history_def by blast
qed

definition prices_kept :: "store \<Rightarrow> store \<Rightarrow> bool" where
  "prices_kept s t \<longleftrightarrow> (prices_ok s \<longrightarrow> prices_ok t \<and> price_history s t)"

interpretation prices: state_frame prices_kept
  using price_history_refl price_history_trans by unfold_locales (auto simp: prices_kept_def)

section \<open>What the writes keep\<close>

text \<open>Rows that leave the selection leave its keys unique.\<close>

lemma unique_key_deselect:
  assumes "distinct (map k (filter A rows))" and "\<And>r. P r \<Longrightarrow> \<not> A (f r)"
  shows "distinct (map k (filter A (update_where P f rows)))"
proof -
  have "filter A (update_where P f rows) = filter (\<lambda>r. \<not> P r) (filter A rows)"
    using assms(2) by (induction rows) auto
  then show ?thesis using assms(1) by (simp only: distinct_map_filter)
qed

lemma item_switched_simps [simp]:
  "pl_ID (item_switched b u x) = pl_ID x" "pl_TenantID (item_switched b u x) = pl_TenantID x"
  "pl_ItemType (item_switched b u x) = pl_ItemType x" "pl_Code (item_switched b u x) = pl_Code x"
  "item_key (item_switched b u x) = item_key x" "pl_Active (item_switched b u x) = b"
  "pl_UpdatedAt (item_switched b u x) = u" "item_revised x (item_switched b u x)"
  by (simp_all add: item_switched_def item_key_def item_revised_def)

lemma updatePriceItems_run: "updatePriceItems P f s =
    (case abort_if (concat (map (\<lambda>x. price_item_update_guards s x (f x)) (filter P (PriceListItems s)))) of
       Inl e \<Rightarrow> (Inl e, s) | Inr u \<Rightarrow> (Inr (), s\<lparr>PriceListItems := update_where P f (PriceListItems s)\<rparr>))"
  by (simp add: updatePriceItems_def guarded_update_def run_simps split: sum.split)

lemma updateGoldPrices_run: "updateGoldPrices P f s =
    (case abort_if (concat (map (\<lambda>x. gold_price_update_guards s x (f x)) (filter P (GoldPrices s)))) of
       Inl e \<Rightarrow> (Inl e, s) | Inr u \<Rightarrow> (Inr (), s\<lparr>GoldPrices := update_where P f (GoldPrices s)\<rparr>))"
  by (simp add: updateGoldPrices_def guarded_update_def run_simps split: sum.split)

lemma item_rows_kept:
  assumes "rows_follow item_revised (PriceListItems s) x"
    and "prices_ok s \<Longrightarrow> distinct (map pl_ID x) \<and> distinct (map item_key (filter pl_Active x))"
  shows "prices_kept s (s\<lparr>PriceListItems := x\<rparr>)"
  using assms price_history_writes(1) by (auto simp: prices_kept_def prices_ok_def)

lemma gold_rows_kept:
  assumes "prices_ok s \<Longrightarrow> rows_follow price_revised (GoldPrices s) y"
    and "prices_ok s \<Longrightarrow> distinct (map gr_ID y) \<and> distinct (map gold_price_key (filter gr_Active y))"
  shows "prices_kept s (s\<lparr>GoldPrices := y\<rparr>)"
  using assms price_history_writes(2) by (auto simp: prices_kept_def prices_ok_def)

lemma keeps_newID_prices: "keeps prices_kept (newID E)"
  using price_history_writes(3) by (simp add: keeps_def prices_kept_def prices_ok_def)

lemma keeps_switch_off: "keeps prices_kept (updatePriceItems P (item_switched False u))"
proof -
  have "prices_kept s (s\<lparr>PriceListItems := update_where P (item_switched False u) (PriceListItems s)\<rparr>)" for s
    by (intro item_rows_kept item_rows.follow_update)
      (auto simp: prices_ok_def map_update_where intro!: unique_key_deselect)
  then show ?thesis
    using prices.R_refl by (simp add: keeps_def updatePriceItems_run split: sum.split)
qed

lemma keeps_switch: "keeps prices_kept (updatePriceItems (item_of T i) (item_switched b u))"
  unfolding keeps_def
proof
  fix s
  let ?P = "item_of T i" and ?f = "item_switched b u"
  show "prices_kept s (snd (updatePriceItems ?P ?f s))"
  proof (cases "abort_if (concat (map (\<lambda>x. price_item_update_guards s x (?f x)) (filter ?P (PriceListItems s))))")
    case Inl
    then show ?thesis using prices.R_refl by (simp add: updatePriceItems_run)
  next
    case (Inr v)
    then have guards: "\<forall>x \<in> set (PriceListItems s). ?P x \<longrightarrow> \<not> item_key_taken s (pl_ID x) (?f x)"
      by (simp add: guards_each price_item_update_guards_def) (simp add: abort_if_ok)
    have "prices_kept s (s\<lparr>PriceListItems := update_where ?P ?f (PriceListItems s)\<rparr>)"
    proof (intro item_rows_kept item_rows.follow_update)
      assume ok: "prices_ok s"
      have "r = r'" if "r \<in> set (PriceListItems s)" "r' \<in> set (PriceListItems s)" "?P r" "?P r'" for r r'
        using ok that distinct_key [of pl_ID "PriceListItems s" r r'] by (simp add: prices_ok_def item_of_def)
      then show "distinct (map pl_ID (update_where ?P ?f (PriceListItems s))) \<and>
          distinct (map item_key (filter pl_Active (update_where ?P ?f (PriceListItems s))))"
        using ok guards
        by (intro conjI unique_key_update [where key = pl_ID])
          (auto simp: prices_ok_def item_key_taken_def list_ex_iff, metis)
    qed simp
    then show ?thesis using Inr by (simp add: updatePriceItems_run)
  qed
qed

lemma repoCreateItem_ok: "repoCreateItem E x0 s = (Inr x, t) \<longleftrightarrow>
    x = with_price_item_defaults E x0 \<and> t = s\<lparr>PriceListItems := PriceListItems s @ [x]\<rparr> \<and>
    abort_if (price_item_insert_guards s x) = Inr ()"
  by (auto simp: repoCreateItem_def Let_def run_ok)

lemma keeps_createItem: "keeps prices_kept (repoCreateItem E x0)"
  unfolding keeps_def
proof
  fix s
  obtain r t where run: "repoCreateItem E x0 s = (r, t)" by (cases "repoCreateItem E x0 s")
  show "prices_kept s (snd (repoCreateItem E x0 s))"
  proof (cases r)
    case Inl
    then have "t = s" using run by (auto simp: repoCreateItem_def Let_def run_simps split: sum.splits)
    then show ?thesis using run prices.R_refl by simp
  next
    case (Inr x)
    then have t: "t = s\<lparr>PriceListItems := PriceListItems s @ [x]\<rparr>" and g: "abort_if (price_item_insert_guards s x) = Inr ()"
      using run by (auto simp: repoCreateItem_ok)
    have "prices_kept s t"
      unfolding t using g
      by (intro item_rows_kept item_rows.follow_append)
        (auto simp: prices_ok_def abort_if_ok price_item_insert_guards_def item_key_taken_def list_ex_iff)
    then show ?thesis using run by simp
  qed
qed

lemma repoCreateGoldPrice_ok: "repoCreateGoldPrice E x0 s = (Inr x, t) \<longleftrightarrow>
    x = with_gold_price_defaults E x0 \<and> t = s\<lparr>GoldPrices := GoldPrices s @ [x]\<rparr> \<and>
    abort_if (gold_price_insert_guards s x) = Inr ()"
  by (auto simp: repoCreateGoldPrice_def Let_def run_ok)

lemma keeps_createGoldPrice: "keeps prices_kept (repoCreateGoldPrice E x0)"
  unfolding keeps_def
proof
  fix s
  obtain r t where run: "repoCreateGoldPrice E x0 s = (r, t)" by (cases "repoCreateGoldPrice E x0 s")
  show "prices_kept s (snd (repoCreateGoldPrice E x0 s))"
  proof (cases r)
    case Inl
    then have "t = s" using run by (auto simp: repoCreateGoldPrice_def Let_def run_simps split: sum.splits)
    then show ?thesis using run prices.R_refl by simp
  next
    case (Inr x)
    then have t: "t = s\<lparr>GoldPrices := GoldPrices s @ [x]\<rparr>" and g: "abort_if (gold_price_insert_guards s x) = Inr ()"
      using run by (auto simp: repoCreateGoldPrice_ok)
    have "prices_kept s t"
      unfolding t using g
      by (intro gold_rows_kept price_rows.follow_append)
        (auto simp: prices_ok_def abort_if_ok gold_price_insert_guards_def gold_price_key_taken_def list_ex_iff)
    then show ?thesis using run by simp
  qed
qed

lemma keeps_gold_off: "keeps prices_kept (updateGoldPrices P (\<lambda>x. x\<lparr>gr_Active := False, gr_UpdatedAt := u\<rparr>))"
proof -
  have "prices_kept s (s\<lparr>GoldPrices := update_where P (\<lambda>x. x\<lparr>gr_Active := False, gr_UpdatedAt := u\<rparr>) (GoldPrices s)\<rparr>)" for s
    by (intro gold_rows_kept price_rows.follow_update)
      (auto simp: prices_ok_def price_revised_def map_update_where intro!: unique_key_deselect)
  then show ?thesis
    using prices.R_refl by (simp add: keeps_def updateGoldPrices_run split: sum.split)
qed

section \<open>What the operations keep\<close>

lemma keeps_ReplaceItemWithRevision: "keeps prices_kept (ReplaceItemWithRevision E T existing replacement)"
  unfolding ReplaceItemWithRevision_def Let_def
  by (intro prices.keeps_transaction keeps_keeps_ok prices.keeps_bnd keeps_switch_off keeps_createItem)

lemma keeps_SetItemActive: "keeps prices_kept (SetItemActive T item)"
  unfolding SetItemActive_def Let_def
  by (intro prices.keeps_transaction keeps_keeps_ok prices.keeps_bnd prices.keeps_if keeps_switch_off keeps_switch
      prices.keeps_pure)

lemma keeps_ReplaceActiveGoldPrice: "keeps prices_kept (ReplaceActiveGoldPrice E T replacement)"
  unfolding ReplaceActiveGoldPrice_def Let_def
  by (intro prices.keeps_transaction keeps_keeps_ok prices.keeps_bnd keeps_gold_off keeps_createGoldPrice)

lemma keeps_CreateItem: "keeps prices_kept (CreateItem E T req)"
  unfolding CreateItem_def by (intro prices.keeps_intros keeps_newID_prices keeps_createItem)

lemma keeps_UpdateItem: "keeps prices_kept (UpdateItem E T i req)"
  unfolding UpdateItem_def by (intro prices.keeps_intros keeps_newID_prices keeps_ReplaceItemWithRevision)

lemma keeps_setItemActive: "keeps prices_kept (setItemActive E T i b)"
  unfolding setItemActive_def by (intro prices.keeps_intros keeps_SetItemActive)

lemma keeps_CreateGoldPrice: "keeps prices_kept (CreateGoldPrice E T req)"
  unfolding CreateGoldPrice_def Let_def
  by (intro prices.keeps_intros keeps_newID_prices)
    (auto split: sum.split intro!: prices.keeps_intros keeps_createGoldPrice keeps_ReplaceActiveGoldPrice)

lemma FindGoldPriceByID_ok: "FindGoldPriceByID T i s = Inr p \<Longrightarrow>
    p \<in> set (GoldPrices s) \<and> gold_price_of (TrimSpace T) (TrimSpace i) p"
  by (auto simp: FindGoldPriceByID_def found_Inr dest!: first_by_Some)

lemma switch_gold_price_kept:
  assumes p: "FindGoldPriceByID T i s = Inr p"
  shows "prices_kept s (snd (UpdateGoldPrice T (p\<lparr>gr_Active := False, gr_UpdatedAt := u\<rparr>) s))"
proof -
  let ?P = "gold_price_of (TrimSpace T) (gr_ID p)"
  let ?f = "\<lambda>x. x\<lparr>gr_BRLPerGram := gr_BRLPerGram p, gr_RecordedBy := gr_RecordedBy p, gr_Notes := gr_Notes p,
     gr_Active := False, gr_UpdatedAt := u\<rparr>"
  have "prices_kept s (s\<lparr>GoldPrices := update_where ?P ?f (GoldPrices s)\<rparr>)"
  proof (intro gold_rows_kept price_rows.follow_update)
    assume ok: "prices_ok s"
    show "price_revised r (?f r)" if "r \<in> set (GoldPrices s)" "?P r" for r
    proof -
      have "r = p" using ok that FindGoldPriceByID_ok [OF p] distinct_key [of gr_ID "GoldPrices s" r p]
        by (simp add: prices_ok_def gold_price_of_def)
      then show ?thesis by (simp add: price_revised_def)
    qed
    show "distinct (map gr_ID (update_where ?P ?f (GoldPrices s))) \<and>
        distinct (map gold_price_key (filter gr_Active (update_where ?P ?f (GoldPrices s))))"
      using ok by (auto simp: prices_ok_def map_update_where intro!: unique_key_deselect)
  qed
  then show ?thesis
    using prices.R_refl by (simp add: UpdateGoldPrice_def updateGoldPrices_run split: sum.split)
qed

lemma keeps_DeactivateGoldPrice: "keeps prices_kept (DeactivateGoldPrice E T i)"
  unfolding keeps_def
proof
  fix s
  show "prices_kept s (snd (DeactivateGoldPrice E T i s))"
  proof (cases "FindGoldPriceByID T i s")
    case Inl
    then show ?thesis using prices.R_refl by (simp add: DeactivateGoldPrice_def run_simps)
  next
    case (Inr p)
    show ?thesis
      using switch_gold_price_kept [OF Inr, of "Now E"] Inr
      by (auto simp: DeactivateGoldPrice_def run_simps bnd_def [of "UpdateGoldPrice _ _"] split: prod.splits sum.splits)
  qed
qed

text \<open>The writing requests of the price lists, and a sequence of them.\<close>

datatype price_request =
    CreateItemCall CreatePriceListItemRequest
  | UpdateItemCall string UpdatePriceListItemRequest
  | DeactivateItemCall string
  | ReactivateItemCall string
  | CreateGoldPriceCall CreateGoldPriceRequest
  | DeactivateGoldPriceCall string

fun price_step :: "env \<Rightarrow> string \<Rightarrow> price_request \<Rightarrow> store \<Rightarrow> store" where
  "price_step E T (CreateItemCall req) s = snd (CreateItem E T req s)"
| "price_step E T (UpdateItemCall i req) s = snd (UpdateItem E T i req s)"
| "price_step E T (DeactivateItemCall i) s = snd (DeactivateItem E T i s)"
| "price_step E T (ReactivateItemCall i) s = snd (ReactivateItem E T i s)"
| "price_step E T (CreateGoldPriceCall req) s = snd (CreateGoldPrice E T req s)"
| "price_step E T (DeactivateGoldPriceCall i) s = snd (DeactivateGoldPrice E T i s)"

fun price_steps :: "(env \<times> string \<times> price_request) list \<Rightarrow> store \<Rightarrow> store" where
  "price_steps [] s = s"
| "price_steps ((E, T, q) # qs) s = price_steps qs (price_step E T q s)"

lemma price_step_kept: "prices_kept s (price_step E T q s)"
  using keeps_CreateItem keeps_UpdateItem keeps_setItemActive keeps_CreateGoldPrice keeps_DeactivateGoldPrice
  by (cases q) (simp_all add: keeps_def DeactivateItem_def ReactivateItem_def)

lemma price_steps_kept: "prices_kept s (price_steps qs s)"
proof (induction qs arbitrary: s)
  case (Cons q qs)
  obtain E T r where q: "q = (E, T, r)" by (cases q)
  show ?case
    using prices.R_trans [OF price_step_kept Cons.IH, of s E T r] by (simp add: q)
qed (simp add: prices.R_refl)

section \<open>A list to price\<close>

definition demo_prices :: store where
  "demo_prices = demo_store\<lparr>
     PriceListItems := [\<lparr>pl_ID = ''p1'', pl_CreatedAt = 1, pl_UpdatedAt = 1, pl_TenantID = ''t1'',
        pl_ItemType = ''CANTEEN'', pl_Code = ''LUNCH'', pl_Description = ''Lunch'', pl_UnitPriceBRL = 25,
        pl_Active = True, pl_SortOrder = 1, pl_SupersededPriceListItemID = None\<rparr>],
     GoldPrices := [\<lparr>gr_ID = ''q1'', gr_CreatedAt = 1, gr_UpdatedAt = 1, gr_TenantID = ''t1'',
        gr_PriceDate = ''2024-01-01'', gr_BRLPerGram = 400, gr_RecordedBy = ''boss'', gr_Notes = [], gr_Active = True\<rparr>]\<rparr>"

definition demo_dearer_lunch :: UpdatePriceListItemRequest where
  "demo_dearer_lunch = \<lparr>pq_ItemType = ''canteen'', pq_Code = '' lunch'', pq_Description = ''Lunch'',
     pq_UnitPriceBRL = 30, pq_SortOrder = 1\<rparr>"

definition demo_gold_quote :: CreateGoldPriceRequest where
  "demo_gold_quote = \<lparr>gq_PriceDate = ''2024-01-01'', gq_BRLPerGram = 410, gq_RecordedBy = ''boss'', gq_Notes = []\<rparr>"

lemma demo_prices_ok: "prices_ok demo_prices"
  by (simp add: prices_ok_def demo_prices_def)

section \<open>The properties\<close>

text \<open>
  C24. Prices are a history. Whatever requests of whatever tenants the price lists serve, with any outcome: identifiers
  stay unique and at most one row of a tenant's item code, and of a tenant's date, is active; every earlier row stays at
  its place with its key, its text and its price; and the expenses and the ledger are not touched.
\<close>

theorem price_history_kept:
  assumes "prices_ok s" and "t = price_steps qs s"
  shows "prices_ok t \<and>
    (\<forall>j < length (PriceListItems s). j < length (PriceListItems t) \<and>
       (let x = PriceListItems s ! j; y = PriceListItems t ! j in pl_ID y = pl_ID x \<and> item_key y = item_key x \<and>
          pl_Description y = pl_Description x \<and> pl_UnitPriceBRL y = pl_UnitPriceBRL x \<and> pl_CreatedAt y = pl_CreatedAt x)) \<and>
    (\<forall>j < length (GoldPrices s). j < length (GoldPrices t) \<and>
       (let x = GoldPrices s ! j; y = GoldPrices t ! j in gr_ID y = gr_ID x \<and> gold_price_key y = gold_price_key x \<and>
          gr_BRLPerGram y = gr_BRLPerGram x \<and> gr_RecordedBy y = gr_RecordedBy x)) \<and>
    Expenses t = Expenses s \<and> Ledger t = Ledger s"
proof -
  have ok: "prices_ok t" and h: "price_history s t"
    using price_steps_kept [of s qs] assms by (simp_all add: prices_kept_def)
  have items: "j < length (PriceListItems t) \<and> item_revised (PriceListItems s ! j) (PriceListItems t ! j)"
    if "j < length (PriceListItems s)" for j
    using h that rows_follow_length by (fastforce simp: price_history_def rows_follow_def list_all2_conv_all_nth)
  have golds: "j < length (GoldPrices t) \<and> price_revised (GoldPrices s ! j) (GoldPrices t ! j)"
    if "j < length (GoldPrices s)" for j
    using h that rows_follow_length by (fastforce simp: price_history_def rows_follow_def list_all2_conv_all_nth)
  have item: "pl_ID y = pl_ID x \<and> item_key y = item_key x \<and> pl_Description y = pl_Description x \<and>
      pl_UnitPriceBRL y = pl_UnitPriceBRL x \<and> pl_CreatedAt y = pl_CreatedAt x" if "item_revised x y" for x y
    using that by (cases x; cases y) (simp add: item_revised_def item_key_def)
  have gold: "gr_ID y = gr_ID x \<and> gold_price_key y = gold_price_key x \<and> gr_BRLPerGram y = gr_BRLPerGram x \<and>
      gr_RecordedBy y = gr_RecordedBy x" if "price_revised x y" for x y
    using that by (cases x; cases y) (simp add: price_revised_def gold_price_key_def)
  have "Expenses t = Expenses s" "Ledger t = Ledger s" using h by (auto simp: price_history_def)
  then show ?thesis using ok items golds item gold by (simp add: Let_def)
qed

lemma demo_revision_runs:
  "length (PriceListItems (price_steps [(demo_env, ''t1'', UpdateItemCall ''p1'' demo_dearer_lunch)] demo_prices)) = 2"
  by code_simp

theorem price_history_kept_witness:
  "\<exists>t. t = price_steps [(demo_env, ''t1'', UpdateItemCall ''p1'' demo_dearer_lunch)] demo_prices \<and>
     length (PriceListItems t) = 2 \<and> pl_UnitPriceBRL (PriceListItems t ! 0) = 25"
  using price_history_kept [OF demo_prices_ok refl, of "[(demo_env, ''t1'', UpdateItemCall ''p1'' demo_dearer_lunch)]"]
    demo_revision_runs
  by (simp add: Let_def demo_prices_def)

text \<open>
  A changed item is a new revision. A successful update of an item deactivates its row and nothing else in the
  list, and adds one active row with the new type, code and price that names the old one; no other active item has its
  code. The answer shows the new row.
\<close>

theorem item_revised_once:
  assumes "UpdateItem E T i req s = (Inr d, t)" and "prices_ok s"
  shows "\<exists>old new n. old \<in> set (PriceListItems s) \<and> pl_ID old = TrimSpace i \<and> pl_TenantID old = TrimSpace T \<and>
    pl_Active old \<and>
    t = s\<lparr>PriceListItems := map (\<lambda>x. if x = old then item_switched False (pl_UpdatedAt new) x else x) (PriceListItems s) @ [new],
          IdsUsed := n\<rparr> \<and>
    pl_Active new \<and> pl_SupersededPriceListItemID new = Some (pl_ID old) \<and>
    item_key new = (TrimSpace T, normalizeItemType (pq_ItemType req), normalizeCode (pq_Code req)) \<and>
    pl_UnitPriceBRL new = pq_UnitPriceBRL req \<and> 0 < pl_UnitPriceBRL new \<and>
    (\<forall>x \<in> set (PriceListItems t). pl_Active x \<longrightarrow> item_key x = item_key new \<longrightarrow> x = new) \<and>
    d = ToPriceListItemDTO new"
proof -
  let ?s = "s\<lparr>IdsUsed := Suc (IdsUsed s)\<rparr>"
  from assms(1) obtain old new where old: "FindItemByID T i s = Inr old" "pl_Active old"
    and run: "ReplaceItemWithRevision E T old (new_item E (NewID E (IdsUsed s)) (pl_TenantID old) req (Some (pl_ID old))) ?s = (Inr new, t)"
    and d: "d = (ToPriceListItemDTO new)\<lparr>pd_SupersededPriceListItemID := pl_ID old\<rparr>"
    by (auto simp: UpdateItem_def run_ok split: if_split_asm)
  define row where "row = new_item E (NewID E (IdsUsed s)) (pl_TenantID old) req (Some (pl_ID old))"
  define off where "off = item_switched False (pl_UpdatedAt row)"
  let ?P = "replaced_items (TrimSpace T) old row"
  have found: "old \<in> set (PriceListItems s)" "pl_ID old = TrimSpace i" "pl_TenantID old = TrimSpace T"
    using old(1) by (auto simp: FindItemByID_def found_Inr item_of_def dest!: first_by_Some)
  from run obtain u where u: "updatePriceItems ?P off ?s = (Inr (), u)"
    and c: "repoCreateItem E (row\<lparr>pl_Active := True\<rparr>) u = (Inr new, t)"
    by (auto simp: ReplaceItemWithRevision_def Let_def transaction_ok run_ok row_def off_def)
  have one: "?P x \<longleftrightarrow> x = old" if "x \<in> set (PriceListItems s)" for x
  proof
    have inj: "inj_on item_key (set (filter pl_Active (PriceListItems s)))" and ids: "distinct (map pl_ID (PriceListItems s))"
      using assms(2) by (simp_all add: prices_ok_def distinct_map)
    assume "?P x"
    then show "x = old"
      using that found old(2) distinct_key [OF ids that found(1)] inj_onD [OF inj, of x old]
      by (auto simp: replaced_items_def item_of_def item_key_def split: if_splits)
  next
    assume "x = old"
    then show "?P x" using found old(2) by (simp add: replaced_items_def item_of_def item_key_def)
  qed
  have "u = ?s\<lparr>PriceListItems := update_where ?P off (PriceListItems s)\<rparr>"
    using u by (auto simp: updatePriceItems_run split: sum.splits)
  also have "update_where ?P off (PriceListItems s) = map (\<lambda>x. if x = old then off x else x) (PriceListItems s)"
    using one by (simp add: update_where_def)
  finally have u: "u = ?s\<lparr>PriceListItems := map (\<lambda>x. if x = old then off x else x) (PriceListItems s)\<rparr>" .
  have new: "new = with_price_item_defaults E (row\<lparr>pl_Active := True\<rparr>)"
    and t: "t = u\<lparr>PriceListItems := PriceListItems u @ [new]\<rparr>" and g: "abort_if (price_item_insert_guards u new) = Inr ()"
    using c by (auto simp: repoCreateItem_ok)
  have sup: "pl_SupersededPriceListItemID new = Some (pl_ID old)" "pl_Active new"
    by (simp_all add: new with_price_item_defaults_def row_def new_item_def)
  have tenant: "pl_TenantID new = TrimSpace T"
  proof -
    obtain x where x: "x \<in> set (PriceListItems s)" "pl_ID x = pl_ID old" "pl_TenantID x = pl_TenantID new"
      using g sup by (auto simp: abort_if_ok price_item_insert_guards_def price_item_checks_def list_ex_iff u off_def split: if_splits)
    then show ?thesis using found assms(2) distinct_key [of pl_ID "PriceListItems s" x old] by (simp add: prices_ok_def)
  qed
  have key: "item_key new = (TrimSpace T, normalizeItemType (pq_ItemType req), normalizeCode (pq_Code req))"
    "pl_UnitPriceBRL new = pq_UnitPriceBRL req"
    using tenant by (simp_all add: item_key_def new with_price_item_defaults_def row_def new_item_def)
  have price: "0 < pl_UnitPriceBRL new" using g by (simp add: abort_if_ok price_item_insert_guards_def price_item_checks_def)
  have "prices_ok t" using keepsD [OF keeps_UpdateItem assms(1)] assms(2) by (simp add: prices_kept_def)
  then have "inj_on item_key (set (filter pl_Active (PriceListItems t)))" by (simp add: prices_ok_def distinct_map)
  moreover have "new \<in> set (PriceListItems t)" by (simp add: t)
  ultimately have only: "\<forall>x \<in> set (PriceListItems t). pl_Active x \<longrightarrow> item_key x = item_key new \<longrightarrow> x = new"
    using sup(2) by (auto dest: inj_onD)
  have "pl_UpdatedAt new = pl_UpdatedAt row"
    by (simp add: new with_price_item_defaults_def row_def new_item_def or_time_def)
  then have t: "t = s\<lparr>PriceListItems := map (\<lambda>x. if x = old then item_switched False (pl_UpdatedAt new) x else x) (PriceListItems s) @ [new],
      IdsUsed := Suc (IdsUsed s)\<rparr>"
    by (simp add: t u off_def)
  have "d = ToPriceListItemDTO new" by (simp add: d ToPriceListItemDTO_def sup stringValue_def)
  then show ?thesis using found old(2) t sup key price only by blast
qed

lemma demo_item_update_runs: "\<not> isl (fst (UpdateItem demo_env ''t1'' ''p1'' demo_dearer_lunch demo_prices))"
  by code_simp

theorem item_revised_once_witness:
  "\<exists>d t. UpdateItem demo_env ''t1'' ''p1'' demo_dearer_lunch demo_prices = (Inr d, t) \<and>
     (\<exists>new \<in> set (PriceListItems t). pl_Active new \<and> pl_SupersededPriceListItemID new = Some ''p1'' \<and> pl_UnitPriceBRL new = 30)"
proof -
  obtain d t where run: "UpdateItem demo_env ''t1'' ''p1'' demo_dearer_lunch demo_prices = (Inr d, t)"
    using succeeded [OF demo_item_update_runs] by blast
  have "TrimSpace ''p1'' = ''p1''" by code_simp
  then show ?thesis
    using item_revised_once [OF run demo_prices_ok] run by (fastforce simp: demo_dearer_lunch_def)
qed

text \<open>
  C40. The newest price of gold is what expenses are converted at. Recording a price for a date that no active price of
  the tenant lies after leaves exactly one active price for that date, the recorded one, and from then on the price lists
  show it as the latest and every expense of the tenant charged in grams of gold is converted at it.
\<close>

theorem new_gold_price_converts:
  assumes "CreateGoldPrice E T req s = (Inr d, t)" and "prices_ok s" and "TrimSpace T \<noteq> []"
    and "\<forall>p \<in> set (GoldPrices s). gr_Active p \<longrightarrow> gr_TenantID p = TrimSpace T \<longrightarrow>
      gr_PriceDate p \<le> formatDate (dateOf (gq_PriceDate req))"
  shows "\<exists>g \<in> set (GoldPrices t). gr_Active g \<and> gr_ID g = gw_ID d \<and> gr_BRLPerGram g = gq_BRLPerGram req \<and>
    0 < gr_BRLPerGram g \<and> gold_price_key g = (TrimSpace T, formatDate (dateOf (gq_PriceDate req))) \<and>
    (\<forall>x \<in> set (GoldPrices t). gr_Active x \<longrightarrow> gold_price_key x = gold_price_key g \<longrightarrow> x = g) \<and>
    LatestGoldPrice T t = Inr (ToGoldPriceDTO g) \<and>
    (\<forall>F. TenantID F = TrimSpace T \<longrightarrow> conversion F ''GOLD_GRAM'' t = Inr (Some g))"
proof -
  let ?s = "s\<lparr>IdsUsed := Suc (IdsUsed s)\<rparr>" and ?day = "formatDate (dateOf (gq_PriceDate req))"
  define row where "row = new_gold_price E (NewID E (IdsUsed s)) T req"
  have row: "row\<lparr>gr_Active := True\<rparr> = row" by (simp add: row_def new_gold_price_def)
  obtain u g where c: "repoCreateGoldPrice E row u = (Inr g, t)" and d: "gw_ID d = gr_ID g"
    and old: "\<forall>x \<in> set (GoldPrices u). gr_Active x \<longrightarrow> x \<in> set (GoldPrices s)"
  proof (cases "FindActiveGoldPriceByDate T (gr_PriceDate row) ?s")
    case (Inl e)
    then obtain g where g: "repoCreateGoldPrice E row ?s = (Inr g, t)" "d = ToGoldPriceDTO g"
      using assms(1) by (auto simp: CreateGoldPrice_def run_ok Let_def row_def)
    then show ?thesis using that [OF g(1)] by (simp add: ToGoldPriceDTO_def)
  next
    case (Inr p)
    then obtain g where g: "ReplaceActiveGoldPrice E T row ?s = (Inr g, t)"
      "d = (ToGoldPriceDTO g)\<lparr>gw_SupersededGoldPriceID := gr_ID p\<rparr>"
      using assms(1) by (auto simp: CreateGoldPrice_def run_ok Let_def row_def)
    then obtain u v where u: "updateGoldPrices (\<lambda>x. gold_price_key x = (TrimSpace T, gr_PriceDate row) \<and> gr_Active x)
        (\<lambda>x. x\<lparr>gr_Active := False, gr_UpdatedAt := gr_UpdatedAt row\<rparr>) ?s = (Inr v, u)"
      and c: "repoCreateGoldPrice E row u = (Inr g, t)"
      by (auto simp: ReplaceActiveGoldPrice_def Let_def transaction_ok run_ok row)
    have "\<forall>x \<in> set (GoldPrices u). gr_Active x \<longrightarrow> x \<in> set (GoldPrices s)"
      using u by (auto simp: updateGoldPrices_run split: sum.splits dest!: set_update_where)
    then show ?thesis using that [OF c] g(2) by (simp add: ToGoldPriceDTO_def)
  qed
  have g: "g = with_gold_price_defaults E row" and t: "t = u\<lparr>GoldPrices := GoldPrices u @ [g]\<rparr>"
    and guards: "abort_if (gold_price_insert_guards u g) = Inr ()"
    using c by (auto simp: repoCreateGoldPrice_ok)
  have fields: "gr_Active g" "gr_TenantID g = TrimSpace T" "gr_PriceDate g = ?day" "gr_BRLPerGram g = gq_BRLPerGram req"
    using assms(3) by (simp_all add: g with_gold_price_defaults_def row_def new_gold_price_def or_default_def)
  have price: "0 < gr_BRLPerGram g" using guards by (simp add: abort_if_ok gold_price_insert_guards_def)
  have mem: "g \<in> set (GoldPrices t)" by (simp add: t)
  have "prices_ok t" using keepsD [OF keeps_CreateGoldPrice assms(1)] assms(2) by (simp add: prices_kept_def)
  then have "inj_on gold_price_key (set (filter gr_Active (GoldPrices t)))" by (simp add: prices_ok_def distinct_map)
  then have only: "x = g" if "x \<in> set (GoldPrices t)" "gr_Active x" "gold_price_key x = gold_price_key g" for x
    using that mem fields(1) by (auto dest: inj_onD)
  let ?rows = "filter (\<lambda>p. gr_TenantID p = TrimSpace T \<and> gr_Active p) (GoldPrices t)"
  have newest: "newest_price ?rows = Some g"
  proof -
    have "?rows \<noteq> []" using mem fields by (auto simp: filter_empty_conv)
    moreover have "newest_price ps = None \<Longrightarrow> ps = []" for ps by (cases ps) (auto split: option.splits)
    ultimately obtain h where h: "newest_price ?rows = Some h" by (cases "newest_price ?rows") blast+
    note best = newest_price_max [OF h]
    have hm: "h \<in> set (GoldPrices t)" "gr_Active h" "gr_TenantID h = TrimSpace T" using best(1) by simp_all
    have "(gr_PriceDate g, gr_CreatedAt g) \<le> (gr_PriceDate h, gr_CreatedAt h)" using best(2) [of g] mem fields by simp
    then have "gr_PriceDate g \<le> gr_PriceDate h" by auto
    moreover have "h = g \<or> gr_PriceDate h \<le> ?day" using hm old assms(4) by (auto simp: t)
    ultimately have "h = g \<or> gr_PriceDate h = gr_PriceDate g" using fields(3) by auto
    then show ?thesis using only [OF hm(1,2)] hm(3) fields(2) h by (auto simp: gold_price_key_def)
  qed
  have "LatestGoldPrice T t = Inr (ToGoldPriceDTO g)" by (simp add: LatestGoldPrice_def FindLatestGoldPrice_def newest tri_def)
  moreover have "conversion F ''GOLD_GRAM'' t = Inr (Some g)" if "TenantID F = TrimSpace T" for F
    using that by (simp add: conversion_def not_found_as_def FindLatestActiveGoldPrice_def newest tri_def)
  moreover have "gold_price_key g = (TrimSpace T, ?day)" using fields by (simp add: gold_price_key_def)
  moreover have "gr_ID g = gw_ID d" using d by simp
  ultimately show ?thesis using mem fields(1,4) price only by blast
qed

lemma demo_quote_runs: "\<not> isl (fst (CreateGoldPrice demo_env ''t1'' demo_gold_quote demo_prices))"
  by code_simp

theorem new_gold_price_converts_witness:
  "\<exists>d t g. CreateGoldPrice demo_env ''t1'' demo_gold_quote demo_prices = (Inr d, t) \<and>
     conversion demo_env ''GOLD_GRAM'' t = Inr (Some g) \<and> gr_BRLPerGram g = 410"
proof -
  obtain d t where run: "CreateGoldPrice demo_env ''t1'' demo_gold_quote demo_prices = (Inr d, t)"
    using succeeded [OF demo_quote_runs] by blast
  have tenant: "TrimSpace ''t1'' \<noteq> []" "TenantID demo_env = TrimSpace ''t1''" by code_simp+
  have "list_all (\<lambda>p. gr_PriceDate p \<le> formatDate (dateOf (gq_PriceDate demo_gold_quote))) (GoldPrices demo_prices)"
    by code_simp
  then have "\<forall>p \<in> set (GoldPrices demo_prices). gr_Active p \<longrightarrow> gr_TenantID p = TrimSpace ''t1'' \<longrightarrow>
      gr_PriceDate p \<le> formatDate (dateOf (gq_PriceDate demo_gold_quote))"
    by (simp add: list_all_iff)
  from new_gold_price_converts [OF run demo_prices_ok tenant(1) this] run tenant(2)
  show ?thesis by (auto simp: demo_gold_quote_def)
qed

end
