(* ===== verification/Collaborators.thy ===== *)
theory Collaborators
  imports PlanAssignments
begin

text \<open>
  Journeys (\<open>service_impl.go\<close>, \<open>repository_gorm.go\<close>, \<open>validation.go\<close>, \<open>mapper.go\<close>, \<open>dto.go\<close> of
  \<open>backend/internal/collaborators\<close>): a person with an active membership in a tenant becomes a collaborator for the
  length of a journey, on agreed terms of payment; the terms, the place of work and the length of the journey can be
  changed. The writes obey the triggers of the migrations 000041 and 000056. Days are counted in unbounded integers.
  The search of the list by the text index of the people is not modelled.
\<close>

section \<open>Requests and results\<close>

record CollaboratorDTO =
  co_ID :: string
  co_TenantID :: string
  co_MembershipID :: string
  co_PersonID :: string
  co_LegacyPersonID :: string
  co_PersonName :: string
  co_PersonNickname :: string
  co_JourneyStartDate :: string
  co_DefaultEndDate :: string
  co_ExtensionDays :: int
  co_ProjectedEndDate :: string
  co_PaymentMethodID :: string
  co_PaymentMethodLabel :: string
  co_PaymentValue :: float64
  co_FixedMonthlyBRLAmount :: "float64 option"
  co_DailyBRLAmount :: "float64 option"
  co_GoldCommissionPercent :: "float64 option"
  co_TimeOffGoldSplitPercent :: "float64 option"
  co_SickDayOffReplacementGoldGrams :: "float64 option"
  co_PlanningAvailability :: string
  co_SectorID :: string
  co_SectorLabel :: string
  co_LocationID :: string
  co_LocationLabel :: string
  co_TaskID :: string
  co_TaskLabel :: string
  co_StatusID :: string
  co_StatusCode :: string
  co_StatusLabel :: string
  co_Notes :: string
  co_ClosedAt :: string
  co_CreatedAt :: string
  co_UpdatedAt :: string

text \<open>The terms of payment, which the requests to create and to update share.\<close>

record PaymentTerms =
  pt_PaymentMethodID :: string
  pt_PaymentValue :: float64
  pt_FixedMonthlyBRLAmount :: "float64 option"
  pt_DailyBRLAmount :: "float64 option"
  pt_GoldCommissionPercent :: "float64 option"
  pt_TimeOffGoldSplitPercent :: "float64 option"
  pt_SickDayOffReplacementGoldGrams :: "float64 option"

record CreateCollaboratorRequest =
  cc_MembershipID :: string
  cc_PersonID :: string
  cc_JourneyStartDate :: string
  cc_Payment :: PaymentTerms
  cc_PlanningAvailability :: string
  cc_SectorID :: string
  cc_LocationID :: string
  cc_TaskID :: string
  cc_StatusID :: string
  cc_Notes :: string

record UpdateCollaboratorRequest =
  uc_Payment :: PaymentTerms
  uc_PlanningAvailability :: string
  uc_SectorID :: string
  uc_LocationID :: string
  uc_TaskID :: string
  uc_ExtensionDays :: int

record UpdateCollaboratorWorkAssignmentRequest =
  ua_SectorID :: string
  ua_LocationID :: string
  ua_TaskID :: string

record ExtendCollaboratorJourneyRequest =
  ej_AdditionalDays :: int

record CollaboratorListFilter =
  cx_StatusFilter :: string
  cx_LocationFilter :: string
  cx_PaymentMethodFilter :: string
  cx_PageFilter :: int
  cx_PageSizeFilter :: int

record paymentConfig =
  pc_FixedMonthlyBRLAmount :: "float64 option"
  pc_DailyBRLAmount :: "float64 option"
  pc_GoldCommissionPercent :: "float64 option"
  pc_TimeOffGoldSplitPercent :: "float64 option"
  pc_SickDayOffReplacementGoldGrams :: "float64 option"

text \<open>A journey with its preloaded associations.\<close>

record JourneyView =
  jv_View :: CollaboratorView
  jv_Sector :: ReferenceData
  jv_Task :: ReferenceData

section \<open>Validation\<close>

definition ValidateCreateCollaborator :: "CreateCollaboratorRequest \<Rightarrow> app_error + unit" where
  "ValidateCreateCollaborator req = validated
     (validatePlanningAvailability ''planningAvailability'' (cc_PlanningAvailability req)
     (check (TrimSpace (cc_JourneyStartDate req) \<noteq> [] \<and> parseDate (cc_JourneyStartDate req) = None)
        ''journeyStartDate'' ''Journey start date must be YYYY-MM-DD''
     (required ''statusId'' (cc_StatusID req)
     (required ''taskId'' (cc_TaskID req)
     (required ''locationId'' (cc_LocationID req)
     (required ''sectorId'' (cc_SectorID req)
     (required ''paymentMethodId'' (pt_PaymentMethodID (cc_Payment req))
     (required ''journeyStartDate'' (cc_JourneyStartDate req)
     (check (TrimSpace (cc_MembershipID req) = [] \<and> TrimSpace (cc_PersonID req) = []) ''membershipId'' ''Required'' [])))))))))"

definition ValidateUpdateCollaborator :: "UpdateCollaboratorRequest \<Rightarrow> app_error + unit" where
  "ValidateUpdateCollaborator req = validated
     (validatePlanningAvailability ''planningAvailability'' (uc_PlanningAvailability req)
     (check (uc_ExtensionDays req < 0) ''extensionDays'' ''Extension days must be zero or greater''
     (required ''taskId'' (uc_TaskID req)
     (required ''locationId'' (uc_LocationID req)
     (required ''sectorId'' (uc_SectorID req)
     (required ''paymentMethodId'' (pt_PaymentMethodID (uc_Payment req)) []))))))"

definition ValidateUpdateCollaboratorWorkAssignment ::
  "UpdateCollaboratorWorkAssignmentRequest \<Rightarrow> app_error + unit" where
  "ValidateUpdateCollaboratorWorkAssignment req = validated
     (required ''taskId'' (ua_TaskID req)
     (required ''locationId'' (ua_LocationID req)
     (required ''sectorId'' (ua_SectorID req) [])))"

definition ValidateExtendCollaboratorJourney :: "ExtendCollaboratorJourneyRequest \<Rightarrow> app_error + unit" where
  "ValidateExtendCollaboratorJourney req = (if ej_AdditionalDays req \<le> 0
     then Inl (ve ''additionalDays'' ''Additional days must be greater than zero'') else Inr ())"

section \<open>The terms of payment\<close>

definition normalizePaymentMethodCode :: "string \<Rightarrow> string" where
  "normalizePaymentMethodCode code = (let c = ToUpper (TrimSpace code) in
     if c \<in> set [''DAILY'', ''DAILY_WAGES'', ''DAILY_BRL''] then ''DAILY_BRL''
     else if c \<in> set [''SALARY'', ''FIXED_BRL''] then ''FIXED_BRL''
     else if c \<in> set [''COMMISSION'', ''GOLD_COMMISSION''] then ''GOLD_COMMISSION''
     else c)"

text \<open>\<open>math.Abs(value*factor-math.Round(value*factor)) < 0.000001\<close>.\<close>

definition termHasAtMostDecimalPlaces :: "float64 \<Rightarrow> nat \<Rightarrow> bool" where
  "termHasAtMostDecimalPlaces v places = (let x = fmul v (10 ^ places) in
     \<bar>fsub x (goRound x)\<bar> < rnd (1 / 1000000))"

definition paymentAmountFromRequest :: "float64 option \<Rightarrow> float64 \<Rightarrow> string \<Rightarrow> float64 option \<times> string" where
  "paymentAmountFromRequest specific paymentValue specificField = (case specific of
       Some x \<Rightarrow> (Some x, specificField)
     | None \<Rightarrow> if 0 < paymentValue then (Some paymentValue, ''paymentValue'') else (None, specificField))"

definition no_config :: paymentConfig where
  "no_config = \<lparr>pc_FixedMonthlyBRLAmount = None, pc_DailyBRLAmount = None, pc_GoldCommissionPercent = None,
     pc_TimeOffGoldSplitPercent = None, pc_SickDayOffReplacementGoldGrams = None\<rparr>"

text \<open>An amount in BRL: what is wrong with it, if anything, by field.\<close>

definition brl_errors :: "string \<Rightarrow> float64 option \<times> string \<Rightarrow> string \<Rightarrow> validation_fields" where
  "brl_errors name = (\<lambda>(amount, field) code. case amount of
       None \<Rightarrow> [(field, name @ '' is required for '' @ code @ '' payment method'')]
     | Some x \<Rightarrow> if x \<le> 0 then [(field, name @ '' must be greater than zero'')]
         else if \<not> termHasAtMostDecimalPlaces x 2 then [(field, name @ '' can have at most two decimal places'')]
         else [])"

definition percent_errors :: "float64 option \<times> string \<Rightarrow> validation_fields" where
  "percent_errors = (\<lambda>(percent, field). case percent of
       None \<Rightarrow> [(field, ''Gold commission percent is required for GOLD_COMMISSION payment method'')]
     | Some x \<Rightarrow> if x \<le> 0 \<or> 100 < x
         then [(field, ''Gold commission percent must be greater than zero and at most 100'')]
         else if \<not> termHasAtMostDecimalPlaces x 8
         then [(field, ''Gold commission percent can have at most eight decimal places'')]
         else [])"

definition paymentConfigFromRequest :: "PaymentTerms \<Rightarrow> string \<Rightarrow> app_error + paymentConfig" where
  "paymentConfigFromRequest req code = (let m = normalizePaymentMethodCode code in
     if m = ''DAILY_BRL'' then
       (let a = paymentAmountFromRequest (pt_DailyBRLAmount req) (pt_PaymentValue req) ''dailyBrlAmount'' in
        tri (validated (brl_errors ''Daily BRL amount'' a ''DAILY_BRL''))
          (\<lambda>_. Inr (no_config\<lparr>pc_DailyBRLAmount := fst a\<rparr>)))
     else if m = ''FIXED_BRL'' then
       (let a = paymentAmountFromRequest (pt_FixedMonthlyBRLAmount req) (pt_PaymentValue req) ''fixedMonthlyBrlAmount'' in
        tri (validated (brl_errors ''Fixed monthly BRL amount'' a ''FIXED_BRL''))
          (\<lambda>_. Inr (no_config\<lparr>pc_FixedMonthlyBRLAmount := fst a\<rparr>)))
     else if m = ''GOLD_COMMISSION'' then
       (let p = paymentAmountFromRequest (pt_GoldCommissionPercent req) (pt_PaymentValue req) ''goldCommissionPercent'';
            split = valueOrFallback (pt_TimeOffGoldSplitPercent req) 50;
            sick = valueOrFallback (pt_SickDayOffReplacementGoldGrams req) 1 in
        tri (validated
            (check (sick \<le> 0) ''sickDayOffReplacementGoldGrams'' ''Sick day off replacement gold grams must be greater than zero''
            (check (split \<le> 0 \<or> 100 \<le> split) ''timeOffGoldSplitPercent''
               ''Time-off gold split percent must be greater than zero and less than 100''
            (percent_errors p))))
          (\<lambda>_. Inr (no_config\<lparr>pc_GoldCommissionPercent := fst p, pc_TimeOffGoldSplitPercent := Some split,
             pc_SickDayOffReplacementGoldGrams := Some sick\<rparr>)))
     else Inl (ve ''paymentMethodId'' ''Payment method code must be DAILY, SALARY, or COMMISSION''))"

definition compatibilityValue :: "paymentConfig \<Rightarrow> float64" where
  "compatibilityValue c = (case pc_DailyBRLAmount c of Some x \<Rightarrow> x
     | None \<Rightarrow> (case pc_FixedMonthlyBRLAmount c of Some x \<Rightarrow> x
       | None \<Rightarrow> (case pc_GoldCommissionPercent c of Some x \<Rightarrow> x | None \<Rightarrow> 0)))"

definition with_payment :: "PaymentTerms \<Rightarrow> paymentConfig \<Rightarrow> CollaboratorJourney \<Rightarrow> CollaboratorJourney" where
  "with_payment req c j = j\<lparr>cj_PaymentMethodID := TrimSpace (pt_PaymentMethodID req),
     cj_PaymentValue := compatibilityValue c, cj_FixedMonthlyBRLAmount := pc_FixedMonthlyBRLAmount c,
     cj_DailyBRLAmount := pc_DailyBRLAmount c, cj_GoldCommissionPercent := pc_GoldCommissionPercent c,
     cj_TimeOffGoldSplitPercent := pc_TimeOffGoldSplitPercent c,
     cj_SickDayOffReplacementGoldGrams := pc_SickDayOffReplacementGoldGrams c\<rparr>"

section \<open>What is shown\<close>

definition journey_view :: "store \<Rightarrow> CollaboratorJourney \<Rightarrow> JourneyView" where
  "journey_view s j = \<lparr>jv_View = collaborator_view s j,
     jv_Sector = preload rd_ID zeroReferenceData (cj_SectorID j) (References s),
     jv_Task = preload rd_ID zeroReferenceData (cj_TaskID j) (References s)\<rparr>"

definition paymentValueForCompatibility :: "CollaboratorJourney \<Rightarrow> float64" where
  "paymentValueForCompatibility j = (if 0 < cj_PaymentValue j then cj_PaymentValue j
     else case cj_DailyBRLAmount j of Some x \<Rightarrow> x
     | None \<Rightarrow> (case cj_FixedMonthlyBRLAmount j of Some x \<Rightarrow> x
       | None \<Rightarrow> (case cj_GoldCommissionPercent j of Some x \<Rightarrow> x | None \<Rightarrow> 0)))"

definition globalPersonName :: "GlobalPerson \<Rightarrow> string" where
  "globalPersonName p = TrimSpace (gp_FirstName p @ '' '' @ gp_LastName p)"

definition personName :: "Person \<Rightarrow> string" where
  "personName p = TrimSpace (pe_FirstName p @ '' '' @ pe_LastName p)"

text \<open>The first of several texts that is not empty.\<close>

definition or_else :: "string \<Rightarrow> string \<Rightarrow> string" where
  "or_else x y = (if x = [] then y else x)"

text \<open>The global identifier of a legacy person is no column of \<open>people\<close>, so it is always empty here.\<close>

definition ToCollaboratorDTO :: "JourneyView \<Rightarrow> CollaboratorDTO" where
  "ToCollaboratorDTO w = (let v = jv_View w; j = cv_Journey v in \<lparr>
     co_ID = cj_ID j, co_TenantID = cj_TenantID j, co_MembershipID = TrimSpace (stringValue (cj_MembershipID j)),
     co_PersonID = or_else (TrimSpace (pm_PersonID (cv_Membership v))) (TrimSpace (cj_PersonID j)),
     co_LegacyPersonID = cj_PersonID j,
     co_PersonName = or_else (globalPersonName (cv_MembershipPerson v)) (personName (cv_Person v)),
     co_PersonNickname = or_else (TrimSpace (gp_Nickname (cv_MembershipPerson v))) (TrimSpace (pe_Nickname (cv_Person v))),
     co_JourneyStartDate = formatDate (cj_JourneyStartDate j), co_DefaultEndDate = formatDate (cj_DefaultEndDate j),
     co_ExtensionDays = cj_ExtensionDays j, co_ProjectedEndDate = formatDate (cj_ProjectedEndDate j),
     co_PaymentMethodID = cj_PaymentMethodID j, co_PaymentMethodLabel = rd_Label (cv_PaymentMethod v),
     co_PaymentValue = paymentValueForCompatibility j,
     co_FixedMonthlyBRLAmount = cj_FixedMonthlyBRLAmount j, co_DailyBRLAmount = cj_DailyBRLAmount j,
     co_GoldCommissionPercent = cj_GoldCommissionPercent j,
     co_TimeOffGoldSplitPercent = cj_TimeOffGoldSplitPercent j,
     co_SickDayOffReplacementGoldGrams = cj_SickDayOffReplacementGoldGrams j,
     co_PlanningAvailability = normalizePlanningAvailability (cj_PlanningAvailability j),
     co_SectorID = cj_SectorID j, co_SectorLabel = rd_Label (jv_Sector w),
     co_LocationID = cj_LocationID j, co_LocationLabel = rd_Label (cv_Location v),
     co_TaskID = cj_TaskID j, co_TaskLabel = rd_Label (jv_Task w),
     co_StatusID = cj_StatusID j, co_StatusCode = rd_Code (cv_Status v), co_StatusLabel = rd_Label (cv_Status v),
     co_Notes = cj_Notes j, co_ClosedAt = formatOptionalTime (cj_ClosedAt j),
     co_CreatedAt = formatRFC3339 (cj_CreatedAt j), co_UpdatedAt = formatRFC3339 (cj_UpdatedAt j)\<rparr>)"

section \<open>Writes\<close>

definition journey_insert_guards :: "store \<Rightarrow> CollaboratorJourney \<Rightarrow> (bool \<times> string) list" where
  "journey_insert_guards s j = (let T = cj_TenantID j; m = stringValue (cj_MembershipID j) in [
     (\<not> tenant_exists s T, ''tenant_integrity_violation''),
     (SqlTrim m = [], ''collaborator_membership_required''),
     (SqlTrim m \<noteq> [] \<and> \<not> list_ex (\<lambda>x. pm_ID x = m \<and> pm_TenantID x = T \<and> pm_LegacyPersonID x = Some (cj_PersonID j))
        (Memberships s), ''collaborator_membership_invalid''),
     (SqlTrim m \<noteq> [] \<and> \<not> list_ex (\<lambda>x. pm_ID x = m \<and> pm_TenantID x = T \<and>
        list_ex (\<lambda>r. rd_ID r = pm_StatusID x \<and> rd_TenantID r = T \<and> rd_Type r = ''person_status'' \<and>
          rd_Code r = ''ACTIVE'' \<and> rd_Active r) (References s)) (Memberships s), ''collaborator_membership_inactive''),
     (SqlTrim m \<noteq> [] \<and> cj_ClosedAt j = None \<and> list_ex (\<lambda>x. cj_MembershipID x = Some m \<and> cj_TenantID x = T \<and>
        cj_ClosedAt x = None) (Journeys s), ''collaborator_membership_open_journey_exists''),
     (\<not> list_ex (\<lambda>p. pe_ID p = cj_PersonID j \<and> pe_TenantID p = T) (People s) \<or>
        \<not> reference_in s T ''method'' (cj_PaymentMethodID j) \<or> \<not> reference_in s T ''sector'' (cj_SectorID j) \<or>
        \<not> reference_in s T ''location'' (cj_LocationID j) \<or> \<not> reference_in s T ''task'' (cj_TaskID j) \<or>
        \<not> reference_in s T ''collaborator_status'' (cj_StatusID j), ''cross_tenant_reference''),
     (list_ex (\<lambda>x. cj_ID x = cj_ID j) (Journeys s), ''UNIQUE constraint failed: collaborator_journeys.id'')])"

definition with_journey_defaults :: "env \<Rightarrow> CollaboratorJourney \<Rightarrow> CollaboratorJourney" where
  "with_journey_defaults E j = j\<lparr>
     cj_CreatedAt := or_time (cj_CreatedAt j) (Now E), cj_UpdatedAt := or_time (cj_UpdatedAt j) (Now E),
     cj_TenantID := or_default (cj_TenantID j) ''default'',
     cj_PlanningAvailability := or_default (cj_PlanningAvailability j) ''ACTIVE''\<rparr>"

definition repoCreateJourney :: "env \<Rightarrow> CollaboratorJourney \<Rightarrow> unit app" where
  "repoCreateJourney E j0 = (let j = with_journey_defaults E j0 in
     bnd (query (\<lambda>s. abort_if (journey_insert_guards s j)))
     (\<lambda>_. modify (\<lambda>s. s\<lparr>Journeys := Journeys s @ [j]\<rparr>)))"

definition the_journey :: "env \<Rightarrow> string \<Rightarrow> CollaboratorJourney \<Rightarrow> bool" where
  "the_journey E i j \<longleftrightarrow> cj_ID j = i \<and> cj_TenantID j = TenantID E"

definition updated_journey :: "CollaboratorJourney \<Rightarrow> CollaboratorJourney \<Rightarrow> CollaboratorJourney" where
  "updated_journey row x = x\<lparr>cj_UpdatedAt := cj_UpdatedAt row, cj_ExtensionDays := cj_ExtensionDays row,
     cj_ProjectedEndDate := cj_ProjectedEndDate row, cj_PaymentMethodID := cj_PaymentMethodID row,
     cj_PaymentValue := cj_PaymentValue row, cj_FixedMonthlyBRLAmount := cj_FixedMonthlyBRLAmount row,
     cj_DailyBRLAmount := cj_DailyBRLAmount row, cj_GoldCommissionPercent := cj_GoldCommissionPercent row,
     cj_TimeOffGoldSplitPercent := cj_TimeOffGoldSplitPercent row,
     cj_SickDayOffReplacementGoldGrams := cj_SickDayOffReplacementGoldGrams row,
     cj_PlanningAvailability := normalizePlanningAvailability (cj_PlanningAvailability row),
     cj_SectorID := cj_SectorID row, cj_LocationID := cj_LocationID row, cj_TaskID := cj_TaskID row\<rparr>"

definition repoUpdateJourney :: "env \<Rightarrow> CollaboratorJourney \<Rightarrow> unit app" where
  "repoUpdateJourney E row = bnd (updateJourneys E (the_journey E (cj_ID row)) (updated_journey row)) (\<lambda>_. ret ())"

definition repoUpdateWorkAssignment :: "env \<Rightarrow> CollaboratorJourney \<Rightarrow> unit app" where
  "repoUpdateWorkAssignment E row = bnd (updateJourneys E (the_journey E (cj_ID row)) (\<lambda>x. x\<lparr>
     cj_UpdatedAt := cj_UpdatedAt row, cj_SectorID := cj_SectorID row, cj_LocationID := cj_LocationID row,
     cj_TaskID := cj_TaskID row\<rparr>)) (\<lambda>_. ret ())"

definition UpdateExtension :: "env \<Rightarrow> CollaboratorJourney \<Rightarrow> unit app" where
  "UpdateExtension E row =
     bnd (updateJourneys E (\<lambda>x. the_journey E (cj_ID row) x \<and> cj_ClosedAt x = None) (\<lambda>x. x\<lparr>
       cj_UpdatedAt := cj_UpdatedAt row, cj_ExtensionDays := cj_ExtensionDays row,
       cj_ProjectedEndDate := cj_ProjectedEndDate row\<rparr>))
     (\<lambda>affected. ensure (affected \<noteq> 0) ErrRecordNotFound)"

section \<open>Reads\<close>

definition FindJourneyByID :: "env \<Rightarrow> string \<Rightarrow> store \<Rightarrow> app_error + JourneyView" where
  "FindJourneyByID E i s = tri (found ErrRecordNotFound (first_by cj_ID (the_journey E i) (Journeys s)))
     (\<lambda>j. Inr (journey_view s j))"

definition FindByIDForMembership :: "env \<Rightarrow> string \<Rightarrow> string \<Rightarrow> store \<Rightarrow> app_error + JourneyView" where
  "FindByIDForMembership E i m s = tri (found ErrRecordNotFound
       (first_by cj_ID (\<lambda>j. the_journey E i j \<and> cj_MembershipID j = Some m) (Journeys s)))
     (\<lambda>j. Inr (journey_view s j))"

definition repoListCollaborators :: "env \<Rightarrow> CollaboratorListFilter \<Rightarrow> store \<Rightarrow> JourneyView list \<times> nat" where
  "repoListCollaborators E f s = (let
       rows = filter (\<lambda>j. cj_TenantID j = TenantID E \<and> cj_ClosedAt j = None \<and>
         matches_unless_empty (cx_StatusFilter f) (cj_StatusID j) \<and>
         matches_unless_empty (cx_LocationFilter f) (cj_LocationID j) \<and>
         matches_unless_empty (cx_PaymentMethodFilter f) (cj_PaymentMethodID j)) (Journeys s);
       page = normalizedPage (cx_PageFilter f);
       pageSize = (if cx_PageSizeFilter f \<le> 0 then 50 else cx_PageSizeFilter f)
     in (map (journey_view s) (page_of page pageSize
           (sort_key (\<lambda>j. (- cj_CreatedAt j, - cj_JourneyStartDate j)) rows)), length rows))"

definition ListForMembership :: "env \<Rightarrow> string \<Rightarrow> store \<Rightarrow> JourneyView list" where
  "ListForMembership E m s = map (journey_view s) (sort_key (\<lambda>j. (- cj_JourneyStartDate j, - cj_CreatedAt j))
     (filter (\<lambda>j. cj_TenantID j = TenantID E \<and> cj_MembershipID j = Some m) (Journeys s)))"

definition active_membership :: "env \<Rightarrow> store \<Rightarrow> PersonTenantMembership \<Rightarrow> bool" where
  "active_membership E s m \<longleftrightarrow> pm_TenantID m = TenantID E \<and>
     list_ex (\<lambda>r. rd_ID r = pm_StatusID m \<and> rd_TenantID r = pm_TenantID m \<and> rd_Type r = ''person_status'' \<and>
       rd_Code r = ''ACTIVE'' \<and> rd_Active r) (References s)"

definition membership_person :: "store \<Rightarrow> PersonTenantMembership \<Rightarrow> GlobalPerson" where
  "membership_person s m = preload gp_ID zeroGlobalPerson (pm_PersonID m) (GlobalPeople s)"

definition FindActiveMembershipByID :: "env \<Rightarrow> string \<Rightarrow> store \<Rightarrow> app_error + PersonTenantMembership" where
  "FindActiveMembershipByID E i s = found ErrRecordNotFound
     (first_by pm_ID (\<lambda>m. pm_ID m = i \<and> active_membership E s m) (Memberships s))"

definition FindActiveMembershipByLegacyPersonID ::
  "env \<Rightarrow> string \<Rightarrow> store \<Rightarrow> app_error + PersonTenantMembership" where
  "FindActiveMembershipByLegacyPersonID E p s = found ErrRecordNotFound
     (first_by pm_ID (\<lambda>m. pm_LegacyPersonID m = Some p \<and> active_membership E s m) (Memberships s))"

definition FindActiveReference :: "env \<Rightarrow> string \<Rightarrow> string \<Rightarrow> store \<Rightarrow> app_error + ReferenceData" where
  "FindActiveReference E i typ s = found ErrRecordNotFound
     (first_by rd_ID (\<lambda>r. rd_ID r = i \<and> rd_TenantID r = TenantID E \<and> rd_Type r = typ \<and> rd_Active r) (References s))"

definition ExistsOpenJourneyForMembership :: "env \<Rightarrow> string \<Rightarrow> store \<Rightarrow> bool" where
  "ExistsOpenJourneyForMembership E m s \<longleftrightarrow> 0 < count_where (\<lambda>j. cj_TenantID j = TenantID E \<and>
     cj_MembershipID j = Some m \<and> cj_ClosedAt j = None) (Journeys s)"

text \<open>Who can become a collaborator: an active member with a complete profile, a legacy row and no open journey.\<close>

definition candidate :: "env \<Rightarrow> store \<Rightarrow> PersonTenantMembership \<Rightarrow> bool" where
  "candidate E s m \<longleftrightarrow> active_membership E s m \<and>
     list_ex (\<lambda>g. gp_ID g = pm_PersonID m \<and> gp_CanCreateCollaborator g) (GlobalPeople s) \<and>
     pm_LegacyPersonID m \<noteq> None \<and>
     \<not> list_ex (\<lambda>j. cj_TenantID j = pm_TenantID m \<and> cj_MembershipID j = Some (pm_ID m) \<and> cj_ClosedAt j = None) (Journeys s)"

definition ListCandidateMemberships :: "env \<Rightarrow> store \<Rightarrow> PersonTenantMembership list" where
  "ListCandidateMemberships E s = sort_key
     (\<lambda>m. (gp_LastName (membership_person s m), gp_FirstName (membership_person s m)))
     (filter (candidate E s) (Memberships s))"

section \<open>The service\<close>

definition ListCollaborators :: "env \<Rightarrow> CollaboratorListFilter \<Rightarrow> store \<Rightarrow> CollaboratorDTO list \<times> nat" where
  "ListCollaborators E f s = (let (rows, total') = repoListCollaborators E f s in (map ToCollaboratorDTO rows, total'))"

definition ListSelf :: "env \<Rightarrow> string \<Rightarrow> store \<Rightarrow> CollaboratorDTO list" where
  "ListSelf E m s = map ToCollaboratorDTO (ListForMembership E (TrimSpace m) s)"

definition GetCollaboratorByID :: "env \<Rightarrow> string \<Rightarrow> store \<Rightarrow> app_error + CollaboratorDTO" where
  "GetCollaboratorByID E i s = tri (FindJourneyByID E i s) (\<lambda>v. Inr (ToCollaboratorDTO v))"

definition GetSelfByID :: "env \<Rightarrow> string \<Rightarrow> string \<Rightarrow> store \<Rightarrow> app_error + CollaboratorDTO" where
  "GetSelfByID E i m s = tri (FindByIDForMembership E (TrimSpace i) (TrimSpace m) s) (\<lambda>v. Inr (ToCollaboratorDTO v))"

definition validatePaymentMethod :: "env \<Rightarrow> string \<Rightarrow> store \<Rightarrow> app_error + ReferenceData" where
  "validatePaymentMethod E i s = (case FindActiveReference E (TrimSpace i) ''method'' s of
       Inl _ \<Rightarrow> Inl (ve ''paymentMethodId'' ''Payment method must be active reference data of type method'')
     | Inr r \<Rightarrow> Inr r)"

text \<open>The terms of a request, under the method they name.\<close>

definition checkedPayment :: "env \<Rightarrow> PaymentTerms \<Rightarrow> store \<Rightarrow> app_error + paymentConfig" where
  "checkedPayment E req s = tri (validatePaymentMethod E (pt_PaymentMethodID req) s)
     (\<lambda>r. paymentConfigFromRequest req (rd_Code r))"

definition en_dash :: string where
  "en_dash = [CHR 0xE2, CHR 0x80, CHR 0x93]"

definition requested_membership :: "env \<Rightarrow> CreateCollaboratorRequest \<Rightarrow> store \<Rightarrow> app_error + PersonTenantMembership" where
  "requested_membership E req s = (case (if TrimSpace (cc_MembershipID req) \<noteq> []
       then FindActiveMembershipByID E (TrimSpace (cc_MembershipID req)) s
       else FindActiveMembershipByLegacyPersonID E (TrimSpace (cc_PersonID req)) s) of
     Inl _ \<Rightarrow> Inl (ve ''membershipId'' (''An active Person'' @ en_dash @ ''Tenant Membership in this tenant is required''))
   | Inr m \<Rightarrow>
       if TrimSpace (stringValue (pm_LegacyPersonID m)) = []
       then Inl (ve ''membershipId'' ''Membership is missing its legacy Person compatibility projection'')
       else if \<not> gp_CanCreateCollaborator (membership_person s m)
       then Inl (ve ''membershipId'' ''Person profile must be complete before creating a Collaborator'')
       else if ExistsOpenJourneyForMembership E (pm_ID m) s
       then Inl (ve ''membershipId'' ''Membership already has an open Collaborator Journey'')
       else Inr m)"

definition new_journey ::
  "env \<Rightarrow> string \<Rightarrow> CreateCollaboratorRequest \<Rightarrow> PersonTenantMembership \<Rightarrow> paymentConfig \<Rightarrow> CollaboratorJourney" where
  "new_journey E i req m c = (let start = dateOf (cc_JourneyStartDate req) in
     with_payment (cc_Payment req) c (zeroCollaboratorJourney\<lparr>
       cj_ID := i, cj_CreatedAt := Now E, cj_UpdatedAt := Now E, cj_TenantID := TenantID E,
       cj_MembershipID := Some (pm_ID m), cj_PersonID := TrimSpace (stringValue (pm_LegacyPersonID m)),
       cj_JourneyStartDate := start, cj_DefaultEndDate := start + 90 * day_ns, cj_ExtensionDays := 0,
       cj_ProjectedEndDate := start + 90 * day_ns,
       cj_PlanningAvailability := normalizePlanningAvailability (cc_PlanningAvailability req),
       cj_SectorID := TrimSpace (cc_SectorID req), cj_LocationID := TrimSpace (cc_LocationID req),
       cj_TaskID := TrimSpace (cc_TaskID req), cj_StatusID := TrimSpace (cc_StatusID req),
       cj_Notes := TrimSpace (cc_Notes req)\<rparr>))"

text \<open>The journey after a write, read again.\<close>

definition reloaded_journey :: "env \<Rightarrow> string \<Rightarrow> CollaboratorDTO app" where
  "reloaded_journey E i = query (\<lambda>s. tri (FindJourneyByID E i s) (\<lambda>v. Inr (ToCollaboratorDTO v)))"

definition CreateCollaborator :: "env \<Rightarrow> CreateCollaboratorRequest \<Rightarrow> CollaboratorDTO app" where
  "CreateCollaborator E req =
     bnd (lift (ValidateCreateCollaborator req))
     (\<lambda>_. bnd (query (requested_membership E req))
     (\<lambda>m. bnd (query (checkedPayment E (cc_Payment req)))
     (\<lambda>c. bnd (query (validateReferences E (cc_SectorID req) (cc_LocationID req) (cc_TaskID req)))
     (\<lambda>_. bnd (query (validateReference E ''statusId'' (cc_StatusID req) ''collaborator_status''
            ''Status must be active reference data of type collaborator_status''))
     (\<lambda>_. bnd (newID E)
     (\<lambda>i. bnd (repoCreateJourney E (new_journey E i req m c))
     (\<lambda>_. reloaded_journey E i)))))))"

text \<open>The length of a journey is counted from its default end.\<close>

definition extended :: "int \<Rightarrow> CollaboratorJourney \<Rightarrow> CollaboratorJourney" where
  "extended days j = j\<lparr>cj_ExtensionDays := days, cj_ProjectedEndDate := cj_DefaultEndDate j + days * day_ns\<rparr>"

definition placed :: "string \<Rightarrow> string \<Rightarrow> string \<Rightarrow> CollaboratorJourney \<Rightarrow> CollaboratorJourney" where
  "placed sector location task j = j\<lparr>cj_SectorID := TrimSpace sector, cj_LocationID := TrimSpace location,
     cj_TaskID := TrimSpace task\<rparr>"

definition UpdateCollaborator :: "env \<Rightarrow> string \<Rightarrow> UpdateCollaboratorRequest \<Rightarrow> CollaboratorDTO app" where
  "UpdateCollaborator E i req =
     bnd (lift (ValidateUpdateCollaborator req))
     (\<lambda>_. bnd (query (FindJourneyByID E (TrimSpace i)))
     (\<lambda>v. let row = cv_Journey (jv_View v) in
       bnd (query (checkedPayment E (uc_Payment req)))
     (\<lambda>c. bnd (query (validateReferences E (uc_SectorID req) (uc_LocationID req) (uc_TaskID req)))
     (\<lambda>_. bnd (repoUpdateJourney E (placed (uc_SectorID req) (uc_LocationID req) (uc_TaskID req)
            (with_payment (uc_Payment req) c (extended (uc_ExtensionDays req) (row\<lparr>cj_UpdatedAt := Now E,
              cj_PlanningAvailability := (if TrimSpace (uc_PlanningAvailability req) \<noteq> []
                then normalizePlanningAvailability (uc_PlanningAvailability req) else cj_PlanningAvailability row)\<rparr>)))))
     (\<lambda>_. reloaded_journey E (cj_ID row))))))"

definition UpdateWorkAssignment ::
  "env \<Rightarrow> string \<Rightarrow> UpdateCollaboratorWorkAssignmentRequest \<Rightarrow> CollaboratorDTO app" where
  "UpdateWorkAssignment E i req =
     bnd (lift (ValidateUpdateCollaboratorWorkAssignment req))
     (\<lambda>_. bnd (query (FindJourneyByID E (TrimSpace i)))
     (\<lambda>v. let row = cv_Journey (jv_View v) in
       bnd (query (validateReferences E (ua_SectorID req) (ua_LocationID req) (ua_TaskID req)))
     (\<lambda>_. bnd (repoUpdateWorkAssignment E (placed (ua_SectorID req) (ua_LocationID req) (ua_TaskID req)
            (row\<lparr>cj_UpdatedAt := Now E\<rparr>)))
     (\<lambda>_. reloaded_journey E (cj_ID row)))))"

definition ExtendJourney :: "env \<Rightarrow> string \<Rightarrow> ExtendCollaboratorJourneyRequest \<Rightarrow> CollaboratorDTO app" where
  "ExtendJourney E i req =
     bnd (lift (ValidateExtendCollaboratorJourney req))
     (\<lambda>_. bnd (query (FindJourneyByID E (TrimSpace i)))
     (\<lambda>v. let row = cv_Journey (jv_View v) in
       bnd (ensure (\<not> (cj_ClosedAt row \<noteq> None \<or> EqualFold (TrimSpace (rd_Code (cv_Status (jv_View v)))) ''FINISHED''))
          (ve ''additionalDays'' ''Closed Journeys cannot be extended''))
     (\<lambda>_. bnd (UpdateExtension E (extended (cj_ExtensionDays row + ej_AdditionalDays req) (row\<lparr>cj_UpdatedAt := Now E\<rparr>)))
     (\<lambda>_. reloaded_journey E (cj_ID row)))))"

text \<open>A candidate as the API shows it: the identity of the global person, and what the tenant knows of it.\<close>

record PersonDTO =
  po_ID :: string
  po_GlobalPersonID :: string
  po_MembershipID :: string
  po_TenantID :: string
  po_Person :: GlobalPerson
  po_StatusID :: string
  po_StatusLabel :: string
  po_Notes :: string
  po_CreatedAt :: string
  po_UpdatedAt :: string

definition membershipCandidateToPersonDTO :: "store \<Rightarrow> PersonTenantMembership \<Rightarrow> PersonDTO" where
  "membershipCandidateToPersonDTO s m = \<lparr>po_ID = TrimSpace (stringValue (pm_LegacyPersonID m)),
     po_GlobalPersonID = pm_PersonID m, po_MembershipID = pm_ID m, po_TenantID = pm_TenantID m,
     po_Person = membership_person s m, po_StatusID = pm_StatusID m,
     po_StatusLabel = rd_Label (preload rd_ID zeroReferenceData (pm_StatusID m) (References s)),
     po_Notes = pm_Notes m, po_CreatedAt = formatRFC3339 (pm_CreatedAt m), po_UpdatedAt = formatRFC3339 (pm_UpdatedAt m)\<rparr>"

definition ListCandidates :: "env \<Rightarrow> store \<Rightarrow> PersonDTO list" where
  "ListCandidates E s = map (membershipCandidateToPersonDTO s)
     (filter (\<lambda>m. pm_LegacyPersonID m \<noteq> None) (ListCandidateMemberships E s))"

end
