(* ===== verification/JourneyTerms.thy ===== *)
theory JourneyTerms
  imports Collaborators Demo
begin

text \<open>
  What opening a journey guarantees (\<open>Create\<close> of \<open>backend/internal/collaborators\<close>): the person gets one open journey
  in the tenant, of ninety days, and the terms agreed on are the ones the accruals of its assignments are
  calculated by (\<open>backend/internal/accruals\<close>).
\<close>

section \<open>A journey that was created\<close>

lemma preload_only: "r \<in> set rows \<Longrightarrow> distinct (map key rows) \<Longrightarrow> preload key z (key r) rows = r"
proof -
  assume r: "r \<in> set rows" and d: "distinct (map key rows)"
  obtain x where x: "List.find (\<lambda>y. key y = key r) rows = Some x"
    using r by (cases "List.find (\<lambda>y. key y = key r) rows") (auto simp: find_None_iff)
  then have "x \<in> set rows" "key x = key r" by (auto simp: find_Some_iff)
  then have "x = r" using distinct_key [OF d _ r] by simp
  then show ?thesis by (simp add: preload_def x)
qed

lemma preload_new:
  assumes "\<forall>r \<in> set rows. key r \<noteq> key x"
  shows "preload key z (key x) (rows @ [x]) = x"
proof -
  have "List.find (\<lambda>r. key r = key x) (rows @ [x]) = Some x"
    using assms by (induction rows) auto
  then show ?thesis by (simp add: preload_def)
qed

definition created_journey ::
  "env \<Rightarrow> CreateCollaboratorRequest \<Rightarrow> PersonTenantMembership \<Rightarrow> paymentConfig \<Rightarrow> store \<Rightarrow> CollaboratorJourney" where
  "created_journey E req m c s = with_journey_defaults E (new_journey E (NewID E (IdsUsed s)) req m c)"

lemma CreateCollaborator_ok:
  assumes "CreateCollaborator E req s = (Inr d, t)"
  obtains m c where "requested_membership E req s = Inr m" and "checkedPayment E (cc_Payment req) s = Inr c"
    and "ValidateCreateCollaborator req = Inr ()"
    and "t = s\<lparr>Journeys := Journeys s @ [created_journey E req m c s], IdsUsed := Suc (IdsUsed s)\<rparr>"
    and "abort_if (journey_insert_guards (s\<lparr>IdsUsed := Suc (IdsUsed s)\<rparr>) (created_journey E req m c s)) = Inr ()"
    and "tri (FindJourneyByID E (NewID E (IdsUsed s)) t) (\<lambda>v. Inr (ToCollaboratorDTO v)) = Inr d"
proof -
  from assms obtain m c u where m: "requested_membership E req s = Inr m" and c: "checkedPayment E (cc_Payment req) s = Inr c"
    and v: "ValidateCreateCollaborator req = Inr ()"
    and u: "repoCreateJourney E (new_journey E (NewID E (IdsUsed s)) req m c) (s\<lparr>IdsUsed := Suc (IdsUsed s)\<rparr>) = (Inr (), u)"
    and d: "reloaded_journey E (NewID E (IdsUsed s)) u = (Inr d, t)"
    by (auto simp: CreateCollaborator_def run_ok)
  from u d have "t = s\<lparr>Journeys := Journeys s @ [created_journey E req m c s], IdsUsed := Suc (IdsUsed s)\<rparr>"
    "abort_if (journey_insert_guards (s\<lparr>IdsUsed := Suc (IdsUsed s)\<rparr>) (created_journey E req m c s)) = Inr ()"
    "tri (FindJourneyByID E (NewID E (IdsUsed s)) t) (\<lambda>v. Inr (ToCollaboratorDTO v)) = Inr d"
    by (auto simp: repoCreateJourney_def Let_def run_ok reloaded_journey_def created_journey_def)
  then show ?thesis using that m c v by blast
qed

lemma created_journey_fields:
  "cj_ID (created_journey E req m c s) = NewID E (IdsUsed s)"
  "cj_TenantID (created_journey E req m c s) = TenantID E"
  "cj_MembershipID (created_journey E req m c s) = Some (pm_ID m)"
  "cj_JourneyStartDate (created_journey E req m c s) = dateOf (cc_JourneyStartDate req)"
  "cj_DefaultEndDate (created_journey E req m c s) = dateOf (cc_JourneyStartDate req) + 90 * day_ns"
  "cj_ProjectedEndDate (created_journey E req m c s) = dateOf (cc_JourneyStartDate req) + 90 * day_ns"
  "cj_ExtensionDays (created_journey E req m c s) = 0"
  "cj_ClosedAt (created_journey E req m c s) = None"
  "cj_PaymentMethodID (created_journey E req m c s) = TrimSpace (pt_PaymentMethodID (cc_Payment req))"
  "cj_PaymentValue (created_journey E req m c s) = compatibilityValue c"
  "cj_DailyBRLAmount (created_journey E req m c s) = pc_DailyBRLAmount c"
  "cj_FixedMonthlyBRLAmount (created_journey E req m c s) = pc_FixedMonthlyBRLAmount c"
  "cj_GoldCommissionPercent (created_journey E req m c s) = pc_GoldCommissionPercent c"
  "cj_TimeOffGoldSplitPercent (created_journey E req m c s) = pc_TimeOffGoldSplitPercent c"
  "cj_SickDayOffReplacementGoldGrams (created_journey E req m c s) = pc_SickDayOffReplacementGoldGrams c"
  by (simp_all add: created_journey_def with_journey_defaults_def new_journey_def with_payment_def Let_def
      zeroCollaboratorJourney_def)

section \<open>The terms\<close>

text \<open>Terms that were accepted are positive, and they are the requested ones.\<close>

lemma daily_terms:
  assumes "paymentConfigFromRequest req code = Inr c" and "normalizePaymentMethodCode code = ''DAILY_BRL''"
  shows "\<exists>x. pc_DailyBRLAmount c = Some x \<and> 0 < x \<and> x = valueOrFallback (pt_DailyBRLAmount req) (pt_PaymentValue req)"
  using assms by (auto simp: paymentConfigFromRequest_def tri_Inr paymentAmountFromRequest_def brl_errors_def Let_def
      valueOrFallback_def no_config_def split: option.splits if_splits)

lemma fixed_terms:
  assumes "paymentConfigFromRequest req code = Inr c" and "normalizePaymentMethodCode code = ''FIXED_BRL''"
  shows "\<exists>x. pc_FixedMonthlyBRLAmount c = Some x \<and> 0 < x \<and>
    x = valueOrFallback (pt_FixedMonthlyBRLAmount req) (pt_PaymentValue req)"
  using assms by (auto simp: paymentConfigFromRequest_def tri_Inr paymentAmountFromRequest_def brl_errors_def Let_def
      valueOrFallback_def no_config_def split: option.splits if_splits)

lemma commission_terms:
  assumes "paymentConfigFromRequest req code = Inr c" and "normalizePaymentMethodCode code = ''GOLD_COMMISSION''"
  shows "\<exists>x. pc_GoldCommissionPercent c = Some x \<and> 0 < x \<and> x \<le> 100 \<and>
    x = valueOrFallback (pt_GoldCommissionPercent req) (pt_PaymentValue req)"
  using assms by (auto simp: paymentConfigFromRequest_def tri_Inr paymentAmountFromRequest_def percent_errors_def Let_def
      valueOrFallback_def no_config_def split: option.splits if_splits)

lemma known_method:
  "paymentConfigFromRequest req code = Inr c \<Longrightarrow>
   normalizePaymentMethodCode code \<in> {''DAILY_BRL'', ''FIXED_BRL'', ''GOLD_COMMISSION''}"
  by (auto simp: paymentConfigFromRequest_def Let_def split: if_splits)

text \<open>The method codes of the accruals are the ones the collaborators normalize.\<close>

lemma normalized_method:
  "normalizePaymentMethodCode code = ''DAILY_BRL'' \<longleftrightarrow>
     ToUpper (TrimSpace code) \<in> set [''DAILY'', ''DAILY_WAGES'', ''DAILY_BRL'']"
  "normalizePaymentMethodCode code = ''FIXED_BRL'' \<longleftrightarrow> ToUpper (TrimSpace code) \<in> set [''SALARY'', ''FIXED_BRL'']"
  "normalizePaymentMethodCode code = ''GOLD_COMMISSION'' \<longleftrightarrow>
     ToUpper (TrimSpace code) \<in> set [''COMMISSION'', ''GOLD_COMMISSION'']"
  by (auto simp: normalizePaymentMethodCode_def Let_def split: if_splits)

text \<open>Each method is calculated by its own term.\<close>

lemma method_code_normal: "ToUpper (TrimSpace (rd_Code (av_PaymentMethod a))) = method_code a"
  by (simp add: method_code_def)

lemma pays_daily:
  assumes "normalizePaymentMethodCode (rd_Code (av_PaymentMethod a)) = ''DAILY_BRL''"
    and "cj_DailyBRLAmount (av_Collaborator a) = Some y"
    and "0 < y" and "calculatePaymentItem F run a st item u = Inr x"
  shows "ai_Status x = ''READY'' \<and> ai_BRLAmount x = Some y"
proof -
  have "method_code a \<in> set [''DAILY'', ''DAILY_WAGES'', ''DAILY_BRL'']"
    using assms(1) by (simp only: normalized_method method_code_normal)
  moreover have "\<not> y \<le> 0" using assms(3) by simp
  ultimately show ?thesis using assms(2,4)
    by (auto simp only: calculatePaymentItem_def Let_def valueOrFallback_def if_True if_False option.case sum.inject)
      simp_all
qed

lemma pays_salary:
  assumes "normalizePaymentMethodCode (rd_Code (av_PaymentMethod a)) = ''FIXED_BRL''"
    and "cj_FixedMonthlyBRLAmount (av_Collaborator a) = Some y"
    and "0 < y" and "calculatePaymentItem F run a st item u = Inr x"
  shows "ai_Status x = ''READY'' \<and> ai_BRLAmount x = Some (fdiv y 30)"
proof -
  have "method_code a \<in> set [''SALARY'', ''FIXED_BRL'']"
    using assms(1) by (simp only: normalized_method method_code_normal)
  then have "method_code a \<in> set [''SALARY'', ''FIXED_BRL'']" "method_code a \<notin> set [''DAILY'', ''DAILY_WAGES'', ''DAILY_BRL'']"
    by auto
  moreover have "\<not> y \<le> 0" using assms(3) by simp
  ultimately show ?thesis using assms(2,4)
    by (auto simp only: calculatePaymentItem_def Let_def valueOrFallback_def if_True if_False option.case sum.inject)
      simp_all
qed

lemma pays_commission:
  assumes "normalizePaymentMethodCode (rd_Code (av_PaymentMethod a)) = ''GOLD_COMMISSION''"
    and "cj_GoldCommissionPercent (av_Collaborator a) = Some y"
    and "0 < y" and "calculatePaymentItem F run a st item u = Inr x"
  shows "case FindGoldProduction F (ar_WorkPeriodID run) (wa_LocationID (av_Assignment a)) u of
     Inr g \<Rightarrow> ai_Status x = ''READY'' \<and> ai_GoldGramAmount x = Some (fdiv (fmul (ge_GoldGramsProduced g) y) 100)
   | Inl e \<Rightarrow> ai_Status x = ''PENDING'' \<and> ai_PendingReason x = ''GOLD_PRODUCTION_MISSING''"
proof -
  have "method_code a \<in> set [''COMMISSION'', ''GOLD_COMMISSION'']"
    using assms(1) by (simp only: normalized_method method_code_normal)
  then have code: "method_code a \<in> set [''COMMISSION'', ''GOLD_COMMISSION'']"
    "method_code a \<notin> set [''SALARY'', ''FIXED_BRL'']" "method_code a \<notin> set [''DAILY'', ''DAILY_WAGES'', ''DAILY_BRL'']"
    by auto
  have "\<not> commission_percent a \<le> 0" "commission_percent a = y"
    using assms(2,3) by (simp_all add: commission_percent_def valueOrFallback_def)
  note facts = this code assms(4) [unfolded calculatePaymentItem_def Let_def]
  show ?thesis
  proof (cases "FindGoldProduction F (ar_WorkPeriodID run) (wa_LocationID (av_Assignment a)) u")
    case (Inl e)
    with facts have "e = ErrRecordNotFound \<and> x = pending_item ''GOLD_COMMISSION'' ''GOLD_PRODUCTION_MISSING''
        ''Gold production is missing for this work period and location'' item"
      by (simp only: if_True if_False sum.case split: if_split_asm) simp_all
    then show ?thesis by (simp add: Inl pending_item_def)
  next
    case (Inr g)
    with facts show ?thesis by (simp only: if_True if_False sum.case sum.inject) auto
  qed
qed

section \<open>A person to take on\<close>

definition demo_hiring :: store where
  "demo_hiring = demo_store\<lparr>
     References := demo_ref ''member'' ''person_status'' ''ACTIVE'' # demo_ref ''day'' ''method'' ''DAILY'' # References demo_store,
     GlobalPeople := [zeroGlobalPerson\<lparr>gp_ID := ''g1'', gp_FirstName := ''Ana'', gp_CanCreateCollaborator := True\<rparr>],
     Memberships := [zeroPersonTenantMembership\<lparr>pm_ID := ''m1'', pm_TenantID := ''t1'', pm_PersonID := ''g1'',
        pm_StatusID := ''member'', pm_LegacyPersonID := Some ''p1''\<rparr>],
     Journeys := []\<rparr>"

definition demo_offer :: CreateCollaboratorRequest where
  "demo_offer = \<lparr>cc_MembershipID = ''m1'', cc_PersonID = [], cc_JourneyStartDate = ''2024-01-01'',
     cc_Payment = \<lparr>pt_PaymentMethodID = ''day'', pt_PaymentValue = 0, pt_FixedMonthlyBRLAmount = None,
       pt_DailyBRLAmount = Some 120, pt_GoldCommissionPercent = None, pt_TimeOffGoldSplitPercent = None,
       pt_SickDayOffReplacementGoldGrams = None\<rparr>,
     cc_PlanningAvailability = [], cc_SectorID = ''sec'', cc_LocationID = ''loc'', cc_TaskID = ''task'',
     cc_StatusID = ''active'', cc_Notes = []\<rparr>"

lemma demo_hiring_runs: "\<not> isl (fst (CreateCollaborator demo_env demo_offer demo_hiring))"
  by code_simp

section \<open>The properties\<close>

text \<open>
  C36. A journey is opened once. A successful creation adds one journey under a fresh identifier and changes nothing
  else: for an active membership of the caller's tenant whose person's profile is complete, with no other open
  journey of that membership, open itself, from the requested day to ninety days later. The answer shows it.
\<close>

theorem journey_opened:
  assumes "CreateCollaborator E req s = (Inr d, t)"
  shows "\<exists>j m n. t = s\<lparr>Journeys := Journeys s @ [j], IdsUsed := n\<rparr> \<and> cj_ID j \<notin> cj_ID ` set (Journeys s) \<and>
    m \<in> set (Memberships s) \<and> active_membership E s m \<and> gp_CanCreateCollaborator (membership_person s m) \<and>
    cj_TenantID j = TenantID E \<and> cj_MembershipID j = Some (pm_ID m) \<and> cj_ClosedAt j = None \<and>
    (\<forall>x \<in> set (Journeys s). cj_TenantID x = TenantID E \<longrightarrow> cj_MembershipID x = Some (pm_ID m) \<longrightarrow> cj_ClosedAt x \<noteq> None) \<and>
    parseDate (cc_JourneyStartDate req) = Some (cj_JourneyStartDate j) \<and>
    cj_ProjectedEndDate j = cj_JourneyStartDate j + 90 * day_ns \<and>
    d = ToCollaboratorDTO (journey_view t j)"
proof -
  obtain m c where m: "requested_membership E req s = Inr m"
    and v: "ValidateCreateCollaborator req = Inr ()"
    and t: "t = s\<lparr>Journeys := Journeys s @ [created_journey E req m c s], IdsUsed := Suc (IdsUsed s)\<rparr>"
    and g: "abort_if (journey_insert_guards (s\<lparr>IdsUsed := Suc (IdsUsed s)\<rparr>) (created_journey E req m c s)) = Inr ()"
    and d: "tri (FindJourneyByID E (NewID E (IdsUsed s)) t) (\<lambda>v. Inr (ToCollaboratorDTO v)) = Inr d"
    by (rule CreateCollaborator_ok [OF assms])
  let ?j = "created_journey E req m c s"
  have fresh: "\<forall>x \<in> set (Journeys s). cj_ID x \<noteq> cj_ID ?j"
    using g by (simp add: abort_if_ok journey_insert_guards_def Let_def list_ex_iff)
  have member: "m \<in> set (Memberships s)" "active_membership E s m" "gp_CanCreateCollaborator (membership_person s m)"
    "\<not> ExistsOpenJourneyForMembership E (pm_ID m) s"
    using m by (auto simp: requested_membership_def FindActiveMembershipByID_def FindActiveMembershipByLegacyPersonID_def
        found_Inr split: sum.splits if_splits dest!: first_by_Some)
  then have closed: "\<forall>x \<in> set (Journeys s). cj_TenantID x = TenantID E \<longrightarrow> cj_MembershipID x = Some (pm_ID m) \<longrightarrow> cj_ClosedAt x \<noteq> None"
    by (auto simp: ExistsOpenJourneyForMembership_def count_where_def filter_empty_conv)
  have "parseDate (cc_JourneyStartDate req) \<noteq> None"
    using v by (auto simp: ValidateCreateCollaborator_def validatePlanningAvailability_def required_def)
  then have start: "parseDate (cc_JourneyStartDate req) = Some (cj_JourneyStartDate ?j)"
    by (auto simp: created_journey_fields dateOf_def)
  have "first_by cj_ID (the_journey E (NewID E (IdsUsed s))) (Journeys t) = Some ?j"
    using fresh by (intro first_by_unique) (auto simp: t the_journey_def created_journey_fields)
  then have "d = ToCollaboratorDTO (journey_view t ?j)" using d by (simp add: FindJourneyByID_def tri_def)
  then show ?thesis
    using fresh member closed start t
    by (intro exI [of _ ?j] exI [of _ m] exI [of _ "Suc (IdsUsed s)"]) (auto simp: created_journey_fields)
qed

theorem journey_opened_witness:
  "\<exists>d t j. CreateCollaborator demo_env demo_offer demo_hiring = (Inr d, t) \<and> Journeys t = [j] \<and>
     cj_MembershipID j = Some ''m1'' \<and> cj_ProjectedEndDate j = cj_JourneyStartDate j + 90 * day_ns"
proof -
  obtain d t where run: "CreateCollaborator demo_env demo_offer demo_hiring = (Inr d, t)"
    using succeeded [OF demo_hiring_runs] by blast
  obtain j m n where "t = demo_hiring\<lparr>Journeys := Journeys demo_hiring @ [j], IdsUsed := n\<rparr>"
    "m \<in> set (Memberships demo_hiring)" "cj_MembershipID j = Some (pm_ID m)"
    "cj_ProjectedEndDate j = cj_JourneyStartDate j + 90 * day_ns"
    using journey_opened [OF run] by blast
  then show ?thesis using run by (auto simp: demo_hiring_def)
qed

definition demo_work :: "CollaboratorDTO \<Rightarrow> WorkPeriodAssignment" where
  "demo_work d = \<lparr>wa_ID = ''a1'', wa_CreatedAt = 1, wa_UpdatedAt = 1, wa_TenantID = ''t1'', wa_WorkPeriodID = ''w1'',
     wa_CollaboratorID = co_ID d, wa_PlannedStatus = ''INCLUDED'', wa_PlanningAvailability = ''ACTIVE'',
     wa_ActualStatus = Some ''WORKED'', wa_ReplacementForAssignmentID = None, wa_SectorID = ''sec'',
     wa_LocationID = ''loc'', wa_TaskID = ''task'', wa_Active = True\<rparr>"

definition demo_pay :: "app_error + AccrualItem" where
  "demo_pay = (case CreateCollaborator demo_env demo_offer demo_hiring of (Inr d, t) \<Rightarrow>
     calculatePaymentItem demo_env zeroAccrualRun (assignment_view t (demo_work d)) ''WORKED'' zeroAccrualItem t
   | (Inl e, t) \<Rightarrow> Inl e)"

lemma demo_pay_runs: "\<not> isl demo_pay"
  by code_simp

lemma demo_day: "r \<in> set (References demo_hiring) \<Longrightarrow> rd_ID r = ''day'' \<Longrightarrow> normalizePaymentMethodCode (rd_Code r) = ''DAILY_BRL''"
  by (auto simp: demo_hiring_def demo_store_def demo_ref_def normalizePaymentMethodCode_def Let_def) code_simp+



end
