(* ===== verification/ReferenceCatalog.thy ===== *)
theory ReferenceCatalog
  imports Collaborators
begin

text \<open>
  Reference data (\<open>service_impl.go\<close>, \<open>repository_gorm.go\<close>, \<open>dto.go\<close> of \<open>backend/internal/referencedata\<close>): the lists of
  methods of payment, statuses, sectors, locations, tasks, units and categories a tenant maintains. Codes and names
  are unique within a list (migration 000044), and a retired row is refused wherever it is named from then on.
  The services take the tenant as an argument.
\<close>

section \<open>Requests and results\<close>

record ReferenceDataDTO =
  rv_ID :: string
  rv_TenantID :: string
  rv_Type :: string
  rv_Code :: string
  rv_Label :: string
  rv_Description :: string
  rv_Active :: bool
  rv_SortOrder :: int
  rv_MetadataJSON :: string

record CreateReferenceDataRequest =
  cd_Code :: string
  cd_Label :: string
  cd_Description :: string
  cd_Active :: "bool option"
  cd_SortOrder :: int
  cd_MetadataJSON :: string

type_synonym UpdateReferenceDataRequest = CreateReferenceDataRequest

definition mapRef :: "ReferenceData \<Rightarrow> ReferenceDataDTO" where
  "mapRef r = \<lparr>rv_ID = rd_ID r, rv_TenantID = rd_TenantID r, rv_Type = rd_Type r, rv_Code = rd_Code r,
     rv_Label = rd_Label r, rv_Description = rd_Description r, rv_Active = rd_Active r, rv_SortOrder = rd_SortOrder r,
     rv_MetadataJSON = rd_MetadataJSON r\<rparr>"

section \<open>Constraints, writes and reads\<close>

definition reference_code :: "ReferenceData \<Rightarrow> string \<times> string \<times> string" where
  "reference_code r = (rd_TenantID r, rd_Type r, rd_Code r)"

definition reference_label :: "ReferenceData \<Rightarrow> string \<times> string \<times> string" where
  "reference_label r = (rd_TenantID r, rd_Type r, rd_Label r)"

definition reference_keys :: "store \<Rightarrow> string \<Rightarrow> ReferenceData \<Rightarrow> (bool \<times> string) list" where
  "reference_keys s i r = [
     (list_ex (\<lambda>x. rd_ID x \<noteq> i \<and> reference_code x = reference_code r) (References s),
      ''UNIQUE constraint failed: reference_data.tenant_id, reference_data.type, reference_data.code''),
     (list_ex (\<lambda>x. rd_ID x \<noteq> i \<and> reference_label x = reference_label r) (References s),
      ''UNIQUE constraint failed: reference_data.tenant_id, reference_data.type, reference_data.label'')]"

definition reference_insert_guards :: "store \<Rightarrow> ReferenceData \<Rightarrow> (bool \<times> string) list" where
  "reference_insert_guards s r = [
     (\<not> tenant_exists s (rd_TenantID r), ''tenant_integrity_violation''),
     (list_ex (\<lambda>x. rd_ID x = rd_ID r) (References s), ''UNIQUE constraint failed: reference_data.id'')] @
     reference_keys s (rd_ID r) r"

definition reference_update_guards :: "store \<Rightarrow> ReferenceData \<Rightarrow> ReferenceData \<Rightarrow> (bool \<times> string) list" where
  "reference_update_guards s old new =
     [(rd_TenantID new \<noteq> rd_TenantID old, ''tenant_id_immutable'')] @ reference_keys s (rd_ID old) new"

text \<open>GORM writes the default of a column for its zero value, so a row is inserted active whatever was asked for.\<close>

definition with_reference_defaults :: "env \<Rightarrow> ReferenceData \<Rightarrow> ReferenceData" where
  "with_reference_defaults E r = r\<lparr>
     rd_CreatedAt := or_time (rd_CreatedAt r) (Now E), rd_UpdatedAt := or_time (rd_UpdatedAt r) (Now E),
     rd_TenantID := or_default (rd_TenantID r) ''default'', rd_Active := True\<rparr>"

definition repoCreateReference :: "env \<Rightarrow> ReferenceData \<Rightarrow> ReferenceData app" where
  "repoCreateReference E r0 = (let r = with_reference_defaults E r0 in
     bnd (query (\<lambda>s. abort_if (reference_insert_guards s r)))
     (\<lambda>_. bnd (modify (\<lambda>s. s\<lparr>References := References s @ [r]\<rparr>))
     (\<lambda>_. ret r)))"

text \<open>\<open>Save\<close>: every column of the row with the identifier.\<close>

definition repoUpdateReference :: "ReferenceData \<Rightarrow> unit app" where
  "repoUpdateReference r =
     guarded_update References References_update reference_update_guards (\<lambda>x. rd_ID x = rd_ID r) (\<lambda>_. r)"

definition FindReference :: "string \<Rightarrow> string \<Rightarrow> store \<Rightarrow> app_error + ReferenceData" where
  "FindReference T i s = found ErrRecordNotFound
     (first_by rd_ID (\<lambda>r. rd_TenantID r = T \<and> rd_ID r = i) (References s))"

definition repoListByType :: "string \<Rightarrow> string \<Rightarrow> store \<Rightarrow> ReferenceData list" where
  "repoListByType T typ s = sort_key (\<lambda>r. (rd_SortOrder r, rd_Label r))
     (filter (\<lambda>r. rd_TenantID r = T \<and> rd_Type r = typ) (References s))"

definition exists_value ::
  "(ReferenceData \<Rightarrow> string) \<Rightarrow> string \<Rightarrow> string \<Rightarrow> string \<Rightarrow> string \<Rightarrow> store \<Rightarrow> bool" where
  "exists_value column T typ v excludeID s \<longleftrightarrow> 0 < count_where (\<lambda>r. rd_TenantID r = T \<and> rd_Type r = typ \<and>
     column r = v \<and> (excludeID = [] \<or> rd_ID r \<noteq> excludeID)) (References s)"

definition ExistsByTenantTypeCode :: "string \<Rightarrow> string \<Rightarrow> string \<Rightarrow> string \<Rightarrow> store \<Rightarrow> bool" where
  "ExistsByTenantTypeCode = exists_value rd_Code"

definition ExistsByTenantTypeLabel :: "string \<Rightarrow> string \<Rightarrow> string \<Rightarrow> string \<Rightarrow> store \<Rightarrow> bool" where
  "ExistsByTenantTypeLabel = exists_value rd_Label"

definition ExistsActiveTenantByID :: "string \<Rightarrow> store \<Rightarrow> bool" where
  "ExistsActiveTenantByID T s \<longleftrightarrow> 0 < count_where (\<lambda>x. tn_ID x = T \<and> tn_Active x) (Tenants s)"

section \<open>The service\<close>

definition normalizeType :: "string \<Rightarrow> string" where
  "normalizeType v = TrimSpace v"

definition normalizeReferenceCode :: "string \<Rightarrow> string" where
  "normalizeReferenceCode v = ToUpper (TrimSpace v)"

definition normalizeLabel :: "string \<Rightarrow> string" where
  "normalizeLabel v = TrimSpace v"

definition validateTenantAndType :: "string \<Rightarrow> string \<Rightarrow> app_error + unit" where
  "validateTenantAndType T typ = validated (required ''type'' typ (required ''tenantId'' T []))"

definition validateReferenceData ::
  "string \<Rightarrow> string \<Rightarrow> string \<Rightarrow> string \<Rightarrow> string \<Rightarrow> store \<Rightarrow> app_error + unit" where
  "validateReferenceData T typ code label excludeID s =
     tri (validated (required ''label'' label (required ''code'' code (required ''type'' typ (required ''tenantId'' T [])))))
     (\<lambda>_. if \<not> ExistsActiveTenantByID T s
       then Inl (ValidationError [(''tenantId'', ''Selected tenant must exist and be active'')])
       else validated
         (check (ExistsByTenantTypeLabel T typ label excludeID s) ''label'' ''Name already exists for this type''
         (check (ExistsByTenantTypeCode T typ code excludeID s) ''code'' ''Code already exists for this type'' [])))"

definition findTyped :: "string \<Rightarrow> string \<Rightarrow> string \<Rightarrow> store \<Rightarrow> app_error + ReferenceData" where
  "findTyped T typ i s =
     tri (validateTenantAndType T typ)
     (\<lambda>_. tri (FindReference T i s)
     (\<lambda>r. if rd_Type r \<noteq> typ
       then Inl (ValidationError [(''id'', ''Reference data item does not belong to this type'')]) else Inr r))"

definition ListByType :: "string \<Rightarrow> string \<Rightarrow> store \<Rightarrow> app_error + ReferenceDataDTO list" where
  "ListByType T typ s = tri (validateTenantAndType (TrimSpace T) (normalizeType typ))
     (\<lambda>_. Inr (map mapRef (repoListByType (TrimSpace T) (normalizeType typ) s)))"

definition new_reference :: "env \<Rightarrow> string \<Rightarrow> string \<Rightarrow> string \<Rightarrow> CreateReferenceDataRequest \<Rightarrow> ReferenceData" where
  "new_reference E i T typ req = \<lparr>rd_ID = i, rd_CreatedAt = Now E, rd_UpdatedAt = Now E, rd_TenantID = T,
     rd_Type = typ, rd_Code = normalizeReferenceCode (cd_Code req), rd_Label = normalizeLabel (cd_Label req),
     rd_Description = TrimSpace (cd_Description req), rd_Active = (cd_Active req \<noteq> Some False),
     rd_SortOrder = cd_SortOrder req, rd_MetadataJSON = TrimSpace (cd_MetadataJSON req)\<rparr>"

definition CreateReference ::
  "env \<Rightarrow> string \<Rightarrow> string \<Rightarrow> CreateReferenceDataRequest \<Rightarrow> ReferenceDataDTO app" where
  "CreateReference E T typ req =
     bnd (query (validateReferenceData (TrimSpace T) (normalizeType typ) (normalizeReferenceCode (cd_Code req))
       (normalizeLabel (cd_Label req)) []))
     (\<lambda>_. bnd (newID E)
     (\<lambda>i. bnd (repoCreateReference E (new_reference E i (TrimSpace T) (normalizeType typ) req))
     (\<lambda>r. ret (mapRef r))))"

definition changed_reference :: "env \<Rightarrow> UpdateReferenceDataRequest \<Rightarrow> ReferenceData \<Rightarrow> ReferenceData" where
  "changed_reference E req r = r\<lparr>rd_Code := normalizeReferenceCode (cd_Code req),
     rd_Label := normalizeLabel (cd_Label req), rd_Description := TrimSpace (cd_Description req),
     rd_Active := (case cd_Active req of Some b \<Rightarrow> b | None \<Rightarrow> rd_Active r), rd_SortOrder := cd_SortOrder req,
     rd_MetadataJSON := TrimSpace (cd_MetadataJSON req), rd_UpdatedAt := Now E\<rparr>"

definition UpdateReference ::
  "env \<Rightarrow> string \<Rightarrow> string \<Rightarrow> string \<Rightarrow> UpdateReferenceDataRequest \<Rightarrow> ReferenceDataDTO app" where
  "UpdateReference E T typ i req =
     bnd (query (findTyped (TrimSpace T) (normalizeType typ) (TrimSpace i)))
     (\<lambda>r. bnd (query (validateReferenceData (TrimSpace T) (normalizeType typ) (normalizeReferenceCode (cd_Code req))
       (normalizeLabel (cd_Label req)) (rd_ID r)))
     (\<lambda>_. bnd (repoUpdateReference (changed_reference E req r))
     (\<lambda>_. ret (mapRef (changed_reference E req r)))))"

definition setReferenceActive :: "env \<Rightarrow> string \<Rightarrow> string \<Rightarrow> string \<Rightarrow> bool \<Rightarrow> ReferenceDataDTO app" where
  "setReferenceActive E T typ i active =
     bnd (query (findTyped (TrimSpace T) (normalizeType typ) (TrimSpace i)))
     (\<lambda>r0. let r = r0\<lparr>rd_Active := active, rd_UpdatedAt := Now E\<rparr> in
       bnd (repoUpdateReference r) (\<lambda>_. ret (mapRef r)))"

definition DeactivateReference :: "env \<Rightarrow> string \<Rightarrow> string \<Rightarrow> string \<Rightarrow> ReferenceDataDTO app" where
  "DeactivateReference E T typ i = setReferenceActive E T typ i False"

definition ReactivateReference :: "env \<Rightarrow> string \<Rightarrow> string \<Rightarrow> string \<Rightarrow> ReferenceDataDTO app" where
  "ReactivateReference E T typ i = setReferenceActive E T typ i True"

end
