(* ===== verification/ReferenceEffects.thy ===== *)
theory ReferenceEffects
  imports ReferenceCatalog JourneyTerms PlanEffects
begin

text \<open>
  What the lists of reference data guarantee (\<open>backend/internal/referencedata\<close>): codes and names stay unique, rows
  keep their identity, and a retired row is refused by the journeys and plans that name it.
\<close>

section \<open>Consistent lists\<close>

definition catalog_ok :: "store \<Rightarrow> bool" where
  "catalog_ok s \<longleftrightarrow> distinct (map rd_ID (References s)) \<and> distinct (map reference_code (References s)) \<and>
     distinct (map reference_label (References s))"

definition same_reference :: "ReferenceData \<Rightarrow> ReferenceData \<Rightarrow> bool" where
  "same_reference x y \<longleftrightarrow> rd_ID y = rd_ID x \<and> rd_TenantID y = rd_TenantID x \<and> rd_Type y = rd_Type x \<and>
     rd_CreatedAt y = rd_CreatedAt x"

interpretation reference_rows: row_frame same_reference
  by unfold_locales (auto simp: same_reference_def)

definition catalog_kept :: "store \<Rightarrow> store \<Rightarrow> bool" where
  "catalog_kept s t \<longleftrightarrow> (catalog_ok s \<longrightarrow> catalog_ok t \<and> rows_follow same_reference (References s) (References t)) \<and>
     (\<exists>x n. t = s\<lparr>References := x, IdsUsed := n\<rparr>)"

lemma catalog_kept_write:
  assumes "catalog_ok s \<Longrightarrow> catalog_ok (s\<lparr>References := x\<rparr>) \<and> rows_follow same_reference (References s) x"
  shows "catalog_kept s (s\<lparr>References := x, IdsUsed := n\<rparr>)"
  using assms by (auto simp: catalog_kept_def catalog_ok_def)

interpretation catalog: state_frame catalog_kept
proof
  show "catalog_kept s s" for s
    using catalog_kept_write [of s "References s" "IdsUsed s"] reference_rows.follow_refl by simp
  show "catalog_kept s u" if st: "catalog_kept s t" and tu: "catalog_kept t u" for s t u
  proof -
    obtain x n where t: "t = s\<lparr>References := x, IdsUsed := n\<rparr>" using st by (auto simp: catalog_kept_def)
    obtain y m where "u = t\<lparr>References := y, IdsUsed := m\<rparr>" using tu by (auto simp: catalog_kept_def)
    then have "u = s\<lparr>References := y, IdsUsed := m\<rparr>" by (simp add: t)
    then show ?thesis using st tu reference_rows.follow_trans unfolding catalog_kept_def by blast
  qed
qed

lemma keeps_newID_catalog: "keeps catalog_kept (newID E)"
proof -
  have "catalog_kept s (s\<lparr>IdsUsed := n\<rparr>)" for s n
    using catalog_kept_write [of s "References s" n] reference_rows.follow_refl by simp
  then show ?thesis by (simp add: keeps_def)
qed

lemma keeps_createReference: "keeps catalog_kept (repoCreateReference E r0)"
  unfolding keeps_def
proof
  fix s
  obtain r t where run: "repoCreateReference E r0 s = (r, t)" by (cases "repoCreateReference E r0 s")
  show "catalog_kept s (snd (repoCreateReference E r0 s))"
  proof (cases r)
    case Inl
    then have "t = s" using run by (auto simp: repoCreateReference_def Let_def run_simps split: sum.splits)
    then show ?thesis using run catalog.R_refl by simp
  next
    case (Inr x)
    then have t: "t = s\<lparr>References := References s @ [x]\<rparr>" and g: "abort_if (reference_insert_guards s x) = Inr ()"
      using run by (auto simp: repoCreateReference_def Let_def run_ok)
    have "catalog_kept s (s\<lparr>References := References s @ [x], IdsUsed := IdsUsed s\<rparr>)"
    proof (rule catalog_kept_write, intro conjI reference_rows.follow_append)
      assume "catalog_ok s"
      then show "catalog_ok (s\<lparr>References := References s @ [x]\<rparr>)"
        using g by (auto simp: catalog_ok_def abort_if_ok reference_insert_guards_def reference_keys_def list_ex_iff)
    qed
    then show ?thesis using run t by simp
  qed
qed

lemma FindReference_ok: "FindReference T i s = Inr r \<Longrightarrow> r \<in> set (References s) \<and> rd_TenantID r = T \<and> rd_ID r = i"
  by (auto simp: FindReference_def found_Inr dest!: first_by_Some)

text \<open>A row written back under its own identity.\<close>

lemma save_reference_kept:
  assumes r: "r \<in> set (References s)" and same: "same_reference r r'"
  shows "catalog_kept s (snd (repoUpdateReference r' s))"
proof -
  let ?P = "\<lambda>x. rd_ID x = rd_ID r'" and ?f = "\<lambda>_::ReferenceData. r'"
  show ?thesis
  proof (cases "abort_if (concat (map (\<lambda>x. reference_update_guards s x r') (filter ?P (References s))))")
    case Inl
    then show ?thesis using catalog.R_refl by (simp add: repoUpdateReference_def guarded_update_def run_simps)
  next
    case (Inr v)
    then have guards: "\<forall>x \<in> set (References s). rd_ID x = rd_ID r' \<longrightarrow> \<not> (\<exists>y \<in> set (References s).
        rd_ID y \<noteq> rd_ID x \<and> (reference_code y = reference_code r' \<or> reference_label y = reference_label r'))"
      by (auto simp: guards_each reference_update_guards_def reference_keys_def abort_if_ok list_ex_iff)
    have "catalog_kept s (s\<lparr>References := update_where ?P ?f (References s), IdsUsed := IdsUsed s\<rparr>)"
    proof (rule catalog_kept_write, rule conjI)
      assume ok: "catalog_ok s"
      have one: "x = y" if "x \<in> set (References s)" "y \<in> set (References s)" "rd_ID x = rd_ID r'" "rd_ID y = rd_ID r'" for x y
        using ok that distinct_key [of rd_ID "References s" x y] by (simp add: catalog_ok_def)
      have "same_reference x r'" if "x \<in> set (References s)" "?P x" for x
        using one [OF that(1) r] that same by (simp add: same_reference_def)
      then show "rows_follow same_reference (References s) (update_where ?P ?f (References s))"
        by (intro reference_rows.follow_update)
      have unique: "distinct (map k (update_where ?P ?f (References s)))"
        if "distinct (map k (References s))" and "\<And>y. y \<in> set (References s) \<Longrightarrow> rd_ID y \<noteq> rd_ID r' \<Longrightarrow> k y \<noteq> k r'"
        for k :: "ReferenceData \<Rightarrow> string \<times> string \<times> string"
        using unique_key_update(2) [of rd_ID "References s" k "\<lambda>_. True" ?P ?f] ok that one
        by (auto simp: catalog_ok_def)
      have "distinct (map rd_ID (update_where ?P ?f (References s)))"
        using ok one by (intro unique_key_update(1) [where k = rd_ID and A = "\<lambda>_. True"]) (auto simp: catalog_ok_def)
      moreover have "distinct (map reference_code (update_where ?P ?f (References s)))"
        "distinct (map reference_label (update_where ?P ?f (References s)))"
        using ok guards r same by (intro unique; auto simp: catalog_ok_def same_reference_def)+
      ultimately show "catalog_ok (s\<lparr>References := update_where ?P ?f (References s)\<rparr>)" by (simp add: catalog_ok_def)
    qed
    moreover have "References_update f s = s\<lparr>References := f (References s)\<rparr>" for f by (cases s) simp
    ultimately show ?thesis using Inr by (simp add: repoUpdateReference_def guarded_update_def run_simps)
  qed
qed

lemma findTyped_ok: "findTyped T typ i s = Inr r \<Longrightarrow>
    r \<in> set (References s) \<and> rd_TenantID r = T \<and> rd_ID r = i \<and> rd_Type r = typ"
  by (auto simp: findTyped_def tri_Inr dest!: FindReference_ok split: if_split_asm)

lemma keeps_CreateReference: "keeps catalog_kept (CreateReference E T typ req)"
  unfolding CreateReference_def by (intro catalog.keeps_intros keeps_newID_catalog keeps_createReference)

lemma keeps_setReferenceActive: "keeps catalog_kept (setReferenceActive E T typ i b)"
  unfolding keeps_def
proof
  fix s
  show "catalog_kept s (snd (setReferenceActive E T typ i b s))"
  proof (cases "findTyped (TrimSpace T) (normalizeType typ) (TrimSpace i) s")
    case Inl
    then show ?thesis using catalog.R_refl by (simp add: setReferenceActive_def run_simps)
  next
    case (Inr r)
    show ?thesis
      using save_reference_kept [of r s "r\<lparr>rd_Active := b, rd_UpdatedAt := Now E\<rparr>"] findTyped_ok [OF Inr] Inr
      by (auto simp: setReferenceActive_def Let_def run_simps same_reference_def bnd_def [of "repoUpdateReference _"]
          split: prod.splits sum.splits)
  qed
qed

lemma keeps_UpdateReference: "keeps catalog_kept (UpdateReference E T typ i req)"
  unfolding keeps_def
proof
  fix s
  show "catalog_kept s (snd (UpdateReference E T typ i req s))"
  proof (cases "findTyped (TrimSpace T) (normalizeType typ) (TrimSpace i) s")
    case Inl
    then show ?thesis using catalog.R_refl by (simp add: UpdateReference_def run_simps)
  next
    case (Inr r)
    show ?thesis
      using save_reference_kept [of r s "changed_reference E req r"] findTyped_ok [OF Inr] Inr catalog.R_refl
      by (auto simp: UpdateReference_def run_simps same_reference_def changed_reference_def
          bnd_def [of "repoUpdateReference _"] split: prod.splits sum.splits)
  qed
qed

text \<open>The writing requests of the lists, and a sequence of them with the tenant and the list they address.\<close>

datatype catalog_request =
    CreateReferenceCall CreateReferenceDataRequest
  | UpdateReferenceCall string UpdateReferenceDataRequest
  | DeactivateReferenceCall string
  | ReactivateReferenceCall string

fun catalog_step :: "env \<Rightarrow> string \<Rightarrow> string \<Rightarrow> catalog_request \<Rightarrow> store \<Rightarrow> store" where
  "catalog_step E T typ (CreateReferenceCall req) s = snd (CreateReference E T typ req s)"
| "catalog_step E T typ (UpdateReferenceCall i req) s = snd (UpdateReference E T typ i req s)"
| "catalog_step E T typ (DeactivateReferenceCall i) s = snd (DeactivateReference E T typ i s)"
| "catalog_step E T typ (ReactivateReferenceCall i) s = snd (ReactivateReference E T typ i s)"

fun catalog_steps :: "(env \<times> string \<times> string \<times> catalog_request) list \<Rightarrow> store \<Rightarrow> store" where
  "catalog_steps [] s = s"
| "catalog_steps ((E, T, typ, q) # qs) s = catalog_steps qs (catalog_step E T typ q s)"

lemma catalog_step_kept: "catalog_kept s (catalog_step E T typ q s)"
  using keeps_CreateReference keeps_UpdateReference keeps_setReferenceActive
  by (cases q) (simp_all add: keeps_def DeactivateReference_def ReactivateReference_def)

text \<open>
  Codes and names are unique within a list through every sequence of requests, and every row keeps its place, its
  identity and its list; nothing but the lists changes.
\<close>

theorem catalog_stays_unique: "catalog_kept s (catalog_steps qs s)"
proof (induction qs arbitrary: s)
  case (Cons q qs)
  obtain E T ty r where q: "q = (E, T, ty, r)" by (cases q)
  show ?case
    using catalog.R_trans [OF catalog_step_kept Cons.IH, of s E T ty r] by (simp add: q)
qed (simp add: catalog.R_refl)

section \<open>Retired rows\<close>

text \<open>A row is retired when no active row has its identifier.\<close>

definition retired :: "string \<Rightarrow> store \<Rightarrow> bool" where
  "retired i s \<longleftrightarrow> (\<forall>r \<in> set (References s). rd_ID r = i \<longrightarrow> \<not> rd_Active r)"

lemma retired_not_found:
  "retired i s \<Longrightarrow> FindActiveReference F i typ s = Inl ErrRecordNotFound"
  "retired i s \<Longrightarrow> \<not> ExistsActiveReference F i typ s"
  by (auto simp: retired_def FindActiveReference_def found_def first_by_None ExistsActiveReference_def count_where_def
      filter_empty_conv split: option.split dest!: first_by_Some)

lemma retired_refused: "retired (TrimSpace i) s \<Longrightarrow> validateReference F field i typ message s = Inl (ve field message)"
  by (simp add: validateReference_def retired_not_found)

lemma retired_references_refused:
  "retired i s \<Longrightarrow> i \<in> {TrimSpace sector, TrimSpace location, TrimSpace task} \<Longrightarrow>
   \<exists>e. validateReferences F sector location task s = Inl e"
  by (auto simp: validateReferences_def retired_refused tri_def split: sum.split)

lemma retired_payment_refused:
  "retired (TrimSpace (pt_PaymentMethodID p)) s \<Longrightarrow> \<exists>e. checkedPayment F p s = Inl e"
  by (simp add: checkedPayment_def validatePaymentMethod_def retired_not_found tri_def)

lemma DeactivateReference_ok:
  assumes "DeactivateReference E T typ i s = (Inr d, t)"
  obtains r where "r \<in> set (References s)" and "rd_ID r = TrimSpace i" and "rd_TenantID r = TrimSpace T"
    and "rd_Type r = TrimSpace typ"
    and "t = s\<lparr>References := update_where (\<lambda>x. rd_ID x = rd_ID r) (\<lambda>_. r\<lparr>rd_Active := False, rd_UpdatedAt := Now E\<rparr>) (References s)\<rparr>"
proof -
  from assms obtain r where r: "findTyped (TrimSpace T) (normalizeType typ) (TrimSpace i) s = Inr r"
    and "repoUpdateReference (r\<lparr>rd_Active := False, rd_UpdatedAt := Now E\<rparr>) s = (Inr (), t)"
    by (auto simp: DeactivateReference_def setReferenceActive_def Let_def run_ok)
  then have "t = s\<lparr>References := update_where (\<lambda>x. rd_ID x = rd_ID r) (\<lambda>_. r\<lparr>rd_Active := False, rd_UpdatedAt := Now E\<rparr>) (References s)\<rparr>"
    by (auto simp: repoUpdateReference_def guarded_update_def run_ok)
  then show ?thesis using that [of r] findTyped_ok [OF r] by (simp add: normalizeType_def)
qed

section \<open>The property\<close>

lemma demo_retire_runs: "\<not> isl (fst (DeactivateReference demo_env ''t1'' ''task'' ''task'' demo_hiring))"
  by code_simp



end
