(* ===== verification/Profiles.thy ===== *)
theory Profiles
  imports Collaborators
begin

text \<open>
  The profile of a person (\<open>validation.go\<close>, \<open>completion.go\<close>, \<open>dto.go\<close> of \<open>backend/internal/people\<close>): the
  Brazilian identifiers and addresses that are accepted, the form in which they are stored, and when a profile is
  complete, which is what lets a person become a collaborator. The regular expressions are written out as
  predicates on byte strings; the CEP separators outside ASCII are matched by their UTF-8 encodings, white space
  outside ASCII is not.
\<close>

section \<open>Requests\<close>

record CreatePersonRequest =
  cp_FirstName :: string
  cp_LastName :: string
  cp_Nickname :: string
  cp_CPF :: string
  cp_RG :: string
  cp_Cellular :: string
  cp_Email :: string
  cp_Street1 :: string
  cp_Street2 :: string
  cp_State :: string
  cp_CEP :: string
  cp_City :: string
  cp_Country :: string
  cp_BankName :: string
  cp_BankNumber :: string
  cp_CheckingAccount :: string
  cp_PIXKey :: string
  cp_EmergencyName :: string
  cp_EmergencyCellular :: string
  cp_EmergencyEmail :: string
  cp_StatusID :: string
  cp_Notes :: string

type_synonym UpdatePersonRequest = CreatePersonRequest

section \<open>Identifiers\<close>

definition NormalizeDigits :: "string \<Rightarrow> string" where
  "NormalizeDigits v = filter is_digit v"

definition allSameDigits :: "string \<Rightarrow> bool" where
  "allSameDigits v = (case v of [] \<Rightarrow> True | c # cs \<Rightarrow> list_all (\<lambda>x. x = c) cs)"

text \<open>The check digit after the first \<open>n\<close> digits, which are weighted by \<open>n + 1\<close> down to \<open>2\<close>.\<close>

definition cpf_check_digit :: "nat \<Rightarrow> string \<Rightarrow> int" where
  "cpf_check_digit n cpf = (let
     weighted = sum_list (map (\<lambda>i. digit_val (cpf ! i) * (int n + 1 - int i)) [0..<n]);
     digit = 11 - weighted mod 11
   in if 10 \<le> digit then 0 else digit)"

definition IsValidCPF :: "string \<Rightarrow> bool" where
  "IsValidCPF v = (let cpf = NormalizeDigits v in
     length cpf = 11 \<and> \<not> allSameDigits cpf \<and>
     cpf_check_digit 9 cpf = digit_val (cpf ! 9) \<and> cpf_check_digit 10 cpf = digit_val (cpf ! 10))"

definition is_alnum :: "char \<Rightarrow> bool" where
  "is_alnum c = (let n = (of_char c :: nat) in is_digit c \<or> 65 \<le> n \<and> n \<le> 90 \<or> 97 \<le> n \<and> n \<le> 122)"

definition IsValidRG :: "string \<Rightarrow> bool" where
  "IsValidRG v = (let t = TrimSpace v in 5 \<le> length t \<and> length t \<le> 20 \<and>
     list_all (\<lambda>c. is_alnum c \<or> c = CHR ''.'' \<or> c = CHR ''-'') t)"

definition mail_char :: "char \<Rightarrow> bool" where
  "mail_char c \<longleftrightarrow> c \<notin> set [CHR ''@'', CHR '' '', CHR 0x09, CHR 0x0A, CHR 0x0C, CHR 0x0D]"

definition IsValidEmail :: "string \<Rightarrow> bool" where
  "IsValidEmail v = (let t = TrimSpace v; user = takeWhile (\<lambda>c. c \<noteq> CHR ''@'') t in
     user \<noteq> [] \<and> list_all mail_char user \<and>
     (case dropWhile (\<lambda>c. c \<noteq> CHR ''@'') t of [] \<Rightarrow> False
      | a # domain \<Rightarrow> list_all mail_char domain \<and> domain \<noteq> [] \<and> CHR ''.'' \<in> set (butlast (tl domain))))"

text \<open>\<open>[1-9]{2}9[0-9]{8}\<close>: the area code and nine digits that begin with a nine.\<close>

definition brazil_mobile :: "string \<Rightarrow> bool" where
  "brazil_mobile x \<longleftrightarrow> length x = 11 \<and> list_all is_digit x \<and> x ! 0 \<noteq> CHR ''0'' \<and> x ! 1 \<noteq> CHR ''0'' \<and> x ! 2 = CHR ''9''"

text \<open>The expression makes the second five of the country code optional.\<close>

definition IsValidBrazilianCellular :: "string \<Rightarrow> bool" where
  "IsValidBrazilianCellular v = (let
     stripped = filter (\<lambda>c. c \<notin> set [CHR '' '', CHR ''('', CHR '')'', CHR ''-'']) (TrimSpace v);
     clean = (if HasPrefix stripped ''+'' then CHR ''+'' # filter is_digit (tl stripped) else filter is_digit stripped);
     number = (if HasPrefix clean ''+'' then tl clean else clean)
   in brazil_mobile clean \<or> HasPrefix number ''5'' \<and> brazil_mobile (tl number) \<or>
     HasPrefix number ''55'' \<and> brazil_mobile (tl (tl number)))"

section \<open>Postal codes\<close>

text \<open>The Unicode dashes U+2010 to U+2014 and U+2212.\<close>

definition is_wide_separator :: "string \<Rightarrow> bool" where
  "is_wide_separator x \<longleftrightarrow> x \<in> set [
     [CHR 0xE2, CHR 0x80, CHR 0x90], [CHR 0xE2, CHR 0x80, CHR 0x91], [CHR 0xE2, CHR 0x80, CHR 0x92],
     [CHR 0xE2, CHR 0x80, CHR 0x93], [CHR 0xE2, CHR 0x80, CHR 0x94], [CHR 0xE2, CHR 0x88, CHR 0x92]]"

fun cep_digits :: "string \<Rightarrow> string option" where
  "cep_digits [] = Some []"
| "cep_digits (c # cs) = (
     if is_digit c then map_option (\<lambda>ds. c # ds) (cep_digits cs)
     else if is_space c \<or> c = CHR ''.'' \<or> c = CHR ''-'' then cep_digits cs
     else if is_wide_separator (c # take 2 cs) then cep_digits (drop 2 cs)
     else None)"

definition parseCEP :: "string \<Rightarrow> string option" where
  "parseCEP v = (case cep_digits (TrimSpace v) of
       None \<Rightarrow> None
     | Some ds \<Rightarrow> if length ds = 5 then Some (ds @ ''000'') else if length ds = 8 then Some ds else None)"

definition IsValidCEP :: "string \<Rightarrow> bool" where
  "IsValidCEP v = (case parseCEP v of None \<Rightarrow> False | Some x \<Rightarrow> length x = 8 \<and> list_all is_digit x)"

definition NormalizeCEP :: "string \<Rightarrow> string" where
  "NormalizeCEP v = (case parseCEP v of None \<Rightarrow> [] | Some x \<Rightarrow> x)"

section \<open>Validation\<close>

definition person_required :: "CreatePersonRequest \<Rightarrow> validation_fields" where
  "person_required req = required ''statusId'' (cp_StatusID req) (required ''email'' (cp_Email req)
     (required ''cellular'' (cp_Cellular req) (required ''rg'' (cp_RG req) (required ''cpf'' (cp_CPF req)
     (required ''nickname'' (cp_Nickname req) (required ''lastName'' (cp_LastName req)
     (required ''firstName'' (cp_FirstName req) [])))))))"

definition person_identifiers :: "CreatePersonRequest \<Rightarrow> validation_fields" where
  "person_identifiers req =
     (check (cp_Email req \<noteq> [] \<and> \<not> IsValidEmail (cp_Email req)) ''email'' ''Email is invalid''
     (check (cp_Cellular req \<noteq> [] \<and> \<not> IsValidBrazilianCellular (cp_Cellular req))
        ''cellular'' ''Cellular must be a valid Brazilian mobile number''
     (check (cp_RG req \<noteq> [] \<and> \<not> IsValidRG (cp_RG req)) ''rg'' ''RG is invalid''
     (check (cp_CPF req \<noteq> [] \<and> \<not> IsValidCPF (cp_CPF req)) ''cpf'' ''CPF is invalid''
     (person_required req)))))"

definition ValidateCreatePerson :: "CreatePersonRequest \<Rightarrow> app_error + unit" where
  "ValidateCreatePerson req = validated (person_identifiers req)"

definition ValidateUpdatePerson :: "UpdatePersonRequest \<Rightarrow> app_error + unit" where
  "ValidateUpdatePerson req = validated
     (check (cp_Country req \<noteq> [] \<and> cp_Country req \<noteq> ''Brasil'') ''country'' ''Country must be Brasil''
     (check (cp_EmergencyEmail req \<noteq> [] \<and> \<not> IsValidEmail (cp_EmergencyEmail req))
        ''emergencyEmail'' ''Emergency email is invalid''
     (check (cp_EmergencyCellular req \<noteq> [] \<and> \<not> IsValidBrazilianCellular (cp_EmergencyCellular req))
        ''emergencyCellular'' ''Emergency cellular must be a valid Brazilian mobile number''
     (check (cp_CEP req \<noteq> [] \<and> \<not> IsValidCEP (cp_CEP req)) ''cep'' ''CEP is invalid''
     (person_identifiers req)))))"

section \<open>Complete profiles\<close>

record CompletionResult =
  cr_Status :: string
  cr_CanCreateCollaborator :: bool
  cr_MissingSections :: "string list"

record completionInput =
  ci_Street1 :: string
  ci_Street2 :: string
  ci_State :: string
  ci_City :: string
  ci_CEP :: string
  ci_Country :: string
  ci_BankName :: string
  ci_BankNumber :: string
  ci_CheckingAccount :: string
  ci_PIXKey :: string
  ci_EmergencyName :: string
  ci_EmergencyCellular :: string
  ci_EmergencyEmail :: string

definition notBlank :: "string \<Rightarrow> bool" where
  "notBlank v \<longleftrightarrow> TrimSpace v \<noteq> []"

definition hasAddress :: "completionInput \<Rightarrow> bool" where
  "hasAddress i \<longleftrightarrow> notBlank (ci_Street1 i) \<and> notBlank (ci_State i) \<and> notBlank (ci_CEP i) \<and> notBlank (ci_City i) \<and>
     ci_Country i = ''Brasil'' \<and> IsValidCEP (ci_CEP i)"

definition hasBank :: "completionInput \<Rightarrow> bool" where
  "hasBank i \<longleftrightarrow> notBlank (ci_BankName i) \<and> notBlank (ci_BankNumber i) \<and> notBlank (ci_CheckingAccount i) \<and>
     notBlank (ci_PIXKey i)"

definition hasEmergency :: "completionInput \<Rightarrow> bool" where
  "hasEmergency i \<longleftrightarrow> notBlank (ci_EmergencyName i) \<and> IsValidBrazilianCellular (ci_EmergencyCellular i) \<and>
     IsValidEmail (ci_EmergencyEmail i)"

definition ComputeCompletion :: "completionInput \<Rightarrow> CompletionResult" where
  "ComputeCompletion i = (let
     missing = (if hasAddress i then [] else [''Address'']) @ (if hasBank i then [] else [''Bank'']) @
       (if hasEmergency i then [] else [''Emergency''])
   in if length missing = 3
      then \<lparr>cr_Status = ''PERSONAL_ONLY'', cr_CanCreateCollaborator = False, cr_MissingSections = missing\<rparr>
      else if 0 < length missing
      then \<lparr>cr_Status = ''INCOMPLETE'', cr_CanCreateCollaborator = False, cr_MissingSections = missing\<rparr>
      else \<lparr>cr_Status = ''COMPLETE'', cr_CanCreateCollaborator = True, cr_MissingSections = []\<rparr>)"

lemma complete_profile [simp]:
  "cr_CanCreateCollaborator (ComputeCompletion i) \<longleftrightarrow> hasAddress i \<and> hasBank i \<and> hasEmergency i"
  by (simp add: ComputeCompletion_def Let_def)

section \<open>Stored forms\<close>

lemma digits_only: "list_all is_digit ds \<Longrightarrow> cep_digits ds = Some ds"
  by (induction ds rule: cep_digits.induct) auto

lemma cep_digits_digits: "cep_digits v = Some ds \<Longrightarrow> list_all is_digit ds"
  by (induction v arbitrary: ds rule: cep_digits.induct) (auto split: if_split_asm)

lemma TrimSpace_digits: "list_all is_digit v \<Longrightarrow> TrimSpace v = v"
proof -
  assume v: "list_all is_digit v"
  have space: "\<not> is_space c" if "is_digit c" for c
    using that by (auto simp: is_space_def is_digit_def)
  have "dropWhile is_space v = v" using v space by (cases v) auto
  moreover have "dropWhile is_space (rev v) = rev v"
    using space dropWhile_eq_self_iff [of is_space "rev v"] v hd_in_set [of "rev v"] by (auto simp: list_all_iff)
  ultimately show ?thesis by (simp add: TrimSpace_def)
qed

text \<open>A postal code that is accepted is stored as eight digits, which are their own normal form.\<close>

lemma normal_CEP:
  assumes "IsValidCEP v"
  shows "length (NormalizeCEP v) = 8 \<and> list_all is_digit (NormalizeCEP v) \<and> IsValidCEP (NormalizeCEP v) \<and>
    NormalizeCEP (NormalizeCEP v) = NormalizeCEP v"
proof -
  from assms obtain x where x: "parseCEP v = Some x" "length x = 8" "list_all is_digit x"
    by (auto simp: IsValidCEP_def split: option.splits)
  have "parseCEP x = Some x" using x by (simp add: parseCEP_def TrimSpace_digits digits_only)
  then show ?thesis using x by (simp add: NormalizeCEP_def IsValidCEP_def)
qed

text \<open>Two valid tax numbers with the same first nine digits are the same number.\<close>

lemma digit_val_inj: "is_digit a \<Longrightarrow> is_digit b \<Longrightarrow> digit_val a = digit_val b \<Longrightarrow> a = b"
  by (simp add: digit_val_def)

lemma cpf_check_digit_prefix: "take n x = take n y \<Longrightarrow> n \<le> length x \<Longrightarrow> n \<le> length y \<Longrightarrow>
    cpf_check_digit n x = cpf_check_digit n y"
proof -
  assume same: "take n x = take n y" and "n \<le> length x" "n \<le> length y"
  then have "x ! i = y ! i" if "i < n" for i using nth_take [OF that, of x] nth_take [OF that, of y] by simp
  then have "map (\<lambda>i. digit_val (x ! i) * (int n + 1 - int i)) [0..<n] = map (\<lambda>i. digit_val (y ! i) * (int n + 1 - int i)) [0..<n]"
    by simp
  then show ?thesis by (simp only: cpf_check_digit_def)
qed

lemma cpf_determined:
  assumes "IsValidCPF v" and "IsValidCPF w" and same: "take 9 (NormalizeDigits v) = take 9 (NormalizeDigits w)"
  shows "NormalizeDigits v = NormalizeDigits w"
proof -
  let ?v = "NormalizeDigits v" and ?w = "NormalizeDigits w"
  have v: "length ?v = 11" "cpf_check_digit 9 ?v = digit_val (?v ! 9)" "cpf_check_digit 10 ?v = digit_val (?v ! 10)"
    and w: "length ?w = 11" "cpf_check_digit 9 ?w = digit_val (?w ! 9)" "cpf_check_digit 10 ?w = digit_val (?w ! 10)"
    using assms by (simp_all add: IsValidCPF_def Let_def)
  have digits: "is_digit (?v ! i)" "is_digit (?w ! i)" if "i < 11" for i
    using that v(1) w(1) nth_mem [of i ?v] nth_mem [of i ?w] by (auto simp: NormalizeDigits_def)
  have 9: "?v ! 9 = ?w ! 9"
    using cpf_check_digit_prefix [OF same] v w digits [of 9] by (intro digit_val_inj) simp_all
  then have ten: "take 10 ?v = take 10 ?w"
    using same v(1) w(1) take_Suc_conv_app_nth [of 9 ?v] take_Suc_conv_app_nth [of 9 ?w] by simp
  then have 10: "?v ! 10 = ?w ! 10"
    using cpf_check_digit_prefix [OF ten] v w digits [of 10] by (intro digit_val_inj) simp_all
  have "take 11 ?v = take 11 ?w"
    using ten 10 v(1) w(1) take_Suc_conv_app_nth [of 10 ?v] take_Suc_conv_app_nth [of 10 ?w] by simp
  then show ?thesis using v(1) w(1) by simp
qed

end
