(* ===== verification/Persons.thy ===== *)
theory Persons
  imports Profiles
begin

text \<open>
  Persons and their memberships (\<open>service_impl.go\<close>, \<open>repository_gorm.go\<close>, \<open>mapper.go\<close> of
  \<open>backend/internal/people\<close>): a global identity, one row per tenant that knows the person, and the membership that
  links the two, created and changed together under the triggers of the migrations 000041 and 000045. A person who
  is made inactive is inactive in every tenant and comes back only through a reactivation.

  The accounts and actors of the authorization tables are outside the store: the updates that follow them are left
  out, and whether an account is suspended is the argument \<open>suspended\<close>. The searches by text are not modelled.
\<close>

section \<open>Results\<close>

text \<open>A row of \<open>people\<close> with its transient links and its preloaded status.\<close>

record PersonView =
  pv_Person :: Person
  pv_GlobalPersonID :: string
  pv_MembershipID :: string
  pv_Status :: ReferenceData

text \<open>The profile as the API shows it: the columns of the row, the links, and the completion computed anew.\<close>

record PersonProfile =
  pp_Person :: Person
  pp_GlobalPersonID :: string
  pp_MembershipID :: string
  pp_Completion :: CompletionResult
  pp_StatusLabel :: string
  pp_CreatedAt :: string
  pp_UpdatedAt :: string

record CreatePersonMembershipRequest =
  mq_PersonID :: string
  mq_StatusID :: string
  mq_Notes :: string

record PersonListFilter =
  px_StatusFilter :: string
  px_ProfileFilter :: string
  px_CanCreateFilter :: "bool option"
  px_PageFilter :: int
  px_PageSizeFilter :: int

definition computeCompletionForPerson :: "Person \<Rightarrow> CompletionResult" where
  "computeCompletionForPerson p = ComputeCompletion \<lparr>ci_Street1 = pe_Street1 p, ci_Street2 = [],
     ci_State = pe_State p, ci_City = pe_City p, ci_CEP = pe_CEP p, ci_Country = pe_Country p,
     ci_BankName = pe_BankName p, ci_BankNumber = pe_BankNumber p, ci_CheckingAccount = pe_CheckingAccount p,
     ci_PIXKey = stringValue (pe_PIXKey p), ci_EmergencyName = pe_EmergencyName p,
     ci_EmergencyCellular = pe_EmergencyCellular p, ci_EmergencyEmail = pe_EmergencyEmail p\<rparr>"

definition ToPersonProfile :: "PersonView \<Rightarrow> PersonProfile" where
  "ToPersonProfile v = (let p = pv_Person v in \<lparr>pp_Person = p, pp_GlobalPersonID = pv_GlobalPersonID v,
     pp_MembershipID = pv_MembershipID v, pp_Completion = computeCompletionForPerson p,
     pp_StatusLabel = rd_Label (pv_Status v), pp_CreatedAt = formatOptionalTime (Some (pe_CreatedAt p)),
     pp_UpdatedAt = formatOptionalTime (Some (pe_UpdatedAt p))\<rparr>)"

section \<open>The two projections of a person\<close>

definition globalPersonFromLegacy :: "Person \<Rightarrow> GlobalPerson" where
  "globalPersonFromLegacy p = \<lparr>gp_ID = pe_ID p, gp_CreatedAt = pe_CreatedAt p, gp_UpdatedAt = pe_UpdatedAt p,
     gp_FirstName = pe_FirstName p, gp_LastName = pe_LastName p, gp_Nickname = pe_Nickname p, gp_CPF = pe_CPF p,
     gp_RG = pe_RG p, gp_Cellular = pe_Cellular p, gp_Email = pe_Email p, gp_Street1 = pe_Street1 p,
     gp_Street2 = pe_Street2 p, gp_State = pe_State p, gp_City = pe_City p, gp_CEP = pe_CEP p,
     gp_Country = pe_Country p, gp_BankName = pe_BankName p, gp_BankNumber = pe_BankNumber p,
     gp_CheckingAccount = pe_CheckingAccount p, gp_PIXKey = pe_PIXKey p, gp_EmergencyName = pe_EmergencyName p,
     gp_EmergencyCellular = pe_EmergencyCellular p, gp_EmergencyEmail = pe_EmergencyEmail p,
     gp_ProfileCompletionStatus = pe_ProfileCompletionStatus p,
     gp_CanCreateCollaborator = pe_CanCreateCollaborator p, gp_OperationalActive = False\<rparr>"

text \<open>The columns the two share, taken from a global row.\<close>

definition with_global_fields :: "GlobalPerson \<Rightarrow> Person \<Rightarrow> Person" where
  "with_global_fields g p = p\<lparr>pe_FirstName := gp_FirstName g, pe_LastName := gp_LastName g,
     pe_Nickname := gp_Nickname g, pe_CPF := gp_CPF g, pe_RG := gp_RG g, pe_Cellular := gp_Cellular g,
     pe_Email := gp_Email g, pe_Street1 := gp_Street1 g, pe_Street2 := gp_Street2 g, pe_State := gp_State g,
     pe_City := gp_City g, pe_CEP := gp_CEP g, pe_Country := gp_Country g, pe_BankName := gp_BankName g,
     pe_BankNumber := gp_BankNumber g, pe_CheckingAccount := gp_CheckingAccount g, pe_PIXKey := gp_PIXKey g,
     pe_EmergencyName := gp_EmergencyName g, pe_EmergencyCellular := gp_EmergencyCellular g,
     pe_EmergencyEmail := gp_EmergencyEmail g, pe_ProfileCompletionStatus := gp_ProfileCompletionStatus g,
     pe_CanCreateCollaborator := gp_CanCreateCollaborator g\<rparr>"

definition legacyPersonFromGlobal :: "GlobalPerson \<Rightarrow> string \<Rightarrow> string \<Rightarrow> string \<Rightarrow> string \<Rightarrow> time \<Rightarrow> Person" where
  "legacyPersonFromGlobal g T status notes i now = with_global_fields g (zeroPerson\<lparr>pe_ID := i,
     pe_CreatedAt := now, pe_UpdatedAt := now, pe_TenantID := T, pe_StatusID := status, pe_Notes := notes\<rparr>)"

definition copyGlobalIntoLegacy :: "Person \<Rightarrow> GlobalPerson \<Rightarrow> Person" where
  "copyGlobalIntoLegacy p g = (if TrimSpace (gp_ID g) = [] then p else
     (with_global_fields g p)\<lparr>pe_UpdatedAt := max (pe_UpdatedAt p) (gp_UpdatedAt g)\<rparr>)"

text \<open>\<open>globalPersonUpdateMap\<close>: every shared column of the new row, and its time.\<close>

definition globalPersonUpdateMap :: "GlobalPerson \<Rightarrow> GlobalPerson \<Rightarrow> GlobalPerson" where
  "globalPersonUpdateMap new x = new\<lparr>gp_ID := gp_ID x, gp_CreatedAt := gp_CreatedAt x,
     gp_OperationalActive := gp_OperationalActive x\<rparr>"

definition legacyGlobalFieldUpdateMap :: "Person \<Rightarrow> Person \<Rightarrow> Person" where
  "legacyGlobalFieldUpdateMap new x =
     (with_global_fields (globalPersonFromLegacy new) x)\<lparr>pe_UpdatedAt := pe_UpdatedAt new\<rparr>"

section \<open>Constraints and writes\<close>

definition cpf_taken :: "store \<Rightarrow> string \<Rightarrow> GlobalPerson \<Rightarrow> bool" where
  "cpf_taken s i g \<longleftrightarrow> list_ex (\<lambda>x. gp_ID x \<noteq> i \<and> gp_CPF x = gp_CPF g) (GlobalPeople s)"

definition global_insert_guards :: "store \<Rightarrow> GlobalPerson \<Rightarrow> (bool \<times> string) list" where
  "global_insert_guards s g = [
     (list_ex (\<lambda>x. gp_ID x = gp_ID g) (GlobalPeople s), ''UNIQUE constraint failed: global_people.id''),
     (cpf_taken s (gp_ID g) g, ''UNIQUE constraint failed: global_people.cpf'')]"

definition global_update_guards :: "store \<Rightarrow> GlobalPerson \<Rightarrow> GlobalPerson \<Rightarrow> (bool \<times> string) list" where
  "global_update_guards s old new = [(cpf_taken s (gp_ID old) new, ''UNIQUE constraint failed: global_people.cpf'')]"

definition person_keys :: "store \<Rightarrow> string \<Rightarrow> Person \<Rightarrow> (bool \<times> string) list" where
  "person_keys s i p = (let taken = (\<lambda>same. list_ex (\<lambda>x. pe_ID x \<noteq> i \<and> pe_TenantID x = pe_TenantID p \<and> same x) (People s)) in [
     (\<not> reference_in s (pe_TenantID p) ''person_status'' (pe_StatusID p), ''cross_tenant_reference''),
     (taken (\<lambda>x. pe_CPF x = pe_CPF p), ''UNIQUE constraint failed: people.tenant_id, people.cpf''),
     (taken (\<lambda>x. pe_RG x = pe_RG p), ''UNIQUE constraint failed: people.tenant_id, people.rg''),
     (taken (\<lambda>x. pe_Cellular x = pe_Cellular p), ''UNIQUE constraint failed: people.tenant_id, people.cellular''),
     (taken (\<lambda>x. pe_Email x = pe_Email p), ''UNIQUE constraint failed: people.tenant_id, people.email''),
     (taken (\<lambda>x. pe_PIXKey p \<noteq> None \<and> pe_PIXKey x = pe_PIXKey p), ''UNIQUE constraint failed: people.tenant_id, people.pix_key'')])"

definition person_insert_guards :: "store \<Rightarrow> Person \<Rightarrow> (bool \<times> string) list" where
  "person_insert_guards s p = [
     (\<not> tenant_exists s (pe_TenantID p), ''tenant_integrity_violation''),
     (list_ex (\<lambda>x. pe_ID x = pe_ID p) (People s), ''UNIQUE constraint failed: people.id'')] @ person_keys s (pe_ID p) p"

definition person_update_guards :: "store \<Rightarrow> Person \<Rightarrow> Person \<Rightarrow> (bool \<times> string) list" where
  "person_update_guards s old new =
     [(pe_TenantID new \<noteq> pe_TenantID old, ''tenant_id_immutable'')] @ person_keys s (pe_ID old) new"

definition active_person_status :: "store \<Rightarrow> string \<Rightarrow> string \<Rightarrow> bool" where
  "active_person_status s T i \<longleftrightarrow>
     list_ex (\<lambda>r. rd_ID r = i \<and> rd_TenantID r = T \<and> rd_Type r = ''person_status'' \<and> rd_Active r) (References s)"

definition membership_insert_guards :: "store \<Rightarrow> PersonTenantMembership \<Rightarrow> (bool \<times> string) list" where
  "membership_insert_guards s m = [
     (\<not> active_person_status s (pm_TenantID m) (pm_StatusID m), ''person_membership_status_invalid''),
     (case pm_LegacyPersonID m of None \<Rightarrow> False
      | Some i \<Rightarrow> \<not> list_ex (\<lambda>p. pe_ID p = i \<and> pe_TenantID p = pm_TenantID m \<and>
          list_ex (\<lambda>g. gp_ID g = pm_PersonID m \<and> gp_CPF g = pe_CPF p) (GlobalPeople s)) (People s),
      ''person_membership_legacy_projection_invalid''),
     (list_ex (\<lambda>x. pm_ID x = pm_ID m) (Memberships s), ''UNIQUE constraint failed: person_tenant_memberships.id''),
     (list_ex (\<lambda>x. pm_PersonID x = pm_PersonID m \<and> pm_TenantID x = pm_TenantID m) (Memberships s),
      ''UNIQUE constraint failed: person_tenant_memberships.person_id, person_tenant_memberships.tenant_id''),
     (pm_LegacyPersonID m \<noteq> None \<and> list_ex (\<lambda>x. pm_LegacyPersonID x = pm_LegacyPersonID m) (Memberships s),
      ''UNIQUE constraint failed: person_tenant_memberships.legacy_person_id'')]"

text \<open>The triggers on the update of a status; an update of the notes alone fires none.\<close>

definition membership_status_guards ::
  "store \<Rightarrow> PersonTenantMembership \<Rightarrow> PersonTenantMembership \<Rightarrow> (bool \<times> string) list" where
  "membership_status_guards s old new =
     [(\<not> active_person_status s (pm_TenantID new) (pm_StatusID new), ''person_membership_status_invalid'')]"

definition with_global_person_defaults :: "env \<Rightarrow> GlobalPerson \<Rightarrow> GlobalPerson" where
  "with_global_person_defaults E g = g\<lparr>
     gp_CreatedAt := or_time (gp_CreatedAt g) (Now E), gp_UpdatedAt := or_time (gp_UpdatedAt g) (Now E),
     gp_Country := or_default (gp_Country g) ''Brasil'',
     gp_ProfileCompletionStatus := or_default (gp_ProfileCompletionStatus g) ''PERSONAL_ONLY'',
     gp_OperationalActive := True\<rparr>"

definition with_person_defaults :: "env \<Rightarrow> Person \<Rightarrow> Person" where
  "with_person_defaults E p = p\<lparr>
     pe_CreatedAt := or_time (pe_CreatedAt p) (Now E), pe_UpdatedAt := or_time (pe_UpdatedAt p) (Now E),
     pe_TenantID := or_default (pe_TenantID p) ''default'', pe_Country := or_default (pe_Country p) ''Brasil'',
     pe_ProfileCompletionStatus := or_default (pe_ProfileCompletionStatus p) ''PERSONAL_ONLY''\<rparr>"

text \<open>
  The inserts return the row as it is in memory afterwards: GORM sets the fields it has given a default. So a global
  person is operationally active after its insert whatever it was before.
\<close>

definition insertGlobalPerson :: "env \<Rightarrow> GlobalPerson \<Rightarrow> GlobalPerson app" where
  "insertGlobalPerson E g0 = (let g = with_global_person_defaults E g0 in
     bnd (query (\<lambda>s. abort_if (global_insert_guards s g)))
     (\<lambda>_. bnd (modify (\<lambda>s. s\<lparr>GlobalPeople := GlobalPeople s @ [g]\<rparr>)) (\<lambda>_. ret g)))"

definition insertPerson :: "env \<Rightarrow> Person \<Rightarrow> Person app" where
  "insertPerson E p0 = (let p = with_person_defaults E p0 in
     bnd (query (\<lambda>s. abort_if (person_insert_guards s p)))
     (\<lambda>_. bnd (modify (\<lambda>s. s\<lparr>People := People s @ [p]\<rparr>)) (\<lambda>_. ret p)))"

definition insertMembership :: "env \<Rightarrow> PersonTenantMembership \<Rightarrow> PersonTenantMembership app" where
  "insertMembership E m0 = (let m = m0\<lparr>pm_CreatedAt := or_time (pm_CreatedAt m0) (Now E),
       pm_UpdatedAt := or_time (pm_UpdatedAt m0) (Now E)\<rparr> in
     bnd (query (\<lambda>s. abort_if (membership_insert_guards s m)))
     (\<lambda>_. bnd (modify (\<lambda>s. s\<lparr>Memberships := Memberships s @ [m]\<rparr>)) (\<lambda>_. ret m)))"

definition updateGlobalPeople :: "(GlobalPerson \<Rightarrow> bool) \<Rightarrow> (GlobalPerson \<Rightarrow> GlobalPerson) \<Rightarrow> unit app" where
  "updateGlobalPeople = guarded_update GlobalPeople GlobalPeople_update global_update_guards"

definition updatePeople :: "(Person \<Rightarrow> bool) \<Rightarrow> (Person \<Rightarrow> Person) \<Rightarrow> unit app" where
  "updatePeople = guarded_update People People_update person_update_guards"

definition updateMembershipStatus ::
  "(PersonTenantMembership \<Rightarrow> bool) \<Rightarrow> (PersonTenantMembership \<Rightarrow> PersonTenantMembership) \<Rightarrow> unit app" where
  "updateMembershipStatus = guarded_update Memberships Memberships_update membership_status_guards"

definition updateMembershipNotes :: "(PersonTenantMembership \<Rightarrow> bool) \<Rightarrow> string \<Rightarrow> time \<Rightarrow> unit app" where
  "updateMembershipNotes P notes now =
     guarded_update Memberships Memberships_update (\<lambda>s old new. []) P (\<lambda>x. x\<lparr>pm_Notes := notes, pm_UpdatedAt := now\<rparr>)"

section \<open>Lookups\<close>

definition personStatusCodeTx :: "string \<Rightarrow> string \<Rightarrow> store \<Rightarrow> app_error + string" where
  "personStatusCodeTx T i s = (case List.find (\<lambda>r. rd_ID r = TrimSpace i \<and> rd_TenantID r = TrimSpace T \<and>
       rd_Type r = ''person_status'' \<and> rd_Active r) (References s) of
     None \<Rightarrow> Inl (ve ''statusId'' ''Status must be an active person status'')
   | Some r \<Rightarrow> if TrimSpace (rd_Code r) = [] then Inl (ve ''statusId'' ''Status must be an active person status'')
       else Inr (ToUpper (TrimSpace (rd_Code r))))"

definition personStatusIDByCodeTx :: "string \<Rightarrow> string \<Rightarrow> store \<Rightarrow> app_error + string" where
  "personStatusIDByCodeTx T code s = (
     let missing = Inl (ve ''statusId'' (''Tenant is missing the required '' @ ToUpper (TrimSpace code) @ '' Person status'')) in
     case List.find (\<lambda>r. rd_TenantID r = TrimSpace T \<and> rd_Type r = ''person_status'' \<and>
       rd_Code r = ToUpper (TrimSpace code) \<and> rd_Active r) (References s) of
     None \<Rightarrow> missing
   | Some r \<Rightarrow> if TrimSpace (rd_ID r) = [] then missing else Inr (TrimSpace (rd_ID r)))"

definition ExistsActivePersonStatus :: "string \<Rightarrow> string \<Rightarrow> store \<Rightarrow> bool" where
  "ExistsActivePersonStatus T i s \<longleftrightarrow> 0 < count_where (\<lambda>r. rd_ID r = i \<and> rd_TenantID r = T \<and>
     rd_Type r = ''person_status'' \<and> rd_Active r) (References s)"

text \<open>The membership of a row, by which its shared columns, its status and its notes are read.\<close>

definition hydrateFoundation :: "store \<Rightarrow> Person \<Rightarrow> PersonView" where
  "hydrateFoundation s p = (case List.find (\<lambda>m. pm_LegacyPersonID m = Some (pe_ID p)) (rev (Memberships s)) of
     None \<Rightarrow> \<lparr>pv_Person = p, pv_GlobalPersonID = [], pv_MembershipID = [],
       pv_Status = preload rd_ID zeroReferenceData (pe_StatusID p) (References s)\<rparr>
   | Some m \<Rightarrow> \<lparr>pv_Person = (copyGlobalIntoLegacy p (membership_person s m))\<lparr>pe_StatusID := pm_StatusID m, pe_Notes := pm_Notes m\<rparr>,
       pv_GlobalPersonID = pm_PersonID m, pv_MembershipID = pm_ID m,
       pv_Status = preload rd_ID zeroReferenceData (pm_StatusID m) (References s)\<rparr>)"

definition FindPersonByID :: "string \<Rightarrow> string \<Rightarrow> store \<Rightarrow> app_error + PersonView" where
  "FindPersonByID T i s = tri (found ErrRecordNotFound
       (first_by pe_ID (\<lambda>p. pe_ID p = i \<and> pe_TenantID p = T) (People s)))
     (\<lambda>p. Inr (hydrateFoundation s p))"

definition findMembershipAnyTenantByLegacyID :: "string \<Rightarrow> store \<Rightarrow> PersonTenantMembership option" where
  "findMembershipAnyTenantByLegacyID i s =
     first_by pm_ID (\<lambda>m. pm_LegacyPersonID m = Some (TrimSpace i)) (Memberships s)"

text \<open>The fields that are taken by another person, in any tenant.\<close>

definition UniqueConflicts ::
  "string \<Rightarrow> string \<Rightarrow> string \<Rightarrow> string \<Rightarrow> string option \<Rightarrow> string option \<Rightarrow> store \<Rightarrow> string list" where
  "UniqueConflicts cpf rg cellular email pixKey excludeID s = (let
     legacy = TrimSpace (stringValue excludeID);
     excluded = (if legacy = [] then [] else
       case findMembershipAnyTenantByLegacyID legacy s of Some m \<Rightarrow> pm_PersonID m | None \<Rightarrow> []);
     taken = (\<lambda>g p. list_ex (\<lambda>x. g x \<and> (excluded = [] \<or> gp_ID x \<noteq> excluded)) (GlobalPeople s) \<or>
       excluded = [] \<and> list_ex (\<lambda>x. p x \<and> (legacy = [] \<or> pe_ID x \<noteq> legacy)) (People s));
     pix = TrimSpace (stringValue pixKey)
   in map fst (filter snd [
     (''cpf'', TrimSpace cpf \<noteq> [] \<and> taken (\<lambda>x. gp_CPF x = cpf) (\<lambda>x. pe_CPF x = cpf)),
     (''rg'', TrimSpace rg \<noteq> [] \<and> taken (\<lambda>x. gp_RG x = rg) (\<lambda>x. pe_RG x = rg)),
     (''cellular'', TrimSpace cellular \<noteq> [] \<and> taken (\<lambda>x. gp_Cellular x = cellular) (\<lambda>x. pe_Cellular x = cellular)),
     (''email'', TrimSpace email \<noteq> [] \<and> taken (\<lambda>x. gp_Email x = email) (\<lambda>x. pe_Email x = email)),
     (''pixKey'', pix \<noteq> [] \<and> taken (\<lambda>x. gp_PIXKey x = Some pix) (\<lambda>x. pe_PIXKey x = Some pix))]))"

definition conflict_message :: "string \<Rightarrow> string" where
  "conflict_message field = (if field = ''cpf'' then ''CPF already exists'' else if field = ''rg'' then ''RG already exists''
     else if field = ''cellular'' then ''Cellular already exists'' else if field = ''email'' then ''Email already exists''
     else ''PIX key already exists'')"

definition uniqueConflictValidationError :: "string list \<Rightarrow> app_error" where
  "uniqueConflictValidationError conflicts = ValidationError (map (\<lambda>f. (f, conflict_message f)) conflicts)"

text \<open>The list without a search. A row shows what its membership and global identity say, where it has them.\<close>

definition joined_membership :: "store \<Rightarrow> Person \<Rightarrow> PersonTenantMembership option" where
  "joined_membership s p = List.find (\<lambda>m. pm_LegacyPersonID m = Some (pe_ID p) \<and> pm_TenantID m = pe_TenantID p) (Memberships s)"

definition joined_person :: "store \<Rightarrow> Person \<Rightarrow> GlobalPerson option" where
  "joined_person s p = Option.bind (joined_membership s p) (\<lambda>m. List.find (\<lambda>g. gp_ID g = pm_PersonID m) (GlobalPeople s))"

definition COALESCE :: "('g \<Rightarrow> 'v) \<Rightarrow> 'g option \<Rightarrow> 'v \<Rightarrow> 'v" where
  "COALESCE f x v = (case x of None \<Rightarrow> v | Some y \<Rightarrow> f y)"

definition repoListPeople :: "string \<Rightarrow> PersonListFilter \<Rightarrow> store \<Rightarrow> PersonView list \<times> nat" where
  "repoListPeople T f s = (let
     rows = filter (\<lambda>p. pe_TenantID p = T \<and>
       matches_unless_empty (px_StatusFilter f) (COALESCE pm_StatusID (joined_membership s p) (pe_StatusID p)) \<and>
       matches_unless_empty (px_ProfileFilter f)
         (COALESCE gp_ProfileCompletionStatus (joined_person s p) (pe_ProfileCompletionStatus p)) \<and>
       (case px_CanCreateFilter f of None \<Rightarrow> True
        | Some b \<Rightarrow> COALESCE gp_CanCreateCollaborator (joined_person s p) (pe_CanCreateCollaborator p) = b)) (People s);
     ordered = sort_key (\<lambda>p. (COALESCE gp_LastName (joined_person s p) (pe_LastName p),
       COALESCE gp_FirstName (joined_person s p) (pe_FirstName p))) rows;
     pageSize = (if px_PageSizeFilter f \<le> 0 then 50 else px_PageSizeFilter f)
   in (map (hydrateFoundation s) (page_of (normalizedPage (px_PageFilter f)) pageSize ordered), length rows))"

section \<open>The lifecycle of a person\<close>

definition operational_switch :: "string \<Rightarrow> bool \<Rightarrow> time \<Rightarrow> unit app" where
  "operational_switch g active now =
     updateGlobalPeople (\<lambda>x. gp_ID x = g) (\<lambda>x. x\<lparr>gp_OperationalActive := active, gp_UpdatedAt := now\<rparr>)"

definition membership_status_set :: "string \<Rightarrow> string \<Rightarrow> time \<Rightarrow> unit app" where
  "membership_status_set m status now =
     updateMembershipStatus (\<lambda>x. pm_ID x = m) (\<lambda>x. x\<lparr>pm_StatusID := status, pm_UpdatedAt := now\<rparr>)"

definition person_status_set :: "string \<Rightarrow> string \<Rightarrow> string \<Rightarrow> time \<Rightarrow> unit app" where
  "person_status_set p T status now =
     updatePeople (\<lambda>x. pe_ID x = p \<and> pe_TenantID x = T) (\<lambda>x. x\<lparr>pe_StatusID := status, pe_UpdatedAt := now\<rparr>)"

definition deactivate_membership :: "time \<Rightarrow> PersonTenantMembership \<Rightarrow> unit app" where
  "deactivate_membership now m =
     bnd (query (personStatusIDByCodeTx (pm_TenantID m) ''INACTIVE''))
     (\<lambda>i. bnd (membership_status_set (pm_ID m) i now)
     (\<lambda>_. let legacy = TrimSpace (stringValue (pm_LegacyPersonID m)) in
       if legacy \<noteq> [] then person_status_set legacy (pm_TenantID m) i now else ret ()))"

definition deactivateOperationalPersonTx :: "string \<Rightarrow> time \<Rightarrow> unit app" where
  "deactivateOperationalPersonTx g now =
     bnd (query (\<lambda>s. Inr (filter (\<lambda>m. pm_PersonID m = g) (Memberships s))))
     (\<lambda>ms. bnd (for_each (deactivate_membership now) ms)
     (\<lambda>_. operational_switch g False now))"

definition reactivateTenantMembershipTx :: "(string \<Rightarrow> bool) \<Rightarrow> string \<Rightarrow> string \<Rightarrow> time \<Rightarrow> unit app" where
  "reactivateTenantMembershipTx suspended T legacy now =
     bnd (query (\<lambda>s. found ErrRecordNotFound
       (List.find (\<lambda>m. pm_TenantID m = T \<and> pm_LegacyPersonID m = Some legacy) (Memberships s))))
     (\<lambda>m. bnd (query (personStatusCodeTx T (pm_StatusID m)))
     (\<lambda>code. bnd (ensure (code = ''INACTIVE'')
          (ve ''statusId'' ''Only an operationally INACTIVE Person may be reactivated''))
     (\<lambda>_. bnd (ensure (\<not> suspended (pm_PersonID m)) ErrApplicationSecuritySuspended)
     (\<lambda>_. bnd (query (personStatusIDByCodeTx T ''ACTIVE''))
     (\<lambda>active. bnd (membership_status_set (pm_ID m) active now)
     (\<lambda>_. bnd (person_status_set legacy T active now)
     (\<lambda>_. operational_switch (pm_PersonID m) True now)))))))"

text \<open>Whether a person that has only tenant rows counts as active: when one is, or when none is inactive.\<close>

definition legacyOperationalActiveByCPF :: "string \<Rightarrow> store \<Rightarrow> bool" where
  "legacyOperationalActiveByCPF cpf s = (let
     has = (\<lambda>code. list_ex (\<lambda>p. pe_CPF p = TrimSpace cpf \<and> list_ex (\<lambda>r. rd_ID r = pe_StatusID p \<and>
       rd_TenantID r = pe_TenantID p \<and> rd_Type r = ''person_status'' \<and> rd_Code r = code \<and> rd_Active r) (References s)) (People s))
   in has ''ACTIVE'' \<or> \<not> has ''INACTIVE'')"

definition new_membership :: "env \<Rightarrow> string \<Rightarrow> string \<Rightarrow> string \<Rightarrow> string \<Rightarrow> string \<Rightarrow> string \<Rightarrow> PersonTenantMembership" where
  "new_membership E i T g status notes legacy = \<lparr>pm_ID = i, pm_CreatedAt = Now E, pm_UpdatedAt = Now E,
     pm_TenantID = T, pm_PersonID = g, pm_StatusID = status, pm_Notes = notes, pm_LegacyPersonID = Some legacy\<rparr>"

text \<open>A global person is inserted, and switched off when it is still marked inactive after the insert.\<close>

definition createGlobal :: "env \<Rightarrow> GlobalPerson \<Rightarrow> GlobalPerson app" where
  "createGlobal E g0 = bnd (insertGlobalPerson E g0)
     (\<lambda>g. bnd (if \<not> gp_OperationalActive g
        then updateGlobalPeople (\<lambda>x. gp_ID x = gp_ID g) (\<lambda>x. x\<lparr>gp_OperationalActive := False, gp_UpdatedAt := Now E\<rparr>)
        else ret ())
     (\<lambda>_. ret g))"

definition findOrCreateMembershipForLegacyPerson :: "env \<Rightarrow> string \<Rightarrow> string \<Rightarrow> PersonTenantMembership app" where
  "findOrCreateMembershipForLegacyPerson E T i =
     bnd (query (\<lambda>s. Inr (first_by pm_ID (\<lambda>m. pm_TenantID m = T \<and> pm_LegacyPersonID m = Some i) (Memberships s))))
     (\<lambda>existing. case existing of Some m \<Rightarrow> ret m | None \<Rightarrow>
       bnd (query (\<lambda>s. found ErrRecordNotFound (first_by pe_ID (\<lambda>p. pe_ID p = i \<and> pe_TenantID p = T) (People s))))
     (\<lambda>legacy. bnd (query (\<lambda>s. Inr (first_by gp_ID (\<lambda>g. gp_CPF g = pe_CPF legacy) (GlobalPeople s))))
     (\<lambda>known. bnd (case known of Some g \<Rightarrow> ret g
        | None \<Rightarrow> bnd (query (\<lambda>s. Inr (legacyOperationalActiveByCPF (pe_CPF legacy) s)))
            (\<lambda>active. createGlobal E ((globalPersonFromLegacy legacy)\<lparr>gp_OperationalActive := active\<rparr>)))
     (\<lambda>g. bnd (if gp_OperationalActive g then ret (pe_StatusID legacy) else
          bnd (query (personStatusIDByCodeTx T ''INACTIVE''))
          (\<lambda>inactive. bnd (if pe_StatusID legacy \<noteq> inactive then person_status_set (pe_ID legacy) T inactive (Now E) else ret ())
          (\<lambda>_. ret inactive)))
     (\<lambda>status. bnd (newID E)
     (\<lambda>n. insertMembership E (new_membership E n T (gp_ID g) status (pe_Notes legacy) (pe_ID legacy))))))))"

section \<open>The repository\<close>

definition repoCreatePerson :: "env \<Rightarrow> Person \<Rightarrow> unit app" where
  "repoCreatePerson E p0 = transaction
     (bnd (query (personStatusCodeTx (pe_TenantID p0) (pe_StatusID p0)))
     (\<lambda>code. bnd (createGlobal E ((globalPersonFromLegacy p0)\<lparr>gp_OperationalActive := code \<noteq> ''INACTIVE''\<rparr>))
     (\<lambda>g. bnd (insertPerson E p0)
     (\<lambda>p. bnd (newID E)
     (\<lambda>n. bnd (insertMembership E \<lparr>pm_ID = n, pm_CreatedAt = pe_CreatedAt p, pm_UpdatedAt = pe_UpdatedAt p,
          pm_TenantID = pe_TenantID p, pm_PersonID = gp_ID g, pm_StatusID = pe_StatusID p, pm_Notes = pe_Notes p,
          pm_LegacyPersonID = Some (pe_ID p)\<rparr>)
     (\<lambda>_. ret ()))))))"

text \<open>The shared columns are written to the global row and to the row of every tenant that knows the person.\<close>

definition sync_projections :: "Person \<Rightarrow> string \<Rightarrow> unit app" where
  "sync_projections p g =
     bnd (updateGlobalPeople (\<lambda>x. gp_ID x = g) (globalPersonUpdateMap (globalPersonFromLegacy p)))
     (\<lambda>_. bnd (query (\<lambda>s. Inr (filter (\<lambda>i. TrimSpace i \<noteq> []) (List.map_filter
          (\<lambda>x. if pm_PersonID x = g then pm_LegacyPersonID x else None) (Memberships s)))))
     (\<lambda>legacyIDs. if legacyIDs \<noteq> []
        then updatePeople (\<lambda>x. pe_ID x \<in> set legacyIDs) (legacyGlobalFieldUpdateMap p) else ret ()))"

definition make_inactive :: "string \<Rightarrow> Person \<Rightarrow> PersonTenantMembership \<Rightarrow> unit app" where
  "make_inactive T p m =
     bnd (updatePeople (\<lambda>x. pe_ID x = pe_ID p \<and> pe_TenantID x = T)
        (\<lambda>x. x\<lparr>pe_Notes := pe_Notes p, pe_UpdatedAt := pe_UpdatedAt p\<rparr>))
     (\<lambda>_. bnd (updateMembershipNotes (\<lambda>x. pm_ID x = pm_ID m \<and> pm_TenantID x = T) (pe_Notes p) (pe_UpdatedAt p))
     (\<lambda>_. deactivateOperationalPersonTx (pm_PersonID m) (pe_UpdatedAt p)))"

definition set_tenant_status :: "string \<Rightarrow> Person \<Rightarrow> PersonTenantMembership \<Rightarrow> unit app" where
  "set_tenant_status T p m =
     bnd (updatePeople (\<lambda>x. pe_ID x = pe_ID p \<and> pe_TenantID x = T)
        (\<lambda>x. x\<lparr>pe_StatusID := pe_StatusID p, pe_Notes := pe_Notes p, pe_UpdatedAt := pe_UpdatedAt p\<rparr>))
     (\<lambda>_. updateMembershipStatus (\<lambda>x. pm_ID x = pm_ID m \<and> pm_TenantID x = T)
        (\<lambda>x. x\<lparr>pm_StatusID := pe_StatusID p, pm_Notes := pe_Notes p, pm_UpdatedAt := pe_UpdatedAt p\<rparr>))"

definition repoUpdatePerson :: "env \<Rightarrow> string \<Rightarrow> Person \<Rightarrow> unit app" where
  "repoUpdatePerson E T p = transaction
     (bnd (findOrCreateMembershipForLegacyPerson E T (pe_ID p))
     (\<lambda>m. bnd (query (personStatusCodeTx T (pm_StatusID m)))
     (\<lambda>current. bnd (query (personStatusCodeTx T (pe_StatusID p)))
     (\<lambda>requested. bnd (ensure (\<not> (current = ''INACTIVE'' \<and> requested = ''ACTIVE'')) ErrTenantReactivationRequired)
     (\<lambda>_. bnd (sync_projections p (pm_PersonID m))
     (\<lambda>_. if current \<noteq> ''INACTIVE'' \<and> requested = ''INACTIVE'' then make_inactive T p m
       else set_tenant_status T p m))))))"

definition repoCreateMembership ::
  "env \<Rightarrow> (string \<Rightarrow> bool) \<Rightarrow> string \<Rightarrow> CreatePersonMembershipRequest \<Rightarrow> PersonView app" where
  "repoCreateMembership E suspended T req = bnd (transaction
     (bnd (query (\<lambda>s. found ErrRecordNotFound
        (first_by gp_ID (\<lambda>g. gp_ID g = TrimSpace (mq_PersonID req)) (GlobalPeople s))))
     (\<lambda>g. bnd (query (\<lambda>s. Inr (count_where (\<lambda>m. pm_PersonID m = gp_ID g \<and> pm_TenantID m = T) (Memberships s))))
     (\<lambda>existing. bnd (ensure (existing = 0) (ve ''personId'' ''Person already belongs to this tenant''))
     (\<lambda>_. bnd (query (personStatusCodeTx T (TrimSpace (mq_StatusID req))))
     (\<lambda>requested. let shouldReactivate = (\<not> gp_OperationalActive g \<and> requested = ''ACTIVE'') in
       bnd (if shouldReactivate then query (personStatusIDByCodeTx T ''INACTIVE'') else ret (TrimSpace (mq_StatusID req)))
     (\<lambda>initial. bnd (newID E)
     (\<lambda>i. bnd (insertPerson E (legacyPersonFromGlobal g T initial (TrimSpace (mq_Notes req)) i (Now E)))
     (\<lambda>legacy. bnd (newID E)
     (\<lambda>n. bnd (insertMembership E (new_membership E n T (gp_ID g) initial (TrimSpace (mq_Notes req)) (pe_ID legacy)))
     (\<lambda>_. bnd (if shouldReactivate
          then bnd (ensure (\<not> suspended (gp_ID g)) ErrApplicationSecuritySuspended)
            (\<lambda>_. reactivateTenantMembershipTx suspended T (pe_ID legacy) (Now E))
          else ret ())
     (\<lambda>_. ret legacy))))))))))))
     (\<lambda>legacy. query (\<lambda>s. Inr (hydrateFoundation s legacy)))"

definition repoReactivate :: "env \<Rightarrow> (string \<Rightarrow> bool) \<Rightarrow> string \<Rightarrow> string \<Rightarrow> PersonView app" where
  "repoReactivate E suspended T i =
     bnd (transaction (reactivateTenantMembershipTx suspended (TrimSpace T) (TrimSpace i) (Now E)))
     (\<lambda>_. query (FindPersonByID T i))"

section \<open>The service\<close>

definition defaultCountry :: "string \<Rightarrow> string" where
  "defaultCountry v = (if TrimSpace v = [] then ''Brasil'' else TrimSpace v)"

definition validatePersonStatus :: "string \<Rightarrow> string \<Rightarrow> store \<Rightarrow> app_error + unit" where
  "validatePersonStatus T i s = (if ExistsActivePersonStatus T (TrimSpace i) s then Inr ()
     else Inl (ve ''statusId'' ''Status must be an active person status''))"

text \<open>The fields of a request in their stored form.\<close>

definition requested_profile :: "CreatePersonRequest \<Rightarrow> Person \<Rightarrow> Person" where
  "requested_profile req p = p\<lparr>pe_FirstName := TrimSpace (cp_FirstName req), pe_LastName := TrimSpace (cp_LastName req),
     pe_Nickname := TrimSpace (cp_Nickname req), pe_CPF := NormalizeDigits (cp_CPF req), pe_RG := TrimSpace (cp_RG req),
     pe_Cellular := NormalizeDigits (cp_Cellular req), pe_Email := TrimSpace (ToLower (cp_Email req)),
     pe_Street1 := TrimSpace (cp_Street1 req), pe_Street2 := TrimSpace (cp_Street2 req),
     pe_City := TrimSpace (cp_City req), pe_State := TrimSpace (cp_State req), pe_CEP := NormalizeCEP (cp_CEP req),
     pe_Country := defaultCountry (cp_Country req), pe_BankName := TrimSpace (cp_BankName req),
     pe_BankNumber := TrimSpace (cp_BankNumber req), pe_CheckingAccount := TrimSpace (cp_CheckingAccount req),
     pe_PIXKey := stringPtrOrNil (cp_PIXKey req), pe_EmergencyName := TrimSpace (cp_EmergencyName req),
     pe_EmergencyCellular := NormalizeDigits (cp_EmergencyCellular req),
     pe_EmergencyEmail := TrimSpace (ToLower (cp_EmergencyEmail req)), pe_StatusID := TrimSpace (cp_StatusID req),
     pe_Notes := TrimSpace (cp_Notes req)\<rparr>"

definition with_completion :: "CompletionResult \<Rightarrow> Person \<Rightarrow> Person" where
  "with_completion c p = p\<lparr>pe_ProfileCompletionStatus := cr_Status c,
     pe_CanCreateCollaborator := cr_CanCreateCollaborator c\<rparr>"

definition completion_of :: "Person \<Rightarrow> completionInput" where
  "completion_of p = \<lparr>ci_Street1 = pe_Street1 p, ci_Street2 = pe_Street2 p, ci_State = pe_State p,
     ci_City = pe_City p, ci_CEP = pe_CEP p, ci_Country = pe_Country p, ci_BankName = pe_BankName p,
     ci_BankNumber = pe_BankNumber p, ci_CheckingAccount = pe_CheckingAccount p,
     ci_PIXKey = stringValue (pe_PIXKey p), ci_EmergencyName = pe_EmergencyName p,
     ci_EmergencyCellular = pe_EmergencyCellular p, ci_EmergencyEmail = pe_EmergencyEmail p\<rparr>"

definition new_person :: "env \<Rightarrow> string \<Rightarrow> string \<Rightarrow> CreatePersonRequest \<Rightarrow> Person" where
  "new_person E i T req = (let p = requested_profile req (zeroPerson\<lparr>pe_ID := i, pe_CreatedAt := Now E,
       pe_UpdatedAt := Now E, pe_TenantID := T\<rparr>)
     in with_completion (ComputeCompletion (completion_of p)) p)"

definition ListPeople :: "string \<Rightarrow> PersonListFilter \<Rightarrow> store \<Rightarrow> PersonProfile list \<times> nat" where
  "ListPeople T f s = (let (rows, n) = repoListPeople T f s in (map ToPersonProfile rows, n))"

definition GetPersonByID :: "string \<Rightarrow> string \<Rightarrow> store \<Rightarrow> app_error + PersonProfile" where
  "GetPersonByID T i s = tri (FindPersonByID T i s) (\<lambda>v. Inr (ToPersonProfile v))"

definition CreatePerson :: "env \<Rightarrow> string \<Rightarrow> CreatePersonRequest \<Rightarrow> PersonProfile app" where
  "CreatePerson E T req =
     bnd (lift (ValidateCreatePerson req))
     (\<lambda>_. bnd (query (validatePersonStatus T (cp_StatusID req)))
     (\<lambda>_. bnd (query (\<lambda>s. Inr (UniqueConflicts (NormalizeDigits (cp_CPF req)) (TrimSpace (cp_RG req))
            (NormalizeDigits (cp_Cellular req)) (TrimSpace (ToLower (cp_Email req))) None None s)))
     (\<lambda>conflicts. bnd (ensure (conflicts = []) (uniqueConflictValidationError conflicts))
     (\<lambda>_. bnd (newID E)
     (\<lambda>i. bnd (repoCreatePerson E (new_person E i T req))
     (\<lambda>_. query (GetPersonByID T i)))))))"

text \<open>An update computes the completion from the fields as they were sent, but for those it normalizes.\<close>

definition requested_completion :: "UpdatePersonRequest \<Rightarrow> completionInput" where
  "requested_completion req = \<lparr>ci_Street1 = cp_Street1 req, ci_Street2 = cp_Street2 req, ci_State = cp_State req,
     ci_City = cp_City req, ci_CEP = NormalizeCEP (cp_CEP req), ci_Country = defaultCountry (cp_Country req),
     ci_BankName = cp_BankName req, ci_BankNumber = cp_BankNumber req, ci_CheckingAccount = cp_CheckingAccount req,
     ci_PIXKey = TrimSpace (cp_PIXKey req), ci_EmergencyName = cp_EmergencyName req,
     ci_EmergencyCellular = NormalizeDigits (cp_EmergencyCellular req),
     ci_EmergencyEmail = TrimSpace (ToLower (cp_EmergencyEmail req))\<rparr>"

definition UpdatePerson :: "env \<Rightarrow> string \<Rightarrow> string \<Rightarrow> UpdatePersonRequest \<Rightarrow> PersonProfile app" where
  "UpdatePerson E T i req =
     bnd (lift (ValidateUpdatePerson req))
     (\<lambda>_. bnd (query (FindPersonByID T i))
     (\<lambda>v. let p = pv_Person v in
       bnd (query (validatePersonStatus (pe_TenantID p) (cp_StatusID req)))
     (\<lambda>_. bnd (query (\<lambda>s. Inr (UniqueConflicts (NormalizeDigits (cp_CPF req)) (TrimSpace (cp_RG req))
            (NormalizeDigits (cp_Cellular req)) (TrimSpace (ToLower (cp_Email req))) (stringPtrOrNil (cp_PIXKey req))
            (Some i) s)))
     (\<lambda>conflicts. bnd (ensure (conflicts = []) (uniqueConflictValidationError conflicts))
     (\<lambda>_. bnd (repoUpdatePerson E T ((with_completion (ComputeCompletion (requested_completion req))
            (requested_profile req p))\<lparr>pe_UpdatedAt := Now E\<rparr>))
     (\<lambda>_. query (GetPersonByID T i)))))))"

definition CreateMembership ::
  "env \<Rightarrow> (string \<Rightarrow> bool) \<Rightarrow> string \<Rightarrow> CreatePersonMembershipRequest \<Rightarrow> PersonProfile app" where
  "CreateMembership E suspended T req =
     bnd (lift (validated (required ''statusId'' (mq_StatusID req) (required ''personId'' (mq_PersonID req) []))))
     (\<lambda>_. bnd (query (validatePersonStatus T (mq_StatusID req)))
     (\<lambda>_. bnd (repoCreateMembership E suspended T req)
     (\<lambda>v. ret (ToPersonProfile v))))"

definition ReactivatePerson :: "env \<Rightarrow> (string \<Rightarrow> bool) \<Rightarrow> string \<Rightarrow> string \<Rightarrow> PersonProfile app" where
  "ReactivatePerson E suspended T i =
     bnd (ensure (TrimSpace i \<noteq> []) (ve ''personId'' ''Required''))
     (\<lambda>_. bnd (repoReactivate E suspended (TrimSpace T) (TrimSpace i))
     (\<lambda>v. ret (ToPersonProfile v)))"

end
