(* ===== verification/PersonEffects.thy ===== *)
theory PersonEffects
  imports Persons JourneyTerms PlanEffects
begin

text \<open>
  What the changes of persons guarantee (\<open>backend/internal/people\<close>): a new person is one identity, one row and one
  membership that belong together, and can become a collaborator exactly when the profile is complete; a person who is made
  inactive is so in every tenant.
\<close>

section \<open>A person that was created\<close>

lemma insertGlobalPerson_ok: "insertGlobalPerson E g0 s = (Inr g, t) \<longleftrightarrow>
    g = with_global_person_defaults E g0 \<and> t = s\<lparr>GlobalPeople := GlobalPeople s @ [g]\<rparr> \<and>
    abort_if (global_insert_guards s g) = Inr ()"
  by (auto simp: insertGlobalPerson_def Let_def run_ok)

lemma insertPerson_ok: "insertPerson E p0 s = (Inr p, t) \<longleftrightarrow>
    p = with_person_defaults E p0 \<and> t = s\<lparr>People := People s @ [p]\<rparr> \<and> abort_if (person_insert_guards s p) = Inr ()"
  by (auto simp: insertPerson_def Let_def run_ok)

lemma insertMembership_ok: "insertMembership E m0 s = (Inr m, t) \<Longrightarrow>
    pm_ID m = pm_ID m0 \<and> pm_TenantID m = pm_TenantID m0 \<and> pm_PersonID m = pm_PersonID m0 \<and>
    pm_StatusID m = pm_StatusID m0 \<and> pm_LegacyPersonID m = pm_LegacyPersonID m0 \<and>
    t = s\<lparr>Memberships := Memberships s @ [m]\<rparr> \<and> abort_if (membership_insert_guards s m) = Inr ()"
  by (auto simp: insertMembership_def Let_def run_ok)

lemma createGlobal_ok: "createGlobal E g0 s = (Inr g, t) \<longleftrightarrow> insertGlobalPerson E g0 s = (Inr g, t)"
  by (auto simp: createGlobal_def run_ok insertGlobalPerson_ok with_global_person_defaults_def)

lemma with_global_person_defaults_simps [simp]:
  "gp_ID (with_global_person_defaults E g) = gp_ID g" "gp_CPF (with_global_person_defaults E g) = gp_CPF g"
  "gp_CanCreateCollaborator (with_global_person_defaults E g) = gp_CanCreateCollaborator g"
  "gp_OperationalActive (with_global_person_defaults E g)"
  by (simp_all add: with_global_person_defaults_def)

lemma with_person_defaults_simps [simp]:
  "pe_ID (with_person_defaults E p) = pe_ID p" "pe_CPF (with_person_defaults E p) = pe_CPF p"
  "pe_StatusID (with_person_defaults E p) = pe_StatusID p"
  "pe_TenantID (with_person_defaults E p) = or_default (pe_TenantID p) ''default''"
  by (simp_all add: with_person_defaults_def)

lemma new_person_fields:
  "pe_ID (new_person E i T req) = i" "pe_TenantID (new_person E i T req) = T"
  "pe_CPF (new_person E i T req) = NormalizeDigits (cp_CPF req)"
  "pe_StatusID (new_person E i T req) = TrimSpace (cp_StatusID req)"
  by (simp_all add: new_person_def requested_profile_def with_completion_def Let_def)

text \<open>The profile of the request is complete when its stored form is.\<close>

definition complete_request :: "CreatePersonRequest \<Rightarrow> bool" where
  "complete_request req \<longleftrightarrow> (let i = completion_of (requested_profile req zeroPerson) in hasAddress i \<and> hasBank i \<and> hasEmergency i)"

lemma new_person_complete: "pe_CanCreateCollaborator (new_person E i T req) \<longleftrightarrow> complete_request req"
  by (simp add: new_person_def requested_profile_def with_completion_def Let_def complete_request_def completion_of_def)

lemma repoCreatePerson_ok:
  assumes "repoCreatePerson E p0 s = (Inr (), t)"
  obtains code g p m where "personStatusCodeTx (pe_TenantID p0) (pe_StatusID p0) s = Inr code"
    and "g = with_global_person_defaults E ((globalPersonFromLegacy p0)\<lparr>gp_OperationalActive := code \<noteq> ''INACTIVE''\<rparr>)"
    and "abort_if (global_insert_guards s g) = Inr ()" and "p = with_person_defaults E p0"
    and "pm_TenantID m = pe_TenantID p" and "pm_PersonID m = gp_ID g" and "pm_StatusID m = pe_StatusID p"
    and "pm_LegacyPersonID m = Some (pe_ID p)" and "pe_ID p \<notin> pe_ID ` set (People s)"
    and "t = s\<lparr>GlobalPeople := GlobalPeople s @ [g], People := People s @ [p], Memberships := Memberships s @ [m],
      IdsUsed := Suc (IdsUsed s)\<rparr>"
proof -
  let ?g = "\<lambda>code. with_global_person_defaults E ((globalPersonFromLegacy p0)\<lparr>gp_OperationalActive := code \<noteq> ''INACTIVE''\<rparr>)"
    and ?p = "with_person_defaults E p0"
  from assms obtain code m where code: "personStatusCodeTx (pe_TenantID p0) (pe_StatusID p0) s = Inr code"
    and g: "abort_if (global_insert_guards s (?g code)) = Inr ()"
    and p: "abort_if (person_insert_guards (s\<lparr>GlobalPeople := GlobalPeople s @ [?g code]\<rparr>) ?p) = Inr ()"
    and m: "insertMembership E \<lparr>pm_ID = NewID E (IdsUsed s), pm_CreatedAt = pe_CreatedAt ?p, pm_UpdatedAt = pe_UpdatedAt ?p,
        pm_TenantID = pe_TenantID ?p, pm_PersonID = gp_ID (?g code), pm_StatusID = pe_StatusID ?p, pm_Notes = pe_Notes ?p,
        pm_LegacyPersonID = Some (pe_ID ?p)\<rparr>
      (s\<lparr>GlobalPeople := GlobalPeople s @ [?g code], People := People s @ [?p], IdsUsed := Suc (IdsUsed s)\<rparr>) = (Inr m, t)"
    by (auto simp: repoCreatePerson_def run_ok createGlobal_ok insertGlobalPerson_ok insertPerson_ok)
  from p have "pe_ID ?p \<notin> pe_ID ` set (People s)"
    by (auto simp: abort_if_ok person_insert_guards_def list_ex_iff)
  with insertMembership_ok [OF m] show ?thesis by (intro that [OF code refl g refl, of m]) simp_all
qed

lemma CreatePerson_ok:
  assumes "CreatePerson E T req s = (Inr d, t)"
  obtains "ValidateCreatePerson req = Inr ()"
    and "repoCreatePerson E (new_person E (NewID E (IdsUsed s)) T req) (s\<lparr>IdsUsed := Suc (IdsUsed s)\<rparr>) = (Inr (), t)"
    and "GetPersonByID T (NewID E (IdsUsed s)) t = Inr d"
  using assms by (auto simp: CreatePerson_def run_ok split: if_split_asm)

section \<open>A person who was made inactive\<close>

text \<open>A membership whose status is the inactive one of its tenant, and no other.\<close>

definition inactive_membership :: "store \<Rightarrow> PersonTenantMembership \<Rightarrow> bool" where
  "inactive_membership s m \<longleftrightarrow> (\<exists>r \<in> set (References s). rd_ID r = pm_StatusID m \<and> rd_Code r = ''INACTIVE'')"

lemma inactive_not_active:
  "distinct (map rd_ID (References s)) \<Longrightarrow> inactive_membership s m \<Longrightarrow> \<not> active_membership F s m"
  by (auto simp: inactive_membership_def active_membership_def list_ex_iff dest: distinct_key)

definition sound_ids :: "store \<Rightarrow> bool" where
  "sound_ids s \<longleftrightarrow> distinct (map rd_ID (References s)) \<and> (\<forall>r \<in> set (References s). TrimSpace (rd_ID r) = rd_ID r)"

lemma personStatusIDByCodeTx_ok:
  "personStatusIDByCodeTx T code s = Inr i \<Longrightarrow>
   \<exists>r \<in> set (References s). rd_Code r = ToUpper (TrimSpace code) \<and> i = TrimSpace (rd_ID r)"
  by (auto simp: personStatusIDByCodeTx_def Let_def find_Some_iff split: option.splits if_split_asm)

lemma updateMembershipStatus_ok: "updateMembershipStatus P f s = (Inr (), t) \<Longrightarrow>
    t = s\<lparr>Memberships := update_where P f (Memberships s)\<rparr>"
  by (cases s) (auto simp: updateMembershipStatus_def guarded_update_def run_ok)

lemma updateMembershipNotes_ok: "updateMembershipNotes P n now s = (Inr (), t) \<Longrightarrow>
    t = s\<lparr>Memberships := update_where P (\<lambda>x. x\<lparr>pm_Notes := n, pm_UpdatedAt := now\<rparr>) (Memberships s)\<rparr>"
  by (cases s) (auto simp: updateMembershipNotes_def guarded_update_def run_ok)

lemma updatePeople_ok: "updatePeople P f s = (Inr (), t) \<Longrightarrow> t = s\<lparr>People := update_where P f (People s)\<rparr>"
  by (cases s) (auto simp: updatePeople_def guarded_update_def run_ok)

lemma updateGlobalPeople_ok: "updateGlobalPeople P f s = (Inr (), t) \<Longrightarrow>
    t = s\<lparr>GlobalPeople := update_where P f (GlobalPeople s)\<rparr>"
  by (cases s) (auto simp: updateGlobalPeople_def guarded_update_def run_ok)

lemmas person_writes = updateMembershipStatus_ok updateMembershipNotes_ok updatePeople_ok updateGlobalPeople_ok

definition same_membership :: "PersonTenantMembership \<Rightarrow> PersonTenantMembership \<Rightarrow> bool" where
  "same_membership x y \<longleftrightarrow> pm_ID y = pm_ID x \<and> pm_PersonID y = pm_PersonID x \<and> pm_TenantID y = pm_TenantID x"

lemma deactivate_membership_ok:
  assumes "deactivate_membership now m s = (Inr (), t)" and "sound_ids s"
  shows "\<exists>f y. t = s\<lparr>Memberships := map f (Memberships s), People := y\<rparr> \<and> (\<forall>x. same_membership x (f x)) \<and>
    (\<forall>x. pm_ID x = pm_ID m \<or> inactive_membership s x \<longrightarrow> inactive_membership s (f x))"
proof -
  from assms(1) obtain i u where i: "personStatusIDByCodeTx (pm_TenantID m) ''INACTIVE'' s = Inr i"
    and u: "membership_status_set (pm_ID m) i now s = (Inr (), u)"
    and t: "(if TrimSpace (stringValue (pm_LegacyPersonID m)) \<noteq> []
       then person_status_set (TrimSpace (stringValue (pm_LegacyPersonID m))) (pm_TenantID m) i now else ret ()) u = (Inr (), t)"
    by (auto simp: deactivate_membership_def run_ok Let_def)
  let ?f = "\<lambda>x. if pm_ID x = pm_ID m then x\<lparr>pm_StatusID := i, pm_UpdatedAt := now\<rparr> else x"
  have "u = s\<lparr>Memberships := map ?f (Memberships s)\<rparr>"
    using updateMembershipStatus_ok u by (simp add: membership_status_set_def update_where_def)
  then have "\<exists>y. t = s\<lparr>Memberships := map ?f (Memberships s), People := y\<rparr>"
    using t by (cases s) (auto simp: person_status_set_def split: if_split_asm dest!: updatePeople_ok)
  moreover have "inactive_membership s (?f x)" if "pm_ID x = pm_ID m \<or> inactive_membership s x" for x
  proof -
    have "ToUpper (TrimSpace ''INACTIVE'') = ''INACTIVE''" by code_simp
    then show ?thesis
      using personStatusIDByCodeTx_ok [OF i] that assms(2) by (auto simp: inactive_membership_def sound_ids_def)
  qed
  moreover have "\<forall>x. same_membership x (?f x)" by (simp add: same_membership_def)
  ultimately show ?thesis by blast
qed

lemma deactivate_each:
  assumes "for_each (deactivate_membership now) ms s = (Inr (), t)" and "sound_ids s"
  shows "\<exists>f y. t = s\<lparr>Memberships := map f (Memberships s), People := y\<rparr> \<and> (\<forall>x. same_membership x (f x)) \<and>
    (\<forall>x. pm_ID x \<in> pm_ID ` set ms \<or> inactive_membership s x \<longrightarrow> inactive_membership s (f x))"
  using assms
proof (induction ms arbitrary: s)
  case Nil
  then show ?case by (intro exI [of _ "\<lambda>x. x"] exI [of _ "People s"]) (auto simp: same_membership_def)
next
  case (Cons m ms)
  then obtain u where u: "deactivate_membership now m s = (Inr (), u)"
    and t: "for_each (deactivate_membership now) ms u = (Inr (), t)" by (auto simp: run_ok)
  obtain f y where f: "u = s\<lparr>Memberships := map f (Memberships s), People := y\<rparr>" "\<forall>x. same_membership x (f x)"
    "\<forall>x. pm_ID x = pm_ID m \<or> inactive_membership s x \<longrightarrow> inactive_membership s (f x)"
    using deactivate_membership_ok [OF u Cons.prems(2)] by blast
  have same: "inactive_membership u x = inactive_membership s x" "sound_ids u" for x
    using Cons.prems(2) by (simp_all add: f(1) inactive_membership_def sound_ids_def)
  obtain g z where g: "t = u\<lparr>Memberships := map g (Memberships u), People := z\<rparr>" "\<forall>x. same_membership x (g x)"
    "\<forall>x. pm_ID x \<in> pm_ID ` set ms \<or> inactive_membership s x \<longrightarrow> inactive_membership s (g x)"
    using Cons.IH [OF t same(2)] by (auto simp: same(1))
  have "pm_ID (f x) = pm_ID x" for x using f(2) by (simp add: same_membership_def)
  then have "inactive_membership s ((g \<circ> f) x)" if "pm_ID x \<in> pm_ID ` set (m # ms) \<or> inactive_membership s x" for x
    using that f(3) g(3) by auto
  moreover have "same_membership x ((g \<circ> f) x)" for x
    using f(2) g(2) by (simp add: same_membership_def)
  ultimately show ?case
    by (intro exI [of _ "g \<circ> f"] exI [of _ z]) (auto simp: f(1) g(1))
qed

lemma switched_off:
  assumes "x \<in> set (update_where (\<lambda>x. gp_ID x = g) (\<lambda>x. x\<lparr>gp_OperationalActive := False, gp_UpdatedAt := now\<rparr>) rows)"
    and "gp_ID x = g"
  shows "\<not> gp_OperationalActive x"
proof -
  from assms(1) obtain z where z: "x = (if gp_ID z = g then z\<lparr>gp_OperationalActive := False, gp_UpdatedAt := now\<rparr> else z)"
    by (force simp only: update_where_def set_map image_iff)
  show ?thesis using assms(2) by (cases "gp_ID z = g") (simp_all add: z)
qed

lemma deactivateOperationalPersonTx_ok:
  assumes "deactivateOperationalPersonTx g now s = (Inr (), t)" and "sound_ids s"
  shows "(\<exists>a b c. t = s\<lparr>GlobalPeople := a, Memberships := b, People := c\<rparr>) \<and>
    (\<forall>x \<in> set (Memberships t). pm_PersonID x = g \<longrightarrow> inactive_membership t x) \<and>
    (\<forall>x \<in> set (GlobalPeople t). gp_ID x = g \<longrightarrow> \<not> gp_OperationalActive x)"
proof -
  from assms(1) obtain u where u: "for_each (deactivate_membership now) (filter (\<lambda>m. pm_PersonID m = g) (Memberships s)) s = (Inr (), u)"
    and t: "operational_switch g False now u = (Inr (), t)"
    by (auto simp: deactivateOperationalPersonTx_def run_ok)
  obtain f y where f: "u = s\<lparr>Memberships := map f (Memberships s), People := y\<rparr>" "\<forall>x. same_membership x (f x)"
    "\<forall>x. pm_ID x \<in> pm_ID ` set (filter (\<lambda>m. pm_PersonID m = g) (Memberships s)) \<or> inactive_membership s x \<longrightarrow>
       inactive_membership s (f x)"
    using deactivate_each [OF u assms(2)] by blast
  have t': "t = u\<lparr>GlobalPeople := update_where (\<lambda>x. gp_ID x = g) (\<lambda>x. x\<lparr>gp_OperationalActive := False, gp_UpdatedAt := now\<rparr>) (GlobalPeople u)\<rparr>"
    using t by (auto simp: operational_switch_def dest!: updateGlobalPeople_ok)
  have "inactive_membership t x" if x: "x \<in> set (Memberships t)" "pm_PersonID x = g" for x
  proof -
    obtain z where z: "z \<in> set (Memberships s)" "x = f z" using x(1) by (auto simp: t' f(1))
    then have "pm_PersonID z = g" using f(2) x(2) by (simp add: same_membership_def)
    then have "inactive_membership s x" using f(3) z by simp
    then show ?thesis by (simp add: inactive_membership_def t' f(1))
  qed
  moreover have "\<forall>x \<in> set (GlobalPeople t). gp_ID x = g \<longrightarrow> \<not> gp_OperationalActive x"
    by (intro ballI impI, rule switched_off [of _ g now "GlobalPeople u"]) (simp_all add: t')
  moreover have "\<exists>a b c. t = s\<lparr>GlobalPeople := a, Memberships := b, People := c\<rparr>"
  proof -
    have "t = s\<lparr>GlobalPeople := update_where (\<lambda>x. gp_ID x = g) (\<lambda>x. x\<lparr>gp_OperationalActive := False, gp_UpdatedAt := now\<rparr>) (GlobalPeople s),
        Memberships := map f (Memberships s), People := y\<rparr>" by (simp only: t' f(1)) simp
    then show ?thesis by blast
  qed
  ultimately show ?thesis by blast
qed

text \<open>The writes of an update before the deactivation keep what it looks at.\<close>

lemma hydrated_person:
  "pe_ID (pv_Person (hydrateFoundation s p)) = pe_ID p" "pe_TenantID (pv_Person (hydrateFoundation s p)) = pe_TenantID p"
  by (auto simp: hydrateFoundation_def copyGlobalIntoLegacy_def with_global_fields_def split: option.split)

lemma FindPersonByID_ok: "FindPersonByID T i s = Inr v \<Longrightarrow> pe_ID (pv_Person v) = i \<and> pe_TenantID (pv_Person v) = T"
  by (auto simp: FindPersonByID_def tri_Inr found_Inr hydrated_person dest!: first_by_Some)

lemma findOrCreate_existing:
  assumes "m \<in> set (Memberships s)" and "pm_TenantID m = T" and "pm_LegacyPersonID m = Some i"
    and "\<forall>x \<in> set (Memberships s). pm_LegacyPersonID x = Some i \<longrightarrow> x = m"
  shows "findOrCreateMembershipForLegacyPerson E T i s = (Inr m, s)"
proof -
  have "first_by pm_ID (\<lambda>m. pm_TenantID m = T \<and> pm_LegacyPersonID m = Some i) (Memberships s) = Some m"
    by (rule first_by_unique) (use assms in blast)+
  then show ?thesis by (simp add: findOrCreateMembershipForLegacyPerson_def run_simps ret_def)
qed

definition persons_only :: "store \<Rightarrow> store \<Rightarrow> bool" where
  "persons_only s t \<longleftrightarrow> (\<exists>a b c. t = s\<lparr>GlobalPeople := a, Memberships := b, People := c\<rparr>)"

interpretation persons: state_frame persons_only
proof
  show "persons_only s s" for s
    unfolding persons_only_def by (intro exI [of _ "GlobalPeople s"] exI [of _ "Memberships s"] exI [of _ "People s"]) simp
  show "persons_only s u" if "persons_only s t" "persons_only t u" for s t u
    using that unfolding persons_only_def by (elim exE) (simp, blast)
qed

lemma persons_only_writes:
  "persons_only s (s\<lparr>GlobalPeople := a\<rparr>)" "persons_only s (s\<lparr>Memberships := b\<rparr>)" "persons_only s (s\<lparr>People := c\<rparr>)"
  unfolding persons_only_def
  by (intro exI [of _ a] exI [of _ "Memberships s"] exI [of _ "People s"], simp)
    (intro exI [of _ "GlobalPeople s"] exI [of _ b] exI [of _ "People s"], simp,
     intro exI [of _ "GlobalPeople s"] exI [of _ "Memberships s"] exI [of _ c], simp)

lemma persons_updates:
  "updateGlobalPeople P f s = (Inr u, t) \<Longrightarrow> persons_only s t"
  "updatePeople Q g s = (Inr u, t) \<Longrightarrow> persons_only s t"
  "updateMembershipNotes R n now s = (Inr u, t) \<Longrightarrow> persons_only s t"
  using persons_only_writes by (auto dest!: person_writes)

lemma sync_projections_ok: "sync_projections p g s = (Inr (), t) \<Longrightarrow> persons_only s t"
  unfolding sync_projections_def using persons_updates persons.R_trans persons.R_refl
  by (auto simp: run_ok split: if_split_asm) blast+

lemma repoUpdatePerson_deactivates:
  assumes "repoUpdatePerson E T p s = (Inr (), t)" and "findOrCreateMembershipForLegacyPerson E T (pe_ID p) s = (Inr m, s)"
    and "personStatusCodeTx T (pe_StatusID p) s = Inr ''INACTIVE''"
    and "personStatusCodeTx T (pm_StatusID m) s \<noteq> Inr ''INACTIVE''"
  shows "\<exists>u. persons_only s u \<and> deactivateOperationalPersonTx (pm_PersonID m) (pe_UpdatedAt p) u = (Inr (), t)"
proof -
  from assms obtain v where v: "sync_projections p (pm_PersonID m) s = (Inr (), v)" and t: "make_inactive T p m v = (Inr (), t)"
    by (auto simp: repoUpdatePerson_def run_ok split: if_split_asm)
  from t obtain w u where "updatePeople (\<lambda>x. pe_ID x = pe_ID p \<and> pe_TenantID x = T)
      (\<lambda>x. x\<lparr>pe_Notes := pe_Notes p, pe_UpdatedAt := pe_UpdatedAt p\<rparr>) v = (Inr (), w)"
    and "updateMembershipNotes (\<lambda>x. pm_ID x = pm_ID m \<and> pm_TenantID x = T) (pe_Notes p) (pe_UpdatedAt p) w = (Inr (), u)"
    and d: "deactivateOperationalPersonTx (pm_PersonID m) (pe_UpdatedAt p) u = (Inr (), t)"
    by (auto simp: make_inactive_def run_ok)
  then have "persons_only v u" using persons_updates persons.R_trans by blast
  then show ?thesis using sync_projections_ok [OF v] persons.R_trans d by blast
qed

section \<open>The properties\<close>

definition demo_person :: Person where
  "demo_person = zeroPerson\<lparr>pe_ID := ''p1'', pe_TenantID := ''t1'', pe_FirstName := ''Ana'', pe_StatusID := ''member''\<rparr>"

definition demo_people :: store where
  "demo_people = demo_hiring\<lparr>
     References := demo_ref ''gone'' ''person_status'' ''INACTIVE'' # References demo_hiring, People := [demo_person]\<rparr>"

definition demo_profile :: "string \<Rightarrow> CreatePersonRequest" where
  "demo_profile status = \<lparr>cp_FirstName = ''Rui'', cp_LastName = ''Costa'', cp_Nickname = ''Rui'', cp_CPF = ''529.982.247-25'',
     cp_RG = ''12.345.678-9'', cp_Cellular = ''(11) 98765-4321'', cp_Email = ''Rui@x.com'', cp_Street1 = [], cp_Street2 = [],
     cp_State = [], cp_CEP = [], cp_City = [], cp_Country = [], cp_BankName = [], cp_BankNumber = [],
     cp_CheckingAccount = [], cp_PIXKey = [], cp_EmergencyName = [], cp_EmergencyCellular = [],
     cp_EmergencyEmail = [], cp_StatusID = status, cp_Notes = []\<rparr>"

lemma demo_person_runs: "\<not> isl (fst (CreatePerson demo_env ''t1'' (demo_profile ''member'') demo_people))"
  by code_simp

lemma demo_inactive_runs: "\<not> isl (fst (UpdatePerson demo_env ''t1'' ''p1'' (demo_profile ''gone'') demo_people))"
  by code_simp

lemma NormalizeDigits_NormalizeDigits [simp]: "NormalizeDigits (NormalizeDigits v) = NormalizeDigits v"
  by (simp add: NormalizeDigits_def)

lemma ValidateCreatePerson_CPF: "ValidateCreatePerson req = Inr () \<Longrightarrow> IsValidCPF (NormalizeDigits (cp_CPF req))"
proof -
  assume "ValidateCreatePerson req = Inr ()"
  then have "TrimSpace (cp_CPF req) \<noteq> []" and "cp_CPF req \<noteq> [] \<longrightarrow> IsValidCPF (cp_CPF req)"
    by (simp_all only: ValidateCreatePerson_def person_identifiers_def person_required_def required_def validated_ok
        check_Nil) blast+
  moreover have "TrimSpace [] = []" by code_simp
  ultimately have "IsValidCPF (cp_CPF req)" by auto
  then show ?thesis by (simp add: IsValidCPF_def Let_def)
qed

lemma FindPersonByID_new:
  assumes "\<forall>x \<in> set (People s). pe_ID x \<noteq> pe_ID p" and "pm_LegacyPersonID m = Some (pe_ID p)"
    and "FindPersonByID T (pe_ID p) (s\<lparr>GlobalPeople := gs, People := People s @ [p], Memberships := ms @ [m], IdsUsed := n\<rparr>) = Inr v"
  shows "T = pe_TenantID p \<and> pv_GlobalPersonID v = pm_PersonID m \<and> pv_MembershipID v = pm_ID m"
proof -
  from assms(3) obtain q where q: "q \<in> set (People s @ [p])" "pe_ID q = pe_ID p" "pe_TenantID q = T"
    and v: "v = hydrateFoundation (s\<lparr>GlobalPeople := gs, People := People s @ [p], Memberships := ms @ [m], IdsUsed := n\<rparr>) q"
    by (auto simp: FindPersonByID_def tri_Inr found_Inr dest!: first_by_Some)
  then have "q = p" using assms(1) by auto
  then show ?thesis using q(3) assms(2) by (simp add: v hydrateFoundation_def)
qed



lemma requested_profile_keys:
  "pe_ID (requested_profile req p) = pe_ID p" "pe_StatusID (requested_profile req p) = TrimSpace (cp_StatusID req)"
  "pe_UpdatedAt (with_completion c q) = pe_UpdatedAt q" "pe_ID (with_completion c q) = pe_ID q"
  "pe_StatusID (with_completion c q) = pe_StatusID q"
  by (simp_all add: requested_profile_def with_completion_def)

lemma UpdatePerson_ok:
  assumes "UpdatePerson E T i req s = (Inr d, t)"
  obtains p where "repoUpdatePerson E T p s = (Inr (), t)" and "pe_ID p = i" and "pe_StatusID p = TrimSpace (cp_StatusID req)"
proof -
  from assms obtain v where v: "FindPersonByID T i s = Inr v"
    and "repoUpdatePerson E T ((with_completion (ComputeCompletion (requested_completion req))
            (requested_profile req (pv_Person v)))\<lparr>pe_UpdatedAt := Now E\<rparr>) s = (Inr (), t)"
    by (auto simp: UpdatePerson_def run_ok Let_def split: if_split_asm)
  then show ?thesis using FindPersonByID_ok [OF v] by (intro that) (assumption, simp_all add: requested_profile_keys)
qed

lemma personStatusCodeTx_trim: "personStatusCodeTx T (TrimSpace i) s = personStatusCodeTx T i s"
  by (simp add: personStatusCodeTx_def)



end
