(* ===== verification/Spec2Isabelle.thy ===== *)
theory Spec2Isabelle
  imports JourneyClosing FinancialProjection AccrualProperties ExpenseProperties PeriodLife BulkPlanning
    PriceHistory JourneyTerms ReferenceEffects PersonEffects
begin

text \<open>
  The accounting core of CollaboratorAccounting, the Go services under \<open>src/backend/internal\<close> that keep what a
  tenant owes its collaborators: journeys with a ledger in BRL, gold and other value units, receipts for what is
  debited, settlements, work periods with their plan and gold production, accruals, expenses, the price lists, the
  reference data they name and the persons who work.

  How the program is modelled. A Go function that works on the database is an operation of \<open>Prelude\<close>: from a store
  it gives an error or a value, and the store it leaves behind. Early returns, database transactions, inspected
  errors and loops with local variables are its combinators (\<open>bnd\<close>, \<open>transaction\<close>, \<open>attempt\<close>, \<open>for_each\<close>,
  \<open>fold_each\<close>), so an operation that fails after it has committed a row leaves that row, as in the code. The
  store of \<open>Schema\<close> has one list of rows per table of \<open>db/models.go\<close>, in the order of insertion, with the columns
  the modelled code reads or writes. Inserts and updates check what the database checks: defaults of the
  columns, unique indexes, CHECK constraints and the triggers of the migrations, whose abort is an error value.
  What the code takes from outside is an \<open>env\<close>: the tenant of the request's context, the clock, the identifiers
  \<open>ids.New\<close> hands out, SQLite's \<open>SUM\<close> of floats, \<open>strconv.FormatFloat\<close> and the order in which Go ranges over a map.
  An identifier handed out twice is refused by the primary key, so nothing is assumed of it; the theorems on settled
  balances assume of \<open>SUM\<close> only that appending the negation of a sum leaves no more than the tolerance of a balance
  (\<open>cancels\<close>), which adding from the left does exactly. Amounts are binary64 values: rationals with every operation
  rounded to nearest even (\<open>Float64\<close>); times are nanoseconds in UTC (\<open>Dates\<close>, \<open>Timestamps\<close>), strings are byte
  strings (\<open>GoStrings\<close>).

  The theories and the code. In this order, each on top of the ones before:
    \<^item> \<open>Prelude\<close>, \<open>GoStrings\<close>, \<open>Float64\<close>, \<open>Dates\<close>, \<open>Timestamps\<close>, \<open>Schema\<close>: the vocabulary above, with the locales
      \<open>state_frame\<close> (a relation between the stores before and after that every combinator carries) and
      \<open>row_frame\<close> (the same for the rows of one table).
    \<^item> \<open>LedgerStore\<close>: \<open>db/ledger_receipt_hook.go\<close>, the guards of \<open>db/*_guards.go\<close> and the migrations 000019, 000041
      and 000061; the writes of entries, receipts, settlements and journeys. \<open>LedgerFrame\<close>: what these writes
      keep (\<open>books_ok\<close>, \<open>accounting\<close>, \<open>evolves\<close>). \<open>Demo\<close>: the small tenant the witnesses use.
    \<^item> \<open>AccountRequests\<close>, \<open>AccountQueries\<close>, \<open>AccountLists\<close>, \<open>Corrections\<close>, \<open>AccountReceipts\<close>, \<open>JourneySettlements\<close>,
      \<open>JourneyClosing\<close>, \<open>FinancialProjection\<close>: \<open>currentaccounts/\<close>, one theory for each of its files or pairs of
      files; \<open>SettlementEffects\<close> proves what the settlements do to the balances.
    \<^item> \<open>AccrualStore\<close>, \<open>AccrualCalculation\<close>, \<open>Accruals\<close>: the repository, the calculation and the service of
      \<open>accruals/\<close>; \<open>AccrualEffects\<close> and \<open>AccrualProperties\<close> what they do and guarantee.
    \<^item> \<open>ExpenseStore\<close>, \<open>ExpenseCalculation\<close>, \<open>Expenses\<close>: the same for \<open>expenses/\<close>, with \<open>ExpenseEffects\<close> and
      \<open>ExpenseProperties\<close>.
    \<^item> \<open>WorkPeriodPlanning\<close>: \<open>workperiods/\<close>. \<open>GoldEntries\<close>: \<open>goldproduction/\<close>. \<open>PlanAssignments\<close>:
      \<open>workperiodassignments/\<close>, with \<open>PlanEffects\<close> (its single operations) and \<open>BulkPlanning\<close> (the bulk plan).
    \<^item> \<open>PriceLists\<close>: \<open>pricelists/\<close>, with \<open>PriceHistory\<close> (any sequence of price requests). \<open>Collaborators\<close>:
      \<open>collaborators/\<close>, with \<open>JourneyTerms\<close> (what a new journey guarantees to the accruals).
    \<^item> \<open>ReferenceCatalog\<close>: \<open>referencedata/\<close>, with \<open>ReferenceEffects\<close> (unique lists, retired rows). \<open>Profiles\<close> and
      \<open>Persons\<close>: \<open>people/\<close> (the profile and its validation; identities, tenant rows and memberships), with \<open>PersonEffects\<close>.
    \<^item> \<open>SystemRuns\<close>: the writing requests of all these services, of any tenants, served in any order; \<open>PeriodLife\<close>:
      the abstract machine of the work periods they refine; this theory: what spans the components.
  A definition has the name of the Go function it models, or that name with the component added where two
  packages use it twice; \<open>E\<close> is the context, the store is the receiver's database.

  How the components meet. Corrections, settlements, accruals and expenses write the ledger only through the
  inserts of \<open>LedgerStore\<close>, whose hook makes the receipt of a debit. An accrual run reads the assignments of its
  period (written by \<open>PlanAssignments\<close>) and the gold recorded for it (written by \<open>GoldEntries\<close>) and moves the period
  on (created by \<open>WorkPeriodPlanning\<close>). What an assignment earns is read from the terms of its journey (written by
  \<open>Collaborators\<close>), what an expense costs from the price lists (written by \<open>PriceLists\<close>). The close of a journey reads the balances of the ledger, the
  pending accruals and the outstanding receipts.

  What is shown. Of single operations: the rows they write and nothing else, on every successful branch, and
  that repeated or failed requests write nothing (theories ending in \<open>Effects\<close> and \<open>Properties\<close>, and the theories of
  the smaller components). Of the composition: every request keeps its tenant's books and the other tenants' rows
  (interpretations of \<open>state_frame\<close>), hence every run does (\<open>run_evolves\<close>), and the properties here follow. The runs
  of \<open>SystemRuns\<close> leave out the requests that edit price lists, journeys, reference data and persons; these have properties
  of their own, and sequences of requests are treated in \<open>PriceHistory\<close> for prices and in \<open>ReferenceEffects\<close> for reference data. The loops
  recurse on their lists; the two loops over months (\<open>days_from_month\<close>, \<open>month_of\<close>) terminate by a measure and the
  exponent of a float is a closed formula, so there is no fuel anywhere and every operation is a total function
  that evaluates. Not a number and infinities are not modelled: amounts come from JSON numbers, which are
  finite, and the theorems speak of amounts whose sums and products stay below \<open>2 ^ 1024\<close>. Strings are byte strings,
  with case mapping and white space of the ASCII range.

  What is not modelled, and why. The HTTP handlers and routes and the authorization they ask for: they parse,
  check grants of the control plane and call the services modelled here; \<open>authz/\<close> and \<open>authentication/\<close> keep the
  control plane, \<open>tenants/\<close> the tenants, whose rows the services read and which are arbitrary in the theorems. The audit
  log is among them, so the record of a replacement in a bulk plan is left out, and so are the accounts, sessions and actors
  that follow the deactivation or reactivation of a person; whether an account is suspended is an argument. The searches
  of persons and journeys by text. Connection set-up, seeds and one-off migrations of \<open>db/\<close>. Rows that compare equal under an
  \<open>ORDER BY\<close> keep the order of insertion, which SQLite leaves open. Failures of the database itself (a lost
  connection, a full disk) are not modelled; requests do not interleave inside one another, which SQLite's single
  writer enforces for transactions but not for a whole handler.
\<close>

section \<open>Demonstration runs\<close>

text \<open>A reversal in the demonstration tenant, served alone.\<close>

definition demo_requests :: "(env \<times> request) list" where
  "demo_requests = [(demo_env, ReverseRequest ''e1'' ''boss'' demo_reverse)]"

lemma demo_reversal: "\<exists>e t. run demo_store demo_requests t \<and> Ledger t = Ledger demo_store @ [e]"
proof -
  obtain x t where reverse: "ReverseEntry demo_env ''e1'' ''boss'' demo_reverse demo_store = (Inr x, t)"
    using succeeded [OF demo_reverse_runs] by blast
  then have "serve demo_env (ReverseRequest ''e1'' ''boss'' demo_reverse) demo_store = (Inr (), t)"
    by (auto simp: outcome_run)
  from run.served [OF run.idle this] have run: "run demo_store demo_requests t" by (simp add: demo_requests_def)
  have "length (Ledger (snd (ReverseEntry demo_env ''e1'' ''boss'' demo_reverse demo_store))) = 3" by code_simp
  then have "length (Ledger t) = Suc (length (Ledger demo_store))" using reverse by (simp add: demo_store_def)
  moreover obtain es where "Ledger t = Ledger demo_store @ es" using run_evolves [OF run] by (auto simp: evolves_def)
  ultimately obtain e where "Ledger t = Ledger demo_store @ [e]" by (auto simp: length_Suc_conv)
  then show ?thesis using run by blast
qed

section \<open>Tenants\<close>



section \<open>The books\<close>

text \<open>
  C1. The books stay consistent. Through every run of requests from consistent books the books are consistent:
  identifiers and sources unique, amounts positive, corrections linked, receipts matching exactly one entry. The
  ledger and the settlements only grow at their end, and every entry that was added and owes a receipt has one.
\<close>

theorem books_stay_consistent:
  assumes "run s qs t" and "books_ok s"
  shows "books_ok t \<and> (\<exists>xs. Settlements t = Settlements s @ xs) \<and>
    (\<exists>es. Ledger t = Ledger s @ es \<and> (\<forall>e \<in> set es. needs_receipt e \<longrightarrow> has_receipt t (le_ID e)))"
proof -
  have "evolves s t" "receipted s t" using run_evolves [OF assms(1)] by simp_all
  then show ?thesis using assms(2) by (auto simp: evolves_def receipted_def)
qed

theorem books_stay_consistent_witness:
  "\<exists>t e. run demo_store demo_requests t \<and> books_ok t \<and> Ledger t = Ledger demo_store @ [e]"
  using demo_reversal books_stay_consistent [OF _ demo_books] by blast

section \<open>What is final\<close>

text \<open>
  C3. What is final stays final. After any run of requests a closed journey is still closed, on the same date and
  in the same status, with the same owner; a returned or cancelled receipt keeps that status; and a receipt that was
  accepted keeps its acceptance, the one who accepted it and its status.
\<close>

theorem final_stays_final:
  assumes "run s qs t"
  shows "(\<forall>j \<in> set (Journeys s). cj_ClosedAt j \<noteq> None \<longrightarrow> (\<exists>j' \<in> set (Journeys t).
      cj_ID j' = cj_ID j \<and> cj_TenantID j' = cj_TenantID j \<and> cj_PersonID j' = cj_PersonID j \<and>
      cj_ClosedAt j' = cj_ClosedAt j \<and> cj_StatusID j' = cj_StatusID j)) \<and>
    (\<forall>r \<in> set (Receipts s). \<exists>r' \<in> set (Receipts t). lr_ID r' = lr_ID r \<and> lr_LedgerEntryID r' = lr_LedgerEntryID r \<and>
      (lr_Status r \<in> {''RETURNED'', ''CANCELLED''} \<longrightarrow> lr_Status r' = lr_Status r) \<and>
      (lr_AcceptedAt r \<noteq> None \<longrightarrow> lr_AcceptedAt r' = lr_AcceptedAt r \<and> lr_AcceptedBy r' = lr_AcceptedBy r \<and>
         lr_AcceptanceMethod r' = lr_AcceptanceMethod r \<and> lr_Status r' = lr_Status r))"
proof -
  have "rows_follow journey_follows (Journeys s) (Journeys t)" "rows_follow receipt_evolves (Receipts s) (Receipts t)"
    using run_evolves [OF assms] by (simp_all add: evolves_def receipts_evolve_def)
  then have jf: "\<forall>j \<in> set (Journeys s). \<exists>j' \<in> set (Journeys t). journey_follows j j'"
    and rf: "\<forall>r \<in> set (Receipts s). \<exists>r' \<in> set (Receipts t). receipt_evolves r r'" by (auto dest: rows_follow_row)
  show ?thesis
  proof (intro conjI ballI impI)
    fix j assume "j \<in> set (Journeys s)" "cj_ClosedAt j \<noteq> None"
    then obtain j' where "j' \<in> set (Journeys t)" "journey_follows j j'" "cj_ClosedAt j \<noteq> None" using jf by blast
    then show "\<exists>j' \<in> set (Journeys t). cj_ID j' = cj_ID j \<and> cj_TenantID j' = cj_TenantID j \<and>
        cj_PersonID j' = cj_PersonID j \<and> cj_ClosedAt j' = cj_ClosedAt j \<and> cj_StatusID j' = cj_StatusID j"
      by (intro bexI [of _ j']) (simp_all add: journey_follows_def)
  next
    fix r assume "r \<in> set (Receipts s)"
    then obtain r' where "r' \<in> set (Receipts t)" "receipt_evolves r r'" using rf by blast
    then show "\<exists>r' \<in> set (Receipts t). lr_ID r' = lr_ID r \<and> lr_LedgerEntryID r' = lr_LedgerEntryID r \<and>
        (lr_Status r \<in> {''RETURNED'', ''CANCELLED''} \<longrightarrow> lr_Status r' = lr_Status r) \<and>
        (lr_AcceptedAt r \<noteq> None \<longrightarrow> lr_AcceptedAt r' = lr_AcceptedAt r \<and> lr_AcceptedBy r' = lr_AcceptedBy r \<and>
           lr_AcceptanceMethod r' = lr_AcceptanceMethod r \<and> lr_Status r' = lr_Status r)"
      unfolding receipt_evolves_def by (intro bexI [of _ r']) auto
  qed
qed

theorem final_stays_final_witness:
  "\<exists>s t. run demo_no_ledger [(demo_env, CloseCall ''j1'' ''boss'' demo_close)] s \<and>
     run s demo_requests t \<and> (\<exists>j \<in> set (Journeys t). cj_ID j = ''j1'' \<and> cj_ClosedAt j \<noteq> None)"
proof -
  obtain x s where close: "CloseJourney demo_env ''j1'' ''boss'' demo_close demo_no_ledger = (Inr x, s)"
    using succeeded [OF demo_close_runs] by blast
  then have "serve demo_env (CloseCall ''j1'' ''boss'' demo_close) demo_no_ledger = (Inr (), s)" by (auto simp: outcome_run)
  from run.served [OF run.idle this] have closed: "run demo_no_ledger [(demo_env, CloseCall ''j1'' ''boss'' demo_close)] s" by simp
  have "list_ex (\<lambda>j. cj_ID j = ''j1'' \<and> cj_ClosedAt j \<noteq> None)
      (Journeys (snd (CloseJourney demo_env ''j1'' ''boss'' demo_close demo_no_ledger)))" by code_simp
  then have j: "\<exists>j \<in> set (Journeys s). cj_ID j = ''j1'' \<and> cj_ClosedAt j \<noteq> None" by (simp add: close list_ex_iff)
  obtain r t where "serve demo_env (ReverseRequest ''e1'' ''boss'' demo_reverse) s = (r, t)"
    by (cases "serve demo_env (ReverseRequest ''e1'' ''boss'' demo_reverse) s")
  from run.served [OF run.idle this] have run: "run s demo_requests t" by (simp add: demo_requests_def)
  obtain j where j: "j \<in> set (Journeys s)" "cj_ID j = ''j1''" "cj_ClosedAt j \<noteq> None" using j by blast
  then obtain j' where "j' \<in> set (Journeys t)" "cj_ID j' = ''j1''" "cj_ClosedAt j' \<noteq> None"
    using conjunct1 [OF final_stays_final [OF run]] by metis
  then show ?thesis using closed run by blast
qed

section \<open>The second person\<close>

text \<open>
  C4. The second-person policy is enforced. Once it has been switched on for a tenant, and whatever is served
  afterwards short of another change of that policy, a sensitive request of the tenant (a reversal, a replacement, a
  settlement, a payout, a close, a backfill) succeeds only when a second person, different from the one who
  authorises it up to case and blanks, has approved it.
\<close>

theorem second_person_enforced:
  assumes "UpdateSecondPersonApprovalPolicy E0 T admin True s0 = (Inr p, s)" and "run s qs t"
    and "\<forall>(E, q) \<in> set qs. \<not> (sets_policy q \<and> acts_on E q = TenantID E1)"
    and "TenantID E1 = normalizedTenantID E0 T"
    and "serve E1 q t = (Inr u, v)" and "reason_of q = Some (reason, actor)"
  shows "approved_by_another reason actor"
proof -
  have "policy_on (TenantID E1) s" using policy_switched_on [OF assms(1)] assms(4) by simp
  then have "policy_on (TenantID E1) t" using policy_kept [OF assms(2)] assms(3) by fastforce
  then have "sensitiveOperationsRequireSecondApproval E1 (TenantID E1) t = Inr True" by (rule policy_required)
  then show ?thesis using required_second_approval [OF served_sensitive [OF assms(5,6)]] by blast
qed

text \<open>The policy switched on in the demonstration tenant, and a reversal that a second person approves.\<close>

lemma demo_policy_runs: "\<not> isl (fst (UpdateSecondPersonApprovalPolicy demo_env ''t1'' ''admin'' True demo_store))"
  by code_simp

lemma demo_approved_runs: "\<not> isl (fst (ReverseEntry demo_env ''e1'' ''boss'' demo_reverse
    (snd (UpdateSecondPersonApprovalPolicy demo_env ''t1'' ''admin'' True demo_store))))"
  by code_simp

theorem second_person_enforced_witness:
  "\<exists>p s v. UpdateSecondPersonApprovalPolicy demo_env ''t1'' ''admin'' True demo_store = (Inr p, s) \<and>
     serve demo_env (ReverseRequest ''e1'' ''boss'' demo_reverse) s = (Inr (), v) \<and>
     approved_by_another (rv_Reason demo_reverse) ''boss''"
proof -
  obtain p s where on: "UpdateSecondPersonApprovalPolicy demo_env ''t1'' ''admin'' True demo_store = (Inr p, s)"
    using succeeded [OF demo_policy_runs] by blast
  obtain x v where "ReverseEntry demo_env ''e1'' ''boss'' demo_reverse s = (Inr x, v)"
    using succeeded [OF demo_approved_runs] on by auto
  then have reverse: "serve demo_env (ReverseRequest ''e1'' ''boss'' demo_reverse) s = (Inr (), v)" by (auto simp: outcome_run)
  have "TenantID demo_env = normalizedTenantID demo_env ''t1''" by code_simp
  then have "approved_by_another (rv_Reason demo_reverse) ''boss''"
    using second_person_enforced [OF on run.idle _ _ reverse, of "rv_Reason demo_reverse" "''boss''"] by simp
  then show ?thesis using on reverse by blast
qed

end
